(* ===== verification/Prelude.thy ===== *)
theory Prelude
  imports Main "HOL-Library.Word" "HOL-Library.State_Monad" "HOL-Library.Char_ord"
    "HOL-Library.List_Lexorder"
begin

text \<open>
  Shared ground of the development: the model of Go's strings, maps and formatting that the
  operator uses, the state monad in which its handlers run (state, ghost trace of external
  calls, outcome), and the weakest-precondition calculus used to reason about them.

  Go strings are byte strings and are modelled as \<^typ>\<open>string\<close> (a list of 8-bit characters).
  The slices of the code are lists (the code only distinguishes nil from empty where the
  model uses an option), pointers to values are options, and Go maps are partial functions
  built by the same insertion loop as in the code.
\<close>

section \<open>Collections of rules\<close>

named_theorems wp_simps \<open>weakest preconditions of the primitive actions\<close>
named_theorems run_simps \<open>running an action on a concrete state\<close>
named_theorems handler_defs \<open>definitions of the small helper actions\<close>

section \<open>Strings\<close>

type_synonym int64 = "64 word"

text \<open>\<open>strings.ToLower\<close>, on the ASCII letters.\<close>

definition lowerChar :: "char \<Rightarrow> char" where
  "lowerChar c = (if 65 \<le> (of_char c :: nat) \<and> (of_char c :: nat) \<le> 90
                  then char_of ((of_char c :: nat) + 32) else c)"

definition ToLower :: "string \<Rightarrow> string" where
  "ToLower s = map lowerChar s"

text \<open>\<open>strings.HasPrefix\<close>\<close>

fun HasPrefix :: "string \<Rightarrow> string \<Rightarrow> bool" where
  "HasPrefix s [] = True"
| "HasPrefix [] (p # ps) = False"
| "HasPrefix (c # s) (p # ps) = (c = p \<and> HasPrefix s ps)"

text \<open>\<open>strings.Contains\<close>\<close>

fun Contains :: "string \<Rightarrow> string \<Rightarrow> bool" where
  "Contains [] sub = (sub = [])"
| "Contains (c # s) sub = (HasPrefix (c # s) sub \<or> Contains s sub)"

text \<open>\<open>strings.Index\<close> for a one-byte separator; \<open>None\<close> is Go's -1.\<close>

fun IndexByte :: "string \<Rightarrow> char \<Rightarrow> nat option" where
  "IndexByte [] c = None"
| "IndexByte (x # xs) c = (if x = c then Some 0 else map_option Suc (IndexByte xs c))"

text \<open>\<open>strings.Join\<close>\<close>

fun Join :: "string list \<Rightarrow> string \<Rightarrow> string" where
  "Join [] sep = []"
| "Join [x] sep = x"
| "Join (x # y # xs) sep = x @ sep @ Join (y # xs) sep"

text \<open>The verbs of \<open>fmt.Sprintf\<close> that the messages use: \<open>%d\<close> of a non-negative number and
  \<open>%q\<close> (Go's quoted string, on bytes: quote, backslash and control characters are escaped).\<close>

definition digitChar :: "nat \<Rightarrow> char" where
  "digitChar d = char_of (48 + d)"

fun showNat :: "nat \<Rightarrow> string" where
  "showNat n = (if n < 10 then [digitChar n] else showNat (n div 10) @ [digitChar (n mod 10)])"

declare showNat.simps [simp del]

definition showInt :: "int \<Rightarrow> string" where
  "showInt i = (if i < 0 then CHR ''-'' # showNat (nat (- i)) else showNat (nat i))"

definition hexChar :: "nat \<Rightarrow> char" where
  "hexChar d = (if d < 10 then char_of (48 + d) else char_of (87 + d))"

definition quoteChar :: "char \<Rightarrow> string" where
  "quoteChar c =
     (let n = (of_char c :: nat) in
      if n = 34 then [char_of (92::nat), c] else if n = 92 then [c, c]
      else if n = 7 then [char_of (92::nat), CHR ''a''] else if n = 8 then [char_of (92::nat), CHR ''b'']
      else if n = 12 then [char_of (92::nat), CHR ''f''] else if n = 10 then [char_of (92::nat), CHR ''n'']
      else if n = 13 then [char_of (92::nat), CHR ''r''] else if n = 9 then [char_of (92::nat), CHR ''t'']
      else if n = 11 then [char_of (92::nat), CHR ''v'']
      else if n < 32 \<or> n = 127
      then [char_of (92::nat), CHR ''x'', hexChar (n div 16), hexChar (n mod 16)]
      else [c])"

definition Quote :: "string \<Rightarrow> string" where
  "Quote s = CHR 0x22 # concat (map quoteChar s) @ [CHR 0x22]"

lemma HasPrefix_iff: "HasPrefix s p \<longleftrightarrow> (\<exists>t. s = p @ t)"
  by (induction s p rule: HasPrefix.induct) auto

lemma HasPrefix_append [simp]: "HasPrefix (p @ t) p"
  by (auto simp: HasPrefix_iff)

lemma Contains_iff: "Contains s sub \<longleftrightarrow> (\<exists>a b. s = a @ sub @ b)"
proof (induction s)
  case Nil
  then show ?case by auto
next
  case (Cons c s)
  show ?case
  proof
    assume "Contains (c # s) sub"
    then consider "HasPrefix (c # s) sub" | "Contains s sub" by auto
    then show "\<exists>a b. c # s = a @ sub @ b"
    proof cases
      case 1
      then show ?thesis using HasPrefix_iff by (metis append_Nil)
    next
      case 2
      then show ?thesis using Cons.IH by (metis append_Cons)
    qed
  next
    assume "\<exists>a b. c # s = a @ sub @ b"
    then obtain a b where ab: "c # s = a @ sub @ b" by blast
    show "Contains (c # s) sub"
    proof (cases a)
      case Nil
      then have "HasPrefix (c # s) sub" unfolding ab by simp
      then show ?thesis by simp
    next
      case (Cons x a')
      with ab have "s = a' @ sub @ b" by simp
      then have "Contains s sub" using Cons.IH by blast
      then show ?thesis by simp
    qed
  qed
qed

lemma IndexByte_None [simp]: "IndexByte s c = None \<longleftrightarrow> c \<notin> set s"
  by (induction s) auto

lemma IndexByte_Some:
  "IndexByte s c = Some i \<longleftrightarrow> (\<exists>a b. s = a @ c # b \<and> c \<notin> set a \<and> length a = i)"
proof (induction s arbitrary: i)
  case Nil
  then show ?case by simp
next
  case (Cons x xs)
  show ?case
  proof (cases "x = c")
    case True
    then show ?thesis by (auto simp: Cons_eq_append_conv)
  next
    case False
    then show ?thesis
      by (cases i) (auto simp: Cons.IH Cons_eq_append_conv; force)+
  qed
qed

lemma ToLower_simps [simp]: "ToLower [] = []" "ToLower (a @ b) = ToLower a @ ToLower b"
  "ToLower (c # s) = lowerChar c # ToLower s" "length (ToLower s) = length s"
  by (simp_all add: ToLower_def)

text \<open>A chain of early returns of false is a conjunction.\<close>

lemma early_return: "(if b then False else c) \<longleftrightarrow> \<not> b \<and> c"
  by simp

section \<open>Go maps built by loops\<close>

text \<open>\<open>m := make(map...); for _, p := range xs { m[p.key] = p.value }\<close>\<close>

fun mapFromList :: "('k \<times> 'v) list \<Rightarrow> ('k \<rightharpoonup> 'v) \<Rightarrow> ('k \<rightharpoonup> 'v)" where
  "mapFromList [] m = m"
| "mapFromList ((k, v) # xs) m = mapFromList xs (m(k \<mapsto> v))"

text \<open>Reading a Go map returns the zero value for an absent key.\<close>

definition mapGet :: "'v \<Rightarrow> ('k \<rightharpoonup> 'v) \<Rightarrow> 'k \<Rightarrow> 'v" where
  "mapGet zero m k = (case m k of None \<Rightarrow> zero | Some v \<Rightarrow> v)"

lemma mapFromList_map_of: "mapFromList xs m = m ++ map_of (rev xs)"
proof (induction xs arbitrary: m)
  case Nil
  then show ?case by simp
next
  case (Cons x xs)
  have "mapFromList xs (m(fst x \<mapsto> snd x)) = m(fst x \<mapsto> snd x) ++ map_of (rev xs)"
    by (rule Cons.IH)
  then show ?case by (cases x) simp
qed

lemma mapFromList_distinct:
  assumes "distinct (map fst xs)"
  shows "mapFromList xs Map.empty = map_of xs"
proof -
  have "map_of (rev xs) = map_of xs"
    using assms by (induction xs) (auto simp: map_add_upd_left domIff map_of_eq_None_iff)
  then show ?thesis by (simp add: mapFromList_map_of)
qed

lemma dom_mapFromList: "dom (mapFromList xs Map.empty) = fst ` set xs"
  by (simp add: mapFromList_map_of dom_map_of_conv_image_fst)

lemma mapGet_True_iff:
  "mapGet False (mapFromList (map (\<lambda>x. (f x, True)) xs) Map.empty) k \<longleftrightarrow> k \<in> f ` set xs"
proof -
  have "map_of (rev (map (\<lambda>x. (f x, True)) xs)) k = (if k \<in> f ` set xs then Some True else None)"
    by (induction xs) (auto simp: map_add_def split: option.splits)
  then show ?thesis by (simp add: mapFromList_map_of mapGet_def)
qed

lemma mapGet_True_id [simp]:
  "mapGet False (mapFromList (map (\<lambda>x. (x, True)) xs) Map.empty) k \<longleftrightarrow> k \<in> set xs"
  using mapGet_True_iff [of "\<lambda>x. x" xs k] by simp

section \<open>Handlers: state, trace, outcome\<close>

text \<open>
  A handler runs in a state that holds the object it received by pointer, the state of the
  external world (AWS, the Kubernetes API server, the clock; an arbitrary type \<open>'w\<close>) and a
  ghost trace of the external calls made so far, each with its response.
\<close>

record ('o, 'w, 'e) rstate =
  obj :: 'o
  world :: 'w
  trace :: "'e list"

text \<open>The way a handler ends: it returns a value, returns an error, or panics (a nil
  dereference, which controller-runtime recovers into an error).\<close>

datatype ('e, 'a) outcome = Done 'a | Fail 'e | Panic

text \<open>A call that leaves the process: the world answers and the call is recorded.\<close>

definition extern ::
  "('w \<Rightarrow> 'a \<times> 'w) \<Rightarrow> ('a \<Rightarrow> 'e) \<Rightarrow> (('o, 'w, 'e, 'z) rstate_scheme, 'a) state" where
  "extern f ev = State (\<lambda>s. case f (world s) of
     (a, w') \<Rightarrow> (a, s\<lparr>world := w', trace := trace s @ [ev a]\<rparr>))"

text \<open>Reading the clock is not recorded.\<close>

definition silent :: "('w \<Rightarrow> 'a \<times> 'w) \<Rightarrow> (('o, 'w, 'e, 'z) rstate_scheme, 'a) state" where
  "silent f = State (\<lambda>s. case f (world s) of (a, w') \<Rightarrow> (a, s\<lparr>world := w'\<rparr>))"

definition emit :: "'e \<Rightarrow> (('o, 'w, 'e, 'z) rstate_scheme, unit) state" where
  "emit e = State (\<lambda>s. ((), s\<lparr>trace := trace s @ [e]\<rparr>))"

definition getObj :: "(('o, 'w, 'e, 'z) rstate_scheme, 'o) state" where
  "getObj = State (\<lambda>s. (obj s, s))"

definition modifyObj :: "('o \<Rightarrow> 'o) \<Rightarrow> (('o, 'w, 'e, 'z) rstate_scheme, unit) state" where
  "modifyObj f = State (\<lambda>s. ((), s\<lparr>obj := f (obj s)\<rparr>))"

abbreviation returns :: "'a \<Rightarrow> ('s, 'a) state" where
  "returns \<equiv> State_Monad.return"

section \<open>Weakest preconditions\<close>

definition wp :: "('s, 'a) state \<Rightarrow> ('a \<Rightarrow> 's \<Rightarrow> bool) \<Rightarrow> 's \<Rightarrow> bool" where
  "wp m Q s \<longleftrightarrow> (case run_state m s of (a, s') \<Rightarrow> Q a s')"

lemma wp_return [wp_simps]: "wp (returns a) Q s \<longleftrightarrow> Q a s"
  by (simp add: wp_def)

lemma wp_bind [wp_simps]: "wp (State_Monad.bind m f) Q s \<longleftrightarrow> wp m (\<lambda>a s'. wp (f a) Q s') s"
  by (simp add: wp_def split: prod.split)

lemma wp_extern [wp_simps]:
  "wp (extern f ev) Q s \<longleftrightarrow>
     (\<forall>a w'. f (world s) = (a, w') \<longrightarrow> Q a (s\<lparr>world := w', trace := trace s @ [ev a]\<rparr>))"
  by (auto simp: wp_def extern_def split: prod.splits)

lemma wp_silent [wp_simps]:
  "wp (silent f) Q s \<longleftrightarrow> (\<forall>a w'. f (world s) = (a, w') \<longrightarrow> Q a (s\<lparr>world := w'\<rparr>))"
  by (auto simp: wp_def silent_def split: prod.splits)

lemma wp_emit [wp_simps]: "wp (emit e) Q s \<longleftrightarrow> Q () (s\<lparr>trace := trace s @ [e]\<rparr>)"
  by (simp add: wp_def emit_def)

lemma wp_getObj [wp_simps]: "wp getObj Q s \<longleftrightarrow> Q (obj s) s"
  by (simp add: wp_def getObj_def)

lemma wp_modifyObj [wp_simps]: "wp (modifyObj f) Q s \<longleftrightarrow> Q () (s\<lparr>obj := f (obj s)\<rparr>)"
  by (simp add: wp_def modifyObj_def)

lemma wp_if [wp_simps]:
  "wp (if b then m else n) Q s \<longleftrightarrow> (b \<longrightarrow> wp m Q s) \<and> (\<not> b \<longrightarrow> wp n Q s)"
  by simp

text \<open>Running an action step by step; the continuation is not looked into before it runs.\<close>

lemma bind_weak_cong: "m = m' \<Longrightarrow> State_Monad.bind m f = State_Monad.bind m' f"
  by simp

lemma run_actions [run_simps]:
  "run_state (State_Monad.bind m f) s = (case run_state m s of (a, s') \<Rightarrow> run_state (f a) s')"
  "run_state (returns a) s = (a, s)"
  "run_state (extern g ev) s = (case g (world s) of
     (a, w') \<Rightarrow> (a, s\<lparr>world := w', trace := trace s @ [ev a]\<rparr>))"
  "run_state (silent g) s = (case g (world s) of (a, w') \<Rightarrow> (a, s\<lparr>world := w'\<rparr>))"
  "run_state (emit e) s = ((), s\<lparr>trace := trace s @ [e]\<rparr>)"
  "run_state getObj s = (obj s, s)"
  "run_state (modifyObj h) s = ((), s\<lparr>obj := h (obj s)\<rparr>)"
  by (simp_all add: extern_def silent_def emit_def getObj_def modifyObj_def split: prod.split)

text \<open>Weakening, and reading a run off a weakest precondition.\<close>

lemma wp_mono: "wp m P s \<Longrightarrow> (\<And>a s'. P a s' \<Longrightarrow> Q a s') \<Longrightarrow> wp m Q s"
  by (auto simp: wp_def split: prod.splits)

lemma wp_conj: "wp m P s \<Longrightarrow> wp m Q s \<Longrightarrow> wp m (\<lambda>a s'. P a s' \<and> Q a s') s"
  by (auto simp: wp_def split: prod.splits)

lemma wpD: "wp m Q s \<Longrightarrow> run_state m s = (a, s') \<Longrightarrow> Q a s'"
  by (simp add: wp_def)

lemma wpI: "(\<And>a s'. run_state m s = (a, s') \<Longrightarrow> Q a s') \<Longrightarrow> wp m Q s"
  by (simp add: wp_def split: prod.split)

section \<open>Footprints, results and invariants of actions\<close>

text \<open>
  Three judgements that are read off the text of an action: \<open>emits P m\<close> (every call it makes
  satisfies \<open>P\<close>), \<open>ends P m\<close> (every result it returns satisfies \<open>P\<close>) and \<open>keeps_inv I m\<close>
  (it preserves the invariant \<open>I\<close> of the state).
\<close>

definition emits :: "('e \<Rightarrow> bool) \<Rightarrow> (('o, 'w, 'e, 'z) rstate_scheme, 'a) state \<Rightarrow> bool" where
  "emits P m \<longleftrightarrow> (\<forall>s. wp m (\<lambda>_ s'. \<exists>new. trace s' = trace s @ new \<and> list_all P new) s)"

definition ends :: "('a \<Rightarrow> bool) \<Rightarrow> ('s, 'a) state \<Rightarrow> bool" where
  "ends P m \<longleftrightarrow> (\<forall>s. wp m (\<lambda>a _. P a) s)"

definition keeps_inv :: "('s \<Rightarrow> bool) \<Rightarrow> ('s, 'a) state \<Rightarrow> bool" where
  "keeps_inv I m \<longleftrightarrow> (\<forall>s. I s \<longrightarrow> wp m (\<lambda>_ s'. I s') s)"

named_theorems emits_intros \<open>footprints of actions\<close>
named_theorems ends_intros \<open>results of actions\<close>
named_theorems inv_intros \<open>invariants of actions\<close>

lemma emits_wp: "emits P m \<Longrightarrow> wp m (\<lambda>_ s'. \<exists>new. trace s' = trace s @ new \<and> list_all P new) s"
  by (simp add: emits_def)

lemma emitsD:
  assumes "emits P m" and "run_state m s = (a, s')"
  obtains new where "trace s' = trace s @ new" "list_all P new"
  using wpD [OF emits_wp [OF assms(1)] assms(2)] that by blast

lemma emits_bind [emits_intros]:
  assumes "emits P m" and "\<And>a. emits P (f a)"
  shows "emits P (State_Monad.bind m f)"
  unfolding emits_def wp_bind
proof (intro allI, rule wp_mono [OF emits_wp [OF assms(1)]], goal_cases)
  case (1 s a s1)
  then obtain n1 where n1: "trace s1 = trace s @ n1" "list_all P n1" by blast
  show ?case
  proof (rule wp_mono [OF emits_wp [OF assms(2)]], goal_cases)
    case (1 b s2)
    then obtain n2 where "trace s2 = trace s1 @ n2" "list_all P n2" by blast
    with n1 show ?case by (intro exI [of _ "n1 @ n2"]) simp
  qed
qed

lemma emits_basic [emits_intros]:
  "emits P (returns a)" "emits P getObj" "emits P (modifyObj h)" "emits P (silent g)"
  "P e \<Longrightarrow> emits P (emit e)" "(\<And>a. P (ev a)) \<Longrightarrow> emits P (extern g ev)"
  by (auto simp: emits_def wp_simps)

lemma emits_cases [emits_intros]:
  "(b \<Longrightarrow> emits P m) \<Longrightarrow> (\<not> b \<Longrightarrow> emits P n) \<Longrightarrow> emits P (if b then m else n)"
  "(\<And>x. r = Inl x \<Longrightarrow> emits P (g x)) \<Longrightarrow> (\<And>y. r = Inr y \<Longrightarrow> emits P (h y)) \<Longrightarrow>
     emits P (case r of Inl x \<Rightarrow> g x | Inr y \<Rightarrow> h y)"
  "(opt = None \<Longrightarrow> emits P m) \<Longrightarrow> (\<And>x. opt = Some x \<Longrightarrow> emits P (g x)) \<Longrightarrow>
     emits P (case opt of None \<Rightarrow> m | Some x \<Rightarrow> g x)"
  "(\<And>x. oc = Done x \<Longrightarrow> emits P (g x)) \<Longrightarrow> (\<And>y. oc = Fail y \<Longrightarrow> emits P (h y)) \<Longrightarrow>
     (oc = Panic \<Longrightarrow> emits P m) \<Longrightarrow>
     emits P (case oc of Done x \<Rightarrow> g x | Fail y \<Rightarrow> h y | Panic \<Rightarrow> m)"
  "(\<And>x y. p = (x, y) \<Longrightarrow> emits P (k x y)) \<Longrightarrow> emits P (case p of (x, y) \<Rightarrow> k x y)"
  by (simp_all split: sum.split option.split outcome.split prod.split)

lemma ends_bind [ends_intros]:
  assumes "\<And>a. ends P (f a)"
  shows "ends P (State_Monad.bind m f)"
proof -
  have "wp m (\<lambda>_ _. True) s" for s by (simp add: wp_def split: prod.split)
  then have "wp m (\<lambda>a. wp (f a) (\<lambda>b _. P b)) s" for s
    by (rule wp_mono) (use assms in \<open>simp add: ends_def\<close>)
  then show ?thesis by (simp add: ends_def wp_bind)
qed

lemma ends_return [ends_intros]: "P a \<Longrightarrow> ends P (returns a)"
  by (simp add: ends_def wp_simps)

lemma ends_cases [ends_intros]:
  "(b \<Longrightarrow> ends P m) \<Longrightarrow> (\<not> b \<Longrightarrow> ends P n) \<Longrightarrow> ends P (if b then m else n)"
  "(\<And>x. r = Inl x \<Longrightarrow> ends P (g x)) \<Longrightarrow> (\<And>y. r = Inr y \<Longrightarrow> ends P (h y)) \<Longrightarrow>
     ends P (case r of Inl x \<Rightarrow> g x | Inr y \<Rightarrow> h y)"
  "(opt = None \<Longrightarrow> ends P m) \<Longrightarrow> (\<And>x. opt = Some x \<Longrightarrow> ends P (g x)) \<Longrightarrow>
     ends P (case opt of None \<Rightarrow> m | Some x \<Rightarrow> g x)"
  "(\<And>x. oc = Done x \<Longrightarrow> ends P (g x)) \<Longrightarrow> (\<And>y. oc = Fail y \<Longrightarrow> ends P (h y)) \<Longrightarrow>
     (oc = Panic \<Longrightarrow> ends P m) \<Longrightarrow>
     ends P (case oc of Done x \<Rightarrow> g x | Fail y \<Rightarrow> h y | Panic \<Rightarrow> m)"
  "(\<And>x y. p = (x, y) \<Longrightarrow> ends P (k x y)) \<Longrightarrow> ends P (case p of (x, y) \<Rightarrow> k x y)"
  by (simp_all split: sum.split option.split outcome.split prod.split)

text \<open>What is bound first constrains what follows.\<close>

lemma ends_bind_known:
  assumes "ends Q m" and "\<And>a. Q a \<Longrightarrow> ends P (f a)"
  shows "ends P (State_Monad.bind m f)"
  using assms unfolding ends_def wp_bind by (blast intro: wp_mono)

lemma ends_extern: "(\<And>w. Q (fst (g w))) \<Longrightarrow> ends Q (extern g ev)"
  by (simp add: ends_def wp_def extern_def split: prod.split) (metis fst_conv)

lemma endsD: "ends P m \<Longrightarrow> run_state m s = (a, s') \<Longrightarrow> P a"
  by (auto simp: ends_def wp_def dest: spec [of _ s])

lemma keeps_inv_bind [inv_intros]:
  "keeps_inv I m \<Longrightarrow> (\<And>a. keeps_inv I (f a)) \<Longrightarrow> keeps_inv I (State_Monad.bind m f)"
  unfolding keeps_inv_def wp_bind by (blast intro: wp_mono)

lemma keeps_inv_basic [inv_intros]:
  "keeps_inv I (returns a)" "keeps_inv I getObj"
  "(\<And>s w. I s \<Longrightarrow> I (s\<lparr>world := w\<rparr>)) \<Longrightarrow> keeps_inv I (silent g)"
  "(\<And>s. I s \<Longrightarrow> I (s\<lparr>obj := h (obj s)\<rparr>)) \<Longrightarrow> keeps_inv I (modifyObj h)"
  "(\<And>s. I s \<Longrightarrow> I (s\<lparr>trace := trace s @ [e]\<rparr>)) \<Longrightarrow> keeps_inv I (emit e)"
  "(\<And>s w a. I s \<Longrightarrow> I (s\<lparr>world := w, trace := trace s @ [ev a]\<rparr>)) \<Longrightarrow> keeps_inv I (extern f ev)"
  by (auto simp: keeps_inv_def wp_simps)

lemma keeps_inv_cases [inv_intros]:
  "(b \<Longrightarrow> keeps_inv I m) \<Longrightarrow> (\<not> b \<Longrightarrow> keeps_inv I n) \<Longrightarrow> keeps_inv I (if b then m else n)"
  "(\<And>x. r = Inl x \<Longrightarrow> keeps_inv I (g x)) \<Longrightarrow> (\<And>y. r = Inr y \<Longrightarrow> keeps_inv I (h y)) \<Longrightarrow>
     keeps_inv I (case r of Inl x \<Rightarrow> g x | Inr y \<Rightarrow> h y)"
  "(opt = None \<Longrightarrow> keeps_inv I m) \<Longrightarrow> (\<And>x. opt = Some x \<Longrightarrow> keeps_inv I (g x)) \<Longrightarrow>
     keeps_inv I (case opt of None \<Rightarrow> m | Some x \<Rightarrow> g x)"
  "(\<And>x. oc = Done x \<Longrightarrow> keeps_inv I (g x)) \<Longrightarrow> (\<And>y. oc = Fail y \<Longrightarrow> keeps_inv I (h y)) \<Longrightarrow>
     (oc = Panic \<Longrightarrow> keeps_inv I m) \<Longrightarrow>
     keeps_inv I (case oc of Done x \<Rightarrow> g x | Fail y \<Rightarrow> h y | Panic \<Rightarrow> m)"
  "(\<And>x y. p = (x, y) \<Longrightarrow> keeps_inv I (k x y)) \<Longrightarrow> keeps_inv I (case p of (x, y) \<Rightarrow> k x y)"
  by (simp_all split: sum.split option.split outcome.split prod.split)

end
