(* ===== verification/Errors.thy ===== *)
theory Errors
  imports Prelude
begin

text \<open>
  Error values and their classification: \<open>internal/aws/errors.go\<close>,
  \<open>internal/tenantsource/errors.go\<close> and the classifier of \<open>internal/aws/dynamodb.go\<close>.

  A Go \<open>error\<close> is an option (\<open>None\<close> is nil) of a \<open>go_error\<close>: one of the sentinel variables,
  an error value of the AWS SDK that satisfies \<open>smithy.APIError\<close> (code, message and the text
  its \<open>Error\<close> method prints), any other error, or an error wrapped by \<open>fmt.Errorf\<close> with the
  verb \<open>%w\<close> (the text before and after the wrapped error).
\<close>

section \<open>Error values\<close>

datatype sentinel =
    ErrDomainConflict | ErrAccessDenied | ErrInvalidArgument | ErrNotFound
  | ErrDistributionNotFound | ErrResourceNotDisabled | ErrPreconditionFailed | ErrThrottling
  | ErrHostedZoneNotFound | ErrDNSAccessDenied | ErrDNSInvalidInput | ErrDNSThrottling
  | ErrCertificateNotFound | ErrConnectionGroupNotFound | ErrDynamoDBTableNotFound
  | ErrSourceNotFound | ErrSourceAccessDenied | ErrSourceThrottled | ErrSourceInvalidConfig

datatype go_error =
    Sentinel sentinel
  | ApiError (ErrorCode: string) (ErrorMessage: string) string
  | OtherError string
  | Wrapped string go_error string

type_synonym error = "go_error option"

text \<open>The text each sentinel was created with.\<close>

fun sentinelText :: "sentinel \<Rightarrow> string" where
  "sentinelText ErrDomainConflict =
     ''domain already associated with another distribution or tenant (CNAMEAlreadyExists)''"
| "sentinelText ErrAccessDenied = ''access denied: check IAM permissions''"
| "sentinelText ErrInvalidArgument = ''invalid argument in request''"
| "sentinelText ErrNotFound = ''distribution tenant not found''"
| "sentinelText ErrDistributionNotFound = ''distribution not found: check spec.distributionId''"
| "sentinelText ErrResourceNotDisabled = ''resource must be disabled before deletion''"
| "sentinelText ErrPreconditionFailed = ''precondition failed: ETag mismatch''"
| "sentinelText ErrThrottling = ''API rate limit exceeded''"
| "sentinelText ErrHostedZoneNotFound = ''Route53 hosted zone not found''"
| "sentinelText ErrDNSAccessDenied =
     ''DNS access denied: check IAM permissions and assumeRoleArn''"
| "sentinelText ErrDNSInvalidInput = ''invalid DNS record change request''"
| "sentinelText ErrDNSThrottling = ''Route53 API rate limit exceeded''"
| "sentinelText ErrCertificateNotFound = ''ACM certificate not found''"
| "sentinelText ErrConnectionGroupNotFound = ''connection group not found''"
| "sentinelText ErrDynamoDBTableNotFound = ''DynamoDB table not found''"
| "sentinelText ErrSourceNotFound = ''tenant source not found''"
| "sentinelText ErrSourceAccessDenied = ''tenant source access denied''"
| "sentinelText ErrSourceThrottled = ''tenant source throttled''"
| "sentinelText ErrSourceInvalidConfig = ''tenant source config invalid''"

text \<open>\<open>err.Error()\<close>\<close>

fun errorText :: "go_error \<Rightarrow> string" where
  "errorText (Sentinel s) = sentinelText s"
| "errorText (ApiError c m t) = t"
| "errorText (OtherError t) = t"
| "errorText (Wrapped pre e post) = pre @ errorText e @ post"

text \<open>\<open>errors.Is(err, sentinel)\<close>: the wrapping chain is searched for the sentinel.\<close>

fun chainHas :: "go_error \<Rightarrow> sentinel \<Rightarrow> bool" where
  "chainHas (Sentinel s') s = (s' = s)"
| "chainHas (ApiError c m t) s = False"
| "chainHas (OtherError t) s = False"
| "chainHas (Wrapped pre e post) s = chainHas e s"

definition errorsIs :: "error \<Rightarrow> sentinel \<Rightarrow> bool" where
  "errorsIs err s = (case err of None \<Rightarrow> False | Some e \<Rightarrow> chainHas e s)"

text \<open>\<open>errors.As(err, &apiErr)\<close> for a \<open>smithy.APIError\<close>: code and message of the first one.\<close>

fun asAPIError :: "go_error \<Rightarrow> (string \<times> string) option" where
  "asAPIError (Sentinel s) = None"
| "asAPIError (ApiError c m t) = Some (c, m)"
| "asAPIError (OtherError t) = None"
| "asAPIError (Wrapped pre e post) = asAPIError e"

text \<open>\<open>fmt.Errorf("%w: %s", sentinel, msg)\<close>\<close>

definition wrapSentinel :: "sentinel \<Rightarrow> string \<Rightarrow> error" where
  "wrapSentinel s msg = Some (Wrapped [] (Sentinel s) ('': '' @ msg))"

lemma errorsIs_simps [simp]:
  "errorsIs None s = False"
  "errorsIs (Some (Sentinel s')) s = (s' = s)"
  "errorsIs (Some (ApiError c m t)) s = False"
  "errorsIs (Some (OtherError t)) s = False"
  "errorsIs (Some (Wrapped pre e post)) s = errorsIs (Some e) s"
  "errorsIs (wrapSentinel s' msg) s = (s' = s)"
  by (simp_all add: errorsIs_def wrapSentinel_def)

text \<open>No error matches two different sentinels: a chain ends in at most one.\<close>

lemma errorsIs_unique: "errorsIs err s \<Longrightarrow> errorsIs err s' \<longleftrightarrow> s' = s"
proof -
  have "chainHas e s \<Longrightarrow> chainHas e s' \<longleftrightarrow> s' = s" for e
    by (induction e) auto
  then show "errorsIs err s \<Longrightarrow> errorsIs err s' \<longleftrightarrow> s' = s"
    by (cases err) (auto simp: errorsIs_def)
qed

text \<open>A chain that ends in an SDK error matches no sentinel.\<close>

lemma asAPIError_not_sentinel: "asAPIError e = Some cm \<Longrightarrow> \<not> chainHas e s"
  by (induction e) auto

section \<open>Predicates on errors\<close>

definition IsTerminalError :: "error \<Rightarrow> bool" where
  "IsTerminalError err \<longleftrightarrow>
     errorsIs err ErrDomainConflict \<or> errorsIs err ErrAccessDenied \<or>
     errorsIs err ErrInvalidArgument \<or> errorsIs err ErrDistributionNotFound \<or>
     errorsIs err ErrHostedZoneNotFound \<or> errorsIs err ErrDNSAccessDenied \<or>
     errorsIs err ErrDNSInvalidInput \<or> errorsIs err ErrCertificateNotFound \<or>
     errorsIs err ErrConnectionGroupNotFound"

definition IsNotFound :: "error \<Rightarrow> bool" where
  "IsNotFound err = errorsIs err ErrNotFound"

definition IsResourceNotDisabled :: "error \<Rightarrow> bool" where
  "IsResourceNotDisabled err = errorsIs err ErrResourceNotDisabled"

definition IsPreconditionFailed :: "error \<Rightarrow> bool" where
  "IsPreconditionFailed err = errorsIs err ErrPreconditionFailed"

definition IsThrottling :: "error \<Rightarrow> bool" where
  "IsThrottling err = errorsIs err ErrThrottling"

definition IsDNSThrottling :: "error \<Rightarrow> bool" where
  "IsDNSThrottling err = errorsIs err ErrDNSThrottling"

lemmas error_preds = IsTerminalError_def IsNotFound_def IsResourceNotDisabled_def
  IsPreconditionFailed_def IsThrottling_def IsDNSThrottling_def

text \<open>The classes the controllers branch on exclude each other.\<close>

lemma terminal_excludes:
  assumes "IsTerminalError err"
  shows "\<not> IsNotFound err" "\<not> IsResourceNotDisabled err" "\<not> IsPreconditionFailed err"
    "\<not> IsThrottling err" "\<not> IsDNSThrottling err"
  using assms unfolding error_preds by (auto dest: errorsIs_unique)

section \<open>Classification of SDK errors\<close>

abbreviation awsErrCodeThrottling :: string where
  "awsErrCodeThrottling \<equiv> ''Throttling''"
abbreviation awsErrCodeTooManyReqs :: string where
  "awsErrCodeTooManyReqs \<equiv> ''TooManyRequests''"
abbreviation awsErrCodeAccessDenied :: string where
  "awsErrCodeAccessDenied \<equiv> ''AccessDeniedException''"
abbreviation awsErrCodeResourceNotFound :: string where
  "awsErrCodeResourceNotFound \<equiv> ''ResourceNotFoundException''"

definition classifyAWSError :: "error \<Rightarrow> error" where
  "classifyAWSError err = (case err of None \<Rightarrow> None | Some e \<Rightarrow>
     (case asAPIError e of
        None \<Rightarrow> err
      | Some (code, msg) \<Rightarrow>
          if code = ''CNAMEAlreadyExists'' \<or> Contains code ''CNAMEAlreadyExists''
          then wrapSentinel ErrDomainConflict msg
          else if code = ''AccessDenied'' then wrapSentinel ErrAccessDenied msg
          else if code = ''InvalidArgument'' then wrapSentinel ErrInvalidArgument msg
          else if code = ''EntityNotFound'' \<or> code = ''NoSuchDistributionTenant''
          then wrapSentinel ErrNotFound msg
          else if code = ''NoSuchDistribution'' then wrapSentinel ErrDistributionNotFound msg
          else if code = ''ResourceNotDisabled'' then wrapSentinel ErrResourceNotDisabled msg
          else if code = ''PreconditionFailed'' \<or> code = ''InvalidIfMatchVersion''
          then wrapSentinel ErrPreconditionFailed msg
          else if code = awsErrCodeThrottling \<or> code = awsErrCodeTooManyReqs
          then wrapSentinel ErrThrottling msg
          else err))"

definition classifyRoute53Error :: "error \<Rightarrow> error" where
  "classifyRoute53Error err = (case err of None \<Rightarrow> None | Some e \<Rightarrow>
     (case asAPIError e of
        None \<Rightarrow> err
      | Some (code, msg) \<Rightarrow>
          if code = ''NoSuchHostedZone'' \<or> code = ''HostedZoneNotFound''
          then wrapSentinel ErrHostedZoneNotFound msg
          else if code = ''AccessDenied'' \<or> code = awsErrCodeAccessDenied
          then wrapSentinel ErrDNSAccessDenied msg
          else if code = ''InvalidInput'' then wrapSentinel ErrDNSInvalidInput msg
          else if code = ''InvalidChangeBatch''
          then (if Contains (ToLower msg) ''not found'' then wrapSentinel ErrNotFound msg
                else wrapSentinel ErrDNSInvalidInput msg)
          else if code = awsErrCodeThrottling \<or> code = awsErrCodeTooManyReqs \<or>
                  code = ''PriorRequestNotComplete''
          then wrapSentinel ErrDNSThrottling msg
          else if code = ''NoSuchChange'' then wrapSentinel ErrNotFound msg
          else err))"

definition classifyACMError :: "error \<Rightarrow> error" where
  "classifyACMError err = (case err of None \<Rightarrow> None | Some e \<Rightarrow>
     (case asAPIError e of
        None \<Rightarrow> err
      | Some (code, msg) \<Rightarrow>
          if code = awsErrCodeResourceNotFound then wrapSentinel ErrCertificateNotFound msg
          else if code = awsErrCodeAccessDenied then wrapSentinel ErrAccessDenied msg
          else if code = awsErrCodeThrottling \<or> code = awsErrCodeTooManyReqs
          then wrapSentinel ErrThrottling msg
          else err))"

definition classifyDynamoDBError :: "error \<Rightarrow> error" where
  "classifyDynamoDBError err = (case err of None \<Rightarrow> None | Some e \<Rightarrow>
     (case asAPIError e of
        None \<Rightarrow> err
      | Some (code, msg) \<Rightarrow>
          if code = awsErrCodeResourceNotFound then wrapSentinel ErrDynamoDBTableNotFound msg
          else if code = awsErrCodeAccessDenied then wrapSentinel ErrAccessDenied msg
          else if code = awsErrCodeThrottling \<or> code = ''ThrottlingException'' \<or>
                  code = ''ProvisionedThroughputExceededException''
          then wrapSentinel ErrThrottling msg
          else err))"

lemmas classifiers = classifyAWSError_def classifyRoute53Error_def classifyACMError_def
  classifyDynamoDBError_def

text \<open>A classifier never turns an error into success, nor success into an error.\<close>

lemma classify_None [simp]:
  "classifyAWSError err = None \<longleftrightarrow> err = None"
  "classifyRoute53Error err = None \<longleftrightarrow> err = None"
  "classifyACMError err = None \<longleftrightarrow> err = None"
  "classifyDynamoDBError err = None \<longleftrightarrow> err = None"
  by (auto simp: classifiers wrapSentinel_def split: option.splits prod.splits if_splits)

text \<open>The sentinel that \<open>classifyAWSError\<close> assigns to an error code.\<close>

definition awsCodeClass :: "string \<Rightarrow> sentinel option" where
  "awsCodeClass code =
     (if Contains code ''CNAMEAlreadyExists'' then Some ErrDomainConflict
      else map_of
        [(''AccessDenied'', ErrAccessDenied), (''InvalidArgument'', ErrInvalidArgument),
         (''EntityNotFound'', ErrNotFound), (''NoSuchDistributionTenant'', ErrNotFound),
         (''NoSuchDistribution'', ErrDistributionNotFound),
         (''ResourceNotDisabled'', ErrResourceNotDisabled),
         (''PreconditionFailed'', ErrPreconditionFailed),
         (''InvalidIfMatchVersion'', ErrPreconditionFailed),
         (''Throttling'', ErrThrottling), (''TooManyRequests'', ErrThrottling)] code)"

lemma classifyAWSError_api:
  assumes "asAPIError e = Some (code, msg)"
  shows "classifyAWSError (Some e) =
    (case awsCodeClass code of None \<Rightarrow> Some e | Some s \<Rightarrow> wrapSentinel s msg)"
proof -
  have "Contains ''CNAMEAlreadyExists'' ''CNAMEAlreadyExists''" by simp
  then show ?thesis
    using assms by (auto simp: classifyAWSError_def awsCodeClass_def)
qed

text \<open>Every AWS API error is classified by its code alone (the sentinel table of
  \<open>awsCodeClass\<close>), wherever it sits in a wrapping chain: \<open>errors.Is\<close> on the classified error
  answers exactly that sentinel, so the controller's terminal / not-found / throttling branches
  follow from the code, and the text of the original message is kept at the end of the text.\<close>

theorem classify_aws_by_code:
  assumes "asAPIError e = Some (code, msg)"
  shows "(errorsIs (classifyAWSError (Some e)) s \<longleftrightarrow> awsCodeClass code = Some s) \<and>
    (\<forall>c. awsCodeClass code = Some c \<longrightarrow>
      (\<exists>e'. classifyAWSError (Some e) = Some e' \<and>
        errorText e' = sentinelText c @ '': '' @ msg))"
  using assms
  by (auto simp: classifyAWSError_api wrapSentinel_def errorsIs_def asAPIError_not_sentinel
      split: option.splits)

theorem classify_aws_by_code_witness:
  "errorsIs (classifyAWSError (Some (Wrapped ''op: '' (ApiError ''AccessDenied'' ''no'' ''t'') [])))
      ErrAccessDenied \<and>
    (\<exists>e'. classifyAWSError (Some (Wrapped ''op: '' (ApiError ''AccessDenied'' ''no'' ''t'') [])) = Some e' \<and>
        errorText e' = sentinelText ErrAccessDenied @ '': '' @ ''no'')"
  using classify_aws_by_code [of "Wrapped ''op: '' (ApiError ''AccessDenied'' ''no'' ''t'') []"
      "''AccessDenied''" "''no''" ErrAccessDenied]
  by (simp add: awsCodeClass_def)

end
