(* ===== verification/ApiTypes.thy ===== *)
theory ApiTypes
  imports Errors
begin

text \<open>
  The data of the operator: the custom resources of \<open>api/v1alpha1\<close> (spec, status, conditions
  and their constants) and the domain types of \<open>internal/aws/client.go\<close>. A field keeps the
  name it has in Go behind a prefix for its struct, since record selectors are global.

  \<open>metav1.ObjectMeta\<close> and \<open>metav1.Condition\<close> belong to apimachinery; the fields the
  operator reads and writes are kept.
\<close>

section \<open>Kubernetes metadata\<close>

text \<open>A point in time (nanoseconds), and \<open>time.Duration\<close>.\<close>

type_synonym gotime = int
type_synonym duration = int

definition second :: duration where "second = 1000000000"
definition minute :: duration where "minute = 60 * second"

datatype ConditionStatus = ConditionTrue | ConditionFalse | ConditionUnknown

record Condition =
  cond_Type :: string
  cond_Status :: ConditionStatus
  cond_ObservedGeneration :: int64
  cond_LastTransitionTime :: gotime
  cond_Reason :: string
  cond_Message :: string

record ObjectMeta =
  om_Name :: string
  om_Namespace :: string
  om_UID :: string
  om_Generation :: int64
  om_DeletionTimestamp :: "gotime option"
  om_Finalizers :: "string list"
  om_Labels :: "(string \<times> string) list"
  om_OwnerReferences :: "string list"

record ctrlResult =
  Requeue :: bool
  RequeueAfter :: duration

abbreviation emptyResult :: ctrlResult where
  "emptyResult \<equiv> \<lparr>Requeue = False, RequeueAfter = 0\<rparr>"

definition requeueIn :: "duration \<Rightarrow> ctrlResult" where
  "requeueIn d = \<lparr>Requeue = False, RequeueAfter = d\<rparr>"

section \<open>DistributionTenant\<close>

record DNSConfig =
  dns_Provider :: string
  dns_HostedZoneId :: "string option"
  dns_TTL :: "int64 option"
  dns_AssumeRoleArn :: "string option"

record DomainSpec =
  dom_Domain :: string

record Parameter =
  param_Name :: string
  param_Value :: string

record WebAclCustomization =
  wac_Action :: string
  wac_Arn :: "string option"

record CertificateCustomization =
  cert_Arn :: string

record GeoRestrictionCustomization =
  geo_RestrictionType :: string
  geo_Locations :: "string list"

record Customizations =
  cus_WebAcl :: "WebAclCustomization option"
  cus_Certificate :: "CertificateCustomization option"
  cus_GeoRestrictions :: "GeoRestrictionCustomization option"

record ManagedCertificateRequest =
  mcr_ValidationTokenHost :: string
  mcr_PrimaryDomainName :: string
  mcr_CertificateTransparencyLoggingPreference :: "string option"

record Tag =
  tag_Key :: string
  tag_Value :: "string option"

record DistributionTenantSpec =
  spec_DistributionId :: string
  spec_Domains :: "DomainSpec list"
  spec_Enabled :: "bool option"
  spec_ConnectionGroupId :: "string option"
  spec_Parameters :: "Parameter list"
  spec_Customizations :: "Customizations option"
  spec_ManagedCertificateRequest :: "ManagedCertificateRequest option"
  spec_Tags :: "Tag list"
  spec_DNS :: "DNSConfig option"

record DomainResult =
  dr_Domain :: string
  dr_Status :: string

record DistributionTenantStatus =
  st_ObservedGeneration :: int64
  st_ID :: string
  st_Arn :: string
  st_ETag :: string
  st_DistributionTenantStatus :: string
  st_CreatedTime :: "gotime option"
  st_LastModifiedTime :: "gotime option"
  st_DomainResults :: "DomainResult list"
  st_CertificateArn :: string
  st_ManagedCertificateStatus :: string
  st_LastDriftCheckTime :: "gotime option"
  st_DriftDetected :: bool
  st_DNSChangeId :: string
  st_DNSTarget :: string
  st_Conditions :: "Condition list"

record DistributionTenant =
  dt_Meta :: ObjectMeta
  dt_Spec :: DistributionTenantSpec
  dt_Status :: DistributionTenantStatus

abbreviation (input) dt_Name :: "DistributionTenant \<Rightarrow> string" where
  "dt_Name t \<equiv> om_Name (dt_Meta t)"
abbreviation (input) dt_Generation :: "DistributionTenant \<Rightarrow> int64" where
  "dt_Generation t \<equiv> om_Generation (dt_Meta t)"

text \<open>The key of an object in the API server.\<close>

definition keyOf :: "DistributionTenant \<Rightarrow> string \<times> string" where
  "keyOf t = (om_Namespace (dt_Meta t), om_Name (dt_Meta t))"

definition beingDeleted :: "DistributionTenant \<Rightarrow> bool" where
  "beingDeleted t \<longleftrightarrow> om_DeletionTimestamp (dt_Meta t) \<noteq> None"

subsection \<open>Writing to the status and the spec of an object\<close>

abbreviation updStatus ::
  "(DistributionTenantStatus \<Rightarrow> DistributionTenantStatus) \<Rightarrow>
   DistributionTenant \<Rightarrow> DistributionTenant" where
  "updStatus f t \<equiv> t\<lparr>dt_Status := f (dt_Status t)\<rparr>"

abbreviation updSpec ::
  "(DistributionTenantSpec \<Rightarrow> DistributionTenantSpec) \<Rightarrow>
   DistributionTenant \<Rightarrow> DistributionTenant" where
  "updSpec f t \<equiv> t\<lparr>dt_Spec := f (dt_Spec t)\<rparr>"

abbreviation updFinalizers ::
  "(string list \<Rightarrow> string list) \<Rightarrow> DistributionTenant \<Rightarrow> DistributionTenant" where
  "updFinalizers f t \<equiv> t\<lparr>dt_Meta := (dt_Meta t)\<lparr>om_Finalizers := f (om_Finalizers (dt_Meta t))\<rparr>\<rparr>"

subsection \<open>Constants\<close>

abbreviation ConditionTypeReady :: string where "ConditionTypeReady \<equiv> ''Ready''"
abbreviation ConditionTypeSynced :: string where "ConditionTypeSynced \<equiv> ''Synced''"
abbreviation ConditionTypeCertificateReady :: string where
  "ConditionTypeCertificateReady \<equiv> ''CertificateReady''"
abbreviation ConditionTypeDNSReady :: string where "ConditionTypeDNSReady \<equiv> ''DNSReady''"

abbreviation ReasonDeployed :: string where "ReasonDeployed \<equiv> ''Deployed''"
abbreviation ReasonDeploying :: string where "ReasonDeploying \<equiv> ''Deploying''"
abbreviation ReasonCreating :: string where "ReasonCreating \<equiv> ''Creating''"
abbreviation ReasonDisabling :: string where "ReasonDisabling \<equiv> ''Disabling''"
abbreviation ReasonInSync :: string where "ReasonInSync \<equiv> ''InSync''"
abbreviation ReasonDriftDetected :: string where "ReasonDriftDetected \<equiv> ''DriftDetected''"
abbreviation ReasonUpdatePending :: string where "ReasonUpdatePending \<equiv> ''UpdatePending''"
abbreviation ReasonDomainConflict :: string where "ReasonDomainConflict \<equiv> ''DomainConflict''"
abbreviation ReasonAccessDenied :: string where "ReasonAccessDenied \<equiv> ''AccessDenied''"
abbreviation ReasonInvalidSpec :: string where "ReasonInvalidSpec \<equiv> ''InvalidSpec''"
abbreviation ReasonAWSError :: string where "ReasonAWSError \<equiv> ''AWSError''"
abbreviation ReasonCertValidated :: string where "ReasonCertValidated \<equiv> ''Validated''"
abbreviation ReasonCertAttaching :: string where "ReasonCertAttaching \<equiv> ''Attaching''"
abbreviation ReasonCertPending :: string where "ReasonCertPending \<equiv> ''PendingValidation''"
abbreviation ReasonCertNotConfigured :: string where "ReasonCertNotConfigured \<equiv> ''NotConfigured''"
abbreviation ReasonCertFailed :: string where "ReasonCertFailed \<equiv> ''CertificateFailed''"
abbreviation ReasonValidationFailed :: string where "ReasonValidationFailed \<equiv> ''ValidationFailed''"
abbreviation ReasonDNSRecordCreating :: string where
  "ReasonDNSRecordCreating \<equiv> ''DNSRecordCreating''"
abbreviation ReasonDNSPropagating :: string where "ReasonDNSPropagating \<equiv> ''DNSPropagating''"
abbreviation ReasonDNSReady :: string where "ReasonDNSReady \<equiv> ''DNSReady''"
abbreviation ReasonDNSError :: string where "ReasonDNSError \<equiv> ''DNSError''"
abbreviation ReasonDNSNotConfigured :: string where
  "ReasonDNSNotConfigured \<equiv> ''DNSNotConfigured''"
abbreviation ReasonCertSANMismatch :: string where
  "ReasonCertSANMismatch \<equiv> ''CertificateSANMismatch''"
abbreviation ReasonDomainValidationPending :: string where
  "ReasonDomainValidationPending \<equiv> ''DomainValidationPending''"

definition FinalizerName :: string where
  "FinalizerName = ''cloudfront-tenant-operator.io/finalizer''"

section \<open>Domain types of the AWS clients\<close>

record DomainInput =
  din_Domain :: string

record ParameterInput =
  pin_Name :: string
  pin_Value :: string

record WebAclCustomizationInput =
  waci_Action :: string
  waci_Arn :: "string option"

record CertificateCustomizationInput =
  certi_Arn :: string

record GeoRestrictionCustomizationInput =
  geoi_RestrictionType :: string
  geoi_Locations :: "string list"

record CustomizationsInput =
  cusi_WebAcl :: "WebAclCustomizationInput option"
  cusi_Certificate :: "CertificateCustomizationInput option"
  cusi_GeoRestrictions :: "GeoRestrictionCustomizationInput option"

record ManagedCertificateRequestInput =
  mcri_ValidationTokenHost :: string
  mcri_PrimaryDomainName :: "string option"
  mcri_CertificateTransparencyLoggingPreference :: "string option"

record TagInput =
  tagi_Key :: string
  tagi_Value :: "string option"

record CreateDistributionTenantInput =
  ci_DistributionId :: string
  ci_Name :: string
  ci_Domains :: "DomainInput list"
  ci_Enabled :: "bool option"
  ci_ConnectionGroupId :: "string option"
  ci_Parameters :: "ParameterInput list"
  ci_Customizations :: "CustomizationsInput option"
  ci_ManagedCertificateRequest :: "ManagedCertificateRequestInput option"
  ci_Tags :: "TagInput list"

record UpdateDistributionTenantInput =
  ui_ID :: string
  ui_DistributionId :: string
  ui_IfMatch :: string
  ui_Domains :: "DomainInput list"
  ui_Enabled :: "bool option"
  ui_ConnectionGroupId :: "string option"
  ui_Parameters :: "ParameterInput list"
  ui_Customizations :: "CustomizationsInput option"
  ui_ManagedCertificateRequest :: "ManagedCertificateRequestInput option"

record DomainResultOutput =
  dro_Domain :: string
  dro_Status :: string

record DistributionTenantOutput =
  out_ID :: string
  out_Arn :: string
  out_DistributionId :: string
  out_Name :: string
  out_ETag :: string
  out_Status :: string
  out_Enabled :: bool
  out_ConnectionGroupId :: string
  out_CreatedTime :: "gotime option"
  out_LastModifiedTime :: "gotime option"
  out_Domains :: "DomainResultOutput list"
  out_Parameters :: "ParameterInput list"
  out_Customizations :: "CustomizationsInput option"

record ParameterDefinitionOutput =
  pd_Name :: string
  pd_Required :: bool
  pd_DefaultValue :: string

record DistributionInfo =
  di_ID :: string
  di_DomainName :: string
  di_ViewerCertificateArn :: string
  di_UsesCloudFrontDefaultCert :: bool
  di_ParameterDefinitions :: "ParameterDefinitionOutput list"

record ValidationTokenDetailOutput =
  vtd_Domain :: string
  vtd_RedirectFrom :: string
  vtd_RedirectTo :: string

record ManagedCertificateDetailsOutput =
  mcd_CertificateArn :: string
  mcd_CertificateStatus :: string
  mcd_ValidationTokenHost :: string
  mcd_ValidationTokenDetails :: "ValidationTokenDetailOutput list"

record DNSRecord =
  rec_Name :: string
  rec_Target :: string
  rec_TTL :: int64

record UpsertDNSRecordsInput =
  upsert_HostedZoneId :: string
  upsert_Records :: "DNSRecord list"

record DNSChangeOutput =
  chg_ChangeId :: string

record DeleteDNSRecordsInput =
  del_HostedZoneId :: string
  del_Records :: "DNSRecord list"

section \<open>Client interfaces\<close>

text \<open>
  An interface value is the record of its methods. A method answers from the state of the
  world and changes it. A method that returns \<open>(*T, error)\<close> answers \<open>Inl err\<close> or
  \<open>Inr ptr\<close>, the pointer being an option: \<open>Inr None\<close> is a nil pointer with a nil error.
\<close>

type_synonym ('w, 'a) call = "'w \<Rightarrow> (go_error + 'a) \<times> 'w"

record 'w CloudFrontClient =
  cf_CreateDistributionTenant ::
    "CreateDistributionTenantInput \<Rightarrow> ('w, DistributionTenantOutput option) call"
  cf_GetDistributionTenant :: "string \<Rightarrow> ('w, DistributionTenantOutput option) call"
  cf_UpdateDistributionTenant ::
    "UpdateDistributionTenantInput \<Rightarrow> ('w, DistributionTenantOutput option) call"
  cf_DeleteDistributionTenant :: "string \<Rightarrow> string \<Rightarrow> ('w, unit) call"
  cf_GetDistributionInfo :: "string \<Rightarrow> ('w, DistributionInfo option) call"
  cf_GetManagedCertificateDetails ::
    "string \<Rightarrow> ('w, ManagedCertificateDetailsOutput option) call"
  cf_GetConnectionGroupRoutingEndpoint :: "string \<Rightarrow> ('w, string) call"
  cf_GetDefaultConnectionGroupEndpoint :: "('w, string) call"

record 'w DNSClient =
  dnsc_UpsertCNAMERecords :: "UpsertDNSRecordsInput \<Rightarrow> ('w, DNSChangeOutput option) call"
  dnsc_GetChangeStatus :: "string \<Rightarrow> ('w, string) call"
  dnsc_DeleteCNAMERecords :: "DeleteDNSRecordsInput \<Rightarrow> ('w, unit) call"

record 'w ACMClient =
  acm_GetCertificateSANs :: "string \<Rightarrow> ('w, string list) call"

end
