(* ===== verification/SourceTypes.thy ===== *)
theory SourceTypes
  imports ApiTypes "HOL-Library.AList" "HOL-Library.Multiset"
begin

text \<open>
  The data of the tenant-source side: the custom resource of
  \<open>api/v1alpha1/tenantsource_types.go\<close>, the provider-neutral \<open>TenantItem\<close> of
  \<open>internal/tenantsource/backend.go\<close>, and Go maps that are ranged over.

  A Go map that the code ranges over is the association list of its entries, keys distinct, in
  the order of insertion. The order of \<open>range\<close> is unspecified in Go: it is a function on such
  lists, of which the locale \<open>map_range\<close> only says that it visits every entry once.
\<close>

section \<open>Maps and the order of range\<close>

text \<open>\<open>m[key(x)] = x\<close> for every element of a slice: the last one of a key stays.\<close>

definition mapByKey :: "('v \<Rightarrow> 'k) \<Rightarrow> 'v list \<Rightarrow> ('k \<times> 'v) list" where
  "mapByKey key xs = fold (\<lambda>x m. AList.update (key x) x m) xs []"

locale map_range =
  fixes rng :: "('k \<times> 'v) list \<Rightarrow> ('k \<times> 'v) list"
  assumes visits_all: "mset (rng xs) = mset xs"
begin

lemma set_range: "set (rng xs) = set xs"
  using visits_all by (rule mset_eq_setD)

lemma length_range: "length (rng xs) = length xs"
  using visits_all by (rule mset_eq_length)

lemma distinct_range: "distinct (map fst xs) \<Longrightarrow> distinct (map fst (rng xs))"
proof -
  have "mset (map fst (rng xs)) = mset (map fst xs)" by (simp add: visits_all)
  then show "distinct (map fst xs) \<Longrightarrow> ?thesis" by (metis mset_eq_imp_distinct_iff)
qed

lemma map_of_range:
  assumes "distinct (map fst xs)"
  shows "map_of (rng xs) = map_of xs"
proof -
  have d: "distinct (map fst (rng xs))" using assms by (rule distinct_range)
  show ?thesis
  proof
    fix k
    show "map_of (rng xs) k = map_of xs k"
    proof (cases "map_of xs k")
      case None
      then have "k \<notin> fst ` set (rng xs)" by (simp add: map_of_eq_None_iff set_range)
      then have "map_of (rng xs) k = None" by (simp only: map_of_eq_None_iff not_False_eq_True)
      then show ?thesis by (simp only: None)
    next
      case (Some v)
      then have "(k, v) \<in> set (rng xs)" using map_of_SomeD [OF Some] by (simp add: set_range)
      then show ?thesis using Some d by (simp add: map_of_is_SomeI)
    qed
  qed
qed

end

text \<open>Two orders: as stored, and reversed.\<close>

interpretation stored_order: map_range "\<lambda>xs. xs"
  by unfold_locales simp

interpretation reverse_order: map_range rev
  by unfold_locales simp

lemma update_all_distinct:
  "distinct (map fst m) \<Longrightarrow> distinct (map fst (fold (\<lambda>x m. AList.update (key x) x m) xs m))"
  by (induction xs arbitrary: m) (simp_all add: distinct_update)

lemma update_all_map_of:
  "map_of (fold (\<lambda>x m. AList.update (key x) x m) xs m) =
     mapFromList (map (\<lambda>x. (key x, x)) xs) (map_of m)"
  by (induction xs arbitrary: m) (simp_all add: update_conv')

lemma mapByKey_distinct: "distinct (map fst (mapByKey key xs))"
  unfolding mapByKey_def by (rule update_all_distinct) simp

lemma mapByKey_map_of: "map_of (mapByKey key xs) = mapFromList (map (\<lambda>x. (key x, x)) xs) Map.empty"
  unfolding mapByKey_def by (simp only: update_all_map_of map_of.simps)

lemma mapByKey_keys: "fst ` set (mapByKey key xs) = key ` set xs"
proof -
  have "fst ` set (mapByKey key xs) = dom (map_of (mapByKey key xs))"
    by (simp add: dom_map_of_conv_image_fst)
  then show ?thesis by (simp add: mapByKey_map_of dom_mapFromList image_image)
qed

lemma mapByKey_key: "(k, x) \<in> set (mapByKey key xs) \<Longrightarrow> key x = k \<and> x \<in> set xs"
proof -
  assume "(k, x) \<in> set (mapByKey key xs)"
  then have "map_of (mapByKey key xs) k = Some x"
    by (simp only: map_of_eq_Some_iff [OF mapByKey_distinct])
  then have "map_of (rev (map (\<lambda>x. (key x, x)) xs)) k = Some x"
    by (simp add: mapByKey_map_of mapFromList_map_of)
  then show ?thesis by (auto dest: map_of_SomeD)
qed

section \<open>TenantItem\<close>

text \<open>An item of an external source; a nil field is \<open>None\<close>.\<close>

record TenantItem =
  it_Name :: string
  it_Domains :: "string list"
  it_Enabled :: "bool option"
  it_ConnectionGroupId :: "string option"
  it_CertificateArn :: "string option"
  it_ValidationTokenHost :: "string option"
  it_PrimaryDomainName :: "string option"
  it_CertificateTransparencyLoggingPreference :: "string option"
  it_DNSProvider :: "string option"
  it_HostedZoneId :: "string option"
  it_DNSTTL :: "int64 option"
  it_DNSAssumeRoleArn :: "string option"
  it_WebAclAction :: "string option"
  it_WebAclArn :: "string option"
  it_GeoRestrictionType :: "string option"
  it_GeoLocations :: "string list option"
  it_Parameters :: "(string \<times> string) list option"
  it_Tags :: "(string \<times> string) list option"

section \<open>TenantSource\<close>

record TenantTemplate =
  tt_Enabled :: "bool option"
  tt_ConnectionGroupId :: "string option"
  tt_Parameters :: "Parameter list"
  tt_Customizations :: "Customizations option"
  tt_ManagedCertificateRequest :: "ManagedCertificateRequest option"
  tt_Tags :: "Tag list"
  tt_DNS :: "DNSConfig option"

record SecretReference = sec_Name :: string

record PostgresSourceConfig =
  pg_ConnectionSecretRef :: SecretReference
  pg_Query :: string

record DynamoDBSourceConfig =
  dd_TableName :: string
  dd_Region :: "string option"
  dd_NameAttribute :: "string option"
  dd_DomainsAttribute :: "string option"
  dd_EnabledAttribute :: "string option"
  dd_ConnectionGroupIdAttribute :: "string option"
  dd_CertificateArnAttribute :: "string option"
  dd_ValidationTokenHostAttribute :: "string option"
  dd_PrimaryDomainNameAttribute :: "string option"
  dd_CertificateTransparencyLoggingPreferenceAttribute :: "string option"
  dd_DNSProviderAttribute :: "string option"
  dd_HostedZoneIdAttribute :: "string option"
  dd_DNSTTLAttribute :: "string option"
  dd_DNSAssumeRoleArnAttribute :: "string option"
  dd_WebAclActionAttribute :: "string option"
  dd_WebAclArnAttribute :: "string option"
  dd_GeoRestrictionTypeAttribute :: "string option"
  dd_GeoLocationsAttribute :: "string option"
  dd_ParametersAttribute :: "string option"
  dd_TagsAttribute :: "string option"

record TenantSourceSpec =
  tss_Provider :: string
  tss_PollInterval :: "duration option"
  tss_Postgres :: "PostgresSourceConfig option"
  tss_DynamoDB :: "DynamoDBSourceConfig option"
  tss_DistributionId :: string
  tss_TargetNamespace :: "string option"
  tss_Template :: "TenantTemplate option"
  tss_DryRun :: "bool option"

record PendingChange =
  pc_Action :: string
  pc_TenantName :: string
  pc_Description :: string

text \<open>The counters are Go \<open>int\<close>s: 64-bit words.\<close>

record TenantSourceStatus =
  tsst_LastPollTime :: "gotime option"
  tsst_TenantsDiscovered :: int64
  tsst_TenantsCreated :: int64
  tsst_TenantsUpdated :: int64
  tsst_TenantsDeleted :: int64
  tsst_PendingChanges :: "PendingChange list"
  tsst_Conditions :: "Condition list"

record TenantSource =
  ts_Meta :: ObjectMeta
  ts_Spec :: TenantSourceSpec
  ts_Status :: TenantSourceStatus

abbreviation (input) ts_Name :: "TenantSource \<Rightarrow> string" where
  "ts_Name s \<equiv> om_Name (ts_Meta s)"
abbreviation (input) ts_UID :: "TenantSource \<Rightarrow> string" where
  "ts_UID s \<equiv> om_UID (ts_Meta s)"
abbreviation (input) ts_Namespace :: "TenantSource \<Rightarrow> string" where
  "ts_Namespace s \<equiv> om_Namespace (ts_Meta s)"

abbreviation TSConditionTypeReady :: string where "TSConditionTypeReady \<equiv> ''Ready''"
abbreviation TSReasonPollSucceeded :: string where "TSReasonPollSucceeded \<equiv> ''PollSucceeded''"
abbreviation TSReasonPollFailed :: string where "TSReasonPollFailed \<equiv> ''PollFailed''"
abbreviation TSReasonConflict :: string where "TSReasonConflict \<equiv> ''Conflict''"
abbreviation TSReasonInvalidConfig :: string where "TSReasonInvalidConfig \<equiv> ''InvalidConfig''"
abbreviation TSReasonDryRunComplete :: string where "TSReasonDryRunComplete \<equiv> ''DryRunComplete''"

definition TenantSourceFinalizerName :: string where
  "TenantSourceFinalizerName = ''cloudfront-tenant-operator.io/tenantsource-finalizer''"

definition TenantSourceLabelKey :: string where
  "TenantSourceLabelKey = ''cloudfront-tenant-operator.io/source''"

end
