(* ===== verification/SourceSpec.thy ===== *)
theory SourceSpec
  imports SourceTypes
begin

text \<open>
  From an item of an external source to the spec of a DistributionTenant, and back to the
  question whether an existing tenant still has that spec: \<open>buildTenantSpec\<close>,
  \<open>tenantSpecEqual\<close> and \<open>applyManagedFields\<close> of
  \<open>internal/controller/tenantsource_controller.go\<close> with their helpers.

  The lemmas show the precedence of item over template over default for every field, that the
  comparison decides equality of an abstract view of the two specs, and that a tenant that was
  just written compares equal to the spec it was written from, whatever orders \<open>range\<close> took.
\<close>

section \<open>Pointers\<close>

fun firstNonNilStr :: "string option list \<Rightarrow> string option" where
  "firstNonNilStr [] = None"
| "firstNonNilStr (p # ptrs) = (if p \<noteq> None then p else firstNonNilStr ptrs)"

text \<open>The zero value of the type parameter is an argument.\<close>

definition ptrFromTemplate :: "'a \<Rightarrow> TenantTemplate option \<Rightarrow> (TenantTemplate \<Rightarrow> 'a) \<Rightarrow> 'a" where
  "ptrFromTemplate zero tmpl fn = (case tmpl of None \<Rightarrow> zero | Some t \<Rightarrow> fn t)"

definition boolPtrEqual :: "bool option \<Rightarrow> bool option \<Rightarrow> bool" where
  "boolPtrEqual a b = (case (a, b) of
     (None, None) \<Rightarrow> True | (Some x, Some y) \<Rightarrow> x = y | _ \<Rightarrow> False)"

definition strPtrEqual :: "string option \<Rightarrow> string option \<Rightarrow> bool" where
  "strPtrEqual a b = (case (a, b) of
     (None, None) \<Rightarrow> True | (Some x, Some y) \<Rightarrow> x = y | _ \<Rightarrow> False)"

definition int64PtrEqual :: "int64 option \<Rightarrow> int64 option \<Rightarrow> bool" where
  "int64PtrEqual a b = (case (a, b) of
     (None, None) \<Rightarrow> True | (Some x, Some y) \<Rightarrow> x = y | _ \<Rightarrow> False)"

lemma ptr_equal [simp]:
  "boolPtrEqual b b' \<longleftrightarrow> b = b'" "strPtrEqual s s' \<longleftrightarrow> s = s'" "int64PtrEqual i i' \<longleftrightarrow> i = i'"
  by (auto simp: boolPtrEqual_def strPtrEqual_def int64PtrEqual_def split: option.splits)

section \<open>Building a spec\<close>

text \<open>The orders in which the ranges of one poll visit their maps.\<close>

record RangeOrder =
  ro_Parameters :: "TenantItem \<Rightarrow> (string \<times> string) list \<Rightarrow> (string \<times> string) list"
  ro_Tags :: "TenantItem \<Rightarrow> (string \<times> string) list \<Rightarrow> (string \<times> string) list"
  ro_Desired :: "(string \<times> TenantItem) list \<Rightarrow> (string \<times> TenantItem) list"
  ro_Existing :: "(string \<times> DistributionTenant) list \<Rightarrow> (string \<times> DistributionTenant) list"

definition goRange :: "RangeOrder \<Rightarrow> bool" where
  "goRange ro \<longleftrightarrow> (\<forall>item. map_range (ro_Parameters ro item)) \<and> (\<forall>item. map_range (ro_Tags ro item)) \<and>
     map_range (ro_Desired ro) \<and> map_range (ro_Existing ro)"

definition asStored :: RangeOrder where
  "asStored = \<lparr>ro_Parameters = (\<lambda>_ xs. xs), ro_Tags = (\<lambda>_ xs. xs),
     ro_Desired = (\<lambda>xs. xs), ro_Existing = (\<lambda>xs. xs)\<rparr>"

definition allReversed :: RangeOrder where
  "allReversed = \<lparr>ro_Parameters = (\<lambda>_. rev), ro_Tags = (\<lambda>_. rev), ro_Desired = rev, ro_Existing = rev\<rparr>"

lemma goRange_instances: "goRange asStored" "goRange allReversed"
  by (simp_all add: goRange_def asStored_def allReversed_def
      stored_order.map_range_axioms reverse_order.map_range_axioms)

definition emptyCustomizations :: Customizations where
  "emptyCustomizations = \<lparr>cus_WebAcl = None, cus_Certificate = None, cus_GeoRestrictions = None\<rparr>"

text \<open>\<open>if spec.Customizations == nil { spec.Customizations = &Customizations{} }\<close>, then a write.\<close>

definition ensureCustomizations ::
  "(Customizations \<Rightarrow> Customizations) \<Rightarrow> DistributionTenantSpec \<Rightarrow> DistributionTenantSpec" where
  "ensureCustomizations f spec = spec\<lparr>spec_Customizations :=
     Some (f (case spec_Customizations spec of None \<Rightarrow> emptyCustomizations | Some c \<Rightarrow> c))\<rparr>"

text \<open>\<open>if p != nil { x = *p }\<close>\<close>

abbreviation (input) orKeep :: "'a option \<Rightarrow> 'a \<Rightarrow> 'a" where
  "orKeep p x \<equiv> (case p of None \<Rightarrow> x | Some v \<Rightarrow> v)"

text \<open>\<open>if p != nil { x = p }\<close>\<close>

abbreviation (input) orKeepPtr :: "'a option \<Rightarrow> 'a option \<Rightarrow> 'a option" where
  "orKeepPtr p x \<equiv> (if p \<noteq> None then p else x)"

definition buildCertificateFields ::
  "DistributionTenantSpec \<Rightarrow> TenantTemplate option \<Rightarrow> TenantItem \<Rightarrow> DistributionTenantSpec" where
  "buildCertificateFields spec tmpl item =
     (case it_CertificateArn item of
        Some arn \<Rightarrow>
          ensureCustomizations (\<lambda>c. c\<lparr>cus_Certificate := Some \<lparr>cert_Arn = arn\<rparr>\<rparr>) spec
      | None \<Rightarrow>
          (let tmplCert = (case tmpl of None \<Rightarrow> None | Some t \<Rightarrow> tt_ManagedCertificateRequest t) in
           case tmplCert of
             None \<Rightarrow> spec
           | Some tc \<Rightarrow>
               (let mcr = tc;
                    mcr = mcr\<lparr>mcr_ValidationTokenHost :=
                      orKeep (it_ValidationTokenHost item) (mcr_ValidationTokenHost mcr)\<rparr>;
                    mcr = mcr\<lparr>mcr_PrimaryDomainName :=
                      orKeep (it_PrimaryDomainName item) (mcr_PrimaryDomainName mcr)\<rparr>;
                    mcr = mcr\<lparr>mcr_CertificateTransparencyLoggingPreference :=
                      orKeepPtr (it_CertificateTransparencyLoggingPreference item)
                        (mcr_CertificateTransparencyLoggingPreference mcr)\<rparr>;
                    mcr = (if mcr_PrimaryDomainName mcr = [] \<and> 0 < length (it_Domains item)
                      then mcr\<lparr>mcr_PrimaryDomainName := it_Domains item ! 0\<rparr> else mcr)
                in spec\<lparr>spec_ManagedCertificateRequest := Some mcr\<rparr>)))"

definition buildDNSFields ::
  "DistributionTenantSpec \<Rightarrow> TenantTemplate option \<Rightarrow> TenantItem \<Rightarrow> DistributionTenantSpec" where
  "buildDNSFields spec tmpl item =
     (let base = (case tmpl of None \<Rightarrow> None | Some t \<Rightarrow> tt_DNS t);
          hasOverride = (it_DNSProvider item \<noteq> None \<or> it_HostedZoneId item \<noteq> None \<or>
            it_DNSTTL item \<noteq> None \<or> it_DNSAssumeRoleArn item \<noteq> None) in
      if base = None \<and> \<not> hasOverride then spec
      else let b = (case base of
                 None \<Rightarrow> \<lparr>dns_Provider = [], dns_HostedZoneId = None, dns_TTL = None,
                          dns_AssumeRoleArn = None\<rparr>
               | Some b \<Rightarrow> b);
             b = b\<lparr>dns_Provider := orKeep (it_DNSProvider item) (dns_Provider b)\<rparr>;
             b = b\<lparr>dns_HostedZoneId := orKeepPtr (it_HostedZoneId item) (dns_HostedZoneId b)\<rparr>;
             b = b\<lparr>dns_TTL := orKeepPtr (it_DNSTTL item) (dns_TTL b)\<rparr>;
             b = b\<lparr>dns_AssumeRoleArn := orKeepPtr (it_DNSAssumeRoleArn item) (dns_AssumeRoleArn b)\<rparr>
           in spec\<lparr>spec_DNS := Some b\<rparr>)"

definition emptyWebAcl :: WebAclCustomization where
  "emptyWebAcl = \<lparr>wac_Action = [], wac_Arn = None\<rparr>"

definition emptyGeo :: GeoRestrictionCustomization where
  "emptyGeo = \<lparr>geo_RestrictionType = [], geo_Locations = []\<rparr>"

definition buildCustomizationFields ::
  "DistributionTenantSpec \<Rightarrow> TenantTemplate option \<Rightarrow> TenantItem \<Rightarrow> DistributionTenantSpec" where
  "buildCustomizationFields spec tmpl item =
     (let tmplCustom = (case tmpl of None \<Rightarrow> None | Some t \<Rightarrow> tt_Customizations t);
          webAcl = (case tmplCustom of None \<Rightarrow> None | Some c \<Rightarrow> cus_WebAcl c);
          webAcl = (case it_WebAclAction item of None \<Rightarrow> webAcl
            | Some act \<Rightarrow> Some ((case webAcl of None \<Rightarrow> emptyWebAcl | Some w \<Rightarrow> w)\<lparr>wac_Action := act\<rparr>));
          webAcl = (if it_WebAclArn item \<noteq> None
            then Some ((case webAcl of None \<Rightarrow> emptyWebAcl | Some w \<Rightarrow> w)\<lparr>wac_Arn := it_WebAclArn item\<rparr>)
            else webAcl);
          hasGeo = (it_GeoRestrictionType item \<noteq> None \<or> it_GeoLocations item \<noteq> None);
          geo = (case tmplCustom of None \<Rightarrow> None | Some c \<Rightarrow> cus_GeoRestrictions c);
          geo = (if hasGeo
            then (let g = (case geo of None \<Rightarrow> emptyGeo | Some g \<Rightarrow> g);
                      g = g\<lparr>geo_RestrictionType :=
                        orKeep (it_GeoRestrictionType item) (geo_RestrictionType g)\<rparr>;
                      g = g\<lparr>geo_Locations := orKeep (it_GeoLocations item) (geo_Locations g)\<rparr>
                  in Some g)
            else geo) in
      if webAcl \<noteq> None \<or> geo \<noteq> None
      then ensureCustomizations (\<lambda>c. c\<lparr>cus_WebAcl := webAcl, cus_GeoRestrictions := geo\<rparr>) spec
      else spec)"

definition buildParameterFields ::
  "RangeOrder \<Rightarrow> DistributionTenantSpec \<Rightarrow> TenantTemplate option \<Rightarrow> TenantItem \<Rightarrow>
   DistributionTenantSpec" where
  "buildParameterFields ro spec tmpl item =
     (case it_Parameters item of
        Some ps \<Rightarrow> spec\<lparr>spec_Parameters := spec_Parameters spec @
          map (\<lambda>(k, v). \<lparr>param_Name = k, param_Value = v\<rparr>) (ro_Parameters ro item ps)\<rparr>
      | None \<Rightarrow>
          (case tmpl of
             None \<Rightarrow> spec
           | Some t \<Rightarrow> if 0 < length (tt_Parameters t)
                       then spec\<lparr>spec_Parameters := tt_Parameters t\<rparr> else spec))"

definition buildTagFields ::
  "RangeOrder \<Rightarrow> DistributionTenantSpec \<Rightarrow> TenantTemplate option \<Rightarrow> TenantItem \<Rightarrow>
   DistributionTenantSpec" where
  "buildTagFields ro spec tmpl item =
     (case it_Tags item of
        Some ts \<Rightarrow> spec\<lparr>spec_Tags := spec_Tags spec @
          map (\<lambda>(k, v). \<lparr>tag_Key = k, tag_Value = Some v\<rparr>) (ro_Tags ro item ts)\<rparr>
      | None \<Rightarrow>
          (case tmpl of
             None \<Rightarrow> spec
           | Some t \<Rightarrow> if 0 < length (tt_Tags t)
                       then spec\<lparr>spec_Tags := tt_Tags t\<rparr> else spec))"

definition buildTenantSpec ::
  "RangeOrder \<Rightarrow> TenantSource \<Rightarrow> TenantItem \<Rightarrow> DistributionTenantSpec" where
  "buildTenantSpec ro source item =
     (let tmpl = tss_Template (ts_Spec source);
          spec = \<lparr>spec_DistributionId = tss_DistributionId (ts_Spec source),
            spec_Domains = map (\<lambda>d. \<lparr>dom_Domain = d\<rparr>) (it_Domains item),
            spec_Enabled =
              (if it_Enabled item \<noteq> None then it_Enabled item
               else case tmpl of
                 None \<Rightarrow> Some True
               | Some t \<Rightarrow> (if tt_Enabled t \<noteq> None then tt_Enabled t else Some True)),
            spec_ConnectionGroupId = firstNonNilStr
              [it_ConnectionGroupId item, ptrFromTemplate None tmpl tt_ConnectionGroupId],
            spec_Parameters = [], spec_Customizations = None,
            spec_ManagedCertificateRequest = None, spec_Tags = [], spec_DNS = None\<rparr>;
          spec = buildCertificateFields spec tmpl item;
          spec = buildDNSFields spec tmpl item;
          spec = buildCustomizationFields spec tmpl item;
          spec = buildParameterFields ro spec tmpl item;
          spec = buildTagFields ro spec tmpl item
      in spec)"

section \<open>Comparing specs\<close>

definition stringSliceEqual :: "string list \<Rightarrow> string list \<Rightarrow> bool" where
  "stringSliceEqual a b =
     (if length a \<noteq> length b then False
      else let set = mapFromList (map (\<lambda>s. (s, ())) a) Map.empty
           in list_all (\<lambda>s. set s \<noteq> None) b)"

definition domainsEqual :: "DomainSpec list \<Rightarrow> DomainSpec list \<Rightarrow> bool" where
  "domainsEqual a b = stringSliceEqual (map dom_Domain a) (map dom_Domain b)"

definition certificateFieldsEqual :: "DistributionTenantSpec \<Rightarrow> DistributionTenantSpec \<Rightarrow> bool" where
  "certificateFieldsEqual a b =
     (let arnOf = (\<lambda>s. case spec_Customizations s of
            None \<Rightarrow> []
          | Some c \<Rightarrow> (case cus_Certificate c of None \<Rightarrow> [] | Some x \<Rightarrow> cert_Arn x));
          aCert = arnOf a;
          bCert = arnOf b;
          autoAttached = (spec_ManagedCertificateRequest b \<noteq> None \<and> bCert = [] \<and>
            spec_ManagedCertificateRequest a \<noteq> None)
      in autoAttached \<or> aCert = bCert)"

definition managedCertRequestEqual ::
  "ManagedCertificateRequest option \<Rightarrow> ManagedCertificateRequest option \<Rightarrow> bool" where
  "managedCertRequestEqual a b =
     (case (a, b) of
        (None, None) \<Rightarrow> True
      | (Some a, Some b) \<Rightarrow>
          if mcr_ValidationTokenHost a \<noteq> mcr_ValidationTokenHost b then False
          else if mcr_PrimaryDomainName a \<noteq> mcr_PrimaryDomainName b then False
          else strPtrEqual (mcr_CertificateTransparencyLoggingPreference a)
            (mcr_CertificateTransparencyLoggingPreference b)
      | _ \<Rightarrow> False)"

definition dnsConfigEqual :: "DNSConfig option \<Rightarrow> DNSConfig option \<Rightarrow> bool" where
  "dnsConfigEqual a b =
     (case (a, b) of
        (None, None) \<Rightarrow> True
      | (Some a, Some b) \<Rightarrow>
          if dns_Provider a \<noteq> dns_Provider b then False
          else if \<not> strPtrEqual (dns_HostedZoneId a) (dns_HostedZoneId b) then False
          else if \<not> int64PtrEqual (dns_TTL a) (dns_TTL b) then False
          else strPtrEqual (dns_AssumeRoleArn a) (dns_AssumeRoleArn b)
      | _ \<Rightarrow> False)"

definition webAclEqual :: "Customizations option \<Rightarrow> Customizations option \<Rightarrow> bool" where
  "webAclEqual a b =
     (let aWac = (case a of None \<Rightarrow> None | Some c \<Rightarrow> cus_WebAcl c);
          bWac = (case b of None \<Rightarrow> None | Some c \<Rightarrow> cus_WebAcl c) in
      case (aWac, bWac) of
        (None, None) \<Rightarrow> True
      | (Some x, Some y) \<Rightarrow>
          if wac_Action x \<noteq> wac_Action y then False else strPtrEqual (wac_Arn x) (wac_Arn y)
      | _ \<Rightarrow> False)"

definition geoRestrictionsEqual :: "Customizations option \<Rightarrow> Customizations option \<Rightarrow> bool" where
  "geoRestrictionsEqual a b =
     (let aGeo = (case a of None \<Rightarrow> None | Some c \<Rightarrow> cus_GeoRestrictions c);
          bGeo = (case b of None \<Rightarrow> None | Some c \<Rightarrow> cus_GeoRestrictions c) in
      case (aGeo, bGeo) of
        (None, None) \<Rightarrow> True
      | (Some x, Some y) \<Rightarrow>
          if geo_RestrictionType x \<noteq> geo_RestrictionType y then False
          else stringSliceEqual (geo_Locations x) (geo_Locations y)
      | _ \<Rightarrow> False)"

definition parametersEqual :: "Parameter list \<Rightarrow> Parameter list \<Rightarrow> bool" where
  "parametersEqual a b =
     (if length a \<noteq> length b then False
      else let am = mapFromList (map (\<lambda>p. (param_Name p, param_Value p)) a) Map.empty
           in list_all (\<lambda>p. mapGet [] am (param_Name p) = param_Value p) b)"

definition tagsEqual :: "Tag list \<Rightarrow> Tag list \<Rightarrow> bool" where
  "tagsEqual a b =
     (if length a \<noteq> length b then False
      else let am = mapFromList (map (\<lambda>t. (tag_Key t, tag_Value t)) a) Map.empty
           in list_all (\<lambda>t. strPtrEqual (mapGet None am (tag_Key t)) (tag_Value t)) b)"

definition tenantSpecEqual :: "DistributionTenantSpec \<Rightarrow> DistributionTenantSpec \<Rightarrow> bool" where
  "tenantSpecEqual a b =
     (if spec_DistributionId a \<noteq> spec_DistributionId b then False
      else if \<not> domainsEqual (spec_Domains a) (spec_Domains b) then False
      else if \<not> boolPtrEqual (spec_Enabled a) (spec_Enabled b) then False
      else if \<not> strPtrEqual (spec_ConnectionGroupId a) (spec_ConnectionGroupId b) then False
      else if \<not> certificateFieldsEqual a b then False
      else if \<not> managedCertRequestEqual (spec_ManagedCertificateRequest a)
                (spec_ManagedCertificateRequest b) then False
      else if \<not> dnsConfigEqual (spec_DNS a) (spec_DNS b) then False
      else if \<not> webAclEqual (spec_Customizations a) (spec_Customizations b) then False
      else if \<not> geoRestrictionsEqual (spec_Customizations a) (spec_Customizations b) then False
      else if \<not> parametersEqual (spec_Parameters a) (spec_Parameters b) then False
      else if \<not> tagsEqual (spec_Tags a) (spec_Tags b) then False
      else True)"

definition applyManagedFields ::
  "DistributionTenantSpec \<Rightarrow> DistributionTenantSpec \<Rightarrow> DistributionTenantSpec" where
  "applyManagedFields dst src =
     (let autoAttachedCert =
        (if spec_ManagedCertificateRequest src \<noteq> None \<and>
            (case spec_Customizations src of None \<Rightarrow> True | Some c \<Rightarrow> cus_Certificate c = None)
         then (case spec_Customizations dst of None \<Rightarrow> None | Some c \<Rightarrow> cus_Certificate c)
         else None);
          dst = src in
      if autoAttachedCert \<noteq> None
      then ensureCustomizations (\<lambda>c. c\<lparr>cus_Certificate := autoAttachedCert\<rparr>) dst
      else dst)"

section \<open>What the comparison decides\<close>

lemma stringSliceEqual_iff: "stringSliceEqual a b \<longleftrightarrow> length a = length b \<and> set b \<subseteq> set a"
proof -
  have "mapFromList (map (\<lambda>s. (s, ())) a) Map.empty s \<noteq> None \<longleftrightarrow> s \<in> set a" for s
    using dom_mapFromList [of "map (\<lambda>s. (s, ())) a"] by (auto simp: image_image)
  then show ?thesis by (auto simp: stringSliceEqual_def list_all_iff)
qed

lemma whole_pointer_equal [simp]:
  "managedCertRequestEqual m m' \<longleftrightarrow> m = m'" "dnsConfigEqual d d' \<longleftrightarrow> d = d'"
  by (auto simp: managedCertRequestEqual_def dnsConfigEqual_def split: option.split)

definition webAclOf :: "Customizations option \<Rightarrow> WebAclCustomization option" where
  "webAclOf c = (case c of None \<Rightarrow> None | Some c \<Rightarrow> cus_WebAcl c)"
definition geoOf :: "Customizations option \<Rightarrow> GeoRestrictionCustomization option" where
  "geoOf c = (case c of None \<Rightarrow> None | Some c \<Rightarrow> cus_GeoRestrictions c)"
definition certArnOf :: "DistributionTenantSpec \<Rightarrow> string" where
  "certArnOf s = (case spec_Customizations s of None \<Rightarrow> []
     | Some c \<Rightarrow> (case cus_Certificate c of None \<Rightarrow> [] | Some x \<Rightarrow> cert_Arn x))"

lemma webAclEqual_iff: "webAclEqual c c' \<longleftrightarrow> webAclOf c = webAclOf c'"
  by (auto simp: webAclEqual_def webAclOf_def split: option.split)

lemma geoRestrictionsEqual_iff:
  "geoRestrictionsEqual c c' \<longleftrightarrow>
     rel_option (\<lambda>g g'. geo_RestrictionType g = geo_RestrictionType g' \<and>
       stringSliceEqual (geo_Locations g) (geo_Locations g')) (geoOf c) (geoOf c')"
  by (auto simp: geoRestrictionsEqual_def geoOf_def split: option.split)

lemma certificateFieldsEqual_iff:
  "certificateFieldsEqual a b \<longleftrightarrow>
     (spec_ManagedCertificateRequest b \<noteq> None \<and> certArnOf b = [] \<and>
      spec_ManagedCertificateRequest a \<noteq> None) \<or> certArnOf a = certArnOf b"
  by (simp add: certificateFieldsEqual_def certArnOf_def Let_def)

lemmas spec_equal_iffs = tenantSpecEqual_def domainsEqual_def webAclEqual_iff
  geoRestrictionsEqual_iff certificateFieldsEqual_iff

text \<open>Looking a list up in the map built from another one.\<close>

lemma lookup_subset:
  assumes d: "distinct (map f xs)" and y: "y \<in> set xs"
  shows "mapGet z (mapFromList (map (\<lambda>x. (f x, g x)) xs) Map.empty) (f y) = g y"
proof -
  have "distinct (map fst (map (\<lambda>x. (f x, g x)) xs))" using d by (simp add: o_def)
  moreover from this have "map_of (map (\<lambda>x. (f x, g x)) xs) (f y) = Some (g y)"
    using y by (auto intro!: map_of_is_SomeI)
  ultimately show ?thesis by (simp add: mapFromList_distinct mapGet_def)
qed

lemma lookup_iff:
  assumes d: "distinct (map f xs)" and inj: "\<And>x y. f x = f y \<Longrightarrow> g x = g y \<Longrightarrow> x = y" and nz: "g y \<noteq> z"
  shows "mapGet z (mapFromList (map (\<lambda>x. (f x, g x)) xs) Map.empty) (f y) = g y \<longleftrightarrow> y \<in> set xs"
proof
  have d': "distinct (map fst (map (\<lambda>x. (f x, g x)) xs))" using d by (simp add: o_def)
  assume "mapGet z (mapFromList (map (\<lambda>x. (f x, g x)) xs) Map.empty) (f y) = g y"
  then have "map_of (map (\<lambda>x. (f x, g x)) xs) (f y) = Some (g y)"
    using nz by (auto simp: mapFromList_distinct [OF d'] mapGet_def split: option.splits)
  then obtain x where "x \<in> set xs" "f y = f x" "g y = g x" by (auto dest!: map_of_SomeD)
  then show "y \<in> set xs" using inj [of y x] by simp
qed (rule lookup_subset [OF d])

text \<open>Comparing two lists of key-value pairs through such a map.\<close>

lemma keyed_perm:
  assumes "distinct (map f xs)" "mset xs = mset ys"
  shows "length xs = length ys \<and>
    list_all (\<lambda>y. mapGet z (mapFromList (map (\<lambda>x. (f x, g x)) xs) Map.empty) (f y) = g y) ys"
  using assms mset_eq_length [OF assms(2)] mset_eq_setD [OF assms(2)]
  by (simp add: list_all_iff lookup_subset)

lemma keyed_compare:
  assumes "distinct (map f xs)" "distinct (map f ys)"
    and inj: "\<And>x y. f x = f y \<Longrightarrow> g x = g y \<Longrightarrow> x = y" and nz: "\<forall>y \<in> set ys. g y \<noteq> z"
  shows "length xs = length ys \<and>
      list_all (\<lambda>y. mapGet z (mapFromList (map (\<lambda>x. (f x, g x)) xs) Map.empty) (f y) = g y) ys
    \<longleftrightarrow> set xs = set ys"
proof -
  have "list_all (\<lambda>y. mapGet z (mapFromList (map (\<lambda>x. (f x, g x)) xs) Map.empty) (f y) = g y) ys
      \<longleftrightarrow> set ys \<subseteq> set xs"
  proof -
    have "mapGet z (mapFromList (map (\<lambda>x. (f x, g x)) xs) Map.empty) (f y) = g y \<longleftrightarrow> y \<in> set xs"
      if "y \<in> set ys" for y
      using nz that by (intro lookup_iff [OF assms(1) inj]) auto
    then show ?thesis by (auto simp: list_all_iff)
  qed
  moreover have "length xs = length ys \<and> set ys \<subseteq> set xs \<longleftrightarrow> set xs = set ys"
    using assms(1,2) by (metis card_subset_eq distinct_card distinct_map finite_set order_refl)
  ultimately show ?thesis by blast
qed

lemma parametersEqual_perm:
  "distinct (map param_Name a) \<Longrightarrow> mset a = mset b \<Longrightarrow> parametersEqual a b"
  using keyed_perm [of param_Name a b "[]" param_Value] by (simp add: parametersEqual_def)

lemma tagsEqual_perm: "distinct (map tag_Key a) \<Longrightarrow> mset a = mset b \<Longrightarrow> tagsEqual a b"
  using keyed_perm [of tag_Key a b None tag_Value] by (simp add: tagsEqual_def)

lemma parametersEqual_iff:
  assumes "distinct (map param_Name a)" "distinct (map param_Name b)"
    "\<forall>p \<in> set b. param_Value p \<noteq> []"
  shows "parametersEqual a b \<longleftrightarrow> set a = set b"
  using keyed_compare [of param_Name a b param_Value "[]", OF assms(1,2) _ assms(3)]
  by (cases "length a = length b") (simp_all add: parametersEqual_def)

lemma tagsEqual_iff:
  assumes "distinct (map tag_Key a)" "distinct (map tag_Key b)" "\<forall>t \<in> set b. tag_Value t \<noteq> None"
  shows "tagsEqual a b \<longleftrightarrow> set a = set b"
  using keyed_compare [of tag_Key a b tag_Value None, OF assms(1,2) _ assms(3)]
  by (cases "length a = length b") (simp_all add: tagsEqual_def)

lemma stringSliceEqual_distinct:
  assumes "distinct a" "distinct b"
  shows "stringSliceEqual a b \<longleftrightarrow> set a = set b"
  using assms by (metis card_subset_eq distinct_card finite_set order_refl stringSliceEqual_iff)

text \<open>
  The abstract view of a spec: what a TenantSource manages, without the order of lists.
\<close>

record managedView =
  mv_distribution :: string
  mv_domains :: "string set"
  mv_enabled :: "bool option"
  mv_group :: "string option"
  mv_certArn :: string
  mv_managedCert :: "ManagedCertificateRequest option"
  mv_dns :: "DNSConfig option"
  mv_webAcl :: "WebAclCustomization option"
  mv_geo :: "(string \<times> string set) option"
  mv_parameters :: "Parameter set"
  mv_tags :: "Tag set"

definition viewOf :: "DistributionTenantSpec \<Rightarrow> managedView" where
  "viewOf s =
     \<lparr>mv_distribution = spec_DistributionId s,
      mv_domains = dom_Domain ` set (spec_Domains s),
      mv_enabled = spec_Enabled s,
      mv_group = spec_ConnectionGroupId s,
      mv_certArn = certArnOf s,
      mv_managedCert = spec_ManagedCertificateRequest s,
      mv_dns = spec_DNS s,
      mv_webAcl = webAclOf (spec_Customizations s),
      mv_geo = map_option (\<lambda>g. (geo_RestrictionType g, set (geo_Locations g)))
        (geoOf (spec_Customizations s)),
      mv_parameters = set (spec_Parameters s),
      mv_tags = set (spec_Tags s)\<rparr>"

text \<open>Nothing is listed twice; and nothing has the value a missing key reads as.\<close>

definition noDuplicates :: "DistributionTenantSpec \<Rightarrow> bool" where
  "noDuplicates s \<longleftrightarrow>
     distinct (map dom_Domain (spec_Domains s)) \<and> distinct (map param_Name (spec_Parameters s)) \<and>
     distinct (map tag_Key (spec_Tags s)) \<and>
     (case geoOf (spec_Customizations s) of None \<Rightarrow> True | Some g \<Rightarrow> distinct (geo_Locations g))"

definition valued :: "DistributionTenantSpec \<Rightarrow> bool" where
  "valued s \<longleftrightarrow> list_all (\<lambda>p. param_Value p \<noteq> []) (spec_Parameters s) \<and>
     list_all (\<lambda>t. tag_Value t \<noteq> None) (spec_Tags s)"

lemma geo_compare:
  assumes "case geoOf c of None \<Rightarrow> True | Some g \<Rightarrow> distinct (geo_Locations g)"
    and "case geoOf c' of None \<Rightarrow> True | Some g \<Rightarrow> distinct (geo_Locations g)"
  shows "geoRestrictionsEqual c c' \<longleftrightarrow>
    map_option (\<lambda>g. (geo_RestrictionType g, set (geo_Locations g))) (geoOf c) =
    map_option (\<lambda>g. (geo_RestrictionType g, set (geo_Locations g))) (geoOf c')"
  using assms
  by (cases "geoOf c"; cases "geoOf c'")
    (simp_all add: geoRestrictionsEqual_iff stringSliceEqual_distinct)

lemma lists_compare:
  assumes "noDuplicates a" "noDuplicates b" "valued b"
  shows "domainsEqual (spec_Domains a) (spec_Domains b) \<longleftrightarrow>
      dom_Domain ` set (spec_Domains a) = dom_Domain ` set (spec_Domains b)"
    and "parametersEqual (spec_Parameters a) (spec_Parameters b) \<longleftrightarrow>
      set (spec_Parameters a) = set (spec_Parameters b)"
    and "tagsEqual (spec_Tags a) (spec_Tags b) \<longleftrightarrow> set (spec_Tags a) = set (spec_Tags b)"
    and "geoRestrictionsEqual (spec_Customizations a) (spec_Customizations b) \<longleftrightarrow>
      mv_geo (viewOf a) = mv_geo (viewOf b)"
proof -
  show "domainsEqual (spec_Domains a) (spec_Domains b) \<longleftrightarrow>
      dom_Domain ` set (spec_Domains a) = dom_Domain ` set (spec_Domains b)"
    using assms by (simp add: domainsEqual_def noDuplicates_def stringSliceEqual_distinct)
  show "parametersEqual (spec_Parameters a) (spec_Parameters b) \<longleftrightarrow>
      set (spec_Parameters a) = set (spec_Parameters b)"
    using assms by (intro parametersEqual_iff) (auto simp: noDuplicates_def valued_def list_all_iff)
  show "tagsEqual (spec_Tags a) (spec_Tags b) \<longleftrightarrow> set (spec_Tags a) = set (spec_Tags b)"
    using assms by (intro tagsEqual_iff) (auto simp: noDuplicates_def valued_def list_all_iff)
  show "geoRestrictionsEqual (spec_Customizations a) (spec_Customizations b) \<longleftrightarrow>
      mv_geo (viewOf a) = mv_geo (viewOf b)"
    using assms by (simp add: viewOf_def noDuplicates_def geo_compare)
qed

lemma tenantSpecEqual_conj:
  "tenantSpecEqual a b \<longleftrightarrow>
     spec_DistributionId a = spec_DistributionId b \<and> domainsEqual (spec_Domains a) (spec_Domains b) \<and>
     spec_Enabled a = spec_Enabled b \<and> spec_ConnectionGroupId a = spec_ConnectionGroupId b \<and>
     certificateFieldsEqual a b \<and>
     spec_ManagedCertificateRequest a = spec_ManagedCertificateRequest b \<and>
     spec_DNS a = spec_DNS b \<and>
     webAclEqual (spec_Customizations a) (spec_Customizations b) \<and>
     geoRestrictionsEqual (spec_Customizations a) (spec_Customizations b) \<and>
     parametersEqual (spec_Parameters a) (spec_Parameters b) \<and>
     tagsEqual (spec_Tags a) (spec_Tags b)"
  by (simp only: tenantSpecEqual_def early_return ptr_equal whole_pointer_equal
      not_not simp_thms)

text \<open>A value that is missing looks like a key that is missing: a parameter with an empty value, and
  a tag without a value, are found in any list of the same length.\<close>

lemma missing_value_is_overlooked:
  assumes "tag_Key x \<noteq> tag_Key y" "tag_Value y = None" "param_Name p \<noteq> param_Name q" "param_Value q = []"
  shows "tagsEqual [x] [y]" "parametersEqual [p] [q]"
  using assms by (simp_all add: tagsEqual_def parametersEqual_def strPtrEqual_def mapGet_def)

text \<open>C40: For specs without duplicates (of domains, locations, parameter names and tag keys), and with
  a desired spec \<open>b\<close> of which every parameter and every tag has a value, the comparison that decides
  whether an existing tenant is rewritten is equality of views: \<open>tenantSpecEqual\<close> answers true exactly
  when the two specs agree on every field up to the order of domains, locations, parameters and
  tags, except that a certificate ARN that was attached to the existing tenant is not counted while
  the desired spec asks for a managed certificate and names no ARN of its own. (Without a value the
  comparison is wrong, see \<open>missing_value_is_overlooked\<close>.)\<close>

theorem tenant_spec_equal_views:
  assumes "noDuplicates a" "noDuplicates b" "valued b"
  shows "tenantSpecEqual a b \<longleftrightarrow>
    viewOf a = (if spec_ManagedCertificateRequest b \<noteq> None \<and> certArnOf b = []
                then (viewOf b)\<lparr>mv_certArn := certArnOf a\<rparr> else viewOf b)"
proof (cases "spec_ManagedCertificateRequest b \<noteq> None \<and> certArnOf b = []")
  case True
  then show ?thesis
    by (simp only: tenantSpecEqual_conj lists_compare [OF assms]
        webAclEqual_iff certificateFieldsEqual_iff if_True)
      (auto simp: viewOf_def)
next
  case False
  then show ?thesis
    by (simp only: tenantSpecEqual_conj lists_compare [OF assms]
        webAclEqual_iff certificateFieldsEqual_iff if_False)
      (auto simp: viewOf_def)
qed

theorem tenant_spec_equal_views_witness:
  "\<exists>a b. a \<noteq> b \<and> tenantSpecEqual a b \<and>
    viewOf a = (if spec_ManagedCertificateRequest b \<noteq> None \<and> certArnOf b = []
                then (viewOf b)\<lparr>mv_certArn := certArnOf a\<rparr> else viewOf b)"
proof -
  let ?s = "\<lambda>ds. \<lparr>spec_DistributionId = ''E1'', spec_Domains = map DomainSpec.make ds,
    spec_Enabled = Some True, spec_ConnectionGroupId = None, spec_Parameters = [],
    spec_Customizations = None, spec_ManagedCertificateRequest = None, spec_Tags = [],
    spec_DNS = None\<rparr>"
  have "tenantSpecEqual (?s [''a'', ''b'']) (?s [''b'', ''a''])"
    by (simp add: spec_equal_iffs certArnOf_def stringSliceEqual_iff parametersEqual_def
        tagsEqual_def DomainSpec.make_def webAclOf_def geoOf_def)
  moreover have "noDuplicates (?s [''a'', ''b''])" "noDuplicates (?s [''b'', ''a''])"
    "valued (?s [''b'', ''a''])"
    by (simp_all add: noDuplicates_def valued_def geoOf_def DomainSpec.make_def)
  ultimately show ?thesis
    using tenant_spec_equal_views [of "?s [''a'', ''b'']" "?s [''b'', ''a'']"]
    by (intro exI [of _ "?s [''a'', ''b'']"] exI [of _ "?s [''b'', ''a'']"])
      (simp add: DomainSpec.make_def)
qed

section \<open>Precedence\<close>

text \<open>The reference for \<open>buildTenantSpec\<close>: every field is the first one that is set in a list
  of candidates, the item's before the template's before the default.\<close>

fun firstOf :: "'a option list \<Rightarrow> 'a option" where
  "firstOf [] = None"
| "firstOf (None # xs) = firstOf xs"
| "firstOf (Some x # xs) = Some x"

lemma firstOf_one [simp]: "firstOf [p] = p"
  by (cases p) simp_all

definition pickMCR ::
  "TenantItem \<Rightarrow> ManagedCertificateRequest \<Rightarrow> ManagedCertificateRequest" where
  "pickMCR item m =
     (let domain = the (firstOf [it_PrimaryDomainName item, Some (mcr_PrimaryDomainName m)]) in
      \<lparr>mcr_ValidationTokenHost =
         the (firstOf [it_ValidationTokenHost item, Some (mcr_ValidationTokenHost m)]),
       mcr_PrimaryDomainName =
         (if domain = [] \<and> it_Domains item \<noteq> [] then hd (it_Domains item) else domain),
       mcr_CertificateTransparencyLoggingPreference =
         firstOf [it_CertificateTransparencyLoggingPreference item,
           mcr_CertificateTransparencyLoggingPreference m]\<rparr>)"

definition pickDNS :: "TenantItem \<Rightarrow> DNSConfig option \<Rightarrow> DNSConfig option" where
  "pickDNS item d =
     (if d = None \<and> it_DNSProvider item = None \<and> it_HostedZoneId item = None \<and>
         it_DNSTTL item = None \<and> it_DNSAssumeRoleArn item = None then None
      else Some \<lparr>dns_Provider = the (firstOf [it_DNSProvider item, map_option dns_Provider d, Some []]),
        dns_HostedZoneId = firstOf [it_HostedZoneId item, Option.bind d dns_HostedZoneId],
        dns_TTL = firstOf [it_DNSTTL item, Option.bind d dns_TTL],
        dns_AssumeRoleArn = firstOf [it_DNSAssumeRoleArn item, Option.bind d dns_AssumeRoleArn]\<rparr>)"

definition pickWebAcl :: "TenantItem \<Rightarrow> WebAclCustomization option \<Rightarrow> WebAclCustomization option" where
  "pickWebAcl item w =
     (if w = None \<and> it_WebAclAction item = None \<and> it_WebAclArn item = None then None
      else Some \<lparr>wac_Action = the (firstOf [it_WebAclAction item, map_option wac_Action w, Some []]),
        wac_Arn = firstOf [it_WebAclArn item, Option.bind w wac_Arn]\<rparr>)"

definition pickGeo ::
  "TenantItem \<Rightarrow> GeoRestrictionCustomization option \<Rightarrow> GeoRestrictionCustomization option" where
  "pickGeo item g =
     (if g = None \<and> it_GeoRestrictionType item = None \<and> it_GeoLocations item = None then None
      else Some \<lparr>geo_RestrictionType =
          the (firstOf [it_GeoRestrictionType item, map_option geo_RestrictionType g, Some []]),
        geo_Locations = the (firstOf [it_GeoLocations item, map_option geo_Locations g, Some []])\<rparr>)"

definition precedenceSpec :: "RangeOrder \<Rightarrow> TenantSource \<Rightarrow> TenantItem \<Rightarrow> DistributionTenantSpec" where
  "precedenceSpec ro source item =
     (let tmpl = tss_Template (ts_Spec source);
          custom = Option.bind tmpl tt_Customizations;
          cert = map_option (\<lambda>arn. \<lparr>cert_Arn = arn\<rparr>) (it_CertificateArn item);
          acl = pickWebAcl item (Option.bind custom cus_WebAcl);
          geo = pickGeo item (Option.bind custom cus_GeoRestrictions) in
      \<lparr>spec_DistributionId = tss_DistributionId (ts_Spec source),
       spec_Domains = map (\<lambda>d. \<lparr>dom_Domain = d\<rparr>) (it_Domains item),
       spec_Enabled = firstOf [it_Enabled item, Option.bind tmpl tt_Enabled, Some True],
       spec_ConnectionGroupId =
         firstOf [it_ConnectionGroupId item, Option.bind tmpl tt_ConnectionGroupId],
       spec_Parameters =
         the (firstOf [map_option
             (\<lambda>ps. map (\<lambda>(k, v). \<lparr>param_Name = k, param_Value = v\<rparr>) (ro_Parameters ro item ps))
             (it_Parameters item),
           map_option tt_Parameters tmpl, Some []]),
       spec_Customizations =
         (if cert = None \<and> acl = None \<and> geo = None then None
          else Some \<lparr>cus_WebAcl = acl, cus_Certificate = cert, cus_GeoRestrictions = geo\<rparr>),
       spec_ManagedCertificateRequest =
         (if it_CertificateArn item \<noteq> None then None
          else map_option (pickMCR item) (Option.bind tmpl tt_ManagedCertificateRequest)),
       spec_Tags =
         the (firstOf [map_option
             (\<lambda>ts. map (\<lambda>(k, v). \<lparr>tag_Key = k, tag_Value = Some v\<rparr>) (ro_Tags ro item ts))
             (it_Tags item),
           map_option tt_Tags tmpl, Some []]),
       spec_DNS = pickDNS item (Option.bind tmpl tt_DNS)\<rparr>)"

text \<open>Each builder writes its own fields only.\<close>

lemma mcr_fields:
  "(let mcr = m;
        mcr = mcr\<lparr>mcr_ValidationTokenHost :=
          orKeep (it_ValidationTokenHost item) (mcr_ValidationTokenHost mcr)\<rparr>;
        mcr = mcr\<lparr>mcr_PrimaryDomainName :=
          orKeep (it_PrimaryDomainName item) (mcr_PrimaryDomainName mcr)\<rparr>;
        mcr = mcr\<lparr>mcr_CertificateTransparencyLoggingPreference :=
          orKeepPtr (it_CertificateTransparencyLoggingPreference item)
            (mcr_CertificateTransparencyLoggingPreference mcr)\<rparr>
    in if mcr_PrimaryDomainName mcr = [] \<and> 0 < length (it_Domains item)
       then mcr\<lparr>mcr_PrimaryDomainName := it_Domains item ! 0\<rparr> else mcr) = pickMCR item m"
  by (cases m; cases "it_ValidationTokenHost item"; cases "it_PrimaryDomainName item";
      cases "it_CertificateTransparencyLoggingPreference item"; cases "it_Domains item")
    (simp_all add: pickMCR_def)

lemma certificate_fields:
  assumes "spec_Customizations s = None" "spec_ManagedCertificateRequest s = None"
  shows "buildCertificateFields s tmpl item =
     s\<lparr>spec_Customizations := map_option (\<lambda>arn. \<lparr>cus_WebAcl = None,
         cus_Certificate = Some \<lparr>cert_Arn = arn\<rparr>, cus_GeoRestrictions = None\<rparr>) (it_CertificateArn item),
       spec_ManagedCertificateRequest := (if it_CertificateArn item \<noteq> None then None
         else map_option (pickMCR item) (Option.bind tmpl tt_ManagedCertificateRequest))\<rparr>"
proof (cases "it_CertificateArn item")
  case None
  show ?thesis
    unfolding buildCertificateFields_def None mcr_fields [symmetric] Let_def option.case
    using assms by (cases tmpl; cases "Option.bind tmpl tt_ManagedCertificateRequest"; cases s) simp_all
next
  case (Some arn)
  then show ?thesis
    using assms by (cases s)
      (simp add: buildCertificateFields_def ensureCustomizations_def emptyCustomizations_def)
qed

lemma dns_fields:
  "spec_DNS s = None \<Longrightarrow>
   buildDNSFields s tmpl item = s\<lparr>spec_DNS := pickDNS item (Option.bind tmpl tt_DNS)\<rparr>"
proof -
  have d: "(case tmpl of None \<Rightarrow> None | Some t \<Rightarrow> tt_DNS t) = Option.bind tmpl tt_DNS"
    by (cases tmpl) simp_all
  have step: "(let b = (case d of
               None \<Rightarrow> \<lparr>dns_Provider = [], dns_HostedZoneId = None, dns_TTL = None,
                        dns_AssumeRoleArn = None\<rparr>
             | Some b \<Rightarrow> b);
           b = b\<lparr>dns_Provider := orKeep (it_DNSProvider item) (dns_Provider b)\<rparr>;
           b = b\<lparr>dns_HostedZoneId := orKeepPtr (it_HostedZoneId item) (dns_HostedZoneId b)\<rparr>;
           b = b\<lparr>dns_TTL := orKeepPtr (it_DNSTTL item) (dns_TTL b)\<rparr>;
           b = b\<lparr>dns_AssumeRoleArn := orKeepPtr (it_DNSAssumeRoleArn item) (dns_AssumeRoleArn b)\<rparr>
       in s\<lparr>spec_DNS := Some b\<rparr>) =
      s\<lparr>spec_DNS := Some \<lparr>
        dns_Provider = the (firstOf [it_DNSProvider item, map_option dns_Provider d, Some []]),
        dns_HostedZoneId = firstOf [it_HostedZoneId item, Option.bind d dns_HostedZoneId],
        dns_TTL = firstOf [it_DNSTTL item, Option.bind d dns_TTL],
        dns_AssumeRoleArn = firstOf [it_DNSAssumeRoleArn item, Option.bind d dns_AssumeRoleArn]\<rparr>\<rparr>" for d
    by (cases d; cases "it_DNSProvider item"; cases "it_HostedZoneId item"; cases "it_DNSTTL item";
        cases "it_DNSAssumeRoleArn item") simp_all
  assume "spec_DNS s = None"
  then have "s\<lparr>spec_DNS := None\<rparr> = s" by (cases s) simp
  then show ?thesis
    unfolding buildDNSFields_def d Let_def [of "Option.bind tmpl tt_DNS"] step
    by (auto simp: pickDNS_def)
qed

lemma customization_fields:
  "buildCustomizationFields s tmpl item =
     (let custom = Option.bind tmpl tt_Customizations;
          acl = pickWebAcl item (Option.bind custom cus_WebAcl);
          geo = pickGeo item (Option.bind custom cus_GeoRestrictions) in
      if acl = None \<and> geo = None then s
      else ensureCustomizations (\<lambda>c. c\<lparr>cus_WebAcl := acl, cus_GeoRestrictions := geo\<rparr>) s)"
proof -
  have acl: "(let w = (case c of None \<Rightarrow> None | Some c \<Rightarrow> cus_WebAcl c);
         w = (case it_WebAclAction item of None \<Rightarrow> w
            | Some act \<Rightarrow> Some ((case w of None \<Rightarrow> emptyWebAcl | Some w \<Rightarrow> w)\<lparr>wac_Action := act\<rparr>))
       in if it_WebAclArn item \<noteq> None
          then Some ((case w of None \<Rightarrow> emptyWebAcl | Some w \<Rightarrow> w)\<lparr>wac_Arn := it_WebAclArn item\<rparr>) else w)
    = pickWebAcl item (Option.bind c cus_WebAcl)" for c
    by (cases c; cases "Option.bind c cus_WebAcl"; cases "it_WebAclAction item"; cases "it_WebAclArn item")
      (auto simp: pickWebAcl_def emptyWebAcl_def)
  have geo: "(let g = (case c of None \<Rightarrow> None | Some c \<Rightarrow> cus_GeoRestrictions c) in
       if it_GeoRestrictionType item \<noteq> None \<or> it_GeoLocations item \<noteq> None
       then (let g = (case g of None \<Rightarrow> emptyGeo | Some g \<Rightarrow> g);
                 g = g\<lparr>geo_RestrictionType :=
                   (case it_GeoRestrictionType item of None \<Rightarrow> geo_RestrictionType g | Some v \<Rightarrow> v)\<rparr>;
                 g = g\<lparr>geo_Locations :=
                   (case it_GeoLocations item of None \<Rightarrow> geo_Locations g | Some v \<Rightarrow> v)\<rparr>
             in Some g) else g)
    = pickGeo item (Option.bind c cus_GeoRestrictions)" for c
    by (cases c; cases "Option.bind c cus_GeoRestrictions"; cases "it_GeoRestrictionType item";
        cases "it_GeoLocations item")
      (simp_all add: pickGeo_def emptyGeo_def)
  have tmpl: "(case tmpl of None \<Rightarrow> None | Some t \<Rightarrow> tt_Customizations t) = Option.bind tmpl tt_Customizations"
    by (cases tmpl) simp_all
  have swap: "(if acl \<noteq> None \<or> geo \<noteq> None
      then ensureCustomizations (\<lambda>c. c\<lparr>cus_WebAcl := acl, cus_GeoRestrictions := geo\<rparr>) s else s) =
    (if acl = None \<and> geo = None then s
     else ensureCustomizations (\<lambda>c. c\<lparr>cus_WebAcl := acl, cus_GeoRestrictions := geo\<rparr>) s)" for acl geo
    by auto
  show ?thesis
    unfolding buildCustomizationFields_def tmpl acl [symmetric] geo [symmetric] Let_def
    by (rule swap)
qed

lemma parameter_fields:
  "spec_Parameters s = [] \<Longrightarrow>
   buildParameterFields ro s tmpl item = s\<lparr>spec_Parameters :=
     the (firstOf [map_option
         (\<lambda>ps. map (\<lambda>(k, v). \<lparr>param_Name = k, param_Value = v\<rparr>) (ro_Parameters ro item ps))
         (it_Parameters item), map_option tt_Parameters tmpl, Some []])\<rparr>"
  by (cases "it_Parameters item"; cases tmpl; cases s) (simp_all add: buildParameterFields_def)

lemma tag_fields:
  "spec_Tags s = [] \<Longrightarrow>
   buildTagFields ro s tmpl item = s\<lparr>spec_Tags :=
     the (firstOf [map_option
         (\<lambda>ts. map (\<lambda>(k, v). \<lparr>tag_Key = k, tag_Value = Some v\<rparr>) (ro_Tags ro item ts))
         (it_Tags item), map_option tt_Tags tmpl, Some []])\<rparr>"
  by (cases "it_Tags item"; cases tmpl; cases s) (simp_all add: buildTagFields_def)

lemma enabled_field:
  "(if e \<noteq> None then e else case tmpl of None \<Rightarrow> Some True
      | Some t \<Rightarrow> (if tt_Enabled t \<noteq> None then tt_Enabled t else Some True)) =
   firstOf [e, Option.bind tmpl tt_Enabled, Some True]"
  by (cases e; cases tmpl; cases "Option.bind tmpl tt_Enabled") auto

lemma group_field:
  "firstNonNilStr [g, ptrFromTemplate None tmpl tt_ConnectionGroupId] =
     firstOf [g, Option.bind tmpl tt_ConnectionGroupId]"
  by (cases g; cases tmpl) (auto simp: ptrFromTemplate_def)

lemmas build_fields = certificate_fields dns_fields customization_fields parameter_fields tag_fields
  enabled_field group_field

lemma buildTenantSpec_precedence:
  "buildTenantSpec ro source item = precedenceSpec ro source item"
  unfolding buildTenantSpec_def enabled_field group_field
  by (cases "it_CertificateArn item")
    (simp_all add: build_fields precedenceSpec_def ensureCustomizations_def emptyCustomizations_def Let_def
      del: firstOf.simps firstOf_one)

text \<open>C39: The spec built for an item is the one of the precedence table, for every combination
  of set and unset fields: item value, else template value, else default, field by field
  (inside DNS, WebACL, geo restrictions and the managed certificate request too); the item's
  ARN suppresses the managed certificate request; parameters and tags are replaced as a whole.
  The only certificate in the customizations is the item's: the template's is dropped.\<close>

theorem build_spec_precedence:
  "buildTenantSpec ro source item = precedenceSpec ro source item"
  by (rule buildTenantSpec_precedence)

section \<open>Writing and comparing again\<close>

text \<open>The keys of the maps of an item, and of the lists of the template, are distinct.\<close>

definition keyedItem :: "TenantItem \<Rightarrow> bool" where
  "keyedItem item \<longleftrightarrow>
     (case it_Parameters item of None \<Rightarrow> True | Some ps \<Rightarrow> distinct (map fst ps)) \<and>
     (case it_Tags item of None \<Rightarrow> True | Some ts \<Rightarrow> distinct (map fst ts))"

definition keyedTemplate :: "TenantSource \<Rightarrow> bool" where
  "keyedTemplate source \<longleftrightarrow> (case tss_Template (ts_Spec source) of None \<Rightarrow> True
     | Some t \<Rightarrow> distinct (map param_Name (tt_Parameters t)) \<and> distinct (map tag_Key (tt_Tags t)))"

lemma applyManagedFields_parts:
  "spec_DistributionId (applyManagedFields dst src) = spec_DistributionId src"
  "spec_Domains (applyManagedFields dst src) = spec_Domains src"
  "spec_Enabled (applyManagedFields dst src) = spec_Enabled src"
  "spec_ConnectionGroupId (applyManagedFields dst src) = spec_ConnectionGroupId src"
  "spec_Parameters (applyManagedFields dst src) = spec_Parameters src"
  "spec_ManagedCertificateRequest (applyManagedFields dst src) = spec_ManagedCertificateRequest src"
  "spec_Tags (applyManagedFields dst src) = spec_Tags src"
  "spec_DNS (applyManagedFields dst src) = spec_DNS src"
  "webAclOf (spec_Customizations (applyManagedFields dst src)) = webAclOf (spec_Customizations src)"
  "geoOf (spec_Customizations (applyManagedFields dst src)) = geoOf (spec_Customizations src)"
  "certArnOf (applyManagedFields dst src) \<noteq> certArnOf src \<Longrightarrow>
     spec_ManagedCertificateRequest src \<noteq> None \<and> certArnOf src = []"
  by (auto simp: applyManagedFields_def ensureCustomizations_def emptyCustomizations_def webAclOf_def
      geoOf_def certArnOf_def Let_def split: option.splits if_splits)

lemma applied_equal:
  assumes d: "distinct (map param_Name (spec_Parameters src))" "distinct (map tag_Key (spec_Tags src))"
    and p: "mset (spec_Parameters src) = mset (spec_Parameters src')"
      "mset (spec_Tags src) = mset (spec_Tags src')"
    and same: "src' = src\<lparr>spec_Parameters := ps, spec_Tags := ts\<rparr>"
  shows "tenantSpecEqual (applyManagedFields dst src) src'"
proof -
  have s: "spec_DistributionId src' = spec_DistributionId src" "spec_Domains src' = spec_Domains src"
    "spec_Enabled src' = spec_Enabled src" "spec_ConnectionGroupId src' = spec_ConnectionGroupId src"
    "spec_ManagedCertificateRequest src' = spec_ManagedCertificateRequest src"
    "spec_DNS src' = spec_DNS src" "spec_Customizations src' = spec_Customizations src"
    "certArnOf src' = certArnOf src"
    by (simp_all add: same certArnOf_def)
  have r: "rel_option (\<lambda>g g'. geo_RestrictionType g = geo_RestrictionType g' \<and>
       stringSliceEqual (geo_Locations g) (geo_Locations g')) o1 o1" for o1
    by (cases o1) (simp_all add: stringSliceEqual_iff)
  have c: "certificateFieldsEqual (applyManagedFields dst src) src'"
    using applyManagedFields_parts(11) [of dst src]
    by (simp only: certificateFieldsEqual_iff s applyManagedFields_parts(6)) blast
  have "parametersEqual (spec_Parameters src) (spec_Parameters src')"
    "tagsEqual (spec_Tags src) (spec_Tags src')"
    by (rule parametersEqual_perm [OF d(1) p(1)], rule tagsEqual_perm [OF d(2) p(2)])
  then show ?thesis
    by (simp only: tenantSpecEqual_conj applyManagedFields_parts s c
      r [unfolded stringSliceEqual_iff] simp_thms
      webAclEqual_iff geoRestrictionsEqual_iff domainsEqual_def stringSliceEqual_iff order_refl)
qed

lemma built_parameters:
  assumes "keyedItem item" "keyedTemplate source" "goRange ro" "goRange ro'"
  shows "distinct (map param_Name (spec_Parameters (precedenceSpec ro source item)))"
    and "mset (spec_Parameters (precedenceSpec ro source item)) =
      mset (spec_Parameters (precedenceSpec ro' source item))"
proof -
  have rng: "map_range (ro_Parameters ro item)" "map_range (ro_Parameters ro' item)"
    using assms(3,4) by (simp_all add: goRange_def)
  have name: "map param_Name (map (\<lambda>(k, v). \<lparr>param_Name = k, param_Value = v\<rparr>) xs) = map fst xs" for xs
    by (induction xs) auto
  show "distinct (map param_Name (spec_Parameters (precedenceSpec ro source item)))"
    using assms(1,2) map_range.distinct_range [OF rng(1)]
    by (auto simp: precedenceSpec_def Let_def keyedItem_def keyedTemplate_def name
      simp del: map_map split: option.splits)
  show "mset (spec_Parameters (precedenceSpec ro source item)) =
      mset (spec_Parameters (precedenceSpec ro' source item))"
    by (cases "it_Parameters item"; cases "tss_Template (ts_Spec source)")
      (simp_all add: precedenceSpec_def Let_def map_range.visits_all [OF rng(1)]
        map_range.visits_all [OF rng(2)])
qed

lemma built_tags:
  assumes "keyedItem item" "keyedTemplate source" "goRange ro" "goRange ro'"
  shows "distinct (map tag_Key (spec_Tags (precedenceSpec ro source item)))"
    and "mset (spec_Tags (precedenceSpec ro source item)) =
      mset (spec_Tags (precedenceSpec ro' source item))"
proof -
  have rng: "map_range (ro_Tags ro item)" "map_range (ro_Tags ro' item)"
    using assms(3,4) by (simp_all add: goRange_def)
  have name: "map tag_Key (map (\<lambda>(k, v). \<lparr>tag_Key = k, tag_Value = Some v\<rparr>) xs) = map fst xs" for xs
    by (induction xs) auto
  show "distinct (map tag_Key (spec_Tags (precedenceSpec ro source item)))"
    using assms(1,2) map_range.distinct_range [OF rng(1)]
    by (auto simp: precedenceSpec_def Let_def keyedItem_def keyedTemplate_def name
      simp del: map_map split: option.splits)
  show "mset (spec_Tags (precedenceSpec ro source item)) =
      mset (spec_Tags (precedenceSpec ro' source item))"
    by (cases "it_Tags item"; cases "tss_Template (ts_Spec source)")
      (simp_all add: precedenceSpec_def Let_def map_range.visits_all [OF rng(1)]
        map_range.visits_all [OF rng(2)])
qed

lemma precedence_order:
  "precedenceSpec ro' source item = (precedenceSpec ro source item)
     \<lparr>spec_Parameters := spec_Parameters (precedenceSpec ro' source item),
      spec_Tags := spec_Tags (precedenceSpec ro' source item)\<rparr>"
  by (simp add: precedenceSpec_def Let_def)

text \<open>No perpetual update: a tenant whose spec was just overwritten from an item compares
  equal to the spec the next poll builds from the same item, whatever the spec was before and
  in whatever orders the two polls range over the maps.\<close>

lemma rebuilt_equal:
  assumes "keyedItem item" "keyedTemplate source" "goRange ro" "goRange ro'"
  shows "tenantSpecEqual (applyManagedFields dst (buildTenantSpec ro source item))
    (buildTenantSpec ro' source item)"
  unfolding buildTenantSpec_precedence
  by (rule applied_equal [OF built_parameters(1) built_tags(1) built_parameters(2) built_tags(2)
      precedence_order]) (fact assms)+

lemma created_equal:
  assumes "keyedItem item" "keyedTemplate source" "goRange ro" "goRange ro'"
  shows "tenantSpecEqual (buildTenantSpec ro source item) (buildTenantSpec ro' source item)"
proof -
  have "applyManagedFields (src\<lparr>spec_Customizations := None\<rparr>) src = src" for src
    by (simp add: applyManagedFields_def)
  then show ?thesis by (metis rebuilt_equal [OF assms])
qed

end
