(* ===== verification/Runtime.thy ===== *)
theory Runtime
  imports ApiTypes
begin

text \<open>
  What the DistributionTenant reconciler runs on: the apimachinery helpers it calls, the
  Kubernetes client, the fields of \<open>DistributionTenantReconciler\<close>, the ghost trace of
  external calls, and the small actions every handler is composed of (events, conditions,
  status updates, finalizers, DNS clients and their cache).

  The helpers of apimachinery and controller-runtime are not code of this repository: they
  are the record \<open>Apimachinery\<close>, and the locale \<open>apimachinery\<close> states their documented
  behaviour, with \<open>metaRef\<close> an executable instance of it.
\<close>

section \<open>apimachinery\<close>

record Apimachinery =
  SetStatusCondition :: "Condition list \<Rightarrow> Condition \<Rightarrow> Condition list"
  FindStatusCondition :: "Condition list \<Rightarrow> string \<Rightarrow> Condition option"
  ContainsFinalizer :: "string list \<Rightarrow> string \<Rightarrow> bool"
  AddFinalizer :: "string list \<Rightarrow> string \<Rightarrow> string list"
  RemoveFinalizer :: "string list \<Rightarrow> string \<Rightarrow> string list"
  IgnoreNotFound :: "go_error \<Rightarrow> error"

locale apimachinery =
  fixes M :: Apimachinery
  assumes find_set_same:
      "\<exists>tm. FindStatusCondition M (SetStatusCondition M cs c) (cond_Type c) =
        Some (c\<lparr>cond_LastTransitionTime := tm\<rparr>)"
    and find_set_other:
      "ty \<noteq> cond_Type c \<Longrightarrow>
        FindStatusCondition M (SetStatusCondition M cs c) ty = FindStatusCondition M cs ty"
    and contains_iff: "ContainsFinalizer M fs n \<longleftrightarrow> n \<in> set fs"
    and set_add: "set (AddFinalizer M fs n) = insert n (set fs)"
    and set_remove: "set (RemoveFinalizer M fs n) = set fs - {n}"
begin

text \<open>A condition written last is found with the values written, whatever was there.\<close>

lemma find_set:
  "FindStatusCondition M (SetStatusCondition M cs c) ty =
     (if ty = cond_Type c
      then FindStatusCondition M (SetStatusCondition M cs c) (cond_Type c)
      else FindStatusCondition M cs ty)"
  by (simp add: find_set_other)

lemma found_status:
  "map_option cond_Status (FindStatusCondition M (SetStatusCondition M cs c) ty) =
     (if ty = cond_Type c then Some (cond_Status c)
      else map_option cond_Status (FindStatusCondition M cs ty))"
  using find_set_same [of cs c] by (auto simp: find_set_other)

lemma found_reason:
  "map_option cond_Reason (FindStatusCondition M (SetStatusCondition M cs c) ty) =
     (if ty = cond_Type c then Some (cond_Reason c)
      else map_option cond_Reason (FindStatusCondition M cs ty))"
  using find_set_same [of cs c] by (auto simp: find_set_other)

lemma removed_finalizer: "\<not> ContainsFinalizer M (RemoveFinalizer M fs n) n"
  by (simp add: contains_iff set_remove)

lemma added_finalizer: "ContainsFinalizer M (AddFinalizer M fs n) n"
  by (simp add: contains_iff set_add)

lemma remove_keeps_others:
  "m \<noteq> n \<Longrightarrow> ContainsFinalizer M (RemoveFinalizer M fs n) m = ContainsFinalizer M fs m"
  by (simp add: contains_iff set_remove)

end

text \<open>An executable instance: conditions are a list keyed by type, whose entry keeps its
  transition time while its status does not change; finalizers are a list without repetition.\<close>

fun refFind :: "Condition list \<Rightarrow> string \<Rightarrow> Condition option" where
  "refFind [] ty = None"
| "refFind (c # cs) ty = (if cond_Type c = ty then Some c else refFind cs ty)"

fun refSet :: "Condition list \<Rightarrow> Condition \<Rightarrow> Condition list" where
  "refSet [] n = [n]"
| "refSet (c # cs) n =
     (if cond_Type c = cond_Type n
      then (if cond_Status c = cond_Status n
            then n\<lparr>cond_LastTransitionTime := cond_LastTransitionTime c\<rparr> else n) # cs
      else c # refSet cs n)"

definition metaRef :: "(go_error \<Rightarrow> error) \<Rightarrow> Apimachinery" where
  "metaRef ign =
     \<lparr>SetStatusCondition = refSet, FindStatusCondition = refFind,
      ContainsFinalizer = (\<lambda>fs n. n \<in> set fs),
      AddFinalizer = (\<lambda>fs n. if n \<in> set fs then fs else fs @ [n]),
      RemoveFinalizer = (\<lambda>fs n. filter (\<lambda>m. m \<noteq> n) fs),
      IgnoreNotFound = ign\<rparr>"

lemma transition_self: "\<exists>tm. c = c\<lparr>cond_LastTransitionTime := tm\<rparr>"
  by (rule exI [of _ "cond_LastTransitionTime c"]) simp

lemma refFind_refSet_same:
  "\<exists>tm. refFind (refSet cs c) (cond_Type c) = Some (c\<lparr>cond_LastTransitionTime := tm\<rparr>)"
  by (induction cs) (auto intro: transition_self)

lemma refFind_refSet_other:
  "ty \<noteq> cond_Type c \<Longrightarrow> refFind (refSet cs c) ty = refFind cs ty"
  by (induction cs) auto

interpretation ref: apimachinery "metaRef ign"
  by unfold_locales
    (auto simp: metaRef_def refFind_refSet_same refFind_refSet_other)

section \<open>The reconciler and its surroundings\<close>

text \<open>The Kubernetes client: a write answers with the object as the API server stored it.\<close>

record 'w K8sClient =
  k_Get :: "string \<Rightarrow> string \<Rightarrow> ('w, DistributionTenant) call"
  k_Update :: "DistributionTenant \<Rightarrow> ('w, DistributionTenant) call"
  k_StatusUpdate :: "DistributionTenant \<Rightarrow> ('w, DistributionTenant) call"

text \<open>\<open>DistributionTenantReconciler\<close>; a nil client or factory is \<open>None\<close>. \<open>r_Now\<close> is
  \<open>metav1.Now\<close>. The DNS client cache is part of the state below.\<close>

record 'w Reconciler =
  r_Meta :: Apimachinery
  r_Client :: "'w K8sClient"
  r_CFClient :: "'w CloudFrontClient"
  r_ACMClient :: "'w ACMClient option"
  r_NewDNSClient :: "(string \<Rightarrow> ('w, 'w DNSClient) call) option"
  r_HasRecorder :: bool
  r_DriftPolicy :: string
  r_Now :: "'w \<Rightarrow> gotime \<times> 'w"

text \<open>The external calls of a reconcile, each with its answer.\<close>

datatype effect =
    KGet string string "go_error + DistributionTenant"
  | KUpdate DistributionTenant "go_error + DistributionTenant"
  | KStatusUpdate DistributionTenant "go_error + DistributionTenant"
  | CfCreate CreateDistributionTenantInput "go_error + DistributionTenantOutput option"
  | CfGet string "go_error + DistributionTenantOutput option"
  | CfUpdate UpdateDistributionTenantInput "go_error + DistributionTenantOutput option"
  | CfDelete string string "go_error + unit"
  | CfInfo string "go_error + DistributionInfo option"
  | CfCert string "go_error + ManagedCertificateDetailsOutput option"
  | CfEndpoint string "go_error + string"
  | CfDefaultEndpoint "go_error + string"
  | AcmSANs string "go_error + string list"
  | NewDNS string error
  | DnsUpsert UpsertDNSRecordsInput "go_error + DNSChangeOutput option"
  | DnsStatus string "go_error + string"
  | DnsDelete DeleteDNSRecordsInput "go_error + unit"
  | Event string string string
  | MetricError string
  | MetricDrift

record 'w dtState = "(DistributionTenant, 'w, effect) rstate" +
  dnsClientCache :: "string \<Rightarrow> 'w DNSClient option"

type_synonym ('w, 'a) act = "('w dtState, 'a) state"
type_synonym hres = "(go_error, ctrlResult) outcome"

text \<open>The result of the helpers that return \<open>(ctrl.Result, error, handled)\<close>.\<close>

datatype step = Handled hres | Proceed

definition requeueShort :: duration where "requeueShort = 30 * second"
definition requeueLong :: duration where "requeueLong = 5 * minute"

abbreviation dnsStatusInsync :: string where "dnsStatusInsync \<equiv> ''INSYNC''"
abbreviation validationTokenHostCloudFront :: string where
  "validationTokenHostCloudFront \<equiv> ''cloudfront''"

text \<open>\<open>fmt.Errorf(prefix + "%w", err)\<close>\<close>

definition wrapErr :: "string \<Rightarrow> go_error \<Rightarrow> go_error" where
  "wrapErr pre e = Wrapped pre e []"

section \<open>Small actions\<close>

definition recordEvent :: "'w Reconciler \<Rightarrow> string \<Rightarrow> string \<Rightarrow> string \<Rightarrow> ('w, unit) act" where
  "recordEvent R eventType reason message =
     (if r_HasRecorder R then emit (Event eventType reason message) else returns ())"

definition putCondition ::
  "'w Reconciler \<Rightarrow> gotime \<Rightarrow> string \<Rightarrow> ConditionStatus \<Rightarrow> string \<Rightarrow> string \<Rightarrow>
   DistributionTenant \<Rightarrow> DistributionTenant" where
  "putCondition R now condType status reason message t =
     updStatus (\<lambda>s. s\<lparr>st_Conditions := SetStatusCondition (r_Meta R) (st_Conditions s)
       \<lparr>cond_Type = condType, cond_Status = status,
        cond_ObservedGeneration = dt_Generation t, cond_LastTransitionTime = now,
        cond_Reason = reason, cond_Message = message\<rparr>\<rparr>) t"

definition setCondition ::
  "'w Reconciler \<Rightarrow> string \<Rightarrow> ConditionStatus \<Rightarrow> string \<Rightarrow> string \<Rightarrow> ('w, unit) act" where
  "setCondition R condType status reason message = do {
     now \<leftarrow> silent (r_Now R);
     modifyObj (putCondition R now condType status reason message)
   }"

definition conditionMatches ::
  "'w Reconciler \<Rightarrow> DistributionTenant \<Rightarrow> string \<Rightarrow> ConditionStatus \<Rightarrow> string \<Rightarrow> string \<Rightarrow> bool" where
  "conditionMatches R tenant condType status reason message =
     (case FindStatusCondition (r_Meta R) (st_Conditions (dt_Status tenant)) condType of
        None \<Rightarrow> False
      | Some existing \<Rightarrow>
          cond_Status existing = status \<and> cond_Reason existing = reason \<and>
          cond_Message existing = message \<and>
          cond_ObservedGeneration existing = dt_Generation tenant)"

text \<open>\<open>if err := r.Status().Update(ctx, tenant); err != nil { return ctrl.Result{}, err }\<close>\<close>

definition persistStatus :: "'w Reconciler \<Rightarrow> ('w, hres) act \<Rightarrow> ('w, hres) act" where
  "persistStatus R k = do {
     t \<leftarrow> getObj;
     r \<leftarrow> extern (k_StatusUpdate (r_Client R) t) (KStatusUpdate t);
     case r of
       Inl err \<Rightarrow> returns (Fail err)
     | Inr t' \<Rightarrow> do { modifyObj (\<lambda>_. t'); k }
   }"

text \<open>\<open>controllerutil.RemoveFinalizer(...); return ctrl.Result{}, r.Update(ctx, tenant)\<close>\<close>

definition releaseFinalizer :: "'w Reconciler \<Rightarrow> ('w, hres) act" where
  "releaseFinalizer R = do {
     modifyObj (updFinalizers (\<lambda>fs. RemoveFinalizer (r_Meta R) fs FinalizerName));
     t \<leftarrow> getObj;
     r \<leftarrow> extern (k_Update (r_Client R) t) (KUpdate t);
     case r of
       Inl err \<Rightarrow> returns (Fail err)
     | Inr t' \<Rightarrow> do { modifyObj (\<lambda>_. t'); returns (Done emptyResult) }
   }"

definition getCache :: "('w, string \<Rightarrow> 'w DNSClient option) act" where
  "getCache = State (\<lambda>s. (dnsClientCache s, s))"

definition storeCache :: "string \<Rightarrow> 'w DNSClient \<Rightarrow> ('w, unit) act" where
  "storeCache k c = State (\<lambda>s. ((), s\<lparr>dnsClientCache := (dnsClientCache s)(k := Some c)\<rparr>))"

lemma wp_getCache [wp_simps]: "wp getCache Q s \<longleftrightarrow> Q (dnsClientCache s) s"
  by (simp add: wp_def getCache_def)

lemma wp_storeCache [wp_simps]:
  "wp (storeCache k c) Q s \<longleftrightarrow> Q () (s\<lparr>dnsClientCache := (dnsClientCache s)(k := Some c)\<rparr>)"
  by (simp add: wp_def storeCache_def)

lemma run_cache [run_simps]:
  "run_state getCache s = (dnsClientCache s, s)"
  "run_state (storeCache k c) s =
     ((), s\<lparr>dnsClientCache := (dnsClientCache s)(k := Some c)\<rparr>)"
  by (simp_all add: getCache_def storeCache_def)

text \<open>The role a tenant's DNS client is cached under.\<close>

definition dnsRole :: "DistributionTenant \<Rightarrow> string" where
  "dnsRole tenant = (case spec_DNS (dt_Spec tenant) of
     None \<Rightarrow> [] | Some dns \<Rightarrow> (case dns_AssumeRoleArn dns of None \<Rightarrow> [] | Some arn \<Rightarrow> arn))"

text \<open>Calling a nil \<open>NewDNSClient\<close> panics.\<close>

definition getDNSClient :: "'w Reconciler \<Rightarrow> ('w, (go_error, 'w DNSClient) outcome) act" where
  "getDNSClient R = do {
     tenant \<leftarrow> getObj;
     let roleArn = dnsRole tenant;
     cache \<leftarrow> getCache;
     case cache roleArn of
       Some cached \<Rightarrow> returns (Done cached)
     | None \<Rightarrow>
         (case r_NewDNSClient R of
            None \<Rightarrow> returns Panic
          | Some new \<Rightarrow> do {
              r \<leftarrow> extern (new roleArn)
                (\<lambda>r. NewDNS roleArn (case r of Inl e \<Rightarrow> Some e | Inr _ \<Rightarrow> None));
              case r of
                Inl err \<Rightarrow> returns (Fail (wrapErr
                  (''failed to create DNS client (roleArn='' @ Quote roleArn @ ''): '') err))
              | Inr dnsClient \<Rightarrow> do {
                  storeCache roleArn dnsClient;
                  returns (Done dnsClient)
                }
            })
   }"

lemmas small_defs [handler_defs] = recordEvent_def setCondition_def persistStatus_def
  releaseFinalizer_def getDNSClient_def

lemma step_cases:
  "(\<And>x. d = Handled x \<Longrightarrow> emits P (g x)) \<Longrightarrow> (d = Proceed \<Longrightarrow> emits P m) \<Longrightarrow>
     emits P (case d of Handled x \<Rightarrow> g x | Proceed \<Rightarrow> m)"
  "(\<And>x. d = Handled x \<Longrightarrow> ends Q (g' x)) \<Longrightarrow> (d = Proceed \<Longrightarrow> ends Q m') \<Longrightarrow>
     ends Q (case d of Handled x \<Rightarrow> g' x | Proceed \<Rightarrow> m')"
  "(\<And>x. d = Handled x \<Longrightarrow> keeps_inv I (g'' x)) \<Longrightarrow> (d = Proceed \<Longrightarrow> keeps_inv I m'') \<Longrightarrow>
     keeps_inv I (case d of Handled x \<Rightarrow> g'' x | Proceed \<Rightarrow> m'')"
  by (simp_all split: step.split)

lemmas step_emits [emits_intros] = step_cases(1)
lemmas step_ends [ends_intros] = step_cases(2)
lemmas step_inv [inv_intros] = step_cases(3)

lemma cache_emits [emits_intros]: "emits P getCache" "emits P (storeCache k c)"
  by (auto simp: emits_def wp_simps)

lemma cache_inv [inv_intros]:
  "keeps_inv I getCache"
  "(\<And>s c. I s \<Longrightarrow> I (s\<lparr>dnsClientCache := c\<rparr>)) \<Longrightarrow> keeps_inv I (storeCache k cl)"
  by (auto simp: keeps_inv_def wp_simps)

end
