(* ===== verification/SourceReconciler.thy ===== *)
theory SourceReconciler
  imports SourceSpec Runtime
begin

text \<open>
  The TenantSource reconciler: \<open>internal/controller/tenantsource_controller.go\<close>. It queries the
  external source, creates, updates and deletes the DistributionTenants that carry its owner
  reference, and reports in its status; a dry run reports only.

  The state of a reconcile is the one of the Prelude, with the TenantSource as the object. The
  Kubernetes API, \<open>controllerutil.SetOwnerReference\<close> and the registered backends are fields of
  the reconciler; so are the orders in which its ranges visit their maps.
\<close>

section \<open>The reconciler\<close>

text \<open>\<open>internal/tenantsource/backend.go\<close>: the interface of a source.\<close>

record 'w Backend =
  QueryTenants :: "TenantSource \<Rightarrow> ('w, TenantItem list) call"

record 'w SourceClient =
  sk_Get :: "string \<Rightarrow> string \<Rightarrow> ('w, TenantSource) call"
  sk_Update :: "TenantSource \<Rightarrow> ('w, TenantSource) call"
  sk_StatusUpdate :: "TenantSource \<Rightarrow> ('w, TenantSource) call"
  sk_GetTenant :: "string \<Rightarrow> string \<Rightarrow> ('w, DistributionTenant) call"
  sk_ListTenants :: "string \<Rightarrow> string \<Rightarrow> string \<Rightarrow> ('w, DistributionTenant list) call"
  sk_CreateTenant :: "DistributionTenant \<Rightarrow> ('w, DistributionTenant) call"
  sk_UpdateTenant :: "DistributionTenant \<Rightarrow> ('w, DistributionTenant) call"
  sk_DeleteTenant :: "DistributionTenant \<Rightarrow> ('w, unit) call"

record 'w TenantSourceReconciler =
  ts_Apim :: Apimachinery
  ts_Client :: "'w SourceClient"
  ts_SetOwnerReference :: "TenantSource \<Rightarrow> DistributionTenant \<Rightarrow> go_error + DistributionTenant"
  ts_HasRecorder :: bool
  ts_Backends :: "(string \<times> 'w Backend) list"
  ts_Now :: "'w \<Rightarrow> gotime \<times> 'w"
  ts_Order :: RangeOrder

text \<open>The external calls of a reconcile, each with its answer.\<close>

datatype tsEffect =
    SrcGet string string "go_error + TenantSource"
  | SrcUpdate TenantSource "go_error + TenantSource"
  | SrcStatusUpdate TenantSource "go_error + TenantSource"
  | TenGet string string "go_error + DistributionTenant"
  | TenList string string string "go_error + DistributionTenant list"
  | TenCreate DistributionTenant "go_error + DistributionTenant"
  | TenUpdate DistributionTenant "go_error + DistributionTenant"
  | TenDelete DistributionTenant "go_error + unit"
  | Query TenantSource "go_error + TenantItem list"
  | SrcEvent string string string

type_synonym 'w tsState = "(TenantSource, 'w, tsEffect) rstate"
type_synonym ('w, 'a) tsAct = "('w tsState, 'a) state"

definition tsRequeueShort :: duration where "tsRequeueShort = 30 * second"

text \<open>The counters are Go \<open>int\<close>s: 64-bit words that wrap.\<close>

record syncResult =
  created :: int64
  updated :: int64
  deleted :: int64
  pendingChanges :: "PendingChange list"
  errs :: "string list"

definition emptySync :: syncResult where
  "emptySync = \<lparr>created = 0, updated = 0, deleted = 0, pendingChanges = [], errs = []\<rparr>"

definition addErr :: "string \<Rightarrow> syncResult \<Rightarrow> syncResult" where
  "addErr e sr = sr\<lparr>errs := errs sr @ [e]\<rparr>"

definition addPending :: "string \<Rightarrow> string \<Rightarrow> string \<Rightarrow> syncResult \<Rightarrow> syncResult" where
  "addPending act name descr sr = sr\<lparr>pendingChanges := pendingChanges sr @
     [\<lparr>pc_Action = act, pc_TenantName = name, pc_Description = descr\<rparr>]\<rparr>"

section \<open>Small helpers\<close>

text \<open>\<open>%v\<close> of a string slice, \<open>%d\<close> of an int.\<close>

definition showStrs :: "string list \<Rightarrow> string" where
  "showStrs xs = ''['' @ Join xs '' '' @ '']''"

definition showInt64 :: "int64 \<Rightarrow> string" where
  "showInt64 i = showInt (sint i)"

definition putSourceCondition ::
  "'w TenantSourceReconciler \<Rightarrow> gotime \<Rightarrow> ConditionStatus \<Rightarrow> string \<Rightarrow> string \<Rightarrow>
   TenantSource \<Rightarrow> TenantSource" where
  "putSourceCondition R now status reason message source = source\<lparr>ts_Status :=
     (ts_Status source)\<lparr>tsst_Conditions := SetStatusCondition (ts_Apim R)
       (tsst_Conditions (ts_Status source))
       \<lparr>cond_Type = TSConditionTypeReady, cond_Status = status,
        cond_ObservedGeneration = om_Generation (ts_Meta source), cond_LastTransitionTime = now,
        cond_Reason = reason, cond_Message = message\<rparr>\<rparr>\<rparr>"

definition ts_setCondition ::
  "'w TenantSourceReconciler \<Rightarrow> ConditionStatus \<Rightarrow> string \<Rightarrow> string \<Rightarrow> ('w, unit) tsAct" where
  "ts_setCondition R status reason message = do {
     now \<leftarrow> silent (ts_Now R);
     modifyObj (putSourceCondition R now status reason message)
   }"

definition ts_recordEvent ::
  "'w TenantSourceReconciler \<Rightarrow> string \<Rightarrow> string \<Rightarrow> string \<Rightarrow> ('w, unit) tsAct" where
  "ts_recordEvent R eventType reason message =
     (if ts_HasRecorder R then emit (SrcEvent eventType reason message) else returns ())"

text \<open>\<open>if err := r.Status().Update(ctx, source); err != nil { return ..., err }\<close>\<close>

definition ts_persistStatus ::
  "'w TenantSourceReconciler \<Rightarrow> (go_error \<Rightarrow> 'a) \<Rightarrow> ('w, 'a) tsAct \<Rightarrow> ('w, 'a) tsAct" where
  "ts_persistStatus R fail k = do {
     source \<leftarrow> getObj;
     r \<leftarrow> extern (sk_StatusUpdate (ts_Client R) source) (SrcStatusUpdate source);
     case r of
       Inl err \<Rightarrow> returns (fail err)
     | Inr source' \<Rightarrow> do { modifyObj (\<lambda>_. source'); k }
   }"

definition targetNamespace :: "TenantSource \<Rightarrow> string" where
  "targetNamespace source =
     (case tss_TargetNamespace (ts_Spec source) of
        Some ns \<Rightarrow> if ns \<noteq> [] then ns else ts_Namespace source
      | None \<Rightarrow> ts_Namespace source)"

definition isOwnedBySource :: "DistributionTenant \<Rightarrow> TenantSource \<Rightarrow> bool" where
  "isOwnedBySource dt source = list_ex (\<lambda>ref. ref = ts_UID source) (om_OwnerReferences (dt_Meta dt))"

definition listOwnedTenants ::
  "'w TenantSourceReconciler \<Rightarrow> TenantSource \<Rightarrow> string \<Rightarrow>
   ('w, go_error + DistributionTenant list) tsAct" where
  "listOwnedTenants R source namespace =
     extern (sk_ListTenants (ts_Client R) namespace TenantSourceLabelKey (ts_Name source))
       (TenList namespace TenantSourceLabelKey (ts_Name source))"

section \<open>Choosing the backend\<close>

text \<open>The backends are a Go map: an association list with distinct keys, ranged over in any
  order, then sorted.\<close>

definition knownProviders :: "(string \<times> 'w Backend) list \<Rightarrow> string" where
  "knownProviders backends =
     (if length backends = 0 then ''<none>''
      else Join (sort (map fst backends)) '', '')"

definition resolveBackend ::
  "'w TenantSourceReconciler \<Rightarrow> ('w, hres + 'w Backend) tsAct" where
  "resolveBackend R = do {
     source \<leftarrow> getObj;
     let provider = tss_Provider (ts_Spec source);
     case map_of (ts_Backends R) provider of
       None \<Rightarrow> do {
         let msg = ''Provider '' @ Quote provider @ '' is not registered (known providers: '' @
           knownProviders (ts_Backends R) @ '')'';
         ts_setCondition R ConditionFalse TSReasonInvalidConfig msg;
         ts_persistStatus R (\<lambda>err. Inl (Fail err)) (returns (Inl (Done (requeueIn (5 * minute)))))
       }
     | Some backend \<Rightarrow> returns (Inr backend)
   }"

section \<open>A query that fails\<close>

definition scanReason :: "go_error \<Rightarrow> string" where
  "scanReason scanErr =
     (if errorsIs (Some scanErr) ErrSourceInvalidConfig then TSReasonInvalidConfig
      else TSReasonPollFailed)"

definition handleScanError ::
  "'w TenantSourceReconciler \<Rightarrow> go_error \<Rightarrow> ('w, hres) tsAct" where
  "handleScanError R scanErr = do {
     let reason = scanReason scanErr;
     ts_setCondition R ConditionFalse reason (''Tenant source query failed: '' @ errorText scanErr);
     ts_persistStatus R Fail (do {
       source \<leftarrow> getObj;
       ts_recordEvent R ''Warning'' reason (''Failed to query tenant source (provider='' @
         tss_Provider (ts_Spec source) @ ''): '' @ errorText scanErr);
       if errorsIs (Some scanErr) ErrSourceAccessDenied \<or>
          errorsIs (Some scanErr) ErrSourceNotFound \<or>
          errorsIs (Some scanErr) ErrSourceInvalidConfig
       then returns (Done (requeueIn (5 * minute)))
       else returns (Done (requeueIn tsRequeueShort))
     })
   }"

section \<open>Creating, updating and deleting tenants\<close>

definition msgNotManaged :: "string \<Rightarrow> string" where
  "msgNotManaged name =
     ''tenant '' @ Quote name @ '' already exists but is not managed by this TenantSource''"

definition msgFailed :: "string \<Rightarrow> string \<Rightarrow> go_error \<Rightarrow> string" where
  "msgFailed what name err = ''failed to '' @ what @ Quote name @ '': '' @ errorText err"

definition syncExistingTenant ::
  "'w TenantSourceReconciler \<Rightarrow> TenantSource \<Rightarrow> DistributionTenant \<Rightarrow> DistributionTenantSpec \<Rightarrow>
   string \<Rightarrow> bool \<Rightarrow> syncResult \<Rightarrow> ('w, syncResult) tsAct" where
  "syncExistingTenant R source dt spec name isDryRun sr =
     (if \<not> isOwnedBySource dt source then returns (addErr (msgNotManaged name) sr)
      else if tenantSpecEqual (dt_Spec dt) spec then returns sr
      else if isDryRun
      then returns (addPending ''update'' name ''Spec differs from DynamoDB item'' sr)
      else do {
        let dt = dt\<lparr>dt_Spec := applyManagedFields (dt_Spec dt) spec\<rparr>;
        r \<leftarrow> extern (sk_UpdateTenant (ts_Client R) dt) (TenUpdate dt);
        case r of
          Inl err \<Rightarrow> returns (addErr (msgFailed ''update tenant '' name err) sr)
        | Inr _ \<Rightarrow> returns (sr\<lparr>updated := updated sr + 1\<rparr>)
      })"

definition emptyStatus :: DistributionTenantStatus where
  "emptyStatus = \<lparr>st_ObservedGeneration = 0, st_ID = [], st_Arn = [], st_ETag = [],
     st_DistributionTenantStatus = [], st_CreatedTime = None, st_LastModifiedTime = None,
     st_DomainResults = [], st_CertificateArn = [], st_ManagedCertificateStatus = [],
     st_LastDriftCheckTime = None, st_DriftDetected = False, st_DNSChangeId = [],
     st_DNSTarget = [], st_Conditions = []\<rparr>"

definition newTenant ::
  "TenantSource \<Rightarrow> DistributionTenantSpec \<Rightarrow> string \<Rightarrow> string \<Rightarrow> DistributionTenant" where
  "newTenant source spec name targetNS =
     \<lparr>dt_Meta = \<lparr>om_Name = name, om_Namespace = targetNS, om_UID = [], om_Generation = 0,
        om_DeletionTimestamp = None, om_Finalizers = [],
        om_Labels = [(TenantSourceLabelKey, ts_Name source)], om_OwnerReferences = []\<rparr>,
      dt_Spec = spec, dt_Status = emptyStatus\<rparr>"

definition createNewTenant ::
  "'w TenantSourceReconciler \<Rightarrow> TenantSource \<Rightarrow> DistributionTenantSpec \<Rightarrow> TenantItem \<Rightarrow>
   string \<Rightarrow> string \<Rightarrow> bool \<Rightarrow> syncResult \<Rightarrow> ('w, syncResult) tsAct" where
  "createNewTenant R source spec item name targetNS isDryRun sr =
     (if isDryRun
      then returns (addPending ''create'' name
        (''New tenant from DynamoDB (domains: '' @ showStrs (it_Domains item) @ '')'') sr)
      else case ts_SetOwnerReference R source (newTenant source spec name targetNS) of
        Inl err \<Rightarrow> returns (addErr (msgFailed ''set owner reference on '' name err) sr)
      | Inr dt \<Rightarrow> do {
          r \<leftarrow> extern (sk_CreateTenant (ts_Client R) dt) (TenCreate dt);
          case r of
            Inl err \<Rightarrow> returns (addErr (msgFailed ''create tenant '' name err) sr)
          | Inr _ \<Rightarrow> returns (sr\<lparr>created := created sr + 1\<rparr>)
        })"

definition syncNewTenant ::
  "'w TenantSourceReconciler \<Rightarrow> TenantSource \<Rightarrow> DistributionTenantSpec \<Rightarrow> TenantItem \<Rightarrow>
   string \<Rightarrow> string \<Rightarrow> bool \<Rightarrow> syncResult \<Rightarrow> ('w, syncResult) tsAct" where
  "syncNewTenant R source spec item name targetNS isDryRun sr = do {
     r \<leftarrow> extern (sk_GetTenant (ts_Client R) targetNS name) (TenGet targetNS name);
     case r of
       Inr conflictCheck \<Rightarrow>
         if \<not> isOwnedBySource conflictCheck source then returns (addErr (msgNotManaged name) sr)
         else createNewTenant R source spec item name targetNS isDryRun sr
     | Inl _ \<Rightarrow> createNewTenant R source spec item name targetNS isDryRun sr
   }"

fun syncDesired ::
  "'w TenantSourceReconciler \<Rightarrow> TenantSource \<Rightarrow> (string \<rightharpoonup> DistributionTenant) \<Rightarrow> string \<Rightarrow> bool \<Rightarrow>
   (string \<times> TenantItem) list \<Rightarrow> syncResult \<Rightarrow> ('w, syncResult) tsAct" where
  "syncDesired R source existing targetNS isDryRun [] sr = returns sr"
| "syncDesired R source existing targetNS isDryRun ((name, item) # rest) sr = do {
     let spec = buildTenantSpec (ts_Order R) source item;
     sr \<leftarrow> (case existing name of
       Some dt \<Rightarrow> syncExistingTenant R source dt spec name isDryRun sr
     | None \<Rightarrow> syncNewTenant R source spec item name targetNS isDryRun sr);
     syncDesired R source existing targetNS isDryRun rest sr
   }"

definition removeTenant ::
  "'w TenantSourceReconciler \<Rightarrow> bool \<Rightarrow> string \<Rightarrow> DistributionTenant \<Rightarrow> syncResult \<Rightarrow>
   ('w, syncResult) tsAct" where
  "removeTenant R isDryRun name dt sr =
     (if isDryRun then returns (addPending ''delete'' name ''No longer present in DynamoDB'' sr)
      else do {
        r \<leftarrow> extern (sk_DeleteTenant (ts_Client R) dt) (TenDelete dt);
        case r of
          Inl err \<Rightarrow> returns (addErr (msgFailed ''delete tenant '' name err) sr)
        | Inr _ \<Rightarrow> returns (sr\<lparr>deleted := deleted sr + 1\<rparr>)
      })"

fun syncRemoved ::
  "'w TenantSourceReconciler \<Rightarrow> TenantSource \<Rightarrow> (string \<rightharpoonup> TenantItem) \<Rightarrow> bool \<Rightarrow>
   (string \<times> DistributionTenant) list \<Rightarrow> syncResult \<Rightarrow> ('w, syncResult) tsAct" where
  "syncRemoved R source desired isDryRun [] sr = returns sr"
| "syncRemoved R source desired isDryRun ((name, dt) # rest) sr =
     (if desired name \<noteq> None then syncRemoved R source desired isDryRun rest sr
      else if \<not> isOwnedBySource dt source then syncRemoved R source desired isDryRun rest sr
      else do {
        sr \<leftarrow> removeTenant R isDryRun name dt sr;
        syncRemoved R source desired isDryRun rest sr
      })"

definition syncTenants ::
  "'w TenantSourceReconciler \<Rightarrow> TenantSource \<Rightarrow> TenantItem list \<Rightarrow> DistributionTenant list \<Rightarrow>
   string \<Rightarrow> bool \<Rightarrow> ('w, syncResult) tsAct" where
  "syncTenants R source items existingTenants targetNS isDryRun = do {
     let desired = mapByKey it_Name items;
     let existing = mapByKey (\<lambda>t. dt_Name t) existingTenants;
     sr \<leftarrow> syncDesired R source (map_of existing) targetNS isDryRun
       (ro_Desired (ts_Order R) desired) emptySync;
     syncRemoved R source (map_of desired) isDryRun (ro_Existing (ts_Order R) existing) sr
   }"

section \<open>The status after a sync\<close>

definition countStatus ::
  "gotime \<Rightarrow> TenantItem list \<Rightarrow> syncResult \<Rightarrow> bool \<Rightarrow> TenantSource \<Rightarrow> TenantSource" where
  "countStatus now items sr isDryRun source = source\<lparr>ts_Status := (ts_Status source)
     \<lparr>tsst_LastPollTime := Some now, tsst_TenantsDiscovered := of_nat (length items),
      tsst_TenantsCreated := created sr, tsst_TenantsUpdated := updated sr,
      tsst_TenantsDeleted := deleted sr,
      tsst_PendingChanges := (if isDryRun then pendingChanges sr else [])\<rparr>\<rparr>"

definition msgCounts :: "TenantItem list \<Rightarrow> syncResult \<Rightarrow> string" where
  "msgCounts items sr = showInt (int (length items)) @ '' discovered, '' @
     showInt64 (created sr) @ '' created, '' @ showInt64 (updated sr) @ '' updated, '' @
     showInt64 (deleted sr) @ '' deleted''"

definition updateSyncStatus ::
  "'w TenantSourceReconciler \<Rightarrow> TenantItem list \<Rightarrow> syncResult \<Rightarrow> bool \<Rightarrow> ('w, unit) tsAct" where
  "updateSyncStatus R items sr isDryRun = do {
     now \<leftarrow> silent (ts_Now R);
     modifyObj (countStatus now items sr isDryRun);
     if isDryRun then
       ts_setCondition R ConditionTrue TSReasonDryRunComplete
         (''Dry run complete: '' @ showInt (int (length items)) @ '' discovered, '' @
          showInt (int (length (pendingChanges sr))) @ '' pending changes'')
     else if 0 < length (errs sr) then
       ts_setCondition R ConditionFalse TSReasonConflict
         (''Poll succeeded with errors: '' @ showStrs (errs sr))
     else
       ts_setCondition R ConditionTrue TSReasonPollSucceeded
         (''Poll succeeded: '' @ msgCounts items sr)
   }"

section \<open>Deletion of the source\<close>

text \<open>\<open>client.IgnoreNotFound(err) != nil\<close>; a nil error stays nil.\<close>

fun ts_deleteAll ::
  "'w TenantSourceReconciler \<Rightarrow> DistributionTenant list \<Rightarrow> ('w, hres) tsAct" where
  "ts_deleteAll R [] = returns (Done (requeueIn (5 * second)))"
| "ts_deleteAll R (t # ts) = do {
     r \<leftarrow> extern (sk_DeleteTenant (ts_Client R) t) (TenDelete t);
     case r of
       Inl err \<Rightarrow>
         if IgnoreNotFound (ts_Apim R) err \<noteq> None
         then returns (Fail (wrapErr (''failed to delete tenant '' @ Quote (dt_Name t) @ '': '') err))
         else ts_deleteAll R ts
     | Inr _ \<Rightarrow> ts_deleteAll R ts
   }"

abbreviation updSourceFinalizers :: "(string list \<Rightarrow> string list) \<Rightarrow> TenantSource \<Rightarrow> TenantSource" where
  "updSourceFinalizers f s \<equiv>
     s\<lparr>ts_Meta := (ts_Meta s)\<lparr>om_Finalizers := f (om_Finalizers (ts_Meta s))\<rparr>\<rparr>"

definition ts_reconcileDelete :: "'w TenantSourceReconciler \<Rightarrow> ('w, hres) tsAct" where
  "ts_reconcileDelete R = do {
     source \<leftarrow> getObj;
     if \<not> ContainsFinalizer (ts_Apim R) (om_Finalizers (ts_Meta source)) TenantSourceFinalizerName
     then returns (Done emptyResult)
     else do {
       let targetNS = (case tss_TargetNamespace (ts_Spec source) of
           Some ns \<Rightarrow> if ns \<noteq> [] then ns else ts_Namespace source
         | None \<Rightarrow> ts_Namespace source);
       r \<leftarrow> listOwnedTenants R source targetNS;
       case r of
         Inl err \<Rightarrow> returns (Fail (wrapErr ''failed to list owned tenants for cleanup: '' err))
       | Inr tenants \<Rightarrow>
           if 0 < length tenants then ts_deleteAll R tenants
           else do {
             modifyObj (updSourceFinalizers
               (\<lambda>fs. RemoveFinalizer (ts_Apim R) fs TenantSourceFinalizerName));
             s \<leftarrow> getObj;
             u \<leftarrow> extern (sk_Update (ts_Client R) s) (SrcUpdate s);
             case u of
               Inl err \<Rightarrow> returns (Fail err)
             | Inr s' \<Rightarrow> do { modifyObj (\<lambda>_. s'); returns (Done emptyResult) }
           }
     }
   }"

section \<open>Reconcile\<close>

text \<open>After the status is written, the object is the one the API server answered with.\<close>

definition finishPoll ::
  "'w TenantSourceReconciler \<Rightarrow> TenantItem list \<Rightarrow> syncResult \<Rightarrow> ('w, hres) tsAct" where
  "finishPoll R items sr = do {
     (if 0 < sint (created sr) \<or> 0 < sint (updated sr) \<or> 0 < sint (deleted sr)
      then ts_recordEvent R ''Normal'' TSReasonPollSucceeded (''Synced: '' @ msgCounts items sr)
      else returns ());
     source \<leftarrow> getObj;
     let pollInterval = (case tss_PollInterval (ts_Spec source) of
         None \<Rightarrow> 5 * minute | Some d \<Rightarrow> d);
     returns (Done (requeueIn pollInterval))
   }"

definition pollFrom ::
  "'w TenantSourceReconciler \<Rightarrow> 'w Backend \<Rightarrow> TenantSource \<Rightarrow> ('w, hres) tsAct" where
  "pollFrom R backend source = do {
     q \<leftarrow> extern (QueryTenants backend source) (Query source);
     case q of
       Inl err \<Rightarrow> handleScanError R err
     | Inr items \<Rightarrow> do {
         let targetNS = targetNamespace source;
         l \<leftarrow> listOwnedTenants R source targetNS;
         case l of
           Inl err \<Rightarrow> returns (Fail (wrapErr ''failed to list owned tenants: '' err))
         | Inr existingTenants \<Rightarrow> do {
             let isDryRun = (tss_DryRun (ts_Spec source) = Some True);
             sr \<leftarrow> syncTenants R source items existingTenants targetNS isDryRun;
             updateSyncStatus R items sr isDryRun;
             ts_persistStatus R Fail (finishPoll R items sr)
           }
       }
   }"

definition poll :: "'w TenantSourceReconciler \<Rightarrow> ('w, hres) tsAct" where
  "poll R = do {
     b \<leftarrow> resolveBackend R;
     case b of
       Inl result \<Rightarrow> returns result
     | Inr backend \<Rightarrow> do { source \<leftarrow> getObj; pollFrom R backend source }
   }"

definition ts_Reconcile :: "'w TenantSourceReconciler \<Rightarrow> string \<Rightarrow> string \<Rightarrow> ('w, hres) tsAct" where
  "ts_Reconcile R namespace name = do {
     r \<leftarrow> extern (sk_Get (ts_Client R) namespace name) (SrcGet namespace name);
     case r of
       Inl err \<Rightarrow>
         (case IgnoreNotFound (ts_Apim R) err of
            None \<Rightarrow> returns (Done emptyResult)
          | Some e \<Rightarrow> returns (Fail e))
     | Inr source \<Rightarrow> do {
         modifyObj (\<lambda>_. source);
         if om_DeletionTimestamp (ts_Meta source) \<noteq> None then ts_reconcileDelete R
         else if \<not> ContainsFinalizer (ts_Apim R) (om_Finalizers (ts_Meta source)) TenantSourceFinalizerName
         then do {
           modifyObj (updSourceFinalizers
             (\<lambda>fs. AddFinalizer (ts_Apim R) fs TenantSourceFinalizerName));
           s \<leftarrow> getObj;
           u \<leftarrow> extern (sk_Update (ts_Client R) s) (SrcUpdate s);
           case u of
             Inl err \<Rightarrow> returns (Fail err)
           | Inr s' \<Rightarrow> do { modifyObj (\<lambda>_. s'); returns (Done (requeueIn second)) }
         }
         else poll R
       }
   }"

end
