(* ===== verification/SourceSafety.thy ===== *)
theory SourceSafety
  imports SourceReconciler
begin

text \<open>
  What a poll of a TenantSource may do to tenants, read off the trace of its calls: it writes to
  tenants it owns and creates tenants it will own, a dry run writes nothing, and the counters of
  the status count the writes that succeeded.
\<close>

section \<open>Owner references\<close>

text \<open>\<open>controllerutil.SetOwnerReference\<close>: it appends the owner to the object's references,
  and refuses an owner of another namespace.\<close>

locale owner_references =
  fixes setOwner :: "TenantSource \<Rightarrow> DistributionTenant \<Rightarrow> go_error + DistributionTenant"
  assumes set_same: "om_Namespace (dt_Meta t) = ts_Namespace s \<Longrightarrow> \<exists>t'. setOwner s t = Inr t'"
    and set_other: "om_Namespace (dt_Meta t) \<noteq> ts_Namespace s \<Longrightarrow> \<exists>e. setOwner s t = Inl e"
    and set_result: "setOwner s t = Inr t' \<Longrightarrow>
      \<exists>refs. set refs = insert (ts_UID s) (set (om_OwnerReferences (dt_Meta t))) \<and>
        t' = t\<lparr>dt_Meta := (dt_Meta t)\<lparr>om_OwnerReferences := refs\<rparr>\<rparr>"
begin

lemma owned_after: "setOwner s t = Inr t' \<Longrightarrow> isOwnedBySource t' s"
  using set_result [of s t t'] by (auto simp: isOwnedBySource_def list_ex_iff)

lemma refused_iff: "(\<exists>e. setOwner s t = Inl e) \<longleftrightarrow> om_Namespace (dt_Meta t) \<noteq> ts_Namespace s"
  using set_same set_other by fastforce

end

definition refSetOwner :: "TenantSource \<Rightarrow> DistributionTenant \<Rightarrow> go_error + DistributionTenant" where
  "refSetOwner s t =
     (if om_Namespace (dt_Meta t) \<noteq> ts_Namespace s
      then Inl (OtherError ''cross-namespace owner references are disallowed'')
      else Inr (t\<lparr>dt_Meta := (dt_Meta t)\<lparr>om_OwnerReferences :=
        List.insert (ts_UID s) (om_OwnerReferences (dt_Meta t))\<rparr>\<rparr>))"

interpretation ref_owner: owner_references refSetOwner
proof (unfold_locales, goal_cases)
  case (3 s t t')
  then show ?case
    by (intro exI [of _ "List.insert (ts_UID s) (om_OwnerReferences (dt_Meta t))"])
      (auto simp: refSetOwner_def split: if_splits)
qed (simp_all add: refSetOwner_def)

section \<open>Writes go to owned tenants\<close>

fun ownedWrite :: "TenantSource \<Rightarrow> tsEffect \<Rightarrow> bool" where
  "ownedWrite s (TenUpdate t r) = isOwnedBySource t s"
| "ownedWrite s (TenDelete t r) = isOwnedBySource t s"
| "ownedWrite s (TenCreate t r) = (isOwnedBySource t s \<and>
     om_Labels (dt_Meta t) = [(TenantSourceLabelKey, ts_Name s)] \<and>
     om_Namespace (dt_Meta t) = targetNamespace s)"
| "ownedWrite s e = True"

fun tenantWrite :: "tsEffect \<Rightarrow> bool" where
  "tenantWrite (TenUpdate t r) = True"
| "tenantWrite (TenDelete t r) = True"
| "tenantWrite (TenCreate t r) = True"
| "tenantWrite e = False"

lemma owned_meta: "isOwnedBySource (t\<lparr>dt_Spec := sp\<rparr>) s = isOwnedBySource t s"
  by (simp add: isOwnedBySource_def)

lemma ts_small_emits:
  "(\<And>ty re msg. P (SrcEvent ty re msg)) \<Longrightarrow> emits P (ts_recordEvent R ty re msg)"
  "emits P (ts_setCondition R st re msg)"
  "(\<And>s r. P (SrcStatusUpdate s r)) \<Longrightarrow> emits P k \<Longrightarrow> emits P (ts_persistStatus R fail k)"
  "(\<And>ns k v r. P (TenList ns k v r)) \<Longrightarrow> emits P (listOwnedTenants R s ns)"
  unfolding ts_recordEvent_def ts_setCondition_def ts_persistStatus_def listOwnedTenants_def
  by (rule emits_intros | simp)+

lemma syncExisting_emits:
  assumes "\<And>t r. \<not> isDryRun \<Longrightarrow> isOwnedBySource t source \<Longrightarrow> P (TenUpdate t r)"
  shows "emits P (syncExistingTenant R source dt spec name isDryRun sr)"
  unfolding syncExistingTenant_def Let_def
  by (rule emits_intros assms | simp add: owned_meta)+

lemma syncNew_emits:
  assumes "owner_references (ts_SetOwnerReference R)"
    and "\<And>ns n r. P (TenGet ns n r)"
    and "\<And>t r. \<not> isDryRun \<Longrightarrow> isOwnedBySource t source \<Longrightarrow>
      om_Labels (dt_Meta t) = [(TenantSourceLabelKey, ts_Name source)] \<Longrightarrow>
      om_Namespace (dt_Meta t) = targetNS \<Longrightarrow> P (TenCreate t r)"
  shows "emits P (syncNewTenant R source spec item name targetNS isDryRun sr)"
proof -
  have made: "P (TenCreate t' r)"
    if "ts_SetOwnerReference R source (newTenant source spec name targetNS) = Inr t'" "\<not> isDryRun" for t' r
  proof -
    note t' = that
    obtain refs where "t' = (newTenant source spec name targetNS)
        \<lparr>dt_Meta := (dt_Meta (newTenant source spec name targetNS))\<lparr>om_OwnerReferences := refs\<rparr>\<rparr>"
      using owner_references.set_result [OF assms(1) t'(1)] by blast
    then have "om_Labels (dt_Meta t') = [(TenantSourceLabelKey, ts_Name source)]"
      "om_Namespace (dt_Meta t') = targetNS"
      by (simp_all add: newTenant_def)
    with t'(2) owner_references.owned_after [OF assms(1) t'(1)] show ?thesis by (rule assms(3))
  qed
  have create: "emits P (createNewTenant R source spec item name targetNS isDryRun sr)"
  proof (cases "isDryRun")
    case True
    then show ?thesis by (simp add: createNewTenant_def emits_basic)
  next
    case False
    show ?thesis
      unfolding createNewTenant_def if_not_P [OF False]
      by (intro emits_bind emits_cases emits_basic made False)
  qed
  show ?thesis
    unfolding syncNewTenant_def
    by (intro emits_bind emits_cases emits_basic create assms(2))
qed

lemma syncDesired_emits:
  assumes "owner_references (ts_SetOwnerReference R)"
    and "\<And>ns n r. P (TenGet ns n r)"
    and "\<And>t r. \<not> isDryRun \<Longrightarrow> isOwnedBySource t source \<Longrightarrow> P (TenUpdate t r)"
    and "\<And>t r. \<not> isDryRun \<Longrightarrow> isOwnedBySource t source \<Longrightarrow>
      om_Labels (dt_Meta t) = [(TenantSourceLabelKey, ts_Name source)] \<Longrightarrow>
      om_Namespace (dt_Meta t) = targetNS \<Longrightarrow> P (TenCreate t r)"
  shows "emits P (syncDesired R source existing targetNS isDryRun xs sr)"
proof (induction xs arbitrary: sr)
  case Nil
  show ?case by (simp add: emits_intros)
next
  case (Cons x xs)
  show ?case
    by (cases x) (auto simp: Let_def intro!: emits_bind emits_cases syncExisting_emits syncNew_emits Cons.IH assms)
qed

lemma syncRemoved_emits:
  assumes "\<And>t r. \<not> isDryRun \<Longrightarrow> isOwnedBySource t source \<Longrightarrow> P (TenDelete t r)"
  shows "emits P (syncRemoved R source desired isDryRun xs sr)"
proof (induction xs arbitrary: sr)
  case Nil
  show ?case by (simp add: emits_intros)
next
  case (Cons x xs)
  have "emits P (removeTenant R isDryRun name dt sr)" if "isOwnedBySource dt source" for name dt
    unfolding removeTenant_def using that by (rule_tac emits_intros assms | simp)+
  then show ?case by (cases x) (auto intro!: emits_bind Cons.IH)
qed

lemma syncTenants_emits:
  assumes "owner_references (ts_SetOwnerReference R)"
    and "\<And>ns n r. P (TenGet ns n r)"
    and "\<And>t r. \<not> isDryRun \<Longrightarrow> isOwnedBySource t source \<Longrightarrow> P (TenUpdate t r)"
    and "\<And>t r. \<not> isDryRun \<Longrightarrow> isOwnedBySource t source \<Longrightarrow>
      om_Labels (dt_Meta t) = [(TenantSourceLabelKey, ts_Name source)] \<Longrightarrow>
      om_Namespace (dt_Meta t) = targetNS \<Longrightarrow> P (TenCreate t r)"
    and "\<And>t r. \<not> isDryRun \<Longrightarrow> isOwnedBySource t source \<Longrightarrow> P (TenDelete t r)"
  shows "emits P (syncTenants R source items existing targetNS isDryRun)"
  unfolding syncTenants_def Let_def
  by (rule emits_bind, rule syncDesired_emits) (auto intro: syncRemoved_emits assms)

text \<open>Everything a reconcile of a live source calls, beyond the tenant writes, is harmless.\<close>

definition harmless :: "(tsEffect \<Rightarrow> bool) \<Rightarrow> bool" where
  "harmless P \<longleftrightarrow> (\<forall>e. \<not> tenantWrite e \<longrightarrow> P e)"

lemma harmlessD: "harmless P \<Longrightarrow> \<not> tenantWrite e \<Longrightarrow> P e"
  by (simp add: harmless_def)

lemma pollFrom_emits:
  assumes "owner_references (ts_SetOwnerReference R)" and h: "harmless P"
    and w: "\<And>e. tenantWrite e \<Longrightarrow> tss_DryRun (ts_Spec source) \<noteq> Some True \<Longrightarrow> ownedWrite source e \<Longrightarrow> P e"
  shows "emits P (pollFrom R backend source)"
proof -
  have sync: "emits P (syncTenants R source items existing (targetNamespace source)
      (tss_DryRun (ts_Spec source) = Some True))" for items existing
    by (rule syncTenants_emits [OF assms(1)]) (auto intro: w harmlessD [OF h])
  show ?thesis
    unfolding pollFrom_def handleScanError_def updateSyncStatus_def finishPoll_def Let_def
    by (intro emits_bind emits_cases emits_basic ts_small_emits sync harmlessD [OF h]) simp_all
qed

lemma poll_writes:
  assumes "owner_references (ts_SetOwnerReference R)" and h: "harmless P"
    and w: "\<And>e. tenantWrite e \<Longrightarrow> tss_DryRun (ts_Spec (obj s)) \<noteq> Some True \<Longrightarrow>
      ownedWrite (obj s) e \<Longrightarrow> P e"
  shows "wp (poll R) (\<lambda>_ s'. \<exists>new. trace s' = trace s @ new \<and> list_all P new) s"
proof (cases "map_of (ts_Backends R) (tss_Provider (ts_Spec (obj s)))")
  case None
  let ?fail = "\<lambda>err. Inl (Fail err) :: hres + 'a Backend"
  have "emits P (ts_persistStatus R ?fail (returns (Inl (Done (requeueIn (5 * minute))))))"
    by (intro ts_small_emits emits_basic harmlessD [OF h]) simp_all
  from emits_wp [OF emits_bind [OF ts_small_emits(2) this]]
  have "wp (resolveBackend R) (\<lambda>b s'. (\<exists>new. trace s' = trace s @ new \<and> list_all P new)) s"
    by (simp add: resolveBackend_def wp_bind wp_getObj None Let_def)
  moreover have "wp (resolveBackend R) (\<lambda>b s'. \<exists>x. b = Inl x) s"
    by (simp add: resolveBackend_def ts_persistStatus_def ts_setCondition_def wp_simps None Let_def
        split: sum.split)
  ultimately show ?thesis
    unfolding poll_def wp_bind
    by (rule wp_mono [OF wp_conj]) (auto simp: wp_simps)
next
  case (Some b)
  have e: "emits P (pollFrom R b (obj s))" by (rule pollFrom_emits [OF assms(1) h w])
  from Some show ?thesis
    using emits_wp [OF e, of s]
    by (simp add: poll_def resolveBackend_def wp_simps Let_def)
qed

lemma deleteAll_emits: "(\<And>t r. P (TenDelete t r)) \<Longrightarrow> emits P (ts_deleteAll R ts)"
  by (induction ts) (auto intro!: emits_bind emits_cases emits_basic)

lemma sourceDelete_emits:
  assumes "harmless P" and "\<And>t r. P (TenDelete t r)"
  shows "emits P (ts_reconcileDelete R)"
  unfolding ts_reconcileDelete_def Let_def
  by (intro emits_bind emits_cases emits_basic ts_small_emits deleteAll_emits assms(2)
      harmlessD [OF assms(1)]) simp_all

lemma reconcile_writes:
  assumes "owner_references (ts_SetOwnerReference R)"
    and h: "\<And>src. harmless (P src)"
    and w: "\<And>src e. tenantWrite e \<Longrightarrow> tss_DryRun (ts_Spec src) \<noteq> Some True \<Longrightarrow>
      ownedWrite src e \<Longrightarrow> P src e"
    and run: "run_state (ts_Reconcile R ns n) s = (res, s')"
  shows "\<exists>r rest. trace s' = trace s @ SrcGet ns n r # rest \<and>
    (\<forall>src. r = Inr src \<longrightarrow> om_DeletionTimestamp (ts_Meta src) = None \<longrightarrow> list_all (P src) rest)"
proof -
  have "wp (ts_Reconcile R ns n) (\<lambda>_ s'. \<exists>r rest. trace s' = trace s @ SrcGet ns n r # rest \<and>
    (\<forall>src. r = Inr src \<longrightarrow> om_DeletionTimestamp (ts_Meta src) = None \<longrightarrow> list_all (P src) rest)) s"
    unfolding ts_Reconcile_def wp_bind wp_extern
  proof (intro allI impI, goal_cases)
    case (1 r w')
    show ?case
    proof (cases r)
      case (Inl err)
      then show ?thesis by (simp add: wp_simps split: option.split)
    next
      case (Inr src)
      let ?s = "s\<lparr>world := w', trace := trace s @ [SrcGet ns n (Inr src)]\<rparr>"
      let ?t = "?s\<lparr>obj := src\<rparr>"
      have deleting: "wp (ts_reconcileDelete R) (\<lambda>_ s'. \<exists>new. trace s' = trace ?s @ new) ?t"
        by (rule wp_mono [OF emits_wp [OF sourceDelete_emits [of "\<lambda>_. True"]]])
          (auto simp: harmless_def)
      have finalizer: "emits (P src) (do {
             modifyObj (updSourceFinalizers (\<lambda>fs. AddFinalizer (ts_Apim R) fs TenantSourceFinalizerName));
             s \<leftarrow> getObj;
             u \<leftarrow> extern (sk_Update (ts_Client R) s) (SrcUpdate s);
             case u of
               Inl err \<Rightarrow> returns (Fail err)
             | Inr s' \<Rightarrow> do { modifyObj (\<lambda>_. s'); returns (Done (requeueIn second)) }
           })"
        by (intro emits_bind emits_cases emits_basic harmlessD [OF h]) simp
      have polling: "wp (poll R) (\<lambda>_ s'. \<exists>new. trace s' = trace ?t @ new \<and> list_all (P src) new) ?t"
        by (rule poll_writes [OF assms(1) h]) (auto intro: w)
      show ?thesis
        unfolding Inr sum.case
        by (rule iffD2 [OF wp_bind], rule iffD2 [OF wp_modifyObj], unfold wp_if, intro conjI impI)
          (rule wp_mono [OF deleting] wp_mono [OF emits_wp [OF finalizer]] wp_mono [OF polling],
           force)+
    qed
  qed
  then show ?thesis using run by (rule wpD)
qed

end
