(* ===== verification/SourceStore.thy ===== *)
theory SourceStore
  imports SourceSafety
begin

text \<open>
  The API server as a store of DistributionTenants, and what one sync of a TenantSource makes of
  it. The store contract is a locale; inside it, the effect of a sync on every tenant of the
  target namespace is computed from the tenant's state before, so the list of writes (and the
  plan of a dry run), the conflicts and the final specs follow. A concrete API server with
  \<open>MockBackend\<close> (\<open>internal/tenantsource/mock.go\<close>) satisfies the contract.
\<close>

section \<open>The store\<close>

text \<open>The defaults of the CRD schema (\<open>+kubebuilder:default\<close>) that the API server fills in.\<close>

definition crdDefaults :: "DistributionTenantSpec \<Rightarrow> DistributionTenantSpec" where
  "crdDefaults s = s\<lparr>spec_Enabled := (case spec_Enabled s of None \<Rightarrow> Some True | Some b \<Rightarrow> Some b),
     spec_DNS := map_option (\<lambda>d. d\<lparr>dns_TTL := (case dns_TTL d of None \<Rightarrow> Some 300 | Some x \<Rightarrow> Some x)\<rparr>)
       (spec_DNS s)\<rparr>"

lemma crdDefaults_id:
  "crdDefaults s = s \<longleftrightarrow>
     spec_Enabled s \<noteq> None \<and> (case spec_DNS s of None \<Rightarrow> True | Some d \<Rightarrow> dns_TTL d \<noteq> None)"
proof -
  have "crdDefaults s = s \<longleftrightarrow> spec_Enabled (crdDefaults s) = spec_Enabled s \<and>
      spec_DNS (crdDefaults s) = spec_DNS s"
    unfolding crdDefaults_def by (cases s) auto
  also have "\<dots> \<longleftrightarrow> spec_Enabled s \<noteq> None \<and> (case spec_DNS s of None \<Rightarrow> True | Some d \<Rightarrow> dns_TTL d \<noteq> None)"
  proof -
    have "d\<lparr>dns_TTL := (case dns_TTL d of None \<Rightarrow> Some 300 | Some x \<Rightarrow> Some x)\<rparr> = d \<longleftrightarrow> dns_TTL d \<noteq> None" for d
      by (cases d; cases "dns_TTL d") auto
    then show ?thesis
      by (cases "spec_Enabled s"; cases "spec_DNS s") (simp_all add: crdDefaults_def)
  qed
  finally show ?thesis .
qed

definition stores :: "DistributionTenant \<Rightarrow> DistributionTenant \<Rightarrow> bool" where
  "stores t t' \<longleftrightarrow> keyOf t' = keyOf t \<and> dt_Spec t' = crdDefaults (dt_Spec t) \<and>
     om_Labels (dt_Meta t') = om_Labels (dt_Meta t) \<and>
     om_OwnerReferences (dt_Meta t') = om_OwnerReferences (dt_Meta t) \<and>
     om_DeletionTimestamp (dt_Meta t') = om_DeletionTimestamp (dt_Meta t)"

text \<open>A deleted tenant is gone, or, as long as it has finalizers, marked.\<close>

definition goneOrMarked :: "DistributionTenant \<Rightarrow> DistributionTenant option \<Rightarrow> bool" where
  "goneOrMarked t x \<longleftrightarrow> (case x of None \<Rightarrow> om_Finalizers (dt_Meta t) = []
     | Some t' \<Rightarrow> \<exists>tm. t' = t\<lparr>dt_Meta := (dt_Meta t)\<lparr>om_DeletionTimestamp := Some tm\<rparr>\<rparr>)"

definition labelled :: "TenantSource \<Rightarrow> DistributionTenant \<Rightarrow> bool" where
  "labelled source t \<longleftrightarrow> (TenantSourceLabelKey, ts_Name source) \<in> set (om_Labels (dt_Meta t))"

locale tenant_store =
  fixes K :: "'w SourceClient"
    and tenants :: "'w \<Rightarrow> string \<times> string \<Rightarrow> DistributionTenant option"
    and valid :: "DistributionTenantSpec \<Rightarrow> bool"
  assumes keyed: "tenants w key = Some t \<Longrightarrow> keyOf t = key"
    and get_tenant:
      "sk_GetTenant K ns n w = (r, w') \<Longrightarrow> tenants w' = tenants w \<and>
         (case tenants w (ns, n) of Some t \<Rightarrow> r = Inr t | None \<Rightarrow> \<exists>e. r = Inl e)"
    and list_tenants:
      "sk_ListTenants K ns k v w = (l, w') \<Longrightarrow> tenants w' = tenants w \<and>
         (\<exists>ts. l = Inr ts \<and> distinct (map (\<lambda>t. dt_Name t) ts) \<and>
           (\<forall>t. t \<in> set ts \<longleftrightarrow> tenants w (ns, dt_Name t) = Some t \<and> (k, v) \<in> set (om_Labels (dt_Meta t))))"
    and create_tenant:
      "sk_CreateTenant K t w = (r, w') \<Longrightarrow>
         if tenants w (keyOf t) = None \<and> valid (dt_Spec t)
         then \<exists>t'. r = Inr t' \<and> stores t t' \<and> tenants w' = (tenants w)(keyOf t \<mapsto> t')
         else (\<exists>e. r = Inl e) \<and> tenants w' = tenants w"
    and update_tenant:
      "tenants w (keyOf t) \<noteq> None \<Longrightarrow> sk_UpdateTenant K t w = (r, w') \<Longrightarrow>
         if valid (dt_Spec t)
         then \<exists>t'. r = Inr t' \<and> stores t t' \<and> tenants w' = (tenants w)(keyOf t \<mapsto> t')
         else (\<exists>e. r = Inl e) \<and> tenants w' = tenants w"
    and delete_tenant:
      "tenants w (keyOf t) = Some t \<Longrightarrow> sk_DeleteTenant K t w = (d, w') \<Longrightarrow>
         d = Inr () \<and> (\<exists>x. goneOrMarked t x \<and> tenants w' = (tenants w)(keyOf t := x))"

section \<open>What a sync does to one tenant\<close>

text \<open>The writes of a trace, as action and name, and the plan that a sync follows.\<close>

fun writeOf :: "tsEffect \<Rightarrow> (string \<times> string) option" where
  "writeOf (TenCreate t r) = Some (''create'', dt_Name t)"
| "writeOf (TenUpdate t r) = Some (''update'', dt_Name t)"
| "writeOf (TenDelete t r) = Some (''delete'', dt_Name t)"
| "writeOf e = None"

definition writesOf :: "tsEffect list \<Rightarrow> (string \<times> string) list" where
  "writesOf es = List.map_filter writeOf es"

lemma writesOf_simps [simp]:
  "writesOf [] = []" "writesOf (xs @ ys) = writesOf xs @ writesOf ys"
  "writesOf (e # es) = (case writeOf e of None \<Rightarrow> writesOf es | Some w \<Rightarrow> w # writesOf es)"
  by (simp_all add: writesOf_def List.map_filter_def split: option.split)

definition announced :: "syncResult \<Rightarrow> (string \<times> string) list" where
  "announced sr = map (\<lambda>p. (pc_Action p, pc_TenantName p)) (pendingChanges sr)"

lemma announced_simps [simp]:
  "announced (addErr e sr) = announced sr"
  "announced (addPending act n d sr) = announced sr @ [(act, n)]"
  "announced (sr\<lparr>created := c\<rparr>) = announced sr" "announced (sr\<lparr>updated := c\<rparr>) = announced sr"
  "announced (sr\<lparr>deleted := c\<rparr>) = announced sr" "announced emptySync = []"
  by (simp_all add: announced_def addErr_def addPending_def emptySync_def)

lemma errs_simps [simp]:
  "errs (addErr e sr) = errs sr @ [e]" "errs (addPending act n d sr) = errs sr" "errs emptySync = []"
  by (simp_all add: addErr_def addPending_def emptySync_def)

definition planDesired ::
  "TenantSource \<Rightarrow> DistributionTenantSpec \<Rightarrow> string \<Rightarrow> DistributionTenant option \<Rightarrow>
   (string \<times> string) list" where
  "planDesired source spec name before = (case before of
     None \<Rightarrow> [(''create'', name)]
   | Some t \<Rightarrow>
       if \<not> isOwnedBySource t source then []
       else if \<not> labelled source t then [(''create'', name)]
       else if tenantSpecEqual (dt_Spec t) spec then [] else [(''update'', name)])"

text \<open>Can the sync bring this tenant to the spec?\<close>

definition acceptable ::
  "(DistributionTenantSpec \<Rightarrow> bool) \<Rightarrow> TenantSource \<Rightarrow> DistributionTenantSpec \<Rightarrow>
   DistributionTenant option \<Rightarrow> bool" where
  "acceptable valid source spec before = (case before of
     None \<Rightarrow> valid spec
   | Some t \<Rightarrow> isOwnedBySource t source \<and> labelled source t \<and>
       (tenantSpecEqual (dt_Spec t) spec \<or> valid (applyManagedFields (dt_Spec t) spec)))"

definition reached ::
  "TenantSource \<Rightarrow> DistributionTenantSpec \<Rightarrow> DistributionTenant option \<Rightarrow>
   DistributionTenant option \<Rightarrow> bool" where
  "reached source spec before after \<longleftrightarrow> (\<exists>t'. after = Some t' \<and>
     isOwnedBySource t' source \<and> labelled source t' \<and>
     (case before of
        None \<Rightarrow> dt_Spec t' = crdDefaults spec \<and> \<not> beingDeleted t'
      | Some t \<Rightarrow> if tenantSpecEqual (dt_Spec t) spec then t' = t
                  else dt_Spec t' = crdDefaults (applyManagedFields (dt_Spec t) spec) \<and>
                    (beingDeleted t' \<longleftrightarrow> beingDeleted t)))"

text \<open>What has happened after one tenant was handled: to the trace, the result and the store.\<close>

definition stepDone ::
  "('w \<Rightarrow> string \<times> string \<Rightarrow> DistributionTenant option) \<Rightarrow> (DistributionTenantSpec \<Rightarrow> bool) \<Rightarrow>
   TenantSource \<Rightarrow> DistributionTenantSpec \<Rightarrow> string \<Rightarrow> string \<Rightarrow> bool \<Rightarrow> syncResult \<Rightarrow> 'w tsState \<Rightarrow>
   syncResult \<Rightarrow> 'w tsState \<Rightarrow> bool" where
  "stepDone tenants valid source spec ns name dry sr s sr' s' \<longleftrightarrow>
     (let before = tenants (world s) (ns, name);
          after = tenants (world s') (ns, name);
          plan = planDesired source spec name before in
      (\<exists>new. trace s' = trace s @ new \<and> writesOf new = (if dry then [] else plan)) \<and>
      announced sr' = announced sr @ (if dry then plan else []) \<and>
      (\<forall>k. k \<noteq> (ns, name) \<longrightarrow> tenants (world s') k = tenants (world s) k) \<and>
      (dry \<longrightarrow> after = before) \<and>
      (\<not> dry \<longrightarrow>
         (if acceptable valid source spec before then errs sr' = errs sr \<and> reached source spec before after
          else errs sr' \<noteq> [] \<and> after = before)))"

context tenant_store
begin

lemma name_of_key: "tenants w (ns, name) = Some t \<Longrightarrow> om_Name (dt_Meta t) = name \<and> om_Namespace (dt_Meta t) = ns"
  by (drule keyed) (simp add: keyOf_def)

lemma wp_syncExisting:
  assumes R: "ts_Client R = K" and t: "tenants (world s) (ns, name) = Some t" and l: "labelled source t"
  shows "wp (syncExistingTenant R source t spec name dry sr)
    (\<lambda>sr' s'. stepDone tenants valid source spec ns name dry sr s sr' s') s"
proof (cases "isOwnedBySource t source \<and> \<not> tenantSpecEqual (dt_Spec t) spec \<and> \<not> dry")
  case False
  then show ?thesis
    using t l by (auto simp: syncExistingTenant_def wp_simps stepDone_def Let_def planDesired_def
        acceptable_def reached_def)
next
  case True
  let ?t = "t\<lparr>dt_Spec := applyManagedFields (dt_Spec t) spec\<rparr>"
  have k: "keyOf ?t = (ns, name)" "dt_Name t = name"
    using name_of_key [OF t] by (simp_all add: keyOf_def)
  have "wp (extern (sk_UpdateTenant (ts_Client R) ?t) (TenUpdate ?t))
      (\<lambda>r s'. wp (case r of Inl err \<Rightarrow> returns (addErr (msgFailed ''update tenant '' name err) sr)
                   | Inr _ \<Rightarrow> returns (sr\<lparr>updated := updated sr + 1\<rparr>))
        (stepDone tenants valid source spec ns name dry sr s) s') s"
    unfolding wp_extern R
  proof (intro allI impI, goal_cases)
    case (1 r w')
    have ex: "tenants (world s) (keyOf ?t) \<noteq> None" by (simp add: k t)
    show ?case
    proof (cases "valid (dt_Spec ?t)")
      case valid: True
      then obtain t' where t': "r = Inr t'" "stores ?t t'" "tenants w' = (tenants (world s))((ns, name) \<mapsto> t')"
        using update_tenant [OF ex 1] by (auto simp: k)
      have "isOwnedBySource t' source" "labelled source t'"
        "dt_Spec t' = crdDefaults (applyManagedFields (dt_Spec t) spec)" "beingDeleted t' = beingDeleted t"
        using t'(2) True l by (simp_all add: stores_def isOwnedBySource_def labelled_def beingDeleted_def)
      then show ?thesis
        using True valid l t t'(3)
        by (auto simp: t'(1) wp_simps stepDone_def Let_def planDesired_def acceptable_def reached_def k)
    next
      case invalid: False
      then obtain e where "r = Inl e" "tenants w' = tenants (world s)"
        using update_tenant [OF ex 1] by auto
      then show ?thesis
        using True invalid l t
        by (auto simp: wp_simps stepDone_def Let_def planDesired_def acceptable_def k)
    qed
  qed
  then show ?thesis using True by (simp add: syncExistingTenant_def wp_bind Let_def)
qed

lemma wp_createNew:
  assumes R: "ts_Client R = K" and own: "owner_references (ts_SetOwnerReference R)"
    and ns: "ts_Namespace source = ns" and dry: "\<not> dry"
  shows "wp (createNewTenant R source spec item name ns dry sr)
    (\<lambda>sr' s'. \<exists>t r. trace s' = trace s @ [TenCreate t r] \<and> dt_Name t = name \<and> announced sr' = announced sr \<and>
       (if tenants (world s) (ns, name) = None \<and> valid spec
        then errs sr' = errs sr \<and> (\<exists>t'. tenants (world s') = (tenants (world s))((ns, name) \<mapsto> t') \<and>
          isOwnedBySource t' source \<and> labelled source t' \<and> dt_Spec t' = crdDefaults spec \<and>
          \<not> beingDeleted t')
        else errs sr' \<noteq> [] \<and> tenants (world s') = tenants (world s))) s"
proof -
  let ?n = "newTenant source spec name ns"
  have "om_Namespace (dt_Meta ?n) = ts_Namespace source" by (simp add: newTenant_def ns)
  then obtain t where t: "ts_SetOwnerReference R source ?n = Inr t"
    using owner_references.set_same [OF own] by blast
  obtain refs where refs: "set refs = insert (ts_UID source) (set (om_OwnerReferences (dt_Meta ?n)))"
    "t = ?n\<lparr>dt_Meta := (dt_Meta ?n)\<lparr>om_OwnerReferences := refs\<rparr>\<rparr>"
    using owner_references.set_result [OF own t] by blast
  have p: "keyOf t = (ns, name)" "dt_Spec t = spec" "dt_Name t = name"
    "om_Labels (dt_Meta t) = [(TenantSourceLabelKey, ts_Name source)]" "isOwnedBySource t source" "\<not> beingDeleted t"
    using refs by (simp_all add: newTenant_def keyOf_def isOwnedBySource_def list_ex_iff beingDeleted_def)
  have "wp (extern (sk_CreateTenant (ts_Client R) t) (TenCreate t))
      (\<lambda>r s'. wp (case r of Inl err \<Rightarrow> returns (addErr (msgFailed ''create tenant '' name err) sr)
                   | Inr _ \<Rightarrow> returns (sr\<lparr>created := created sr + 1\<rparr>))
        (\<lambda>sr' s'. \<exists>t r. trace s' = trace s @ [TenCreate t r] \<and> dt_Name t = name \<and> announced sr' = announced sr \<and>
       (if tenants (world s) (ns, name) = None \<and> valid spec
        then errs sr' = errs sr \<and> (\<exists>t'. tenants (world s') = (tenants (world s))((ns, name) \<mapsto> t') \<and>
          isOwnedBySource t' source \<and> labelled source t' \<and> dt_Spec t' = crdDefaults spec \<and>
          \<not> beingDeleted t')
        else errs sr' \<noteq> [] \<and> tenants (world s') = tenants (world s))) s') s"
    unfolding wp_extern R
  proof (intro allI impI, goal_cases)
    case (1 r w')
    show ?case
    proof (cases "tenants (world s) (ns, name) = None \<and> valid spec")
      case True
      then obtain t' where t': "r = Inr t'" "stores t t'" "tenants w' = (tenants (world s))((ns, name) \<mapsto> t')"
        using create_tenant [OF 1] by (auto simp: p)
      then have "isOwnedBySource t' source" "labelled source t'" "dt_Spec t' = crdDefaults spec" "\<not> beingDeleted t'"
        using p by (simp_all add: stores_def isOwnedBySource_def labelled_def beingDeleted_def)
      with True t' p(3) show ?thesis by (auto simp: wp_simps)
    next
      case False
      then obtain e where "r = Inl e" "tenants w' = tenants (world s)"
        using create_tenant [OF 1] by (auto simp: p)
      with False p(3) show ?thesis by (auto simp: wp_simps)
    qed
  qed
  then show ?thesis using dry by (simp add: createNewTenant_def wp_bind t)
qed

lemma wp_syncNew:
  assumes R: "ts_Client R = K" and own: "owner_references (ts_SetOwnerReference R)"
    and ns: "ts_Namespace source = ns"
    and nl: "\<And>t. tenants (world s) (ns, name) = Some t \<Longrightarrow> \<not> labelled source t"
  shows "wp (syncNewTenant R source spec item name ns dry sr)
    (\<lambda>sr' s'. stepDone tenants valid source spec ns name dry sr s sr' s') s"
proof -
  have create: "wp (createNewTenant R source spec item name ns dry sr)
      (stepDone tenants valid source spec ns name dry sr s) s1"
    if t1: "tenants (world s1) = tenants (world s)" "trace s1 = trace s @ [TenGet ns name r]"
      and may: "\<And>t. tenants (world s) (ns, name) = Some t \<Longrightarrow> isOwnedBySource t source" for s1 r
  proof (cases dry)
    case True
    then show ?thesis
      using t1 nl may
      by (auto simp: createNewTenant_def wp_simps stepDone_def Let_def planDesired_def split: option.split)
  next
    case False
    show ?thesis
      by (rule wp_mono [OF wp_createNew [OF R own ns False]])
        (use t1 nl may False in \<open>auto simp: stepDone_def Let_def planDesired_def acceptable_def reached_def
          split: option.splits if_splits\<close>)
  qed
  show ?thesis
    unfolding syncNewTenant_def wp_bind wp_extern R
  proof (intro allI impI, goal_cases)
    case (1 r w')
    let ?s = "s\<lparr>world := w', trace := trace s @ [TenGet ns name r]\<rparr>"
    have g: "tenants w' = tenants (world s)"
      "case tenants (world s) (ns, name) of Some t \<Rightarrow> r = Inr t | None \<Rightarrow> \<exists>e. r = Inl e"
      using get_tenant [OF 1] by simp_all
    show ?case
    proof (cases "tenants (world s) (ns, name)")
      case None
      then have "\<exists>e. r = Inl e" using g(2) by simp
      then show ?thesis using create [of ?s r] g(1) None by auto
    next
      case (Some t)
      then have r: "r = Inr t" using g(2) by simp
      show ?thesis
      proof (cases "isOwnedBySource t source")
        case True
        then show ?thesis using create [of ?s r] g(1) Some by (simp add: r wp_simps)
      next
        case False
        then show ?thesis
          using g(1) Some by (simp add: r wp_simps stepDone_def Let_def planDesired_def acceptable_def)
      qed
    qed
  qed
qed

end

text \<open>The same for the loop over the desired items, and for the loop over the listed tenants.\<close>

definition planAll ::
  "RangeOrder \<Rightarrow> TenantSource \<Rightarrow> string \<Rightarrow> (string \<times> string \<Rightarrow> DistributionTenant option) \<Rightarrow>
   (string \<times> TenantItem) list \<Rightarrow> (string \<times> string) list" where
  "planAll ro source ns T xs = concat (map (\<lambda>(name, item).
     planDesired source (buildTenantSpec ro source item) name (T (ns, name))) xs)"

definition desiredDone ::
  "('w \<Rightarrow> string \<times> string \<Rightarrow> DistributionTenant option) \<Rightarrow> (DistributionTenantSpec \<Rightarrow> bool) \<Rightarrow>
   RangeOrder \<Rightarrow> TenantSource \<Rightarrow> string \<Rightarrow> bool \<Rightarrow> (string \<times> TenantItem) list \<Rightarrow> syncResult \<Rightarrow> 'w tsState \<Rightarrow>
   syncResult \<Rightarrow> 'w tsState \<Rightarrow> bool" where
  "desiredDone tenants valid ro source ns dry xs sr s sr' s' \<longleftrightarrow>
     (let T = tenants (world s); T' = tenants (world s'); plan = planAll ro source ns T xs;
          ok = (\<lambda>(name, item). acceptable valid source (buildTenantSpec ro source item) (T (ns, name))) in
      (\<exists>new. trace s' = trace s @ new \<and> writesOf new = (if dry then [] else plan)) \<and>
      announced sr' = announced sr @ (if dry then plan else []) \<and>
      (\<forall>k. k \<notin> Pair ns ` fst ` set xs \<longrightarrow> T' k = T k) \<and>
      (dry \<longrightarrow> T' = T) \<and>
      (\<not> dry \<longrightarrow> (errs sr' = [] \<longleftrightarrow> errs sr = [] \<and> list_all ok xs) \<and>
         (\<forall>(name, item) \<in> set xs.
            if ok (name, item)
            then reached source (buildTenantSpec ro source item) (T (ns, name)) (T' (ns, name))
            else T' (ns, name) = T (ns, name))))"

text \<open>The listing: the labelled tenants of the namespace, by name.\<close>

definition listedAs ::
  "(string \<times> string \<Rightarrow> DistributionTenant option) \<Rightarrow> TenantSource \<Rightarrow> string \<Rightarrow> string \<Rightarrow>
   DistributionTenant option" where
  "listedAs T source ns name = (case T (ns, name) of None \<Rightarrow> None
     | Some t \<Rightarrow> if labelled source t then Some t else None)"

lemma planAll_simps [simp]:
  "planAll ro source ns T [] = []"
  "planAll ro source ns T ((name, item) # xs) =
     planDesired source (buildTenantSpec ro source item) name (T (ns, name)) @ planAll ro source ns T xs"
  by (simp_all add: planAll_def)

lemma planAll_cong:
  "(\<And>name. name \<in> fst ` set xs \<Longrightarrow> T (ns, name) = T' (ns, name)) \<Longrightarrow>
   planAll ro source ns T xs = planAll ro source ns T' xs"
  by (induction xs) auto

lemma desiredDone_Nil: "desiredDone tenants valid ro source ns dry [] sr s sr s"
  by (simp add: desiredDone_def)

lemma stepDoneD:
  assumes "stepDone tenants valid source spec ns name dry sr s sr' s'"
  shows "\<exists>new. trace s' = trace s @ new \<and>
      writesOf new = (if dry then [] else planDesired source spec name (tenants (world s) (ns, name)))"
    and "announced sr' = announced sr @
      (if dry then planDesired source spec name (tenants (world s) (ns, name)) else [])"
    and "\<not> dry \<Longrightarrow> if acceptable valid source spec (tenants (world s) (ns, name))
      then errs sr' = errs sr \<and> reached source spec (tenants (world s) (ns, name)) (tenants (world s') (ns, name))
      else errs sr' \<noteq> [] \<and> tenants (world s') (ns, name) = tenants (world s) (ns, name)"
  using assms unfolding stepDone_def Let_def by blast+

lemma stepDone_frame:
  "stepDone tenants valid source spec ns name dry sr s sr' s' \<Longrightarrow> k \<noteq> (ns, name) \<Longrightarrow>
     tenants (world s') k = tenants (world s) k"
  unfolding stepDone_def Let_def by blast

lemma stepDone_dry:
  assumes "stepDone tenants valid source spec ns name True sr s sr' s'"
  shows "tenants (world s') = tenants (world s)"
proof (rule ext)
  fix k
  have "tenants (world s') (ns, name) = tenants (world s) (ns, name)"
    using assms unfolding stepDone_def Let_def by blast
  with stepDone_frame [OF assms, of k] show "tenants (world s') k = tenants (world s) k"
    by (cases "k = (ns, name)") blast+
qed

lemma desiredDoneD:
  assumes "desiredDone tenants valid ro source ns dry xs sr s sr' s'"
  shows "\<exists>new. trace s' = trace s @ new \<and>
      writesOf new = (if dry then [] else planAll ro source ns (tenants (world s)) xs)"
    and "announced sr' = announced sr @ (if dry then planAll ro source ns (tenants (world s)) xs else [])"
    and "\<not> dry \<Longrightarrow> errs sr' = [] \<longleftrightarrow> errs sr = [] \<and> list_all (\<lambda>(name, item). acceptable valid source
      (buildTenantSpec ro source item) (tenants (world s) (ns, name))) xs"
    and "\<not> dry \<Longrightarrow> (name, item) \<in> set xs \<Longrightarrow>
      (if acceptable valid source (buildTenantSpec ro source item) (tenants (world s) (ns, name))
       then reached source (buildTenantSpec ro source item) (tenants (world s) (ns, name))
         (tenants (world s') (ns, name))
       else tenants (world s') (ns, name) = tenants (world s) (ns, name))"
  using assms unfolding desiredDone_def Let_def prod.case by blast+

lemma desiredDone_frame:
  "desiredDone tenants valid ro source ns dry xs sr s sr' s' \<Longrightarrow> k \<notin> Pair ns ` fst ` set xs \<Longrightarrow>
     tenants (world s') k = tenants (world s) k"
  unfolding desiredDone_def Let_def by blast

lemma desiredDone_dry: "desiredDone tenants valid ro source ns True xs sr s sr' s' \<Longrightarrow>
    tenants (world s') = tenants (world s)"
  unfolding desiredDone_def Let_def by blast

lemma desiredDone_Cons:
  assumes a: "stepDone tenants valid source (buildTenantSpec ro source item) ns name dry sr s sr1 s1"
    and b: "desiredDone tenants valid ro source ns dry xs sr1 s1 sr' s'"
    and d: "name \<notin> fst ` set xs"
  shows "desiredDone tenants valid ro source ns dry ((name, item) # xs) sr s sr' s'"
proof -
  let ?T = "tenants (world s)" and ?T1 = "tenants (world s1)" and ?T' = "tenants (world s')"
  have same: "?T1 (ns, n) = ?T (ns, n)" if "n \<in> fst ` set xs" for n
  proof (rule stepDone_frame [OF a])
    show "(ns, n) \<noteq> (ns, name)" using d that by auto
  qed
  have here: "?T' (ns, name) = ?T1 (ns, name)"
    by (rule desiredDone_frame [OF b]) (use d in auto)
  have plan: "planAll ro source ns ?T1 xs = planAll ro source ns ?T xs"
    by (rule planAll_cong) (rule same)
  have ok: "list_all (\<lambda>(name, item). acceptable valid source (buildTenantSpec ro source item) (?T1 (ns, name))) xs =
      list_all (\<lambda>(name, item). acceptable valid source (buildTenantSpec ro source item) (?T (ns, name))) xs"
    using same by (force simp: list_all_iff)
  obtain n1 where n1: "trace s1 = trace s @ n1"
      "writesOf n1 = (if dry then [] else planDesired source (buildTenantSpec ro source item) name (?T (ns, name)))"
    using stepDoneD(1) [OF a] by blast
  obtain n2 where n2: "trace s' = trace s1 @ n2" "writesOf n2 = (if dry then [] else planAll ro source ns ?T1 xs)"
    using desiredDoneD(1) [OF b] by blast
  have t: "\<exists>new. trace s' = trace s @ new \<and>
      writesOf new = (if dry then [] else planAll ro source ns ?T ((name, item) # xs))"
    using n1 n2 by (intro exI [of _ "n1 @ n2"]) (simp add: plan)
  have an: "announced sr' = announced sr @ (if dry then planAll ro source ns ?T ((name, item) # xs) else [])"
    by (simp add: stepDoneD(2) [OF a] desiredDoneD(2) [OF b] plan)
  have frame: "?T' k = ?T k" if "k \<notin> Pair ns ` fst ` set ((name, item) # xs)" for k
  proof -
    have "k \<notin> Pair ns ` fst ` set xs" "k \<noteq> (ns, name)" using that by auto
    then show ?thesis using desiredDone_frame [OF b] stepDone_frame [OF a] by metis
  qed
  have dry: "?T' = ?T" if dry
    using a b that stepDone_dry desiredDone_dry by metis
  have errs: "errs sr' = [] \<longleftrightarrow> errs sr = [] \<and> list_all (\<lambda>(name, item). acceptable valid source
      (buildTenantSpec ro source item) (?T (ns, name))) ((name, item) # xs)" if "\<not> dry"
    using stepDoneD(3) [OF a that] desiredDoneD(3) [OF b that] ok by (auto split: if_splits)
  have items: "\<forall>(n, i) \<in> set ((name, item) # xs).
      if acceptable valid source (buildTenantSpec ro source i) (?T (ns, n))
      then reached source (buildTenantSpec ro source i) (?T (ns, n)) (?T' (ns, n))
      else ?T' (ns, n) = ?T (ns, n)" if "\<not> dry"
  proof (clarify, goal_cases)
    case (1 n i)
    show ?case
    proof (cases "(n, i) = (name, item)")
      case True
      then show ?thesis
        using stepDoneD(3) [OF a that] here by (auto split: if_splits)
    next
      case False
      with 1 have m: "(n, i) \<in> set xs" by auto
      then have "n \<in> fst ` set xs" by force
      then show ?thesis
        using desiredDoneD(4) [OF b that m] same [of n] by (simp split: if_splits)
    qed
  qed
  show ?thesis
    unfolding desiredDone_def Let_def prod.case
    using t an frame dry errs items by blast
qed

context tenant_store
begin

lemma wp_syncDesired:
  assumes R: "ts_Client R = K" and own: "owner_references (ts_SetOwnerReference R)"
    and ns: "ts_Namespace source = ns"
  shows "distinct (map fst xs) \<Longrightarrow> \<forall>name \<in> fst ` set xs. ex name = listedAs (tenants (world s)) source ns name \<Longrightarrow>
    wp (syncDesired R source ex ns dry xs sr)
      (\<lambda>sr' s'. desiredDone tenants valid (ts_Order R) source ns dry xs sr s sr' s') s"
proof (induction xs arbitrary: s sr)
  case Nil
  then show ?case by (simp add: wp_simps desiredDone_Nil)
next
  case (Cons x xs)
  obtain name item where x: "x = (name, item)" by (cases x)
  let ?spec = "buildTenantSpec (ts_Order R) source item"
  have d: "name \<notin> fst ` set xs" "distinct (map fst xs)" using Cons.prems(1) by (simp_all add: x)
  have one: "wp (case ex name of Some dt \<Rightarrow> syncExistingTenant R source dt ?spec name dry sr
      | None \<Rightarrow> syncNewTenant R source ?spec item name ns dry sr)
      (\<lambda>sr1 s1. stepDone tenants valid source ?spec ns name dry sr s sr1 s1) s"
  proof (cases "ex name")
    case None
    then have "\<And>t. tenants (world s) (ns, name) = Some t \<Longrightarrow> \<not> labelled source t"
      using Cons.prems(2) by (auto simp: x listedAs_def split: option.splits if_splits)
    then show ?thesis using wp_syncNew [OF R own ns] by (simp add: None)
  next
    case (Some t)
    then have "tenants (world s) (ns, name) = Some t" "labelled source t"
      using Cons.prems(2) by (auto simp: x listedAs_def split: option.splits if_splits)
    then show ?thesis using wp_syncExisting [OF R] by (simp add: Some)
  qed
  show ?case
    unfolding x syncDesired.simps Let_def wp_bind
  proof (rule wp_mono [OF one], goal_cases)
    case (1 sr1 s1)
    have "\<forall>n \<in> fst ` set xs. ex n = listedAs (tenants (world s1)) source ns n"
    proof
      fix n assume n: "n \<in> fst ` set xs"
      then have "(ns, n) \<noteq> (ns, name)" using d(1) by auto
      then have "tenants (world s1) (ns, n) = tenants (world s) (ns, n)" by (rule stepDone_frame [OF 1])
      then show "ex n = listedAs (tenants (world s1)) source ns n"
        using bspec [OF Cons.prems(2), of n] n by (simp add: x listedAs_def)
    qed
    from Cons.IH [OF d(2) this] show ?case
      by (rule wp_mono) (rule desiredDone_Cons [OF 1 _ d(1)])
  qed
qed

end

definition planRemoved ::
  "TenantSource \<Rightarrow> (string \<rightharpoonup> TenantItem) \<Rightarrow> (string \<times> DistributionTenant) list \<Rightarrow>
   (string \<times> string) list" where
  "planRemoved source desired ys = concat (map (\<lambda>(name, dt).
     if desired name = None \<and> isOwnedBySource dt source then [(''delete'', name)] else []) ys)"

lemma planRemoved_simps [simp]:
  "planRemoved source desired [] = []"
  "planRemoved source desired ((name, dt) # ys) =
     (if desired name = None \<and> isOwnedBySource dt source then [(''delete'', name)] else []) @
     planRemoved source desired ys"
  by (simp_all add: planRemoved_def)

text \<open>The loop over the listed tenants: \<open>rs\<close> are the tenants it is to remove.\<close>

definition toRemove ::
  "TenantSource \<Rightarrow> (string \<rightharpoonup> TenantItem) \<Rightarrow> (string \<times> DistributionTenant) list \<Rightarrow> string \<Rightarrow>
   DistributionTenant option" where
  "toRemove source desired ys name = (case map_of ys name of None \<Rightarrow> None
     | Some dt \<Rightarrow> if desired name = None \<and> isOwnedBySource dt source then Some dt else None)"

definition removedDone ::
  "('w \<Rightarrow> string \<times> string \<Rightarrow> DistributionTenant option) \<Rightarrow> TenantSource \<Rightarrow> string \<Rightarrow> bool \<Rightarrow>
   (string \<rightharpoonup> TenantItem) \<Rightarrow> (string \<times> DistributionTenant) list \<Rightarrow> syncResult \<Rightarrow> 'w tsState \<Rightarrow>
   syncResult \<Rightarrow> 'w tsState \<Rightarrow> bool" where
  "removedDone tenants source ns dry desired ys sr s sr' s' \<longleftrightarrow>
     (\<exists>new. trace s' = trace s @ new \<and> writesOf new = (if dry then [] else planRemoved source desired ys)) \<and>
     announced sr' = announced sr @ (if dry then planRemoved source desired ys else []) \<and>
     errs sr' = errs sr \<and>
     (\<forall>k. dry \<or> fst k \<noteq> ns \<or> toRemove source desired ys (snd k) = None \<longrightarrow>
        tenants (world s') k = tenants (world s) k) \<and>
     (\<forall>name dt. \<not> dry \<longrightarrow> toRemove source desired ys name = Some dt \<longrightarrow>
        goneOrMarked dt (tenants (world s') (ns, name)))"

lemma removedDone_skip:
  assumes "removedDone tenants source ns dry desired ys sr s sr' s'"
    and "\<not> (desired name = None \<and> isOwnedBySource dt source)" and "name \<notin> fst ` set ys"
  shows "removedDone tenants source ns dry desired ((name, dt) # ys) sr s sr' s'"
proof -
  have "map_of ys name = None" using assms(3) by (simp add: map_of_eq_None_iff)
  then have r: "toRemove source desired ((name, dt) # ys) = toRemove source desired ys"
    using assms(2) by (auto simp: toRemove_def)
  have p: "planRemoved source desired ((name, dt) # ys) = planRemoved source desired ys"
    using assms(2) by auto
  show ?thesis using assms(1) unfolding removedDone_def r p .
qed

text \<open>What one removal leaves behind.\<close>

definition removeDone ::
  "('w \<Rightarrow> string \<times> string \<Rightarrow> DistributionTenant option) \<Rightarrow> string \<Rightarrow> string \<Rightarrow> DistributionTenant \<Rightarrow> bool \<Rightarrow>
   syncResult \<Rightarrow> 'w tsState \<Rightarrow> syncResult \<Rightarrow> 'w tsState \<Rightarrow> bool" where
  "removeDone tenants ns name dt dry sr s sr' s' \<longleftrightarrow>
    (\<exists>new. trace s' = trace s @ new \<and> writesOf new = (if dry then [] else [(''delete'', name)])) \<and>
    announced sr' = announced sr @ (if dry then [(''delete'', name)] else []) \<and> errs sr' = errs sr \<and>
    (dry \<longrightarrow> tenants (world s') = tenants (world s)) \<and>
    (\<not> dry \<longrightarrow> (\<exists>x. goneOrMarked dt x \<and> tenants (world s') = (tenants (world s))((ns, name) := x)))"

lemma removeDone_other:
  "removeDone tenants ns name dt dry sr s sr' s' \<Longrightarrow> k \<noteq> (ns, name) \<Longrightarrow>
     tenants (world s') k = tenants (world s) k"
  by (cases dry) (auto simp: removeDone_def)

lemma removedDone_Cons:
  assumes a: "removeDone tenants ns name dt dry sr s sr1 s1"
    and b: "removedDone tenants source ns dry desired ys sr1 s1 sr' s'"
    and del: "desired name = None" "isOwnedBySource dt source" and d: "name \<notin> fst ` set ys"
  shows "removedDone tenants source ns dry desired ((name, dt) # ys) sr s sr' s'"
proof -
  have none: "map_of ys name = None" using d by (simp add: map_of_eq_None_iff)
  have r: "toRemove source desired ((name, dt) # ys) = (toRemove source desired ys)(name \<mapsto> dt)"
    using del by (auto simp: toRemove_def)
  have rn: "toRemove source desired ys name = None" by (simp add: toRemove_def none)
  obtain n1 where n1: "trace s1 = trace s @ n1" "writesOf n1 = (if dry then [] else [(''delete'', name)])"
    using a unfolding removeDone_def by blast
  obtain n2 where n2: "trace s' = trace s1 @ n2" "writesOf n2 = (if dry then [] else planRemoved source desired ys)"
    using b unfolding removedDone_def by blast
  have t: "\<exists>new. trace s' = trace s @ new \<and>
      writesOf new = (if dry then [] else planRemoved source desired ((name, dt) # ys))"
    using n1 n2 del by (intro exI [of _ "n1 @ n2"]) simp
  have an: "announced sr' = announced sr @ (if dry then planRemoved source desired ((name, dt) # ys) else [])"
    "errs sr' = errs sr"
    using a b del by (simp_all add: removeDone_def removedDone_def)
  have fr: "tenants (world s') k = tenants (world s1) k"
    if "dry \<or> fst k \<noteq> ns \<or> toRemove source desired ys (snd k) = None" for k
    using b that unfolding removedDone_def by blast
  have frame: "tenants (world s') k = tenants (world s) k"
    if "dry \<or> fst k \<noteq> ns \<or> toRemove source desired ((name, dt) # ys) (snd k) = None" for k
  proof (cases "k = (ns, name)")
    case True
    then have dry using that by (simp add: r)
    then show ?thesis using a fr [of k] by (simp add: removeDone_def)
  next
    case False
    then have "dry \<or> fst k \<noteq> ns \<or> toRemove source desired ys (snd k) = None"
      using that by (cases k) (auto simp: r split: if_splits)
    then show ?thesis using fr removeDone_other [OF a False] by simp
  qed
  have gone: "goneOrMarked t (tenants (world s') (ns, n))"
    if "\<not> dry" "toRemove source desired ((name, dt) # ys) n = Some t" for n t
  proof (cases "n = name")
    case True
    then have "goneOrMarked t (tenants (world s1) (ns, n))"
      using a that by (auto simp: removeDone_def r)
    then show ?thesis using fr [of "(ns, n)"] rn True by simp
  next
    case False
    then show ?thesis using b that unfolding removedDone_def by (simp add: r)
  qed
  show ?thesis
    unfolding removedDone_def using t an frame gone by blast
qed

context tenant_store
begin

lemma wp_removeTenant:
  assumes R: "ts_Client R = K" and t: "tenants (world s) (ns, name) = Some dt"
  shows "wp (removeTenant R dry name dt sr) (removeDone tenants ns name dt dry sr s) s"
proof (cases dry)
  case True
  then show ?thesis by (simp add: removeTenant_def wp_simps removeDone_def)
next
  case False
  have k: "keyOf dt = (ns, name)" "dt_Name dt = name"
    using name_of_key [OF t] by (simp_all add: keyOf_def)
  have "wp (extern (sk_DeleteTenant (ts_Client R) dt) (TenDelete dt)) (\<lambda>r s'.
      r = Inr () \<and> trace s' = trace s @ [TenDelete dt r] \<and>
      (\<exists>x. goneOrMarked dt x \<and> tenants (world s') = (tenants (world s))((ns, name) := x))) s"
    unfolding wp_extern R
  proof (intro allI impI, goal_cases)
    case (1 r w')
    have "tenants (world s) (keyOf dt) = Some dt" by (simp add: k t)
    from delete_tenant [OF this 1] show ?case by (simp add: k)
  qed
  then show ?thesis
    unfolding removeTenant_def wp_bind if_not_P [OF False]
    by (rule wp_mono) (use False k in \<open>auto simp: wp_simps removeDone_def\<close>)
qed

lemma wp_syncRemoved:
  assumes R: "ts_Client R = K"
  shows "distinct (map fst ys) \<Longrightarrow>
    \<forall>(name, dt) \<in> set ys. desired name = None \<longrightarrow> tenants (world s) (ns, name) = Some dt \<Longrightarrow>
    wp (syncRemoved R source desired dry ys sr) (\<lambda>sr' s'. removedDone tenants source ns dry desired ys sr s sr' s') s"
proof (induction ys arbitrary: s sr)
  case Nil
  then show ?case by (simp add: wp_simps removedDone_def toRemove_def)
next
  case (Cons y ys)
  obtain name dt where y: "y = (name, dt)" by (cases y)
  have d: "name \<notin> fst ` set ys" "distinct (map fst ys)" using Cons.prems(1) by (simp_all add: y)
  have rest: "\<forall>(name, dt) \<in> set ys. desired name = None \<longrightarrow> tenants (world s) (ns, name) = Some dt"
    using Cons.prems(2) by simp
  show ?case
  proof (cases "desired name = None \<and> isOwnedBySource dt source")
    case False
    then have "syncRemoved R source desired dry (y # ys) sr = syncRemoved R source desired dry ys sr"
      by (auto simp: y)
    moreover have "wp (syncRemoved R source desired dry ys sr)
        (\<lambda>sr' s'. removedDone tenants source ns dry desired (y # ys) sr s sr' s') s"
      unfolding y by (rule wp_mono [OF Cons.IH [OF d(2) rest]]) (rule removedDone_skip [where desired = desired and name = name and dt = dt, OF _ False d(1)])
    ultimately show ?thesis by simp
  next
    case True
    have t: "tenants (world s) (ns, name) = Some dt" using Cons.prems(2) True by (simp add: y)
    have "wp (removeTenant R dry name dt sr \<bind> (\<lambda>sr. syncRemoved R source desired dry ys sr))
        (\<lambda>sr' s'. removedDone tenants source ns dry desired (y # ys) sr s sr' s') s"
      unfolding wp_bind
    proof (rule wp_mono [OF wp_removeTenant [OF R t]], goal_cases)
      case (1 sr1 s1)
      have "\<forall>(n, t) \<in> set ys. desired n = None \<longrightarrow> tenants (world s1) (ns, n) = Some t"
      proof (clarify, goal_cases)
        case (1 n t)
        then have "(ns, n) \<noteq> (ns, name)" using d(1) by force
        then show ?case using removeDone_other [OF \<open>removeDone _ _ _ _ _ _ _ _ _\<close>] rest 1 by auto
      qed
      from Cons.IH [OF d(2) this] show ?case
        unfolding y by (rule wp_mono) (rule removedDone_Cons [OF 1 _ _ _ d(1)], use True in auto)
    qed
    then show ?thesis using True by (simp add: y)
  qed
qed

end

end
