(* ===== verification/SourceWorld.thy ===== *)
theory SourceWorld
  imports SourceStore
begin

text \<open>
  A concrete world for the TenantSource reconciler: \<open>MockBackend\<close> of
  \<open>internal/tenantsource/mock.go\<close>, and an API server that keeps one TenantSource and a list of
  DistributionTenants, fills in the CRD defaults and marks a deleted object that has finalizers.
  It satisfies the store contract, and the scenarios of the properties run in it.
\<close>

section \<open>MockBackend\<close>

record MockBackend =
  mb_Items :: "TenantItem list"
  mb_Err :: error
  mb_QueryCallCount :: int64

definition mockQueryTenants :: "TenantSource \<Rightarrow> (MockBackend, TenantItem list) call" where
  "mockQueryTenants source m =
     (let m = m\<lparr>mb_QueryCallCount := mb_QueryCallCount m + 1\<rparr> in
      case mb_Err m of
        Some e \<Rightarrow> (Inl e, m)
      | None \<Rightarrow> (Inr (mb_Items m), m))"

section \<open>The API server\<close>

record sourceWorld =
  sw_source :: "TenantSource option"
  sw_tenants :: "DistributionTenant list"
  sw_backend :: MockBackend
  sw_clock :: gotime

fun lookupT :: "DistributionTenant list \<Rightarrow> string \<times> string \<Rightarrow> DistributionTenant option" where
  "lookupT [] k = None"
| "lookupT (t # ts) k = (if keyOf t = k then Some t else lookupT ts k)"

definition replaceT :: "DistributionTenant \<Rightarrow> DistributionTenant list \<Rightarrow> DistributionTenant list" where
  "replaceT t ts = map (\<lambda>u. if keyOf u = keyOf t then t else u) ts"

definition removeT :: "string \<times> string \<Rightarrow> DistributionTenant list \<Rightarrow> DistributionTenant list" where
  "removeT k ts = filter (\<lambda>u. keyOf u \<noteq> k) ts"

definition viewT :: "DistributionTenant list \<Rightarrow> DistributionTenant list" where
  "viewT ts = List.map_filter (lookupT ts) (remdups (map keyOf ts))"

definition admit :: "DistributionTenant \<Rightarrow> DistributionTenant" where
  "admit t = t\<lparr>dt_Spec := crdDefaults (dt_Spec t)\<rparr>"

definition apiGetTenant :: "string \<Rightarrow> string \<Rightarrow> (sourceWorld, DistributionTenant) call" where
  "apiGetTenant ns n w = (case lookupT (sw_tenants w) (ns, n) of
     Some t \<Rightarrow> (Inr t, w) | None \<Rightarrow> (Inl (OtherError ''not found''), w))"

definition apiListTenants ::
  "string \<Rightarrow> string \<Rightarrow> string \<Rightarrow> (sourceWorld, DistributionTenant list) call" where
  "apiListTenants ns k v w = (Inr (filter (\<lambda>t. om_Namespace (dt_Meta t) = ns \<and>
     (k, v) \<in> set (om_Labels (dt_Meta t))) (viewT (sw_tenants w))), w)"

definition apiCreateTenant :: "DistributionTenant \<Rightarrow> (sourceWorld, DistributionTenant) call" where
  "apiCreateTenant t w = (case lookupT (sw_tenants w) (keyOf t) of
     Some _ \<Rightarrow> (Inl (OtherError ''already exists''), w)
   | None \<Rightarrow> (Inr (admit t), w\<lparr>sw_tenants := sw_tenants w @ [admit t]\<rparr>))"

definition apiUpdateTenant :: "DistributionTenant \<Rightarrow> (sourceWorld, DistributionTenant) call" where
  "apiUpdateTenant t w = (case lookupT (sw_tenants w) (keyOf t) of
     None \<Rightarrow> (Inl (OtherError ''not found''), w)
   | Some _ \<Rightarrow> (Inr (admit t), w\<lparr>sw_tenants := replaceT (admit t) (sw_tenants w)\<rparr>))"

definition apiDeleteTenant :: "DistributionTenant \<Rightarrow> (sourceWorld, unit) call" where
  "apiDeleteTenant t w = (case lookupT (sw_tenants w) (keyOf t) of
     None \<Rightarrow> (Inl (OtherError ''not found''), w)
   | Some u \<Rightarrow>
       if om_Finalizers (dt_Meta u) = []
       then (Inr (), w\<lparr>sw_tenants := removeT (keyOf t) (sw_tenants w)\<rparr>)
       else (Inr (), w\<lparr>sw_tenants := replaceT
         (u\<lparr>dt_Meta := (dt_Meta u)\<lparr>om_DeletionTimestamp := Some (sw_clock w)\<rparr>\<rparr>) (sw_tenants w)\<rparr>))"

definition apiGetSource :: "string \<Rightarrow> string \<Rightarrow> (sourceWorld, TenantSource) call" where
  "apiGetSource ns n w = (case sw_source w of
     Some s \<Rightarrow> (Inr s, w) | None \<Rightarrow> (Inl (OtherError ''not found''), w))"

definition apiPutSource :: "TenantSource \<Rightarrow> (sourceWorld, TenantSource) call" where
  "apiPutSource s w = (Inr s, w\<lparr>sw_source :=
     (if om_DeletionTimestamp (ts_Meta s) \<noteq> None \<and> om_Finalizers (ts_Meta s) = [] then None else Some s)\<rparr>)"

definition apiServer :: "sourceWorld SourceClient" where
  "apiServer = \<lparr>sk_Get = apiGetSource, sk_Update = apiPutSource, sk_StatusUpdate = apiPutSource,
     sk_GetTenant = apiGetTenant, sk_ListTenants = apiListTenants, sk_CreateTenant = apiCreateTenant,
     sk_UpdateTenant = apiUpdateTenant, sk_DeleteTenant = apiDeleteTenant\<rparr>"

lemma lookupT_key: "lookupT ts k = Some t \<Longrightarrow> keyOf t = k \<and> t \<in> set ts"
  by (induction ts) (auto split: if_splits)

lemma lookupT_None: "lookupT ts k = None \<longleftrightarrow> k \<notin> keyOf ` set ts"
  by (induction ts) auto

lemma lookupT_replace:
  "keyOf t = k \<Longrightarrow> lookupT ts k \<noteq> None \<Longrightarrow> lookupT (replaceT t ts) = (lookupT ts)(k \<mapsto> t)"
proof
  fix j
  assume k: "keyOf t = k" and some: "lookupT ts k \<noteq> None"
  have "lookupT (replaceT t ts) j = (if j = k \<and> lookupT ts k \<noteq> None then Some t else lookupT ts j)" for ts
    by (induction ts) (auto simp: replaceT_def k)
  then show "lookupT (replaceT t ts) j = ((lookupT ts)(k \<mapsto> t)) j" using some by simp
qed

lemma lookupT_remove: "lookupT (removeT k ts) = (lookupT ts)(k := None)"
proof
  fix j
  show "lookupT (removeT k ts) j = ((lookupT ts)(k := None)) j"
    by (induction ts) (auto simp: removeT_def)
qed

lemma lookupT_append:
  "lookupT ts (keyOf t) = None \<Longrightarrow> lookupT (ts @ [t]) = (lookupT ts)(keyOf t \<mapsto> t)"
proof
  fix j
  assume "lookupT ts (keyOf t) = None"
  then show "lookupT (ts @ [t]) j = ((lookupT ts)(keyOf t \<mapsto> t)) j"
    by (induction ts) (auto split: if_splits)
qed

lemma set_map_filter: "y \<in> set (List.map_filter f xs) \<longleftrightarrow> (\<exists>x \<in> set xs. f x = Some y)"
  by (induction xs) (auto simp: List.map_filter_def)

lemma viewT_mem: "t \<in> set (viewT ts) \<longleftrightarrow> lookupT ts (keyOf t) = Some t"
proof
  assume "t \<in> set (viewT ts)"
  then obtain k where "lookupT ts k = Some t" unfolding viewT_def set_map_filter by blast
  then show "lookupT ts (keyOf t) = Some t" using lookupT_key [of ts k t] by simp
next
  assume a: "lookupT ts (keyOf t) = Some t"
  then have "keyOf t \<in> set (remdups (map keyOf ts))" using lookupT_key [OF a] by simp
  with a show "t \<in> set (viewT ts)" unfolding viewT_def set_map_filter by blast
qed

lemma viewT_keys: "map keyOf (viewT ts) = remdups (map keyOf ts)"
proof -
  have "map keyOf (List.map_filter (lookupT ts) ks) = ks" if "\<forall>k \<in> set ks. k \<in> keyOf ` set ts" for ks
    using that
  proof (induction ks)
    case Nil
    then show ?case by (simp add: List.map_filter_def)
  next
    case (Cons k ks)
    then have "lookupT ts k \<noteq> None" using lookupT_None by simp
    then obtain t where "lookupT ts k = Some t" by blast
    then show ?case using Cons lookupT_key by (simp add: List.map_filter_def)
  qed
  then show ?thesis by (simp add: viewT_def)
qed

lemma admit_parts: "keyOf (admit t) = keyOf t" "stores t (admit t)"
  by (simp_all add: admit_def keyOf_def stores_def)

lemma distinct_mapD: "distinct (map f xs) \<Longrightarrow> distinct xs"
  by (simp only: distinct_map)

interpretation api_tenants: tenant_store apiServer "\<lambda>w. lookupT (sw_tenants w)" "\<lambda>_. True"
proof (unfold_locales, goal_cases)
  case (1 w key t)
  then show ?case using lookupT_key by blast
next
  case (2 ns n w r w')
  then show ?case by (auto simp: apiServer_def apiGetTenant_def split: option.splits)
next
  case (3 ns k v w l w')
  let ?P = "\<lambda>t. om_Namespace (dt_Meta t) = ns \<and> (k, v) \<in> set (om_Labels (dt_Meta t))"
  let ?ts = "filter ?P (viewT (sw_tenants w))"
  have "distinct (map keyOf (viewT (sw_tenants w)))" by (simp add: viewT_keys)
  then have "distinct (map keyOf ?ts)" by (simp add: distinct_map_filter)
  moreover have "map keyOf ?ts = map (Pair ns) (map (\<lambda>t. dt_Name t) ?ts)"
    by (simp add: keyOf_def)
  ultimately have "distinct (map (Pair ns) (map (\<lambda>t. dt_Name t) ?ts))" by (simp only:)
  then have d: "distinct (map (\<lambda>t. dt_Name t) ?ts)" by (rule distinct_mapD)
  have "t \<in> set ?ts \<longleftrightarrow> lookupT (sw_tenants w) (ns, dt_Name t) = Some t \<and> (k, v) \<in> set (om_Labels (dt_Meta t))" for t
    using lookupT_key [of "sw_tenants w" "(ns, dt_Name t)" t] by (auto simp: viewT_mem keyOf_def)
  with d 3 show ?case by (auto simp: apiServer_def apiListTenants_def)
next
  case (4 t w r w')
  have "lookupT (sw_tenants w @ [admit t]) = (lookupT (sw_tenants w))(keyOf t \<mapsto> admit t)"
    if "lookupT (sw_tenants w) (keyOf t) = None"
    using lookupT_append [of "sw_tenants w" "admit t"] that by (simp add: admit_parts)
  with 4 show ?case
    by (auto simp: apiServer_def apiCreateTenant_def admit_parts split: option.splits)
next
  case (5 w t r w')
  have "lookupT (replaceT (admit t) (sw_tenants w)) = (lookupT (sw_tenants w))(keyOf t \<mapsto> admit t)"
    by (rule lookupT_replace) (simp_all add: admit_parts 5(1) [simplified])
  with 5 show ?case
    by (auto simp: apiServer_def apiUpdateTenant_def admit_parts split: option.splits)
next
  case (6 w t d w')
  let ?m = "t\<lparr>dt_Meta := (dt_Meta t)\<lparr>om_DeletionTimestamp := Some (sw_clock w)\<rparr>\<rparr>"
  have m: "lookupT (replaceT ?m (sw_tenants w)) = (lookupT (sw_tenants w))(keyOf t \<mapsto> ?m)"
    by (rule lookupT_replace) (simp_all add: keyOf_def 6(1) [unfolded keyOf_def])
  have "om_Finalizers (dt_Meta t) = [] \<Longrightarrow> goneOrMarked t None" "goneOrMarked t (Some ?m)"
    by (auto simp: goneOrMarked_def)
  with 6 m show ?case
    by (auto simp: apiServer_def apiDeleteTenant_def lookupT_remove split: if_splits)
qed

section \<open>A reconciler in this world\<close>

definition worldBackend :: "sourceWorld Backend" where
  "worldBackend = \<lparr>QueryTenants = (\<lambda>s w. case mockQueryTenants s (sw_backend w) of
     (r, m) \<Rightarrow> (r, w\<lparr>sw_backend := m\<rparr>))\<rparr>"

definition sourceReconciler :: "sourceWorld TenantSourceReconciler" where
  "sourceReconciler = \<lparr>ts_Apim = metaRef (\<lambda>e. if errorText e = ''not found'' then None else Some e),
     ts_Client = apiServer, ts_SetOwnerReference = refSetOwner, ts_HasRecorder = True,
     ts_Backends = [(''dynamodb'', worldBackend)], ts_Now = (\<lambda>w. (sw_clock w, w)),
     ts_Order = asStored\<rparr>"

definition plainItem :: "string \<Rightarrow> string \<Rightarrow> TenantItem" where
  "plainItem name domain =
     \<lparr>it_Name = name, it_Domains = [domain], it_Enabled = None, it_ConnectionGroupId = None,
      it_CertificateArn = None, it_ValidationTokenHost = None, it_PrimaryDomainName = None,
      it_CertificateTransparencyLoggingPreference = None, it_DNSProvider = None,
      it_HostedZoneId = None, it_DNSTTL = None, it_DNSAssumeRoleArn = None, it_WebAclAction = None,
      it_WebAclArn = None, it_GeoRestrictionType = None, it_GeoLocations = None,
      it_Parameters = None, it_Tags = None\<rparr>"

definition plainSource :: "bool option \<Rightarrow> TenantSource" where
  "plainSource dry =
     \<lparr>ts_Meta = \<lparr>om_Name = ''src'', om_Namespace = ''ns'', om_UID = ''u1'', om_Generation = 1,
        om_DeletionTimestamp = None, om_Finalizers = [TenantSourceFinalizerName], om_Labels = [],
        om_OwnerReferences = []\<rparr>,
      ts_Spec = \<lparr>tss_Provider = ''dynamodb'', tss_PollInterval = None, tss_Postgres = None,
        tss_DynamoDB = None, tss_DistributionId = ''E1'', tss_TargetNamespace = None,
        tss_Template = None, tss_DryRun = dry\<rparr>,
      ts_Status = \<lparr>tsst_LastPollTime = None, tsst_TenantsDiscovered = 0, tsst_TenantsCreated = 0,
        tsst_TenantsUpdated = 0, tsst_TenantsDeleted = 0, tsst_PendingChanges = [],
        tsst_Conditions = []\<rparr>\<rparr>"

definition plainWorld :: "bool option \<Rightarrow> TenantItem list \<Rightarrow> DistributionTenant list \<Rightarrow> sourceWorld" where
  "plainWorld dry items ts = \<lparr>sw_source = Some (plainSource dry), sw_tenants = ts,
     sw_backend = \<lparr>mb_Items = items, mb_Err = None, mb_QueryCallCount = 0\<rparr>, sw_clock = 7\<rparr>"

definition startState :: "TenantSource \<Rightarrow> sourceWorld \<Rightarrow> sourceWorld tsState" where
  "startState s w = \<lparr>obj = s, world = w, trace = []\<rparr>"

lemma sourceReconciler_contracts:
  "tenant_store (ts_Client sourceReconciler) (\<lambda>w. lookupT (sw_tenants w)) (\<lambda>_. True)"
  "owner_references (ts_SetOwnerReference sourceReconciler)" "goRange (ts_Order sourceReconciler)"
  "ts_Client sourceReconciler = apiServer" "apimachinery (ts_Apim sourceReconciler)"
  by (simp_all add: sourceReconciler_def api_tenants.tenant_store_axioms ref_owner.owner_references_axioms
      goRange_instances ref.apimachinery_axioms)

end
