(* ===== verification/SourceSync.thy ===== *)
theory SourceSync
  imports SourceWorld
begin

text \<open>
  A whole sync of a TenantSource over a store of tenants: what it makes of every tenant, that a
  dry run announces exactly the writes of the real run, and that a sync that succeeded is followed
  by one that writes nothing.
\<close>

section \<open>A whole sync\<close>

definition desiredMap :: "TenantItem list \<Rightarrow> string \<Rightarrow> TenantItem option" where
  "desiredMap items = map_of (mapByKey it_Name items)"

definition isListing ::
  "(string \<times> string \<Rightarrow> DistributionTenant option) \<Rightarrow> TenantSource \<Rightarrow> string \<Rightarrow> DistributionTenant list \<Rightarrow>
   bool" where
  "isListing T source ns ex \<longleftrightarrow> distinct (map (\<lambda>t. dt_Name t) ex) \<and>
     (\<forall>t. t \<in> set ex \<longleftrightarrow> T (ns, dt_Name t) = Some t \<and> labelled source t)"

definition syncPlan ::
  "RangeOrder \<Rightarrow> TenantSource \<Rightarrow> string \<Rightarrow> (string \<times> string \<Rightarrow> DistributionTenant option) \<Rightarrow>
   TenantItem list \<Rightarrow> DistributionTenant list \<Rightarrow> (string \<times> string) list" where
  "syncPlan ro source ns T items ex =
     planAll ro source ns T (ro_Desired ro (mapByKey it_Name items)) @
     planRemoved source (desiredMap items) (ro_Existing ro (mapByKey (\<lambda>t. dt_Name t) ex))"

text \<open>What a sync makes of the tenant of a name.\<close>

definition syncedTo ::
  "(DistributionTenantSpec \<Rightarrow> bool) \<Rightarrow> RangeOrder \<Rightarrow> TenantSource \<Rightarrow> TenantItem option \<Rightarrow>
   DistributionTenant option \<Rightarrow> DistributionTenant option \<Rightarrow> bool" where
  "syncedTo valid ro source want before after =
     (case want of
        Some item \<Rightarrow>
          if acceptable valid source (buildTenantSpec ro source item) before
          then reached source (buildTenantSpec ro source item) before after
          else after = before
      | None \<Rightarrow>
          (case before of
             Some t \<Rightarrow> if isOwnedBySource t source \<and> labelled source t then goneOrMarked t after
                       else after = before
           | None \<Rightarrow> after = before))"

definition syncDone ::
  "('w \<Rightarrow> string \<times> string \<Rightarrow> DistributionTenant option) \<Rightarrow> (DistributionTenantSpec \<Rightarrow> bool) \<Rightarrow>
   RangeOrder \<Rightarrow> TenantSource \<Rightarrow> string \<Rightarrow> bool \<Rightarrow> TenantItem list \<Rightarrow> DistributionTenant list \<Rightarrow>
   'w tsState \<Rightarrow> syncResult \<Rightarrow> 'w tsState \<Rightarrow> bool" where
  "syncDone tenants valid ro source ns dry items ex s sr s' \<longleftrightarrow>
     (let T = tenants (world s); T' = tenants (world s'); plan = syncPlan ro source ns T items ex in
      (\<exists>new. trace s' = trace s @ new \<and> writesOf new = (if dry then [] else plan)) \<and>
      announced sr = (if dry then plan else []) \<and>
      (dry \<longrightarrow> T' = T) \<and>
      (\<not> dry \<longrightarrow>
         (errs sr = [] \<longleftrightarrow> (\<forall>name item. desiredMap items name = Some item \<longrightarrow>
            acceptable valid source (buildTenantSpec ro source item) (T (ns, name)))) \<and>
         (\<forall>name. syncedTo valid ro source (desiredMap items name) (T (ns, name)) (T' (ns, name))) \<and>
         (\<forall>k. fst k \<noteq> ns \<longrightarrow> T' k = T k)))"

lemma range_facts:
  assumes "map_range rng"
  shows "distinct (map fst (rng (mapByKey key xs)))"
    and "map_of (rng (mapByKey key xs)) = map_of (mapByKey key xs)"
    and "set (rng (mapByKey key xs)) = set (mapByKey key xs)"
    and "(k, x) \<in> set (rng (mapByKey key xs)) \<longleftrightarrow> map_of (mapByKey key xs) k = Some x"
    and "k \<in> fst ` set (rng (mapByKey key xs)) \<longleftrightarrow> map_of (mapByKey key xs) k \<noteq> None"
proof -
  show s: "set (rng (mapByKey key xs)) = set (mapByKey key xs)"
    by (rule map_range.set_range [OF assms])
  show "(k, x) \<in> set (rng (mapByKey key xs)) \<longleftrightarrow> map_of (mapByKey key xs) k = Some x"
    unfolding s map_of_eq_Some_iff [OF mapByKey_distinct] by (rule refl)
  show "k \<in> fst ` set (rng (mapByKey key xs)) \<longleftrightarrow> map_of (mapByKey key xs) k \<noteq> None"
    unfolding s map_of_eq_None_iff not_not by (rule refl)
qed (rule map_range.distinct_range [OF assms mapByKey_distinct],
     rule map_range.map_of_range [OF assms mapByKey_distinct])

context tenant_store
begin

lemma listing_lookup:
  assumes "isListing (tenants w) source ns ex"
  shows "map_of (mapByKey (\<lambda>t. dt_Name t) ex) = listedAs (tenants w) source ns"
proof
  fix n
  have d: "distinct (map fst (map (\<lambda>t. (dt_Name t, t)) ex))"
    using assms by (simp add: isListing_def o_def)
  have m: "map_of (mapByKey (\<lambda>t. dt_Name t) ex) n = Some t \<longleftrightarrow> listedAs (tenants w) source ns n = Some t" for t
  proof -
    have "map_of (mapByKey (\<lambda>t. dt_Name t) ex) n = Some t \<longleftrightarrow> dt_Name t = n \<and> t \<in> set ex"
      unfolding mapByKey_map_of mapFromList_distinct [OF d] map_of_eq_Some_iff [OF d] by auto
    also have "\<dots> \<longleftrightarrow> tenants w (ns, n) = Some t \<and> labelled source t"
      using assms name_of_key [of w ns n t] by (auto simp: isListing_def)
    also have "\<dots> \<longleftrightarrow> listedAs (tenants w) source ns n = Some t"
      by (auto simp: listedAs_def split: option.splits)
    finally show ?thesis .
  qed
  show "map_of (mapByKey (\<lambda>t. dt_Name t) ex) n = listedAs (tenants w) source ns n"
  proof (cases "map_of (mapByKey (\<lambda>t. dt_Name t) ex) n")
    case None
    then show ?thesis using m by (cases "listedAs (tenants w) source ns n") auto
  next
    case (Some t)
    then show ?thesis using m by simp
  qed
qed

lemma wp_syncTenants:
  assumes R: "ts_Client R = K" and own: "owner_references (ts_SetOwnerReference R)"
    and ro: "goRange (ts_Order R)" and ns: "ts_Namespace source = ns"
    and ex: "isListing (tenants (world s)) source ns ex"
  shows "wp (syncTenants R source items ex ns dry)
    (\<lambda>sr s'. syncDone tenants valid (ts_Order R) source ns dry items ex s sr s') s"
proof -
  let ?xs = "ro_Desired (ts_Order R) (mapByKey it_Name items)"
  let ?ys = "ro_Existing (ts_Order R) (mapByKey (\<lambda>t. dt_Name t) ex)"
  let ?T = "tenants (world s)" and ?D = "desiredMap items"
  have rd: "map_range (ro_Desired (ts_Order R))" and re: "map_range (ro_Existing (ts_Order R))"
    using ro by (simp_all add: goRange_def)
  note xs = range_facts [OF rd, where key = it_Name and xs = items, folded desiredMap_def]
  note ys = range_facts [OF re, where key = "\<lambda>t. dt_Name t" and xs = ex, unfolded listing_lookup [OF ex]]
  have lk: "\<forall>name \<in> fst ` set ?xs. map_of (mapByKey (\<lambda>t. dt_Name t) ex) name = listedAs ?T source ns name"
    by (simp add: listing_lookup [OF ex])
  show ?thesis
    unfolding syncTenants_def Let_def wp_bind
  proof (rule wp_mono [OF wp_syncDesired [OF R own ns xs(1) lk]], goal_cases)
    case (1 sr1 s1)
    let ?T1 = "tenants (world s1)"
    have kept: "?T1 (ns, name) = ?T (ns, name)" if "?D name = None" for name
    proof (rule desiredDone_frame [OF 1])
      have "name \<notin> fst ` set ?xs" unfolding xs(5) using that by simp
      then show "(ns, name) \<notin> Pair ns ` fst ` set ?xs" by blast
    qed
    have pre: "\<forall>(name, dt) \<in> set ?ys. ?D name = None \<longrightarrow> ?T1 (ns, name) = Some dt"
      using ys(4) kept by (auto simp: listedAs_def split: option.splits if_splits)
    show ?case
      unfolding desiredMap_def [symmetric]
    proof (rule wp_mono [OF wp_syncRemoved [OF R ys(1) pre]], goal_cases)
      case (1 sr s')
      note D = \<open>desiredDone _ _ _ _ _ _ _ _ _ _ _\<close> and E = 1
      let ?T' = "tenants (world s')"
      have rm: "toRemove source ?D ?ys name = (case ?T (ns, name) of None \<Rightarrow> None
          | Some t \<Rightarrow> if labelled source t \<and> isOwnedBySource t source \<and> ?D name = None then Some t else None)" for name
        by (simp add: toRemove_def ys(2) listedAs_def split: option.split)
      obtain n1 n2 where n: "trace s1 = trace s @ n1" "writesOf n1 = (if dry then [] else planAll (ts_Order R) source ns ?T ?xs)"
          "trace s' = trace s1 @ n2" "writesOf n2 = (if dry then [] else planRemoved source ?D ?ys)"
        using desiredDoneD(1) [OF D] E unfolding removedDone_def by blast
      have t: "\<exists>new. trace s' = trace s @ new \<and>
          writesOf new = (if dry then [] else syncPlan (ts_Order R) source ns ?T items ex)"
        using n by (intro exI [of _ "n1 @ n2"]) (simp add: syncPlan_def)
      have an: "announced sr = (if dry then syncPlan (ts_Order R) source ns ?T items ex else [])"
        using desiredDoneD(2) [OF D] E by (simp add: removedDone_def syncPlan_def)
      have fr: "?T' k = ?T1 k" if "dry \<or> fst k \<noteq> ns \<or> toRemove source ?D ?ys (snd k) = None" for k
        using E that unfolding removedDone_def by blast
      have dry: "?T' = ?T" if dry
      proof -
        have "dry = True" using that by simp
        note desiredDone_dry [OF D [unfolded this]]
        then show ?thesis using fr that by (intro ext) simp
      qed
      have er: "errs sr = [] \<longleftrightarrow> (\<forall>name item. ?D name = Some item \<longrightarrow>
            acceptable valid source (buildTenantSpec (ts_Order R) source item) (?T (ns, name)))" if "\<not> dry"
      proof -
        have "errs sr = [] \<longleftrightarrow> errs sr1 = []" using E by (simp add: removedDone_def)
        then show ?thesis
          unfolding desiredDoneD(3) [OF D that] list_all_iff by (auto simp: xs(4))
      qed
      have sy: "syncedTo valid (ts_Order R) source (?D name) (?T (ns, name)) (?T' (ns, name))"
        if "\<not> dry" for name
      proof (cases "?D name")
        case (Some item)
        then have "toRemove source ?D ?ys name = None" by (simp add: rm split: option.split)
        then have "?T' (ns, name) = ?T1 (ns, name)" using fr by simp
        moreover have "(name, item) \<in> set ?xs" using Some xs(4) by simp
        ultimately show ?thesis
          using desiredDoneD(4) [OF D that] by (simp add: syncedTo_def Some)
      next
        case None
        show ?thesis
        proof (cases "toRemove source ?D ?ys name")
          case keep: None
          then have "?T' (ns, name) = ?T (ns, name)" using fr kept [OF None] by simp
          then show ?thesis using keep None by (auto simp: syncedTo_def rm split: option.splits if_splits)
        next
          case (Some t)
          then have "goneOrMarked t (?T' (ns, name))"
            using E that unfolding removedDone_def by blast
          then show ?thesis using Some None by (auto simp: syncedTo_def rm split: option.splits if_splits)
        qed
      qed
      have fo: "?T' k = ?T k" if "fst k \<noteq> ns" for k
      proof -
        have "k \<notin> Pair ns ` fst ` set ?xs" using that by auto
        then show ?thesis using fr [of k] that desiredDone_frame [OF D] by simp
      qed
      show ?case
        unfolding syncDone_def Let_def using t an dry er sy fo by blast
    qed
  qed
qed

end

section \<open>Properties of a sync\<close>

lemma sync_run:
  assumes "tenant_store (ts_Client R) tenants valid" "owner_references (ts_SetOwnerReference R)"
    "goRange (ts_Order R)" "ts_Namespace source = ns" "isListing (tenants (world s)) source ns ex"
    "run_state (syncTenants R source items ex ns dry) s = (sr, s')"
  shows "syncDone tenants valid (ts_Order R) source ns dry items ex s sr s'"
  by (rule wpD [OF tenant_store.wp_syncTenants [OF assms(1) refl assms(2-5)] assms(6)])

text \<open>C27: One sync brings every tenant of the target namespace to the desired state, judged from
  its state before alone: a name the source lists ends with an owned, labelled tenant whose spec is
  the built one (or one that already compared equal, or the built one applied over it), unless the
  tenant is another owner's or the API server rejects the spec, which leaves it untouched; a
  tenant of this source that is no longer listed is deleted; nothing else changes. There is no
  error in the result exactly when every listed item could be brought there. (For a source whose
  target namespace is its own: elsewhere no owner reference can be set.)\<close>

theorem sync_reaches_desired:
  assumes "tenant_store (ts_Client R) tenants valid" "owner_references (ts_SetOwnerReference R)"
    "goRange (ts_Order R)" "ts_Namespace source = ns" "isListing (tenants (world s)) source ns ex"
    "run_state (syncTenants R source items ex ns False) s = (sr, s')"
  shows "(\<forall>name. syncedTo valid (ts_Order R) source (desiredMap items name)
      (tenants (world s) (ns, name)) (tenants (world s') (ns, name))) \<and>
    (\<forall>k. fst k \<noteq> ns \<longrightarrow> tenants (world s') k = tenants (world s) k) \<and>
    (errs sr = [] \<longleftrightarrow> (\<forall>name item. desiredMap items name = Some item \<longrightarrow>
      acceptable valid source (buildTenantSpec (ts_Order R) source item) (tenants (world s) (ns, name))))"
  using sync_run [OF assms] unfolding syncDone_def Let_def by blast

text \<open>C29: For a source whose target namespace is its own (\<open>ns\<close>), over an API server that stores tenants, a
  dry run of the sync announces, in order, exactly the writes that the real run would make from the
  same state and listing, and itself makes none. (With another target namespace it announces
  creations that the real run never makes: \<open>SourceOutcomes.cross_namespace_is_announced\<close> and
  \<open>SourceOutcomes.cross_namespace_never_creates\<close>.)\<close>

theorem dry_run_announces_writes:
  assumes "tenant_store (ts_Client R) tenants valid" "owner_references (ts_SetOwnerReference R)"
    "goRange (ts_Order R)" "ts_Namespace source = ns" "isListing (tenants (world s)) source ns ex"
    and real: "run_state (syncTenants R source items ex ns False) s = (sr, s')"
    and dry: "run_state (syncTenants R source items ex ns True) s = (sd, sdry)"
  shows "\<exists>new newdry. trace s' = trace s @ new \<and> trace sdry = trace s @ newdry \<and>
    announced sd = writesOf new \<and> writesOf newdry = [] \<and> tenants (world sdry) = tenants (world s)"
  using sync_run [OF assms(1-5) real] sync_run [OF assms(1-5) dry]
  unfolding syncDone_def Let_def by auto

subsection \<open>The sync after a sync\<close>

lemma tenantSpecEqual_perm_right:
  assumes "b' = b\<lparr>spec_Parameters := ps, spec_Tags := ts\<rparr>" "mset ps = mset (spec_Parameters b)"
    "mset ts = mset (spec_Tags b)"
  shows "tenantSpecEqual a b' = tenantSpecEqual a b"
proof -
  have p: "parametersEqual x ps = parametersEqual x (spec_Parameters b)" for x
    using mset_eq_length [OF assms(2)] mset_eq_setD [OF assms(2)]
    by (simp add: parametersEqual_def list_all_iff)
  have t: "tagsEqual x ts = tagsEqual x (spec_Tags b)" for x
    using mset_eq_length [OF assms(3)] mset_eq_setD [OF assms(3)]
    by (simp add: tagsEqual_def list_all_iff)
  have c: "certificateFieldsEqual a b' = certificateFieldsEqual a b"
    by (simp add: certificateFieldsEqual_def assms(1))
  show ?thesis by (simp add: tenantSpecEqual_conj p t c) (simp add: assms(1) p t)
qed

lemma order_irrelevant:
  assumes "goRange ro" "goRange ro'"
  shows "tenantSpecEqual a (buildTenantSpec ro' source item) = tenantSpecEqual a (buildTenantSpec ro source item)"
proof -
  have rng: "map_range (ro_Parameters ro item)" "map_range (ro_Parameters ro' item)"
    "map_range (ro_Tags ro item)" "map_range (ro_Tags ro' item)"
    using assms by (simp_all add: goRange_def)
  show ?thesis
    unfolding buildTenantSpec_precedence
  proof (rule tenantSpecEqual_perm_right [OF precedence_order])
    show "mset (spec_Parameters (precedenceSpec ro' source item)) =
        mset (spec_Parameters (precedenceSpec ro source item))"
      by (cases "it_Parameters item"; cases "tss_Template (ts_Spec source)")
        (simp_all add: precedenceSpec_def Let_def map_range.visits_all [OF rng(1)] map_range.visits_all [OF rng(2)])
    show "mset (spec_Tags (precedenceSpec ro' source item)) = mset (spec_Tags (precedenceSpec ro source item))"
      by (cases "it_Tags item"; cases "tss_Template (ts_Spec source)")
        (simp_all add: precedenceSpec_def Let_def map_range.visits_all [OF rng(3)] map_range.visits_all [OF rng(4)])
  qed
qed

lemma crdDefaults_applied:
  "crdDefaults src = src \<Longrightarrow> crdDefaults (applyManagedFields dst src) = applyManagedFields dst src"
  by (simp only: crdDefaults_id applyManagedFields_parts simp_thms)

lemma reached_equal:
  assumes "reached source (buildTenantSpec ro source item) before (Some t)"
    and "keyedItem item" "keyedTemplate source" "goRange ro" "goRange ro'"
    and "crdDefaults (buildTenantSpec ro source item) = buildTenantSpec ro source item"
  shows "isOwnedBySource t source \<and> labelled source t \<and>
    tenantSpecEqual (dt_Spec t) (buildTenantSpec ro' source item)"
  using assms(1) rebuilt_equal [OF assms(2-5)] created_equal [OF assms(2-5)]
    order_irrelevant [OF assms(4,5)]
  by (auto simp: reached_def assms(6) crdDefaults_applied [OF assms(6)] split: option.splits if_splits)

lemma desiredMap_item: "desiredMap items name = Some item \<Longrightarrow> item \<in> set items"
  unfolding desiredMap_def using mapByKey_key map_of_SomeD by metis

lemma plan_empty:
  assumes "\<And>name item. (name, item) \<in> set xs \<Longrightarrow>
      planDesired source (buildTenantSpec ro source item) name (T (ns, name)) = []"
  shows "planAll ro source ns T xs = []"
  unfolding planAll_def using assms by auto

text \<open>A name is settled for a source when its tenant is owned, labelled and compares equal.\<close>

definition settledFor ::
  "RangeOrder \<Rightarrow> TenantSource \<Rightarrow> TenantItem \<Rightarrow> DistributionTenant option \<Rightarrow> bool" where
  "settledFor ro source item x \<longleftrightarrow> (\<exists>t. x = Some t \<and> isOwnedBySource t source \<and> labelled source t \<and>
     tenantSpecEqual (dt_Spec t) (buildTenantSpec ro source item))"

lemma clean_sync_settles:
  assumes S: "syncDone tenants valid ro source ns False items ex s sr s'" "errs sr = []"
    and complete: "keyedTemplate source" "list_all keyedItem items"
      "list_all (\<lambda>item. crdDefaults (buildTenantSpec ro source item) = buildTenantSpec ro source item) items"
    and "goRange ro" "goRange ro'" and want: "desiredMap items name = Some item"
  shows "settledFor ro' source item (tenants (world s') (ns, name))"
proof -
  have "acceptable valid source (buildTenantSpec ro source item) (tenants (world s) (ns, name))"
    using S want unfolding syncDone_def Let_def by blast
  moreover have "syncedTo valid ro source (desiredMap items name)
      (tenants (world s) (ns, name)) (tenants (world s') (ns, name))"
    using S(1) unfolding syncDone_def Let_def by blast
  ultimately have r: "reached source (buildTenantSpec ro source item)
      (tenants (world s) (ns, name)) (tenants (world s') (ns, name))"
    by (simp add: syncedTo_def want)
  then obtain t where t: "tenants (world s') (ns, name) = Some t" by (auto simp: reached_def)
  have "item \<in> set items" by (rule desiredMap_item [OF want])
  then have "keyedItem item" "crdDefaults (buildTenantSpec ro source item) = buildTenantSpec ro source item"
    using complete by (simp_all add: list_all_iff)
  with reached_equal [OF r [unfolded t] _ complete(1) assms(6,7)] t show ?thesis
    unfolding settledFor_def by blast
qed

lemma settled_plan:
  assumes "goRange ro" "isListing T source ns ex"
    and settled: "\<And>name item. desiredMap items name = Some item \<Longrightarrow> settledFor ro source item (T (ns, name))"
    and gone: "\<forall>name t. desiredMap items name = None \<longrightarrow> T (ns, name) = Some t \<longrightarrow>
      labelled source t \<longrightarrow> \<not> isOwnedBySource t source"
  shows "syncPlan ro source ns T items ex = []"
proof -
  have rd: "map_range (ro_Desired ro)" and re: "map_range (ro_Existing ro)"
    using assms(1) by (simp_all add: goRange_def)
  have "planAll ro source ns T (ro_Desired ro (mapByKey it_Name items)) = []"
  proof (rule plan_empty)
    fix name item
    assume "(name, item) \<in> set (ro_Desired ro (mapByKey it_Name items))"
    then have "desiredMap items name = Some item"
      using range_facts(4) [OF rd] by (simp add: desiredMap_def)
    from settled [OF this] show "planDesired source (buildTenantSpec ro source item) name (T (ns, name)) = []"
      unfolding settledFor_def by (elim exE conjE) (simp add: planDesired_def)
  qed
  moreover have "\<not> (desiredMap items name = None \<and> isOwnedBySource t source)"
    if m: "(name, t) \<in> set (ro_Existing ro (mapByKey (\<lambda>t. dt_Name t) ex))" for name t
  proof -
    have "(name, t) \<in> set (mapByKey (\<lambda>t. dt_Name t) ex)" using m range_facts(3) [OF re] by simp
    then have "dt_Name t = name" "t \<in> set ex"
      using mapByKey_key [where key = "\<lambda>t. dt_Name t" and xs = ex and k = name and x = t] by simp_all
    then have "T (ns, name) = Some t" "labelled source t"
      using assms(2) unfolding isListing_def by blast+
    then show ?thesis using gone by blast
  qed
  then have "planRemoved source (desiredMap items) (ro_Existing ro (mapByKey (\<lambda>t. dt_Name t) ex)) = []"
    unfolding planRemoved_def by auto
  ultimately show ?thesis by (simp add: syncPlan_def)
qed

text \<open>C28: No write is repeated: after a sync without errors (and once the deleted tenants are gone,
  with no other change in between), the next sync of the same items writes nothing and reports no
  error, in whatever orders it visits its maps, for a source whose target namespace is its own and whose
  template and items have no key twice. The built specs must be complete, so that the API server
  fills in nothing (\<open>crdDefaults\<close>): a spec with a DNS section and no TTL is rewritten at every poll
  instead.\<close>

theorem second_sync_writes_nothing:
  assumes st: "tenant_store (ts_Client R) tenants valid" "owner_references (ts_SetOwnerReference R)"
    "goRange (ts_Order R)" "ts_Namespace source = ns" "isListing (tenants (world s)) source ns ex"
    and first: "run_state (syncTenants R source items ex ns False) s = (sr, s')" "errs sr = []"
    and complete: "keyedTemplate source" "list_all keyedItem items"
      "list_all (\<lambda>item. crdDefaults (buildTenantSpec (ts_Order R) source item) =
        buildTenantSpec (ts_Order R) source item) items"
    and gone: "\<forall>name t. desiredMap items name = None \<longrightarrow> tenants (world s') (ns, name) = Some t \<longrightarrow>
      labelled source t \<longrightarrow> \<not> isOwnedBySource t source"
    and R': "R' = R\<lparr>ts_Order := ro'\<rparr>" "goRange ro'"
    and between: "tenants (world s2) = tenants (world s')" "isListing (tenants (world s2)) source ns ex2"
    and second: "run_state (syncTenants R' source items ex2 ns False) s2 = (sr2, s3)"
  shows "errs sr2 = [] \<and> (\<exists>new. trace s3 = trace s2 @ new \<and> writesOf new = [])"
proof -
  have S2: "syncDone tenants valid ro' source ns False items ex2 s2 sr2 s3"
    using sync_run [of R' tenants valid source ns s2 ex2 items False sr2 s3] st R' between second by simp
  have settled: "settledFor ro' source item (tenants (world s2) (ns, name))"
    if "desiredMap items name = Some item" for name item
    unfolding between(1)
    by (rule clean_sync_settles [OF sync_run [OF st first(1)] first(2) complete st(3) R'(2) that])
  have "syncPlan ro' source ns (tenants (world s2)) items ex2 = []"
    by (rule settled_plan [OF R'(2) between(2) settled]) (use gone between(1) in simp_all)
  then have "\<exists>new. trace s3 = trace s2 @ new \<and> writesOf new = []"
    using S2 unfolding syncDone_def Let_def by simp
  moreover have "acceptable valid source (buildTenantSpec ro' source item) (tenants (world s2) (ns, name))"
    if "desiredMap items name = Some item" for name item
    using settled [OF that] unfolding settledFor_def by (elim exE conjE) (simp add: acceptable_def)
  then have "errs sr2 = []" using S2 unfolding syncDone_def Let_def by blast
  ultimately show ?thesis by simp
qed

text \<open>What an incomplete spec does: a DNS section without a TTL never compares equal to what the
  API server stored of it, so every poll rewrites the tenant.\<close>

lemma missing_ttl_never_settles:
  assumes "spec_DNS (buildTenantSpec ro source item) = Some d" "dns_TTL d = None"
  shows "\<not> tenantSpecEqual (crdDefaults (applyManagedFields dst (buildTenantSpec ro source item)))
    (buildTenantSpec ro source item)"
  using assms by (auto simp: tenantSpecEqual_conj crdDefaults_def applyManagedFields_parts dest: arg_cong [of _ _ dns_TTL])

section \<open>The properties in a concrete world\<close>

text \<open>One item, no tenant yet.\<close>

abbreviation (input) oneItem :: "TenantItem list" where
  "oneItem \<equiv> [plainItem ''a'' ''a.example'']"

abbreviation (input) emptyStart :: "sourceWorld tsState" where
  "emptyStart \<equiv> startState (plainSource None) (plainWorld None [plainItem ''a'' ''a.example''] [])"

definition firstSync :: "bool \<Rightarrow> syncResult \<times> sourceWorld tsState" where
  "firstSync dry = run_state (syncTenants sourceReconciler (plainSource None) oneItem [] ''ns'' dry) emptyStart"

abbreviation (input) tenantsOf :: "sourceWorld \<Rightarrow> string \<times> string \<Rightarrow> DistributionTenant option" where
  "tenantsOf \<equiv> \<lambda>w. lookupT (sw_tenants w)"

lemma firstSync_run:
  "run_state (syncTenants sourceReconciler (plainSource None) oneItem [] ''ns'' dry) emptyStart =
     (fst (firstSync dry), snd (firstSync dry))"
  by (simp add: firstSync_def)

lemma firstSync_start:
  "ts_Namespace (plainSource None) = ''ns''" "isListing (tenantsOf (world emptyStart)) (plainSource None) ''ns'' []"
  "tenantsOf (world emptyStart) k = None"
  "desiredMap oneItem name = (if name = ''a'' then Some (plainItem ''a'' ''a.example'') else None)"
  by (simp_all add: plainSource_def isListing_def startState_def plainWorld_def desiredMap_def mapByKey_def
      plainItem_def)

lemma listing_of_world:
  "isListing (tenantsOf w) source ns (projr (fst (apiListTenants ns TenantSourceLabelKey (ts_Name source) w)))"
proof -
  let ?r = "apiListTenants ns TenantSourceLabelKey (ts_Name source) w"
  have "sk_ListTenants apiServer ns TenantSourceLabelKey (ts_Name source) w = (fst ?r, snd ?r)"
    by (simp add: apiServer_def)
  from api_tenants.list_tenants [OF this] obtain ts where ts: "fst ?r = Inr ts"
      "distinct (map (\<lambda>t. dt_Name t) ts)"
      "\<forall>t. t \<in> set ts \<longleftrightarrow> tenantsOf w (ns, dt_Name t) = Some t \<and>
        (TenantSourceLabelKey, ts_Name source) \<in> set (om_Labels (dt_Meta t))"
    by blast
  show ?thesis unfolding ts(1) sum.sel isListing_def labelled_def using ts(2,3) by blast
qed

theorem sync_reaches_desired_witness:
  "errs (fst (firstSync False)) = [] \<and>
   (\<exists>t. tenantsOf (world (snd (firstSync False))) (''ns'', ''a'') = Some t \<and>
      isOwnedBySource t (plainSource None) \<and> labelled (plainSource None) t)"
  using sync_reaches_desired [OF sourceReconciler_contracts(1-3) firstSync_start(1,2) firstSync_run]
proof (elim conjE, goal_cases)
  case 1
  note step = 1(1) [THEN spec, of "''a''"]
  have "acceptable (\<lambda>_. True) (plainSource None)
      (buildTenantSpec (ts_Order sourceReconciler) (plainSource None) (plainItem ''a'' ''a.example'')) None"
    by (simp add: acceptable_def)
  then show ?case using step 1(3) by (auto simp: firstSync_start syncedTo_def reached_def acceptable_def)
qed

theorem dry_run_announces_writes_witness:
  "\<exists>new newdry. trace (snd (firstSync False)) = new \<and> trace (snd (firstSync True)) = newdry \<and>
    announced (fst (firstSync True)) = writesOf new \<and> writesOf newdry = [] \<and>
    sw_tenants (world emptyStart) = []"
  using dry_run_announces_writes [OF sourceReconciler_contracts(1-3) firstSync_start(1,2)
      firstSync_run firstSync_run]
  by (auto simp: startState_def plainWorld_def)

definition secondSync :: "syncResult \<times> sourceWorld tsState" where
  "secondSync = run_state (syncTenants (sourceReconciler\<lparr>ts_Order := allReversed\<rparr>) (plainSource None) oneItem
     (projr (fst (apiListTenants ''ns'' TenantSourceLabelKey ''src'' (world (snd (firstSync False))))))
     ''ns'' False) (snd (firstSync False))"

lemma secondSync_run:
  "run_state (syncTenants (sourceReconciler\<lparr>ts_Order := allReversed\<rparr>) (plainSource None) oneItem
     (projr (fst (apiListTenants ''ns'' TenantSourceLabelKey (ts_Name (plainSource None))
        (world (snd (firstSync False))))))
     ''ns'' False) (snd (firstSync False)) = (fst secondSync, snd secondSync)"
  by (simp add: secondSync_def plainSource_def)

lemma firstSync_done:
  "syncDone tenantsOf (\<lambda>_. True) (ts_Order sourceReconciler) (plainSource None) ''ns'' False oneItem []
     emptyStart (fst (firstSync False)) (snd (firstSync False))"
  by (rule sync_run [OF sourceReconciler_contracts(1-3) firstSync_start(1,2) firstSync_run])

lemma plain_complete:
  "keyedTemplate (plainSource None)" "list_all keyedItem oneItem"
  "list_all (\<lambda>item. crdDefaults (buildTenantSpec ro (plainSource None) item) =
     buildTenantSpec ro (plainSource None) item) oneItem"
  by (simp_all add: keyedTemplate_def keyedItem_def plainSource_def plainItem_def buildTenantSpec_precedence
      precedenceSpec_def pickDNS_def Let_def crdDefaults_id exI [of _ True])

lemma firstSync_clean:
  "errs (fst (firstSync False)) = []"
  "\<forall>name t. desiredMap oneItem name = None \<longrightarrow>
     tenantsOf (world (snd (firstSync False))) (''ns'', name) = Some t \<longrightarrow>
     labelled (plainSource None) t \<longrightarrow> \<not> isOwnedBySource t (plainSource None)"
proof -
  show "errs (fst (firstSync False)) = []"
    using firstSync_done by (auto simp: syncDone_def Let_def firstSync_start acceptable_def)
  have sy: "syncedTo (\<lambda>_. True) (ts_Order sourceReconciler) (plainSource None) (desiredMap oneItem name)
      (tenantsOf (world emptyStart) (''ns'', name)) (tenantsOf (world (snd (firstSync False))) (''ns'', name))" for name
    using firstSync_done unfolding syncDone_def Let_def by blast
  have "tenantsOf (world (snd (firstSync False))) (''ns'', name) = None"
    if "desiredMap oneItem name = None" for name
    using sy [of name] that by (simp add: syncedTo_def firstSync_start(3))
  then show "\<forall>name t. desiredMap oneItem name = None \<longrightarrow>
     tenantsOf (world (snd (firstSync False))) (''ns'', name) = Some t \<longrightarrow>
     labelled (plainSource None) t \<longrightarrow> \<not> isOwnedBySource t (plainSource None)"
    by simp
qed

theorem second_sync_writes_nothing_witness:
  "errs (fst secondSync) = [] \<and>
    (\<exists>new. trace (snd secondSync) = trace (snd (firstSync False)) @ new \<and> writesOf new = [])"
  by (rule second_sync_writes_nothing [OF sourceReconciler_contracts(1-3) firstSync_start(1,2) firstSync_run
      firstSync_clean(1) plain_complete firstSync_clean(2) refl goRange_instances(2) refl
      listing_of_world secondSync_run])

end
