(* ===== verification/AwsClients.thy ===== *)
theory AwsClients
  imports ApiTypes
begin

text \<open>
  The production clients: \<open>RealCloudFrontClient\<close> (\<open>internal/aws/cloudfront.go\<close>),
  \<open>RealRoute53Client\<close> (\<open>internal/aws/route53.go\<close>) and \<open>RealACMClient\<close>
  (\<open>internal/aws/acm.go\<close>), over the SDK interfaces those files declare.

  The AWS SDK is not code of this repository: its operations are the fields of the records
  \<open>cloudFrontAPI\<close>, \<open>route53API\<close> and \<open>acmAPI\<close>, parameters of every definition below, and its
  request and response structs are records of the fields the clients write and read. An SDK
  pointer is an option, an SDK enum its string. Latency metrics are left out.
\<close>

section \<open>SDK values\<close>

record cfDomainItem = sdi_Domain :: "string option"

record cfParameter =
  spa_Name :: "string option"
  spa_Value :: "string option"

record cfWebAclCustomization =
  swa_Action :: string
  swa_Arn :: "string option"

record cfCertificate = sce_Arn :: "string option"

record cfGeoRestrictionCustomization =
  sge_RestrictionType :: string
  sge_Locations :: "string list"

record cfCustomizations =
  scu_WebAcl :: "cfWebAclCustomization option"
  scu_Certificate :: "cfCertificate option"
  scu_GeoRestrictions :: "cfGeoRestrictionCustomization option"

record cfManagedCertificateRequest =
  smr_ValidationTokenHost :: string
  smr_PrimaryDomainName :: "string option"
  smr_CertificateTransparencyLoggingPreference :: string

record cfTag =
  sta_Key :: "string option"
  sta_Value :: "string option"

record cfCreateInput =
  sci_DistributionId :: "string option"
  sci_Name :: "string option"
  sci_Domains :: "cfDomainItem list"
  sci_Enabled :: "bool option"
  sci_ConnectionGroupId :: "string option"
  sci_Parameters :: "cfParameter list"
  sci_Customizations :: "cfCustomizations option"
  sci_ManagedCertificateRequest :: "cfManagedCertificateRequest option"
  sci_Tags :: "cfTag list option"

record cfUpdateInput =
  sui_Id :: "string option"
  sui_DistributionId :: "string option"
  sui_IfMatch :: "string option"
  sui_Domains :: "cfDomainItem list"
  sui_Enabled :: "bool option"
  sui_ConnectionGroupId :: "string option"
  sui_Parameters :: "cfParameter list"
  sui_Customizations :: "cfCustomizations option"
  sui_ManagedCertificateRequest :: "cfManagedCertificateRequest option"

record cfDomainResult =
  sdr_Domain :: "string option"
  sdr_Status :: string

record cfDistributionTenant =
  sdt_Id :: "string option"
  sdt_Arn :: "string option"
  sdt_DistributionId :: "string option"
  sdt_Name :: "string option"
  sdt_Status :: "string option"
  sdt_Enabled :: "bool option"
  sdt_ConnectionGroupId :: "string option"
  sdt_CreatedTime :: "gotime option"
  sdt_LastModifiedTime :: "gotime option"
  sdt_Domains :: "cfDomainResult list"
  sdt_Parameters :: "cfParameter list"
  sdt_Customizations :: "cfCustomizations option"

record cfTenantOutput =
  sto_DistributionTenant :: "cfDistributionTenant option"
  sto_ETag :: "string option"

record cfViewerCertificate =
  svc_ACMCertificateArn :: "string option"
  svc_CloudFrontDefaultCertificate :: "bool option"

record cfStringSchema =
  sss_Required :: "bool option"
  sss_DefaultValue :: "string option"

record cfParameterDefinition =
  spd_Name :: "string option"
  spd_Definition :: "cfStringSchema option option"

record cfDistributionConfig =
  sdc_ViewerCertificate :: "cfViewerCertificate option"
  sdc_TenantConfig :: "cfParameterDefinition list option"

record cfDistribution =
  sdn_Id :: "string option"
  sdn_DomainName :: "string option"
  sdn_DistributionConfig :: "cfDistributionConfig option"

record cfValidationTokenDetail =
  svt_Domain :: "string option"
  svt_RedirectFrom :: "string option"
  svt_RedirectTo :: "string option"

record cfManagedCertificateDetails =
  smd_CertificateArn :: "string option"
  smd_CertificateStatus :: string
  smd_ValidationTokenHost :: string
  smd_ValidationTokenDetails :: "cfValidationTokenDetail list"

record cfConnectionGroup =
  scg_IsDefault :: "bool option"
  scg_RoutingEndpoint :: "string option"

text \<open>\<open>cloudFrontAPI\<close>: the operations of the SDK client. The outputs of the getters are the one
  field of the output struct that is read.\<close>

record 'w cloudFrontAPI =
  api_CreateDistributionTenant :: "cfCreateInput \<Rightarrow> ('w, cfTenantOutput) call"
  api_GetDistributionTenant :: "string option \<Rightarrow> ('w, cfTenantOutput) call"
  api_UpdateDistributionTenant :: "cfUpdateInput \<Rightarrow> ('w, cfTenantOutput) call"
  api_DeleteDistributionTenant :: "string option \<Rightarrow> string option \<Rightarrow> ('w, unit) call"
  api_GetDistribution :: "string option \<Rightarrow> ('w, cfDistribution option) call"
  api_GetManagedCertificateDetails ::
    "string option \<Rightarrow> ('w, cfManagedCertificateDetails option) call"
  api_GetConnectionGroup :: "string option \<Rightarrow> ('w, cfConnectionGroup option) call"
  api_ListConnectionGroups :: "('w, cfConnectionGroup list option) call"

text \<open>Dereferencing with the zero value for nil (\<open>aws.ToString\<close>, \<open>aws.ToBool\<close>).\<close>

abbreviation toString :: "string option \<Rightarrow> string" where
  "toString p \<equiv> (case p of None \<Rightarrow> [] | Some s \<Rightarrow> s)"
abbreviation toBool :: "bool option \<Rightarrow> bool" where
  "toBool p \<equiv> (case p of None \<Rightarrow> False | Some b \<Rightarrow> b)"

text \<open>The error a classifier makes of an SDK error; a classifier never answers nil for one.\<close>

definition classifiedBy :: "(error \<Rightarrow> error) \<Rightarrow> go_error \<Rightarrow> go_error" where
  "classifiedBy f e = (case f (Some e) of None \<Rightarrow> e | Some e' \<Rightarrow> e')"

text \<open>An SDK call whose error is classified and whose answer is converted.\<close>

definition andThen ::
  "('w, 'a) call \<Rightarrow> (go_error \<Rightarrow> go_error + 'b) \<Rightarrow> ('a \<Rightarrow> go_error + 'b) \<Rightarrow> ('w, 'b) call" where
  "andThen f onErr onOK w =
     (case f w of (r, w') \<Rightarrow> ((case r of Inl e \<Rightarrow> onErr e | Inr a \<Rightarrow> onOK a), w'))"

section \<open>Conversions\<close>

definition toAWSCustomizations :: "CustomizationsInput option \<Rightarrow> cfCustomizations option" where
  "toAWSCustomizations c = map_option (\<lambda>c.
     \<lparr>scu_WebAcl = map_option (\<lambda>w. \<lparr>swa_Action = waci_Action w, swa_Arn = waci_Arn w\<rparr>)
        (cusi_WebAcl c),
      scu_Certificate = map_option (\<lambda>x. \<lparr>sce_Arn = Some (certi_Arn x)\<rparr>) (cusi_Certificate c),
      scu_GeoRestrictions = map_option (\<lambda>g. \<lparr>sge_RestrictionType = geoi_RestrictionType g,
        sge_Locations = geoi_Locations g\<rparr>) (cusi_GeoRestrictions c)\<rparr>) c"

definition fromAWSCustomizations :: "cfCustomizations option \<Rightarrow> CustomizationsInput option" where
  "fromAWSCustomizations c = map_option (\<lambda>c.
     \<lparr>cusi_WebAcl = map_option (\<lambda>w. \<lparr>waci_Action = swa_Action w, waci_Arn = swa_Arn w\<rparr>)
        (scu_WebAcl c),
      cusi_Certificate = map_option (\<lambda>x. \<lparr>certi_Arn = toString (sce_Arn x)\<rparr>) (scu_Certificate c),
      cusi_GeoRestrictions = map_option (\<lambda>g. \<lparr>geoi_RestrictionType = sge_RestrictionType g,
        geoi_Locations = sge_Locations g\<rparr>) (scu_GeoRestrictions c)\<rparr>) c"

definition toAWSManagedCertificateRequest ::
  "ManagedCertificateRequestInput option \<Rightarrow> cfManagedCertificateRequest option" where
  "toAWSManagedCertificateRequest m = map_option (\<lambda>m.
     \<lparr>smr_ValidationTokenHost = mcri_ValidationTokenHost m,
      smr_PrimaryDomainName = mcri_PrimaryDomainName m,
      smr_CertificateTransparencyLoggingPreference =
        toString (mcri_CertificateTransparencyLoggingPreference m)\<rparr>) m"

definition toDistributionTenantOutput ::
  "cfDistributionTenant option \<Rightarrow> string \<Rightarrow> DistributionTenantOutput option" where
  "toDistributionTenantOutput dt eTag = map_option (\<lambda>dt.
     \<lparr>out_ID = toString (sdt_Id dt), out_Arn = toString (sdt_Arn dt),
      out_DistributionId = toString (sdt_DistributionId dt), out_Name = toString (sdt_Name dt),
      out_ETag = eTag, out_Status = toString (sdt_Status dt), out_Enabled = toBool (sdt_Enabled dt),
      out_ConnectionGroupId = toString (sdt_ConnectionGroupId dt),
      out_CreatedTime = sdt_CreatedTime dt, out_LastModifiedTime = sdt_LastModifiedTime dt,
      out_Domains = map (\<lambda>d. \<lparr>dro_Domain = toString (sdr_Domain d), dro_Status = sdr_Status d\<rparr>)
        (sdt_Domains dt),
      out_Parameters = map (\<lambda>p. \<lparr>pin_Name = toString (spa_Name p), pin_Value = toString (spa_Value p)\<rparr>)
        (sdt_Parameters dt),
      out_Customizations = fromAWSCustomizations (sdt_Customizations dt)\<rparr>) dt"

definition sdkDomains :: "DomainInput list \<Rightarrow> cfDomainItem list" where
  "sdkDomains = map (\<lambda>d. \<lparr>sdi_Domain = Some (din_Domain d)\<rparr>)"

definition sdkParameters :: "ParameterInput list \<Rightarrow> cfParameter list" where
  "sdkParameters = map (\<lambda>p. \<lparr>spa_Name = Some (pin_Name p), spa_Value = Some (pin_Value p)\<rparr>)"

section \<open>RealCloudFrontClient\<close>

definition createInput :: "CreateDistributionTenantInput \<Rightarrow> cfCreateInput" where
  "createInput input =
     \<lparr>sci_DistributionId = Some (ci_DistributionId input), sci_Name = Some (ci_Name input),
      sci_Domains = sdkDomains (ci_Domains input), sci_Enabled = ci_Enabled input,
      sci_ConnectionGroupId = ci_ConnectionGroupId input,
      sci_Parameters = sdkParameters (ci_Parameters input),
      sci_Customizations = toAWSCustomizations (ci_Customizations input),
      sci_ManagedCertificateRequest =
        toAWSManagedCertificateRequest (ci_ManagedCertificateRequest input),
      sci_Tags = (if 0 < length (ci_Tags input)
        then Some (map (\<lambda>t. \<lparr>sta_Key = Some (tagi_Key t), sta_Value = tagi_Value t\<rparr>) (ci_Tags input))
        else None)\<rparr>"

definition updateInput :: "UpdateDistributionTenantInput \<Rightarrow> cfUpdateInput" where
  "updateInput input =
     \<lparr>sui_Id = Some (ui_ID input), sui_DistributionId = Some (ui_DistributionId input),
      sui_IfMatch = Some (ui_IfMatch input), sui_Domains = sdkDomains (ui_Domains input),
      sui_Enabled = ui_Enabled input, sui_ConnectionGroupId = ui_ConnectionGroupId input,
      sui_Parameters = sdkParameters (ui_Parameters input),
      sui_Customizations = toAWSCustomizations (ui_Customizations input),
      sui_ManagedCertificateRequest =
        toAWSManagedCertificateRequest (ui_ManagedCertificateRequest input)\<rparr>"

definition tenantAnswer :: "cfTenantOutput \<Rightarrow> go_error + DistributionTenantOutput option" where
  "tenantAnswer out =
     Inr (toDistributionTenantOutput (sto_DistributionTenant out) (toString (sto_ETag out)))"

abbreviation awsFailed :: "go_error \<Rightarrow> go_error + 'a" where
  "awsFailed e \<equiv> Inl (classifiedBy classifyAWSError e)"

definition realCreate ::
  "'w cloudFrontAPI \<Rightarrow> CreateDistributionTenantInput \<Rightarrow> ('w, DistributionTenantOutput option) call" where
  "realCreate api input =
     andThen (api_CreateDistributionTenant api (createInput input)) awsFailed tenantAnswer"

definition realGet ::
  "'w cloudFrontAPI \<Rightarrow> string \<Rightarrow> ('w, DistributionTenantOutput option) call" where
  "realGet api i = andThen (api_GetDistributionTenant api (Some i)) awsFailed tenantAnswer"

definition realUpdate ::
  "'w cloudFrontAPI \<Rightarrow> UpdateDistributionTenantInput \<Rightarrow> ('w, DistributionTenantOutput option) call" where
  "realUpdate api input =
     andThen (api_UpdateDistributionTenant api (updateInput input)) awsFailed tenantAnswer"

definition realDelete :: "'w cloudFrontAPI \<Rightarrow> string \<Rightarrow> string \<Rightarrow> ('w, unit) call" where
  "realDelete api i ifMatch =
     andThen (api_DeleteDistributionTenant api (Some i) (Some ifMatch)) awsFailed Inr"

definition parameterDefinition :: "cfParameterDefinition \<Rightarrow> ParameterDefinitionOutput" where
  "parameterDefinition pd =
     (case spd_Definition pd of
        Some (Some schema) \<Rightarrow>
          \<lparr>pd_Name = toString (spd_Name pd), pd_Required = toBool (sss_Required schema),
           pd_DefaultValue = toString (sss_DefaultValue schema)\<rparr>
      | _ \<Rightarrow> \<lparr>pd_Name = toString (spd_Name pd), pd_Required = False, pd_DefaultValue = []\<rparr>)"

definition realDistributionInfo ::
  "string \<Rightarrow> cfDistribution option \<Rightarrow> go_error + DistributionInfo option" where
  "realDistributionInfo distributionId out =
     (case out of
        None \<Rightarrow> Inl (OtherError (''distribution '' @ distributionId @ '' has no configuration''))
      | Some dist \<Rightarrow>
          (case sdn_DistributionConfig dist of
             None \<Rightarrow> Inl (OtherError (''distribution '' @ distributionId @ '' has no configuration''))
           | Some cfg \<Rightarrow>
               Inr (Some
                 \<lparr>di_ID = toString (sdn_Id dist), di_DomainName = toString (sdn_DomainName dist),
                  di_ViewerCertificateArn = (case sdc_ViewerCertificate cfg of
                    None \<Rightarrow> [] | Some vc \<Rightarrow> toString (svc_ACMCertificateArn vc)),
                  di_UsesCloudFrontDefaultCert = (case sdc_ViewerCertificate cfg of
                    None \<Rightarrow> False | Some vc \<Rightarrow> toBool (svc_CloudFrontDefaultCertificate vc)),
                  di_ParameterDefinitions = (case sdc_TenantConfig cfg of
                    None \<Rightarrow> [] | Some pds \<Rightarrow> map parameterDefinition pds)\<rparr>)))"

definition realInfo :: "'w cloudFrontAPI \<Rightarrow> string \<Rightarrow> ('w, DistributionInfo option) call" where
  "realInfo api distributionId =
     andThen (api_GetDistribution api (Some distributionId)) awsFailed
       (realDistributionInfo distributionId)"

text \<open>A tenant without a managed certificate has no details, whichever way the API says so.\<close>

definition certDetails :: "cfManagedCertificateDetails \<Rightarrow> ManagedCertificateDetailsOutput" where
  "certDetails details =
     \<lparr>mcd_CertificateArn = toString (smd_CertificateArn details),
      mcd_CertificateStatus = smd_CertificateStatus details,
      mcd_ValidationTokenHost = smd_ValidationTokenHost details,
      mcd_ValidationTokenDetails =
        map (\<lambda>v. \<lparr>vtd_Domain = toString (svt_Domain v), vtd_RedirectFrom = toString (svt_RedirectFrom v),
               vtd_RedirectTo = toString (svt_RedirectTo v)\<rparr>) (smd_ValidationTokenDetails details)\<rparr>"

definition realCert ::
  "'w cloudFrontAPI \<Rightarrow> string \<Rightarrow> ('w, ManagedCertificateDetailsOutput option) call" where
  "realCert api tenantIdentifier =
     andThen (api_GetManagedCertificateDetails api (Some tenantIdentifier))
       (\<lambda>e. if IsNotFound (classifyAWSError (Some e)) then Inr None else awsFailed e)
       (\<lambda>out. Inr (map_option certDetails out))"

definition noEndpoint :: "string \<Rightarrow> go_error" where
  "noEndpoint msg = Wrapped [] (Sentinel ErrConnectionGroupNotFound) ('': '' @ msg)"

definition realEndpoint :: "'w cloudFrontAPI \<Rightarrow> string \<Rightarrow> ('w, string) call" where
  "realEndpoint api connectionGroupId =
     andThen (api_GetConnectionGroup api (Some connectionGroupId))
       (\<lambda>e. if IsNotFound (classifyAWSError (Some e)) then Inl (noEndpoint connectionGroupId)
            else awsFailed e)
       (\<lambda>out. case out of
          None \<Rightarrow> Inl (noEndpoint (''connection group '' @ connectionGroupId @ '' has no routing endpoint''))
        | Some cg \<Rightarrow>
            (case scg_RoutingEndpoint cg of
               None \<Rightarrow> Inl (noEndpoint (''connection group '' @ connectionGroupId @ '' has no routing endpoint''))
             | Some endpoint \<Rightarrow> Inr endpoint))"

text \<open>The first group that is marked as the default decides.\<close>

fun defaultEndpoint :: "cfConnectionGroup list \<Rightarrow> go_error + string" where
  "defaultEndpoint [] = Inl (noEndpoint ''no default connection group found in account'')"
| "defaultEndpoint (cg # cgs) =
     (if scg_IsDefault cg = Some True then
        (case scg_RoutingEndpoint cg of
           None \<Rightarrow> Inl (noEndpoint ''default connection group has no routing endpoint'')
         | Some endpoint \<Rightarrow> Inr endpoint)
      else defaultEndpoint cgs)"

definition realDefaultEndpoint :: "'w cloudFrontAPI \<Rightarrow> ('w, string) call" where
  "realDefaultEndpoint api =
     andThen (api_ListConnectionGroups api) awsFailed
       (\<lambda>out. case out of
          None \<Rightarrow> Inl (noEndpoint ''no connection groups returned'')
        | Some cgs \<Rightarrow> defaultEndpoint cgs)"

definition RealCloudFrontClient :: "'w cloudFrontAPI \<Rightarrow> 'w CloudFrontClient" where
  "RealCloudFrontClient api =
     \<lparr>cf_CreateDistributionTenant = realCreate api,
      cf_GetDistributionTenant = realGet api,
      cf_UpdateDistributionTenant = realUpdate api,
      cf_DeleteDistributionTenant = realDelete api,
      cf_GetDistributionInfo = realInfo api,
      cf_GetManagedCertificateDetails = realCert api,
      cf_GetConnectionGroupRoutingEndpoint = realEndpoint api,
      cf_GetDefaultConnectionGroupEndpoint = realDefaultEndpoint api\<rparr>"

section \<open>RealRoute53Client\<close>

datatype changeAction = ChangeActionUpsert | ChangeActionDelete

record r53Change =
  r5_Action :: changeAction
  r5_Name :: "string option"
  r5_Type :: string
  r5_TTL :: "int64 option"
  r5_Values :: "string option list"

record r53ChangeInfo =
  r5i_Id :: "string option"
  r5i_Status :: string

record r53ChangeInput =
  r5c_HostedZoneId :: "string option"
  r5c_Changes :: "r53Change list"
  r5c_Comment :: "string option"

record 'w route53API =
  api_ChangeResourceRecordSets :: "r53ChangeInput \<Rightarrow> ('w, r53ChangeInfo option) call"
  api_GetChange :: "string option \<Rightarrow> ('w, r53ChangeInfo option) call"

definition cnameChange :: "changeAction \<Rightarrow> DNSRecord \<Rightarrow> r53Change" where
  "cnameChange action r =
     \<lparr>r5_Action = action, r5_Name = Some (rec_Name r), r5_Type = ''CNAME'',
      r5_TTL = Some (rec_TTL r), r5_Values = [Some (rec_Target r)]\<rparr>"

abbreviation route53Failed :: "go_error \<Rightarrow> go_error + 'a" where
  "route53Failed e \<equiv> Inl (classifiedBy classifyRoute53Error e)"

definition UpsertCNAMERecords ::
  "'w route53API \<Rightarrow> UpsertDNSRecordsInput \<Rightarrow> ('w, DNSChangeOutput option) call" where
  "UpsertCNAMERecords api input =
     andThen (api_ChangeResourceRecordSets api
         \<lparr>r5c_HostedZoneId = Some (upsert_HostedZoneId input),
          r5c_Changes = map (cnameChange ChangeActionUpsert) (upsert_Records input),
          r5c_Comment = Some ''Managed by cloudfront-tenant-operator''\<rparr>)
       route53Failed
       (\<lambda>out. Inr (Some \<lparr>chg_ChangeId = (case out of None \<Rightarrow> [] | Some ci \<Rightarrow> toString (r5i_Id ci))\<rparr>))"

definition GetChangeStatus :: "'w route53API \<Rightarrow> string \<Rightarrow> ('w, string) call" where
  "GetChangeStatus api changeId =
     andThen (api_GetChange api (Some changeId)) route53Failed
       (\<lambda>out. case out of
          None \<Rightarrow> Inl (OtherError (''Route53 GetChange returned nil ChangeInfo for '' @ changeId))
        | Some ci \<Rightarrow> Inr (r5i_Status ci))"

text \<open>Records that are not there any more count as deleted.\<close>

definition DeleteCNAMERecords :: "'w route53API \<Rightarrow> DeleteDNSRecordsInput \<Rightarrow> ('w, unit) call" where
  "DeleteCNAMERecords api input =
     andThen (api_ChangeResourceRecordSets api
         \<lparr>r5c_HostedZoneId = Some (del_HostedZoneId input),
          r5c_Changes = map (cnameChange ChangeActionDelete) (del_Records input),
          r5c_Comment = Some ''Cleanup by cloudfront-tenant-operator''\<rparr>)
       (\<lambda>e. if IsNotFound (classifyRoute53Error (Some e)) then Inr () else route53Failed e)
       (\<lambda>_. Inr ())"

definition RealRoute53Client :: "'w route53API \<Rightarrow> 'w DNSClient" where
  "RealRoute53Client api =
     \<lparr>dnsc_UpsertCNAMERecords = UpsertCNAMERecords api,
      dnsc_GetChangeStatus = GetChangeStatus api,
      dnsc_DeleteCNAMERecords = DeleteCNAMERecords api\<rparr>"

section \<open>RealACMClient\<close>

record 'w acmAPI =
  api_DescribeCertificate :: "string option \<Rightarrow> ('w, string list option) call"

definition GetCertificateSANs :: "'w acmAPI \<Rightarrow> string \<Rightarrow> ('w, string list) call" where
  "GetCertificateSANs api certificateArn =
     andThen (api_DescribeCertificate api (Some certificateArn))
       (\<lambda>e. Inl (classifiedBy classifyACMError e))
       (\<lambda>out. case out of None \<Rightarrow> Inr [] | Some sans \<Rightarrow> Inr sans)"

definition RealACMClient :: "'w acmAPI \<Rightarrow> 'w ACMClient" where
  "RealACMClient api = \<lparr>acm_GetCertificateSANs = GetCertificateSANs api\<rparr>"

end
