(* ===== verification/DynamoScan.thy ===== *)
theory DynamoScan
  imports SourceReconciler AwsClients
begin

text \<open>
  The DynamoDB source: \<open>RealDynamoDBClient\<close> (\<open>internal/aws/dynamodb.go\<close>: attribute
  readers, mapping of an item, the paginated scan), \<open>MockDynamoDBClient\<close>
  (\<open>internal/aws/dynamodb_mock.go\<close>), and the backend over it
  (\<open>internal/tenantsource/dynamodb/backend.go\<close>).

  The SDK's \<open>Scan\<close> is a parameter. The scan loop follows \<open>LastEvaluatedKey\<close> as long as the SDK
  returns one: it is a partial function whose value \<open>None\<close> is not returning. The counter of failed scans
  (\<open>ReconcileErrors\<close> under the label \<open>dynamodb_scan\<close>) and the latency histogram, which the client
  writes itself, are left out: a client has no trace.
\<close>

section \<open>Attribute values\<close>

text \<open>The members of the SDK's union that the code distinguishes; a DynamoDB map is the
  association list of its entries, and a set the list the SDK returns.\<close>

datatype AttributeValue =
    MemberS string
  | MemberN string
  | MemberBOOL bool
  | MemberSS "string list"
  | MemberM "(string \<times> AttributeValue) list"
  | MemberOther

type_synonym dynamoItem = "(string \<times> AttributeValue) list"

record ScanInput =
  sin_TableName :: "string option"
  sin_ExclusiveStartKey :: "dynamoItem option"

record ScanOutput =
  sout_Items :: "dynamoItem list"
  sout_LastEvaluatedKey :: "dynamoItem option"

record 'w dynamoDBAPI =
  api_Scan :: "ScanInput \<Rightarrow> ('w, ScanOutput) call"

record ScanTenantsInput =
  sti_TableName :: string
  sti_NameAttribute :: string
  sti_DomainsAttribute :: string
  sti_EnabledAttribute :: string
  sti_ConnectionGroupIdAttribute :: string
  sti_CertificateArnAttribute :: string
  sti_ValidationTokenHostAttribute :: string
  sti_PrimaryDomainNameAttribute :: string
  sti_CertificateTransparencyLoggingPreferenceAttribute :: string
  sti_DNSProviderAttribute :: string
  sti_HostedZoneIdAttribute :: string
  sti_DNSTTLAttribute :: string
  sti_DNSAssumeRoleArnAttribute :: string
  sti_WebAclActionAttribute :: string
  sti_WebAclArnAttribute :: string
  sti_GeoRestrictionTypeAttribute :: string
  sti_GeoLocationsAttribute :: string
  sti_ParametersAttribute :: string
  sti_TagsAttribute :: string

section \<open>Reading attributes\<close>

definition getStringAttr :: "dynamoItem \<Rightarrow> string \<Rightarrow> string option" where
  "getStringAttr item key = (case map_of item key of
     Some (MemberS s) \<Rightarrow> Some s | _ \<Rightarrow> None)"

definition getDomainsAttr :: "dynamoItem \<Rightarrow> string \<Rightarrow> string list option" where
  "getDomainsAttr item key = (case map_of item key of
     None \<Rightarrow> None
   | Some (MemberS s) \<Rightarrow> if s = [] then None else Some [s]
   | Some (MemberSS ss) \<Rightarrow> if length ss = 0 then None else Some ss
   | _ \<Rightarrow> None)"

text \<open>\<open>strings.EqualFold(s, "true")\<close>: no byte outside ASCII folds to one of these letters.\<close>

definition getBoolAttr :: "dynamoItem \<Rightarrow> string \<Rightarrow> bool option" where
  "getBoolAttr item key = (case map_of item key of
     None \<Rightarrow> None
   | Some (MemberBOOL b) \<Rightarrow> Some b
   | Some (MemberS s) \<Rightarrow> Some (ToLower s = ''true'')
   | _ \<Rightarrow> None)"

text \<open>\<open>fmt.Sscanf(s, "%d", &v)\<close> for an \<open>int64\<close>: leading blanks, a sign, the longest run of
  digits; what follows is not looked at. A value outside the type is an error.\<close>

definition isDigit :: "char \<Rightarrow> bool" where
  "isDigit c \<longleftrightarrow> 48 \<le> (of_char c :: nat) \<and> (of_char c :: nat) \<le> 57"

definition isBlank :: "char \<Rightarrow> bool" where
  "isBlank c \<longleftrightarrow> (of_char c :: nat) \<in> {9, 11, 12, 13, 32}"

definition digitsValue :: "string \<Rightarrow> int" where
  "digitsValue ds = fold (\<lambda>c v. 10 * v + (int (of_char c) - 48)) ds 0"

definition SscanfD :: "string \<Rightarrow> int64 option" where
  "SscanfD s =
     (let s = dropWhile isBlank s;
          neg = (s \<noteq> [] \<and> hd s = CHR ''-'');
          body = (if s \<noteq> [] \<and> hd s \<in> {CHR ''-'', CHR ''+''} then tl s else s);
          ds = takeWhile isDigit body;
          v = (if neg then - digitsValue ds else digitsValue ds) in
      if ds = [] then None
      else if v < - (2 ^ 63) \<or> 2 ^ 63 \<le> v then None
      else Some (word_of_int v))"

definition getNumberAttr :: "dynamoItem \<Rightarrow> string \<Rightarrow> int64 option" where
  "getNumberAttr item key = (case map_of item key of
     Some (MemberN n) \<Rightarrow> SscanfD n | _ \<Rightarrow> None)"

definition getStringSetAttr :: "dynamoItem \<Rightarrow> string \<Rightarrow> string list option" where
  "getStringSetAttr item key = (case map_of item key of
     Some (MemberSS ss) \<Rightarrow> if 0 < length ss then Some ss else None
   | _ \<Rightarrow> None)"

definition getMapStringAttr :: "dynamoItem \<Rightarrow> string \<Rightarrow> (string \<times> string) list option" where
  "getMapStringAttr item key = (case map_of item key of
     Some (MemberM m) \<Rightarrow>
       if length m = 0 then None
       else (let result = fold (\<lambda>(k, v) r. case v of MemberS s \<Rightarrow> AList.update k s r | _ \<Rightarrow> r) m []
             in if 0 < length result then Some result else None)
   | _ \<Rightarrow> None)"

text \<open>The value a target pointer that is nil before is left with.\<close>

definition setOptionalString :: "dynamoItem \<Rightarrow> string \<Rightarrow> string option" where
  "setOptionalString item attr =
     (if attr = [] then None
      else case getStringAttr item attr of
        Some v \<Rightarrow> if v \<noteq> [] then Some v else None
      | None \<Rightarrow> None)"

definition mapDynamoItem :: "dynamoItem \<Rightarrow> ScanTenantsInput \<Rightarrow> go_error + TenantItem" where
  "mapDynamoItem item input =
     (case getStringAttr item (sti_NameAttribute input) of
        None \<Rightarrow> Inl (OtherError (''missing required attribute '' @ Quote (sti_NameAttribute input)))
      | Some name \<Rightarrow>
          if name = []
          then Inl (OtherError (''missing required attribute '' @ Quote (sti_NameAttribute input)))
          else (case getDomainsAttr item (sti_DomainsAttribute input) of
            None \<Rightarrow> Inl (OtherError (''missing required attribute '' @
              Quote (sti_DomainsAttribute input) @ '' for item '' @ Quote name))
          | Some domains \<Rightarrow>
              if length domains = 0
              then Inl (OtherError (''missing required attribute '' @
                Quote (sti_DomainsAttribute input) @ '' for item '' @ Quote name))
              else Inr
                \<lparr>it_Name = name, it_Domains = domains,
                 it_Enabled = (if sti_EnabledAttribute input \<noteq> []
                   then getBoolAttr item (sti_EnabledAttribute input) else None),
                 it_ConnectionGroupId = setOptionalString item (sti_ConnectionGroupIdAttribute input),
                 it_CertificateArn = setOptionalString item (sti_CertificateArnAttribute input),
                 it_ValidationTokenHost = setOptionalString item (sti_ValidationTokenHostAttribute input),
                 it_PrimaryDomainName = setOptionalString item (sti_PrimaryDomainNameAttribute input),
                 it_CertificateTransparencyLoggingPreference = setOptionalString item
                   (sti_CertificateTransparencyLoggingPreferenceAttribute input),
                 it_DNSProvider = setOptionalString item (sti_DNSProviderAttribute input),
                 it_HostedZoneId = setOptionalString item (sti_HostedZoneIdAttribute input),
                 it_DNSTTL = (if sti_DNSTTLAttribute input \<noteq> []
                   then getNumberAttr item (sti_DNSTTLAttribute input) else None),
                 it_DNSAssumeRoleArn = setOptionalString item (sti_DNSAssumeRoleArnAttribute input),
                 it_WebAclAction = setOptionalString item (sti_WebAclActionAttribute input),
                 it_WebAclArn = setOptionalString item (sti_WebAclArnAttribute input),
                 it_GeoRestrictionType = setOptionalString item (sti_GeoRestrictionTypeAttribute input),
                 it_GeoLocations = (if sti_GeoLocationsAttribute input \<noteq> []
                   then getStringSetAttr item (sti_GeoLocationsAttribute input) else None),
                 it_Parameters = (if sti_ParametersAttribute input \<noteq> []
                   then getMapStringAttr item (sti_ParametersAttribute input) else None),
                 it_Tags = (if sti_TagsAttribute input \<noteq> []
                   then getMapStringAttr item (sti_TagsAttribute input) else None)\<rparr>))"

section \<open>The scan\<close>

text \<open>\<open>for _, item := range out.Items { ...; if err != nil { continue }; ... }\<close>\<close>

definition mapItems :: "ScanTenantsInput \<Rightarrow> dynamoItem list \<Rightarrow> TenantItem list" where
  "mapItems input raw = List.map_filter
     (\<lambda>item. case mapDynamoItem item input of Inl _ \<Rightarrow> None | Inr tenant \<Rightarrow> Some tenant) raw"

partial_function (option) scanLoop ::
  "'w dynamoDBAPI \<Rightarrow> ScanTenantsInput \<Rightarrow> TenantItem list \<Rightarrow> dynamoItem option \<Rightarrow> 'w \<Rightarrow>
   ((go_error + TenantItem list) \<times> 'w) option" where
  "scanLoop api input items lastKey w =
     (case api_Scan api \<lparr>sin_TableName = Some (sti_TableName input),
                         sin_ExclusiveStartKey = lastKey\<rparr> w of
        (out, w') \<Rightarrow>
          (case out of
             Inl err \<Rightarrow> Some (Inl (classifiedBy classifyDynamoDBError err), w')
           | Inr page \<Rightarrow>
               (case sout_LastEvaluatedKey page of
                  None \<Rightarrow> Some (Inr (items @ mapItems input (sout_Items page)), w')
                | Some k \<Rightarrow>
                    scanLoop api input (items @ mapItems input (sout_Items page)) (Some k) w')))"

text \<open>The interface; a call that never returns answers \<open>None\<close>.\<close>

record 'w DynamoDBClient =
  ScanTenants :: "ScanTenantsInput \<Rightarrow> 'w \<Rightarrow> ((go_error + TenantItem list) \<times> 'w) option"

definition RealDynamoDBClient :: "'w dynamoDBAPI \<Rightarrow> 'w DynamoDBClient" where
  "RealDynamoDBClient api = \<lparr>ScanTenants = (\<lambda>input. scanLoop api input [] None)\<rparr>"

record MockDynamoDBClient =
  md_Items :: "TenantItem list"
  md_Err :: error
  md_ScanCallCount :: int64

definition mockScanTenants ::
  "ScanTenantsInput \<Rightarrow> MockDynamoDBClient \<Rightarrow>
   ((go_error + TenantItem list) \<times> MockDynamoDBClient) option" where
  "mockScanTenants input m =
     (let m = m\<lparr>md_ScanCallCount := md_ScanCallCount m + 1\<rparr> in
      case md_Err m of
        Some e \<Rightarrow> Some (Inl e, m)
      | None \<Rightarrow> Some (Inr (md_Items m), m))"

section \<open>The backend\<close>

text \<open>\<open>newClient\<close> is the factory the backend was built with.\<close>

record 'w dynamoBackend =
  newClient :: "string \<Rightarrow> 'w DynamoDBClient"

text \<open>\<open>New(cfg)\<close>: a client for the region of the source, or for the SDK's default region.\<close>

definition NewBackend :: "(string option \<Rightarrow> 'w dynamoDBAPI) \<Rightarrow> 'w dynamoBackend" where
  "NewBackend api = \<lparr>newClient = (\<lambda>region.
     if region \<noteq> [] then RealDynamoDBClient (api (Some region)) else RealDynamoDBClient (api None))\<rparr>"

definition translateErr :: "error \<Rightarrow> error" where
  "translateErr err = (case err of None \<Rightarrow> None | Some e \<Rightarrow>
     (if errorsIs err ErrDynamoDBTableNotFound then wrapSentinel ErrSourceNotFound (errorText e)
      else if errorsIs err ErrAccessDenied then wrapSentinel ErrSourceAccessDenied (errorText e)
      else if errorsIs err ErrThrottling then wrapSentinel ErrSourceThrottled (errorText e)
      else err))"

definition buildScanInput :: "DynamoDBSourceConfig \<Rightarrow> ScanTenantsInput" where
  "buildScanInput cfg =
     (let opt = (\<lambda>p. case p of None \<Rightarrow> [] | Some a \<Rightarrow> a) in
      \<lparr>sti_TableName = dd_TableName cfg,
       sti_NameAttribute = (case dd_NameAttribute cfg of None \<Rightarrow> ''name'' | Some a \<Rightarrow> a),
       sti_DomainsAttribute = (case dd_DomainsAttribute cfg of None \<Rightarrow> ''domains'' | Some a \<Rightarrow> a),
       sti_EnabledAttribute = opt (dd_EnabledAttribute cfg),
       sti_ConnectionGroupIdAttribute = opt (dd_ConnectionGroupIdAttribute cfg),
       sti_CertificateArnAttribute = opt (dd_CertificateArnAttribute cfg),
       sti_ValidationTokenHostAttribute = opt (dd_ValidationTokenHostAttribute cfg),
       sti_PrimaryDomainNameAttribute = opt (dd_PrimaryDomainNameAttribute cfg),
       sti_CertificateTransparencyLoggingPreferenceAttribute =
         opt (dd_CertificateTransparencyLoggingPreferenceAttribute cfg),
       sti_DNSProviderAttribute = opt (dd_DNSProviderAttribute cfg),
       sti_HostedZoneIdAttribute = opt (dd_HostedZoneIdAttribute cfg),
       sti_DNSTTLAttribute = opt (dd_DNSTTLAttribute cfg),
       sti_DNSAssumeRoleArnAttribute = opt (dd_DNSAssumeRoleArnAttribute cfg),
       sti_WebAclActionAttribute = opt (dd_WebAclActionAttribute cfg),
       sti_WebAclArnAttribute = opt (dd_WebAclArnAttribute cfg),
       sti_GeoRestrictionTypeAttribute = opt (dd_GeoRestrictionTypeAttribute cfg),
       sti_GeoLocationsAttribute = opt (dd_GeoLocationsAttribute cfg),
       sti_ParametersAttribute = opt (dd_ParametersAttribute cfg),
       sti_TagsAttribute = opt (dd_TagsAttribute cfg)\<rparr>)"

definition dynamoQueryTenants ::
  "'w dynamoBackend \<Rightarrow> TenantSource \<Rightarrow> 'w \<Rightarrow> ((go_error + TenantItem list) \<times> 'w) option" where
  "dynamoQueryTenants b source w =
     (case tss_DynamoDB (ts_Spec source) of
        None \<Rightarrow> Some (Inl (Wrapped [] (Sentinel ErrSourceInvalidConfig)
          ('': spec.dynamodb is required when provider is '' @ [CHR 0x27] @ ''dynamodb'' @ [CHR 0x27])), w)
      | Some cfg \<Rightarrow>
          (let region = (case dd_Region cfg of None \<Rightarrow> [] | Some r \<Rightarrow> r) in
           case ScanTenants (newClient b region) (buildScanInput cfg) w of
             None \<Rightarrow> None
           | Some (Inl err, w') \<Rightarrow> Some (Inl (classifiedBy translateErr err), w')
           | Some (Inr items, w') \<Rightarrow> Some (Inr items, w')))"

end
