(* ===== verification/SourceOutcomes.thy ===== *)
theory SourceOutcomes
  imports SourceWorld
begin

text \<open>
  Properties of a reconcile of a TenantSource as a whole: which writes it makes, how the counters
  and the Ready condition of the status relate to the calls, what a failing query leads to, that
  the source is polled again, and when its finalizer is released.
\<close>

section \<open>Writes\<close>

text \<open>C30: A reconcile of a live TenantSource updates and deletes only DistributionTenants that
  carry its owner reference, creates tenants only with that reference, its label and its target
  namespace, and makes none of these writes in a dry run, whatever the source and the API server
  answer.\<close>

theorem source_writes_only_owned:
  assumes "owner_references (ts_SetOwnerReference R)"
    and "run_state (ts_Reconcile R ns n) s = (res, s')"
  shows "\<exists>r rest. trace s' = trace s @ SrcGet ns n r # rest \<and>
    (\<forall>src. r = Inr src \<longrightarrow> om_DeletionTimestamp (ts_Meta src) = None \<longrightarrow>
      list_all (\<lambda>e. ownedWrite src e \<and> (tenantWrite e \<longrightarrow> tss_DryRun (ts_Spec src) \<noteq> Some True)) rest)"
proof (rule reconcile_writes [OF assms(1) _ _ assms(2)])
  fix src
  have "\<not> tenantWrite e \<Longrightarrow> ownedWrite src e" for e by (cases e) simp_all
  then show "harmless (\<lambda>e. ownedWrite src e \<and> (tenantWrite e \<longrightarrow> tss_DryRun (ts_Spec src) \<noteq> Some True))"
    by (simp add: harmless_def)
qed simp

definition mockPoll :: "bool option \<Rightarrow> hres \<times> sourceWorld tsState" where
  "mockPoll dry = run_state (ts_Reconcile sourceReconciler ''ns'' ''src'')
     (startState (plainSource None) (plainWorld dry [plainItem ''a'' ''a.example''] []))"

lemma mockPoll_run:
  "run_state (ts_Reconcile sourceReconciler ''ns'' ''src'')
     (startState (plainSource None) (plainWorld dry [plainItem ''a'' ''a.example''] [])) =
   (fst (mockPoll dry), snd (mockPoll dry))"
  by (simp add: mockPoll_def)

theorem source_writes_only_owned_witness:
  "\<exists>r rest. trace (snd (mockPoll (Some True))) = SrcGet ''ns'' ''src'' r # rest \<and>
    (\<forall>src. r = Inr src \<longrightarrow> om_DeletionTimestamp (ts_Meta src) = None \<longrightarrow>
      list_all (\<lambda>e. ownedWrite src e \<and> (tenantWrite e \<longrightarrow> tss_DryRun (ts_Spec src) \<noteq> Some True)) rest)"
  using source_writes_only_owned [OF sourceReconciler_contracts(2) mockPoll_run]
  by (simp add: startState_def)

text \<open>A target namespace that is not the source's own: every creation is refused before the API
  server is asked, although a dry run announces it.\<close>

lemma cross_namespace_is_announced:
  "wp (createNewTenant R source spec item name targetNS True sr)
     (\<lambda>sr' s'. s' = s \<and> errs sr' = errs sr \<and>
       (\<exists>p. pendingChanges sr' = pendingChanges sr @ [p] \<and> pc_Action p = ''create'' \<and> pc_TenantName p = name)) s"
  by (simp add: createNewTenant_def wp_return addPending_def)

lemma cross_namespace_never_creates:
  assumes "owner_references (ts_SetOwnerReference R)" "targetNS \<noteq> ts_Namespace source"
  shows "wp (createNewTenant R source spec item name targetNS False sr)
    (\<lambda>sr' s'. s' = s \<and> length (errs sr') = length (errs sr) + 1) s"
proof -
  obtain e where "ts_SetOwnerReference R source (newTenant source spec name targetNS) = Inl e"
    using owner_references.set_other [OF assms(1), of "newTenant source spec name targetNS" source] assms(2)
    by (auto simp: newTenant_def)
  then show ?thesis by (simp add: createNewTenant_def wp_simps addErr_def)
qed

section \<open>Counters\<close>

fun okCreate :: "tsEffect \<Rightarrow> bool" where
  "okCreate (TenCreate t (Inr u)) = True" | "okCreate e = False"
fun okUpdate :: "tsEffect \<Rightarrow> bool" where
  "okUpdate (TenUpdate t (Inr u)) = True" | "okUpdate e = False"
fun okDelete :: "tsEffect \<Rightarrow> bool" where
  "okDelete (TenDelete t (Inr u)) = True" | "okDelete e = False"

definition count :: "('a \<Rightarrow> bool) \<Rightarrow> 'a list \<Rightarrow> nat" where
  "count P xs = length (filter P xs)"

lemma count_simps [simp]:
  "count P [] = 0" "count P (x # xs) = (if P x then 1 else 0) + count P xs"
  "count P (xs @ ys) = count P xs + count P ys"
  by (simp_all add: count_def)

text \<open>A step that makes at most one tenant write for each of \<open>n\<close> creations or updates and \<open>m\<close>
  deletions, and counts the successful ones.\<close>

definition counted :: "nat \<Rightarrow> nat \<Rightarrow> syncResult \<Rightarrow> 'w tsState \<Rightarrow> syncResult \<Rightarrow> 'w tsState \<Rightarrow> bool" where
  "counted n m sr s sr' s' \<longleftrightarrow> (\<exists>new. trace s' = trace s @ new \<and>
     created sr' = created sr + of_nat (count okCreate new) \<and>
     updated sr' = updated sr + of_nat (count okUpdate new) \<and>
     deleted sr' = deleted sr + of_nat (count okDelete new) \<and>
     count okCreate new + count okUpdate new \<le> n \<and> count okDelete new \<le> m)"

lemma counted_nothing: "trace s' = trace s @ new \<Longrightarrow> list_all (\<lambda>e. \<not> tenantWrite e) new \<Longrightarrow>
    created sr' = created sr \<Longrightarrow> updated sr' = updated sr \<Longrightarrow> deleted sr' = deleted sr \<Longrightarrow>
    counted n m sr s sr' s'"
proof -
  assume a: "trace s' = trace s @ new" "list_all (\<lambda>e. \<not> tenantWrite e) new"
    "created sr' = created sr" "updated sr' = updated sr" "deleted sr' = deleted sr"
  have "\<not> tenantWrite e \<Longrightarrow> \<not> okCreate e \<and> \<not> okUpdate e \<and> \<not> okDelete e" for e
    by (cases e) simp_all
  then have "count okCreate new = 0 \<and> count okUpdate new = 0 \<and> count okDelete new = 0"
    using a(2) by (auto simp: count_def filter_empty_conv list_all_iff)
  with a show ?thesis by (auto simp: counted_def)
qed

lemma counted_one:
  assumes "trace s' = trace s @ pre @ [e]" "list_all (\<lambda>e. \<not> tenantWrite e) pre"
    and "(created sr', updated sr', deleted sr') =
      (created sr + (if okCreate e then 1 else 0), updated sr + (if okUpdate e then 1 else 0),
       deleted sr + (if okDelete e then 1 else 0))"
    and "okCreate e \<or> okUpdate e \<Longrightarrow> 1 \<le> n" "okDelete e \<Longrightarrow> 1 \<le> m"
  shows "counted n m sr s sr' s'"
proof -
  have "\<not> tenantWrite e \<Longrightarrow> \<not> okCreate e \<and> \<not> okUpdate e \<and> \<not> okDelete e" for e
    by (cases e) simp_all
  then have "count okCreate pre = 0 \<and> count okUpdate pre = 0 \<and> count okDelete pre = 0"
    using assms(2) by (auto simp: count_def filter_empty_conv list_all_iff)
  moreover have "\<not> (okCreate e \<and> okUpdate e)" "\<not> (okCreate e \<and> okDelete e)" "\<not> (okUpdate e \<and> okDelete e)"
    by (cases e; simp)+
  ultimately show ?thesis
    using assms unfolding counted_def by (intro exI [of _ "pre @ [e]"]) auto
qed

lemma counted_trans:
  "counted n m sr s sr1 s1 \<Longrightarrow> counted n' m' sr1 s1 sr2 s2 \<Longrightarrow> counted (n + n') (m + m') sr s sr2 s2"
proof -
  assume "counted n m sr s sr1 s1" "counted n' m' sr1 s1 sr2 s2"
  then obtain a b where "trace s1 = trace s @ a" "trace s2 = trace s1 @ b"
    "created sr1 = created sr + of_nat (count okCreate a)" "created sr2 = created sr1 + of_nat (count okCreate b)"
    "updated sr1 = updated sr + of_nat (count okUpdate a)" "updated sr2 = updated sr1 + of_nat (count okUpdate b)"
    "deleted sr1 = deleted sr + of_nat (count okDelete a)" "deleted sr2 = deleted sr1 + of_nat (count okDelete b)"
    "count okCreate a + count okUpdate a \<le> n" "count okDelete a \<le> m"
    "count okCreate b + count okUpdate b \<le> n'" "count okDelete b \<le> m'"
    unfolding counted_def by blast
  then show ?thesis unfolding counted_def by (intro exI [of _ "a @ b"]) simp
qed

lemma wp_extern_known:
  "(\<And>r w'. Q r (s\<lparr>world := w', trace := trace s @ [ev r]\<rparr>)) \<Longrightarrow> wp (extern f ev) Q s"
  by (simp add: wp_extern)

lemma addErr_counts [simp]:
  "created (addErr e sr) = created sr" "updated (addErr e sr) = updated sr" "deleted (addErr e sr) = deleted sr"
  "created (addPending x y z sr) = created sr" "updated (addPending x y z sr) = updated sr"
  "deleted (addPending x y z sr) = deleted sr"
  by (simp_all add: addErr_def addPending_def)

lemma counted_syncExisting:
  "wp (syncExistingTenant R source dt spec name dry sr) (counted (Suc 0) 0 sr s) s"
proof -
  have stay: "counted (Suc 0) 0 sr s (addErr e sr) s" "counted (Suc 0) 0 sr s sr s" "counted (Suc 0) 0 sr s (addPending x y z sr) s"
    for e x y z by (rule counted_nothing [of _ _ "[]"]; simp)+
  have call: "wp (extern f (TenUpdate t)) (\<lambda>r. wp (case r of Inl err \<Rightarrow> returns (addErr (g err) sr)
      | Inr _ \<Rightarrow> returns (sr\<lparr>updated := updated sr + 1\<rparr>)) (counted (Suc 0) 0 sr s)) s" for f t g
  proof (rule wp_extern_known, goal_cases)
    case (1 r w')
    show ?case
      by (cases r) (auto simp: wp_return intro!: counted_one [of _ _ "[]" "TenUpdate t r"])
  qed
  show ?thesis
    unfolding syncExistingTenant_def Let_def
    by (auto simp: wp_return wp_bind stay call)
qed

lemma counted_syncNew:
  "wp (syncNewTenant R source spec item name ns dry sr) (counted (Suc 0) 0 sr s) s"
proof -
  have stay: "counted (Suc 0) 0 sr s sr' s1"
    if "trace s1 = trace s @ [TenGet ns name r]" "created sr' = created sr" "updated sr' = updated sr"
      "deleted sr' = deleted sr" for sr' s1 r
    using that by (intro counted_nothing [of _ _ "[TenGet ns name r]"]) simp_all
  have create: "wp (createNewTenant R source spec item name ns dry sr) (counted (Suc 0) 0 sr s) s1"
    if g: "trace s1 = trace s @ [TenGet ns name r]" for s1 r
  proof -
    have call: "wp (extern f (TenCreate t)) (\<lambda>r. wp (case r of Inl err \<Rightarrow> returns (addErr (h err) sr)
        | Inr _ \<Rightarrow> returns (sr\<lparr>created := created sr + 1\<rparr>)) (counted (Suc 0) 0 sr s)) s1" for f t h
    proof (rule wp_extern_known, goal_cases)
      case (1 q w')
      show ?case
        by (cases q) (auto simp: wp_return g intro!: counted_one [of _ _ "[TenGet ns name r]" "TenCreate t q"])
    qed
    show ?thesis
      unfolding createNewTenant_def
      by (auto simp: wp_return wp_bind stay [OF g] call split: sum.split)
  qed
  show ?thesis
    unfolding syncNewTenant_def wp_bind
  proof (rule wp_extern_known, goal_cases)
    case (1 r w')
    let ?s = "s\<lparr>world := w', trace := trace s @ [TenGet ns name r]\<rparr>"
    have g: "trace ?s = trace s @ [TenGet ns name r]" by simp
    show ?case
      by (cases r) (auto simp: wp_return intro!: stay create)
  qed
qed

lemma counted_remove: "wp (removeTenant R dry name dt sr) (counted 0 (Suc 0) sr s) s"
proof (cases dry)
  case True
  then show ?thesis
    by (auto simp: removeTenant_def wp_return intro!: counted_nothing [of _ _ "[]"])
next
  case False
  show ?thesis
    unfolding removeTenant_def if_not_P [OF False] wp_bind
  proof (rule wp_extern_known, goal_cases)
    case (1 r w')
    show ?case
      by (cases r) (auto simp: wp_return intro!: counted_one [of _ _ "[]" "TenDelete dt r"])
  qed
qed

lemma counted_syncDesired:
  "wp (syncDesired R source ex ns dry xs sr) (counted (length xs) 0 sr s) s"
proof (induction xs arbitrary: sr s)
  case Nil
  show ?case by (auto simp: wp_return intro!: counted_nothing [of _ _ "[]"])
next
  case (Cons x xs)
  obtain name item where x: "x = (name, item)" by (cases x)
  let ?one = "case ex name of
      Some dt \<Rightarrow> syncExistingTenant R source dt (buildTenantSpec (ts_Order R) source item) name dry sr
    | None \<Rightarrow> syncNewTenant R source (buildTenantSpec (ts_Order R) source item) item name ns dry sr"
  have one: "wp ?one (counted (Suc 0) 0 sr s) s"
    by (cases "ex name") (simp_all add: counted_syncExisting counted_syncNew)
  show ?case
    unfolding x syncDesired.simps Let_def wp_bind
  proof (rule wp_mono [OF one], goal_cases)
    case (1 sr1 s1)
    show ?case
      by (rule wp_mono [OF Cons.IH]) (use counted_trans [OF 1] in fastforce)
  qed
qed

lemma counted_syncRemoved:
  "wp (syncRemoved R source desired dry ys sr) (counted 0 (length ys) sr s) s"
proof (induction ys arbitrary: sr s)
  case Nil
  show ?case by (auto simp: wp_return intro!: counted_nothing [of _ _ "[]"])
next
  case (Cons y ys)
  obtain name dt where y: "y = (name, dt)" by (cases y)
  have more: "counted 0 (length ys) sr s sr' s' \<Longrightarrow> counted 0 (length (y # ys)) sr s sr' s'" for sr' s'
    unfolding counted_def by fastforce
  have skip: "wp (syncRemoved R source desired dry ys sr) (counted 0 (length (y # ys)) sr s) s"
    by (rule wp_mono [OF Cons.IH more])
  have del: "wp (removeTenant R dry name dt sr \<bind> (\<lambda>sr. syncRemoved R source desired dry ys sr))
      (counted 0 (length (y # ys)) sr s) s"
    unfolding wp_bind
  proof (rule wp_mono [OF counted_remove], goal_cases)
    case (1 sr1 s1)
    show ?case
      by (rule wp_mono [OF Cons.IH]) (use counted_trans [OF 1] in fastforce)
  qed
  show ?case using skip del by (simp add: y)
qed

lemma mapByKey_length: "length (mapByKey key xs) \<le> length xs"
proof -
  have "length (mapByKey key xs) = card (fst ` set (mapByKey key xs))"
    using distinct_card [OF mapByKey_distinct [of key xs]] by simp
  also have "\<dots> \<le> card (set xs)" by (simp add: mapByKey_keys card_image_le)
  also have "\<dots> \<le> length xs" by (rule card_length)
  finally show ?thesis .
qed

lemma counted_sync:
  assumes "goRange (ts_Order R)"
  shows "wp (syncTenants R source items ex ns dry)
    (\<lambda>sr' s'. counted (length items) (length ex) emptySync s sr' s') s"
proof -
  let ?xs = "ro_Desired (ts_Order R) (mapByKey it_Name items)"
  let ?ys = "ro_Existing (ts_Order R) (mapByKey (\<lambda>t. dt_Name t) ex)"
  have l: "length ?xs \<le> length items" "length ?ys \<le> length ex"
    using assms mapByKey_length by (simp_all add: goRange_def map_range.length_range)
  have mono: "counted (length ?xs) (length ?ys) sr s sr' s' \<Longrightarrow> counted (length items) (length ex) sr s sr' s'"
    for sr and s :: "'a tsState" and sr' s'
    unfolding counted_def using l by fastforce
  show ?thesis
    unfolding syncTenants_def Let_def wp_bind
  proof (rule wp_mono [OF counted_syncDesired], goal_cases)
    case (1 sr1 s1)
    show ?case
      by (rule wp_mono [OF counted_syncRemoved]) (use counted_trans [OF 1] mono in fastforce)
  qed
qed

section \<open>Errors\<close>

text \<open>The calls of a sync that leave an error in its result: a write that fails, a tenant of the name
  that belongs to someone else, and, when the owner reference is \<open>refused\<close>, every lookup that would
  be followed by a creation.\<close>

fun troublesome :: "TenantSource \<Rightarrow> bool \<Rightarrow> tsEffect \<Rightarrow> bool" where
  "troublesome source refused (TenGet ns name (Inr t)) = (\<not> isOwnedBySource t source \<or> refused)"
| "troublesome source refused (TenGet ns name (Inl e)) = refused"
| "troublesome source refused (TenCreate t (Inl e)) = True"
| "troublesome source refused (TenUpdate t (Inl e)) = True"
| "troublesome source refused (TenDelete t (Inl e)) = True"
| "troublesome source refused e = False"

text \<open>A listed tenant of a desired name that belongs to someone else is an error without a call.\<close>

definition foreign :: "TenantSource \<Rightarrow> (string \<rightharpoonup> DistributionTenant) \<Rightarrow> string \<Rightarrow> bool" where
  "foreign source existing name \<longleftrightarrow> (\<exists>t. existing name = Some t \<and> \<not> isOwnedBySource t source)"

definition troubled ::
  "TenantSource \<Rightarrow> bool \<Rightarrow> nat \<Rightarrow> syncResult \<Rightarrow> 'w tsState \<Rightarrow> syncResult \<Rightarrow> 'w tsState \<Rightarrow> bool" where
  "troubled source refused k sr s sr' s' \<longleftrightarrow> (\<exists>new. trace s' = trace s @ new \<and>
     length (errs sr') = length (errs sr) + count (troublesome source refused) new + k)"

lemma troubled_by:
  "trace s' = trace s @ new \<Longrightarrow>
     length (errs sr') = length (errs sr) + count (troublesome source refused) new + k \<Longrightarrow>
     troubled source refused k sr s sr' s'"
  by (auto simp: troubled_def)

lemma troubled_trans:
  assumes "troubled source refused k sr s sr1 s1" and "troubled source refused k' sr1 s1 sr2 s2"
  shows "troubled source refused (k + k') sr s sr2 s2"
proof -
  obtain a b where "trace s1 = trace s @ a" "trace s2 = trace s1 @ b"
    "length (errs sr1) = length (errs sr) + count (troublesome source refused) a + k"
    "length (errs sr2) = length (errs sr1) + count (troublesome source refused) b + k'"
    using assms unfolding troubled_def by blast
  then show ?thesis by (intro troubled_by [of _ _ "a @ b"]) simp_all
qed

lemma errs_parts [simp]:
  "length (errs (addErr e sr)) = Suc (length (errs sr))" "errs (addPending x y z sr) = errs sr"
  by (simp_all add: addErr_def addPending_def)

lemma troubled_existing:
  "wp (syncExistingTenant R source dt spec name dry sr)
     (troubled source refused (if isOwnedBySource dt source then 0 else 1) sr s) s"
proof -
  have call: "wp (extern f (TenUpdate t)) (\<lambda>r. wp (case r of Inl err \<Rightarrow> returns (addErr (g err) sr)
      | Inr _ \<Rightarrow> returns (sr\<lparr>updated := updated sr + 1\<rparr>)) (troubled source refused 0 sr s)) s" for f t g
  proof (rule wp_extern_known, goal_cases)
    case (1 r w')
    show ?case by (cases r) (auto simp: wp_return intro!: troubled_by [of _ _ "[TenUpdate t r]"])
  qed
  show ?thesis
    unfolding syncExistingTenant_def Let_def
    by (auto simp: wp_return wp_bind call intro!: troubled_by [of _ _ "[]"])
qed

lemma troubled_new:
  assumes own: "owner_references (ts_SetOwnerReference R)"
    and refused: "refused \<longleftrightarrow> \<not> dry \<and> ns \<noteq> ts_Namespace source"
  shows "wp (syncNewTenant R source spec item name ns dry sr) (troubled source refused 0 sr s) s"
proof -
  have create: "wp (createNewTenant R source spec item name ns dry sr) (troubled source refused 0 sr s) s1"
    if g: "trace s1 = trace s @ [TenGet ns name r]" "r = Inr t \<Longrightarrow> isOwnedBySource t source"
      "case r of Inl _ \<Rightarrow> True | Inr t' \<Rightarrow> isOwnedBySource t' source" for s1 r t
  proof -
    have tr: "troublesome source refused (TenGet ns name r) = refused" using g(3) by (cases r) auto
    have other: "(\<exists>e. ts_SetOwnerReference R source (newTenant source spec name ns) = Inl e) \<longleftrightarrow> ns \<noteq> ts_Namespace source"
      using owner_references.refused_iff [OF own, of source "newTenant source spec name ns"] by (simp add: newTenant_def)
    have call: "wp (extern f (TenCreate t)) (\<lambda>r. wp (case r of Inl err \<Rightarrow> returns (addErr (h err) sr)
        | Inr _ \<Rightarrow> returns (sr\<lparr>created := created sr + 1\<rparr>)) (troubled source refused 0 sr s)) s1"
      if "\<not> refused" for f t h
    proof (rule wp_extern_known, goal_cases)
      case (1 q w')
      show ?case
        using tr that by (cases q) (auto simp: wp_return g(1) intro!: troubled_by [of _ _ "[TenGet ns name r, TenCreate t q]"])
    qed
    show ?thesis
    proof (cases "ts_SetOwnerReference R source (newTenant source spec name ns)")
      case (Inl e)
      then have "refused \<longleftrightarrow> \<not> dry" using other refused by auto
      then show ?thesis
        using tr Inl by (auto simp: createNewTenant_def wp_return g(1) intro!: troubled_by [of _ _ "[TenGet ns name r]"])
    next
      case (Inr dt)
      then have no: "\<not> refused" using other refused by auto
      then show ?thesis
        using tr Inr call [OF no]
        by (auto simp: createNewTenant_def wp_return wp_bind g(1) intro!: troubled_by [of _ _ "[TenGet ns name r]"])
    qed
  qed
  show ?thesis
    unfolding syncNewTenant_def wp_bind
  proof (rule wp_extern_known, goal_cases)
    case (1 r w')
    show ?case
      by (cases r) (auto simp: wp_return intro!: create troubled_by [of _ _ "[TenGet ns name r]"])
  qed
qed

lemma troubled_remove: "wp (removeTenant R dry name dt sr) (troubled source refused 0 sr s) s"
proof (cases dry)
  case True
  then show ?thesis by (auto simp: removeTenant_def wp_return intro!: troubled_by [of _ _ "[]"])
next
  case False
  show ?thesis
    unfolding removeTenant_def if_not_P [OF False] wp_bind
  proof (rule wp_extern_known, goal_cases)
    case (1 r w')
    show ?case by (cases r) (auto simp: wp_return intro!: troubled_by [of _ _ "[TenDelete dt r]"])
  qed
qed

lemma troubled_desired:
  assumes "owner_references (ts_SetOwnerReference R)" "refused \<longleftrightarrow> \<not> dry \<and> ns \<noteq> ts_Namespace source"
  shows "wp (syncDesired R source ex ns dry xs sr)
    (troubled source refused (count (\<lambda>x. foreign source ex (fst x)) xs) sr s) s"
proof (induction xs arbitrary: sr s)
  case Nil
  show ?case by (auto simp: wp_return intro!: troubled_by [of _ _ "[]"])
next
  case (Cons x xs)
  obtain name item where x: "x = (name, item)" by (cases x)
  let ?one = "case ex name of
      Some dt \<Rightarrow> syncExistingTenant R source dt (buildTenantSpec (ts_Order R) source item) name dry sr
    | None \<Rightarrow> syncNewTenant R source (buildTenantSpec (ts_Order R) source item) item name ns dry sr"
  have one: "wp ?one (troubled source refused (if foreign source ex name then 1 else 0) sr s) s"
  proof (cases "ex name")
    case None
    then show ?thesis using troubled_new [OF assms] by (simp add: foreign_def)
  next
    case (Some dt)
    then have "(if foreign source ex name then 1 else 0) = (if isOwnedBySource dt source then 0 else 1 :: nat)"
      by (simp add: foreign_def)
    then show ?thesis using Some by (simp only: option.case troubled_existing)
  qed
  show ?case
    unfolding x syncDesired.simps Let_def wp_bind
  proof (rule wp_mono [OF one], goal_cases)
    case (1 sr1 s1)
    show ?case
      by (rule wp_mono [OF Cons.IH]) (use troubled_trans [OF 1] in fastforce)
  qed
qed

lemma troubled_removed: "wp (syncRemoved R source desired dry ys sr) (troubled source refused 0 sr s) s"
proof (induction ys arbitrary: sr s)
  case Nil
  show ?case by (auto simp: wp_return intro!: troubled_by [of _ _ "[]"])
next
  case (Cons y ys)
  obtain name dt where y: "y = (name, dt)" by (cases y)
  have del: "wp (removeTenant R dry name dt sr \<bind> (\<lambda>sr. syncRemoved R source desired dry ys sr))
      (troubled source refused 0 sr s) s"
    unfolding wp_bind
  proof (rule wp_mono [OF troubled_remove [of R dry name dt sr source refused]], goal_cases)
    case (1 sr1 s1)
    show ?case
      by (rule wp_mono [OF Cons.IH]) (use troubled_trans [OF 1] in fastforce)
  qed
  show ?case using Cons.IH del by (simp add: y)
qed

text \<open>A sync has no error exactly when none of its calls is troublesome and no desired name is taken.\<close>

definition untroubled ::
  "TenantSource \<Rightarrow> bool \<Rightarrow> TenantItem list \<Rightarrow> DistributionTenant list \<Rightarrow> tsEffect list \<Rightarrow> bool" where
  "untroubled source refused items ex new \<longleftrightarrow>
     list_all (\<lambda>e. \<not> troublesome source refused e) new \<and>
     list_all (\<lambda>item. \<not> foreign source (map_of (mapByKey (\<lambda>t. dt_Name t) ex)) (it_Name item)) items"

lemma troubled_sync:
  assumes "owner_references (ts_SetOwnerReference R)" "refused \<longleftrightarrow> \<not> dry \<and> ns \<noteq> ts_Namespace source"
    and "goRange (ts_Order R)"
  shows "wp (syncTenants R source items ex ns dry) (\<lambda>sr' s'. \<exists>new. trace s' = trace s @ new \<and>
    (errs sr' = [] \<longleftrightarrow> untroubled source refused items ex new)) s"
proof -
  let ?ex = "map_of (mapByKey (\<lambda>t. dt_Name t) ex)"
  let ?xs = "ro_Desired (ts_Order R) (mapByKey it_Name items)"
  have "fst ` set ?xs = it_Name ` set items"
    using assms(3) by (simp add: goRange_def map_range.set_range mapByKey_keys)
  moreover have "count (\<lambda>x. foreign source ?ex (fst x)) ?xs = 0 \<longleftrightarrow> (\<forall>n \<in> fst ` set ?xs. \<not> foreign source ?ex n)"
    by (simp add: count_def filter_empty_conv)
  ultimately have taken: "count (\<lambda>x. foreign source ?ex (fst x)) ?xs = 0 \<longleftrightarrow>
      list_all (\<lambda>item. \<not> foreign source ?ex (it_Name item)) items"
    by (simp add: list_all_iff)
  have none: "count (troublesome source refused) new = 0 \<longleftrightarrow> list_all (\<lambda>e. \<not> troublesome source refused e) new" for new
    by (auto simp: count_def filter_empty_conv list_all_iff)
  show ?thesis
    unfolding syncTenants_def Let_def wp_bind
  proof (rule wp_mono [OF troubled_desired [OF assms(1,2)]], goal_cases)
    case (1 sr1 s1)
    show ?case
    proof (rule wp_mono [OF troubled_removed [where refused = refused and source = source]], goal_cases)
      case (1 sr2 s2)
      from troubled_trans [OF \<open>troubled _ _ _ _ s sr1 s1\<close> 1] obtain new where new: "trace s2 = trace s @ new"
        "length (errs sr2) = count (troublesome source refused) new + count (\<lambda>x. foreign source ?ex (fst x)) ?xs"
        by (auto simp: troubled_def emptySync_def)
      have "errs sr2 = [] \<longleftrightarrow> untroubled source refused items ex new"
        using new(2) taken none [of new] unfolding untroubled_def by (metis add_is_0 length_0_conv)
      then show ?case using new(1) by blast
    qed
  qed
qed

section \<open>The status\<close>

definition readyIs ::
  "'w TenantSourceReconciler \<Rightarrow> TenantSource \<Rightarrow> ConditionStatus \<Rightarrow> string \<Rightarrow> bool" where
  "readyIs R src st re \<longleftrightarrow>
     (let c = FindStatusCondition (ts_Apim R) (tsst_Conditions (ts_Status src)) TSConditionTypeReady in
      map_option cond_Status c = Some st \<and> map_option cond_Reason c = Some re)"

lemma ready_put:
  "apimachinery (ts_Apim R) \<Longrightarrow> readyIs R (putSourceCondition R now st re msg src) st re"
  using apimachinery.find_set_same [of "ts_Apim R" "tsst_Conditions (ts_Status src)"
    "\<lparr>cond_Type = TSConditionTypeReady, cond_Status = st,
      cond_ObservedGeneration = om_Generation (ts_Meta src), cond_LastTransitionTime = now,
      cond_Reason = re, cond_Message = msg\<rparr>"]
  by (auto simp: readyIs_def putSourceCondition_def Let_def)

lemma put_parts [simp]:
  "ts_Spec (putSourceCondition R now st re msg src) = ts_Spec src"
  "ts_Meta (putSourceCondition R now st re msg src) = ts_Meta src"
  "tsst_TenantsDiscovered (ts_Status (putSourceCondition R now st re msg src)) = tsst_TenantsDiscovered (ts_Status src)"
  "tsst_TenantsCreated (ts_Status (putSourceCondition R now st re msg src)) = tsst_TenantsCreated (ts_Status src)"
  "tsst_TenantsUpdated (ts_Status (putSourceCondition R now st re msg src)) = tsst_TenantsUpdated (ts_Status src)"
  "tsst_TenantsDeleted (ts_Status (putSourceCondition R now st re msg src)) = tsst_TenantsDeleted (ts_Status src)"
  "tsst_PendingChanges (ts_Status (putSourceCondition R now st re msg src)) = tsst_PendingChanges (ts_Status src)"
  by (simp_all add: putSourceCondition_def)

text \<open>What the status says after a sync that was \<open>clean\<close>, that is, without an error.\<close>

definition reports ::
  "'w TenantSourceReconciler \<Rightarrow> TenantItem list \<Rightarrow> syncResult \<Rightarrow> bool \<Rightarrow> bool \<Rightarrow> TenantSource \<Rightarrow> bool" where
  "reports R items sr dry clean src \<longleftrightarrow>
     tsst_TenantsDiscovered (ts_Status src) = of_nat (length items) \<and>
     tsst_TenantsCreated (ts_Status src) = created sr \<and>
     tsst_TenantsUpdated (ts_Status src) = updated sr \<and>
     tsst_TenantsDeleted (ts_Status src) = deleted sr \<and>
     tsst_PendingChanges (ts_Status src) = (if dry then pendingChanges sr else []) \<and>
     (if dry then readyIs R src ConditionTrue TSReasonDryRunComplete
      else if clean then readyIs R src ConditionTrue TSReasonPollSucceeded
      else readyIs R src ConditionFalse TSReasonConflict)"

lemma wp_updateSyncStatus:
  assumes "apimachinery (ts_Apim R)"
  shows "wp (updateSyncStatus R items sr dry) (\<lambda>_ s'. reports R items sr dry (errs sr = []) (obj s') \<and>
    ts_Spec (obj s') = ts_Spec (obj s) \<and> trace s' = trace s) s"
  by (simp add: updateSyncStatus_def ts_setCondition_def wp_simps reports_def ready_put [OF assms] countStatus_def)

text \<open>After the status nothing is written any more.\<close>

lemma wp_finish_quiet:
  "wp (ts_persistStatus R Fail (finishPoll R items sr)) (\<lambda>_ s'. \<exists>r tail.
     trace s' = trace s @ SrcStatusUpdate (obj s) r # tail \<and> list_all (\<lambda>e. \<not> tenantWrite e) tail) s"
proof -
  have "emits (\<lambda>e. \<not> tenantWrite e) (finishPoll R items sr)"
    unfolding finishPoll_def Let_def by (intro emits_bind emits_cases emits_basic ts_small_emits) simp_all
  note tail = emits_wp [OF this]
  show ?thesis
    unfolding ts_persistStatus_def wp_bind wp_getObj
  proof (rule wp_extern_known, goal_cases)
    case (1 r w')
    show ?case
    proof (cases r)
      case (Inl e)
      then show ?thesis by (simp add: wp_return)
    next
      case (Inr src')
      show ?thesis
        unfolding Inr sum.case wp_bind wp_modifyObj by (rule wp_mono [OF tail]) force
    qed
  qed
qed


definition pollStart :: "sourceWorld tsState" where
  "pollStart = startState (plainSource None) (plainWorld None [plainItem ''a'' ''a.example''] [])"

definition pollRun :: "hres \<times> sourceWorld tsState" where
  "pollRun = run_state (pollFrom sourceReconciler worldBackend (plainSource None)) pollStart"

lemma pollStart_query:
  "QueryTenants worldBackend (plainSource None) (world pollStart) =
     (Inr [plainItem ''a'' ''a.example''], snd (QueryTenants worldBackend (plainSource None) (world pollStart)))"
  "sk_ListTenants (ts_Client sourceReconciler) (targetNamespace (plainSource None)) TenantSourceLabelKey
     (ts_Name (plainSource None)) (snd (QueryTenants worldBackend (plainSource None) (world pollStart))) =
     (Inr [], snd (QueryTenants worldBackend (plainSource None) (world pollStart)))"
  by (simp_all add: worldBackend_def mockQueryTenants_def pollStart_def startState_def plainWorld_def Let_def
      sourceReconciler_contracts(4) apiServer_def apiListTenants_def viewT_def List.map_filter_def)

definition pollSync :: "syncResult \<times> sourceWorld tsState" where
  "pollSync = run_state (syncTenants sourceReconciler (plainSource None) [plainItem ''a'' ''a.example''] [] ''ns'' False)
     (pollStart\<lparr>world := snd (QueryTenants worldBackend (plainSource None) (world pollStart)),
       trace := [Query (plainSource None) (Inr [plainItem ''a'' ''a.example'']),
         TenList ''ns'' TenantSourceLabelKey ''src'' (Inr [])]\<rparr>)"


section \<open>A query that fails\<close>

definition permanentScanError :: "go_error \<Rightarrow> bool" where
  "permanentScanError e \<longleftrightarrow> errorsIs (Some e) ErrSourceAccessDenied \<or> errorsIs (Some e) ErrSourceNotFound \<or>
     errorsIs (Some e) ErrSourceInvalidConfig"

lemma wp_handleScanError:
  assumes "apimachinery (ts_Apim R)"
  shows "wp (handleScanError R err) (\<lambda>res s'. \<exists>src r events.
    trace s' = trace s @ SrcStatusUpdate src r # events \<and>
    list_all (\<lambda>e. \<exists>x y z. e = SrcEvent x y z) events \<and>
    readyIs R src ConditionFalse (scanReason err) \<and>
    res = (case r of Inl e \<Rightarrow> Fail e
      | Inr _ \<Rightarrow> Done (requeueIn (if permanentScanError err then 5 * minute else 30 * second)))) s"
  unfolding handleScanError_def ts_setCondition_def ts_persistStatus_def Let_def wp_bind wp_silent
    wp_modifyObj wp_getObj
proof (intro allI impI, rule wp_extern_known, goal_cases)
  case (1 now w2 r w3)
  have rdy: "readyIs R (putSourceCondition R now ConditionFalse re msg (obj s)) ConditionFalse re" for re msg
    by (rule ready_put [OF assms])
  show ?case
    using rdy
    by (cases r) (auto simp: wp_simps ts_recordEvent_def permanentScanError_def tsRequeueShort_def)
qed

lemma failed_query_reported:
  assumes "apimachinery (ts_Apim R)"
    and q: "QueryTenants backend source (world s) = (Inl err, w1)"
  shows "wp (pollFrom R backend source) (\<lambda>res s'. \<exists>src r events.
    trace s' = trace s @ Query source (Inl err) # SrcStatusUpdate src r # events \<and>
    list_all (\<lambda>e. \<exists>x y z. e = SrcEvent x y z) events \<and>
    readyIs R src ConditionFalse (scanReason err) \<and>
    res = (case r of Inl e \<Rightarrow> Fail e
      | Inr _ \<Rightarrow> Done (requeueIn (if permanentScanError err then 5 * minute else 30 * second)))) s"
  unfolding pollFrom_def wp_bind wp_extern q
proof (clarify, simp only: sum.case, rule wp_mono [OF wp_handleScanError [OF assms(1)]], goal_cases)
  case (1 a s1)
  then show ?case by force
qed

text \<open>A query that fails touches no tenant: the poll makes one more call, the status update
  with Ready false and the reason of the error's class, and comes back in five minutes for an
  error that needs a change of configuration and in thirty seconds for any other; only a failing
  status update is returned as an error.\<close>

theorem failed_query_is_reported:
  fixes R :: "'w TenantSourceReconciler"
  assumes "apimachinery (ts_Apim R)"
    and q: "QueryTenants backend source (world s) = (Inl err, w1)"
    and run: "run_state (pollFrom R backend source) s = (res, s')"
  shows "\<exists>src r events. trace s' = trace s @ Query source (Inl err) # SrcStatusUpdate src r # events \<and>
    list_all (\<lambda>e. \<exists>x y z. e = SrcEvent x y z) events \<and>
    readyIs R src ConditionFalse
      (if errorsIs (Some err) ErrSourceInvalidConfig then TSReasonInvalidConfig else TSReasonPollFailed) \<and>
    res = (case r of Inl e \<Rightarrow> Fail e
      | Inr _ \<Rightarrow> Done (requeueIn (if permanentScanError err then 5 * minute else 30 * second)))"
  using wpD [OF failed_query_reported [OF assms(1) q] run] by (simp only: scanReason_def)

definition deniedStart :: "sourceWorld tsState" where
  "deniedStart = startState (plainSource None) ((plainWorld None [] [])
     \<lparr>sw_backend := \<lparr>mb_Items = [], mb_Err = Some (Sentinel ErrSourceAccessDenied), mb_QueryCallCount = 0\<rparr>\<rparr>)"

theorem failed_query_is_reported_witness:
  "\<exists>src r events. trace (snd (run_state (pollFrom sourceReconciler worldBackend (plainSource None)) deniedStart)) =
      Query (plainSource None) (Inl (Sentinel ErrSourceAccessDenied)) # SrcStatusUpdate src r # events \<and>
    readyIs sourceReconciler src ConditionFalse TSReasonPollFailed \<and>
    fst (run_state (pollFrom sourceReconciler worldBackend (plainSource None)) deniedStart) =
      (case r of Inl e \<Rightarrow> Fail e | Inr _ \<Rightarrow> Done (requeueIn (5 * minute)))"
proof -
  let ?r = "run_state (pollFrom sourceReconciler worldBackend (plainSource None)) deniedStart"
  have q: "QueryTenants worldBackend (plainSource None) (world deniedStart) =
      (Inl (Sentinel ErrSourceAccessDenied), snd (QueryTenants worldBackend (plainSource None) (world deniedStart)))"
    by (simp add: worldBackend_def mockQueryTenants_def deniedStart_def startState_def Let_def)
  have "?r = (fst ?r, snd ?r)" by simp
  note report = failed_query_is_reported [OF sourceReconciler_contracts(5) q this]
  have "permanentScanError (Sentinel ErrSourceAccessDenied) = True" "trace deniedStart = []"
    by (simp_all add: permanentScanError_def deniedStart_def startState_def)
  note report [unfolded this if_True]
  then show ?thesis by simp blast
qed

section \<open>The source is polled again\<close>

definition pollOk :: "TenantSource \<Rightarrow> bool" where
  "pollOk src \<longleftrightarrow> (case tss_PollInterval (ts_Spec src) of None \<Rightarrow> True | Some d \<Rightarrow> 0 < d)"

fun sourceComesBack :: "hres \<Rightarrow> bool" where
  "sourceComesBack (Done r) = (0 < RequeueAfter r)"
| "sourceComesBack (Fail e) = True"
| "sourceComesBack Panic = False"

definition returnsOk :: "('w, hres) tsAct \<Rightarrow> bool" where
  "returnsOk m \<longleftrightarrow> (\<forall>s. pollOk (obj s) \<longrightarrow> wp m (\<lambda>res _. sourceComesBack res) s)"

abbreviation (input) keepsPoll :: "('w, 'a) tsAct \<Rightarrow> bool" where
  "keepsPoll m \<equiv> keeps_inv (\<lambda>s. pollOk (obj s)) m"

lemma returnsOk_bind: "keepsPoll m \<Longrightarrow> (\<And>a. returnsOk (f a)) \<Longrightarrow> returnsOk (m \<bind> f)"
  unfolding returnsOk_def keeps_inv_def wp_bind by (blast intro: wp_mono)

lemma returnsOk_cases:
  "sourceComesBack a \<Longrightarrow> returnsOk (returns a)"
  "(b \<Longrightarrow> returnsOk m) \<Longrightarrow> (\<not> b \<Longrightarrow> returnsOk n) \<Longrightarrow> returnsOk (if b then m else n)"
  "(\<And>x. r = Inl x \<Longrightarrow> returnsOk (g x)) \<Longrightarrow> (\<And>y. r = Inr y \<Longrightarrow> returnsOk (h y)) \<Longrightarrow>
     returnsOk (case r of Inl x \<Rightarrow> g x | Inr y \<Rightarrow> h y)"
  by (simp_all add: returnsOk_def wp_return split: sum.split)

lemma durations_positive: "0 < second" "0 < minute" "0 < tsRequeueShort"
  by (simp_all add: second_def minute_def tsRequeueShort_def)

lemma pollOk_parts:
  "pollOk (putSourceCondition R now st re msg src) = pollOk src"
  "pollOk (countStatus now items sr dry src) = pollOk src"
  "pollOk (updSourceFinalizers f src) = pollOk src"
  by (simp_all add: pollOk_def putSourceCondition_def countStatus_def)

lemma keepsPoll_small:
  "keepsPoll (ts_setCondition R st re msg)" "keepsPoll (ts_recordEvent R ty re msg)"
  "keepsPoll (updateSyncStatus R items sr dry)" "keepsPoll (listOwnedTenants R source ns)"
  unfolding ts_setCondition_def ts_recordEvent_def updateSyncStatus_def listOwnedTenants_def
  by (intro keeps_inv_bind keeps_inv_basic keeps_inv_cases; simp add: pollOk_parts)+

lemma keepsPoll_sync: "keepsPoll (syncTenants R source items ex ns dry)"
proof -
  have one: "keepsPoll (syncExistingTenant R source dt spec name dry sr)"
    "keepsPoll (syncNewTenant R source spec item name ns dry sr)" "keepsPoll (removeTenant R dry name dt sr)"
    for dt spec name sr item
    unfolding syncExistingTenant_def syncNewTenant_def createNewTenant_def removeTenant_def Let_def
    by (intro keeps_inv_bind keeps_inv_basic keeps_inv_cases; simp)+
  have d: "keepsPoll (syncDesired R source e ns dry xs sr)" for e xs sr
    by (induction xs arbitrary: sr) (auto simp: Let_def intro!: keeps_inv_bind keeps_inv_basic keeps_inv_cases one)
  have r: "keepsPoll (syncRemoved R source des dry ys sr)" for des ys sr
    by (induction ys arbitrary: sr) (auto intro!: keeps_inv_bind keeps_inv_basic keeps_inv_cases one)
  show ?thesis
    unfolding syncTenants_def Let_def by (intro keeps_inv_bind d r)
qed

text \<open>The API server answers a write of the status with an object whose interval is the one sent.\<close>

definition keepsInterval :: "'w TenantSourceReconciler \<Rightarrow> bool" where
  "keepsInterval R \<longleftrightarrow> (\<forall>src w src' w'. sk_StatusUpdate (ts_Client R) src w = (Inr src', w') \<longrightarrow>
     tss_PollInterval (ts_Spec src') = tss_PollInterval (ts_Spec src))"

lemma returnsOk_persist:
  assumes "keepsInterval R" "returnsOk k"
  shows "returnsOk (ts_persistStatus R Fail k)"
  unfolding returnsOk_def ts_persistStatus_def wp_bind wp_getObj wp_extern
proof (intro allI impI, goal_cases)
  case (1 s r w')
  show ?case
  proof (cases r)
    case (Inl e)
    then show ?thesis by (simp add: wp_return)
  next
    case (Inr src')
    then have "tss_PollInterval (ts_Spec src') = tss_PollInterval (ts_Spec (obj s))"
      using assms(1) 1(2) unfolding keepsInterval_def by blast
    then have "pollOk src'" using 1(1) by (simp add: pollOk_def)
    then show ?thesis using assms(2) by (simp add: Inr wp_bind wp_modifyObj returnsOk_def)
  qed
qed

lemma returnsOk_finish: "returnsOk (finishPoll R items sr)"
proof -
  have "wp (getObj \<bind> (\<lambda>source. returns (Done (requeueIn
      (case tss_PollInterval (ts_Spec source) of None \<Rightarrow> 5 * minute | Some d \<Rightarrow> d)))))
      (\<lambda>res _. sourceComesBack res) s" if "pollOk (obj s)" for s :: "'w tsState"
    using that durations_positive
    by (auto simp: wp_simps pollOk_def requeueIn_def split: option.splits)
  then have end_: "returnsOk (getObj \<bind> (\<lambda>source :: TenantSource. returns (Done (requeueIn
      (case tss_PollInterval (ts_Spec source) of None \<Rightarrow> 5 * minute | Some d \<Rightarrow> d)))) :: ('w, hres) tsAct)"
    unfolding returnsOk_def by blast
  show ?thesis
    unfolding finishPoll_def Let_def
    by (rule returnsOk_bind [OF _ end_]) (intro keeps_inv_cases keepsPoll_small keeps_inv_basic)
qed

lemma returnsOk_pollFrom:
  assumes "keepsInterval R"
  shows "returnsOk (pollFrom R backend source)"
proof -
  have scan: "returnsOk (handleScanError R err)" for err
    unfolding handleScanError_def Let_def
    by (intro returnsOk_bind returnsOk_cases keepsPoll_small returnsOk_persist assms keeps_inv_basic)
      (simp_all add: requeueIn_def durations_positive)
  show ?thesis
    unfolding pollFrom_def Let_def
    by (intro returnsOk_bind returnsOk_cases keepsPoll_small keepsPoll_sync returnsOk_persist returnsOk_finish
        scan assms keeps_inv_basic) simp_all
qed

lemma returnsOk_poll:
  fixes R :: "'w TenantSourceReconciler"
  assumes "keepsInterval R"
  shows "returnsOk (poll R)"
  unfolding returnsOk_def poll_def
proof (intro allI impI)
  fix s :: "'w tsState" assume ok: "pollOk (obj s)"
  have "wp (resolveBackend R) (\<lambda>b s'. pollOk (obj s') \<and>
      (case b of Inl res \<Rightarrow> sourceComesBack res | Inr _ \<Rightarrow> True)) s"
  proof (cases "map_of (ts_Backends R) (tss_Provider (ts_Spec (obj s)))")
    case None
    show ?thesis
      unfolding resolveBackend_def ts_setCondition_def ts_persistStatus_def wp_bind wp_getObj Let_def None
        option.case wp_silent wp_modifyObj
    proof (intro allI impI, unfold wp_extern, intro allI impI, goal_cases)
      case (1 now w2 r w3)
      show ?case
      proof (cases r)
        case (Inl e)
        then show ?thesis using ok by (simp add: wp_return pollOk_parts)
      next
        case (Inr src')
        then have "tss_PollInterval (ts_Spec src') = tss_PollInterval (ts_Spec (obj s))"
          using assms 1(2) unfolding keepsInterval_def by force
        then show ?thesis
          using ok durations_positive by (simp add: Inr wp_simps pollOk_def requeueIn_def)
      qed
    qed
  next
    case (Some b)
    then show ?thesis using ok by (simp add: resolveBackend_def wp_simps Let_def)
  qed
  then show "wp (resolveBackend R \<bind> (\<lambda>b. case b of Inl result \<Rightarrow> returns result
      | Inr backend \<Rightarrow> getObj \<bind> pollFrom R backend)) (\<lambda>res _. sourceComesBack res) s"
    unfolding wp_bind
  proof (rule wp_mono, goal_cases)
    case (1 b s')
    then show ?case
      using returnsOk_pollFrom [OF assms] by (cases b) (simp_all add: wp_simps returnsOk_def)
  qed
qed

text \<open>C33: A live TenantSource is never left alone: every reconcile of it ends with an error (which
  controller-runtime retries) or asks to be called again after a positive time, on every branch,
  if its poll interval is positive and a status write does not change it. It never panics.\<close>

theorem source_is_polled_again:
  assumes "keepsInterval R"
    and got: "sk_Get (ts_Client R) ns n (world s) = (Inr src, w1)"
    and live: "om_DeletionTimestamp (ts_Meta src) = None" "pollOk src"
    and run: "run_state (ts_Reconcile R ns n) s = (res, s')"
  shows "sourceComesBack res"
proof -
  let ?s = "s\<lparr>world := w1, trace := trace s @ [SrcGet ns n (Inr src)], obj := src\<rparr>"
  have poll: "wp (poll R) (\<lambda>res _. sourceComesBack res) ?s"
    using returnsOk_poll [OF assms(1)] live(2) by (simp add: returnsOk_def)
  have "returnsOk (do {
           modifyObj (updSourceFinalizers
             (\<lambda>fs. AddFinalizer (ts_Apim R) fs TenantSourceFinalizerName));
           s \<leftarrow> getObj;
           u \<leftarrow> extern (sk_Update (ts_Client R) s) (SrcUpdate s);
           case u of
             Inl err \<Rightarrow> returns (Fail err)
           | Inr s' \<Rightarrow> do { modifyObj (\<lambda>_. s'); returns (Done (requeueIn second)) }
         })"
    by (auto simp: returnsOk_def wp_simps requeueIn_def durations_positive split: sum.split)
  then have fin: "wp (do {
           modifyObj (updSourceFinalizers
             (\<lambda>fs. AddFinalizer (ts_Apim R) fs TenantSourceFinalizerName));
           s \<leftarrow> getObj;
           u \<leftarrow> extern (sk_Update (ts_Client R) s) (SrcUpdate s);
           case u of
             Inl err \<Rightarrow> returns (Fail err)
           | Inr s' \<Rightarrow> do { modifyObj (\<lambda>_. s'); returns (Done (requeueIn second)) }
         }) (\<lambda>res _. sourceComesBack res) ?s"
    using live(2) by (simp add: returnsOk_def)
  have "wp (ts_Reconcile R ns n) (\<lambda>res _. sourceComesBack res) s"
    unfolding ts_Reconcile_def
    by (rule iffD2 [OF wp_bind], rule iffD2 [OF wp_extern])
      (use poll fin live(1) in \<open>simp add: got wp_bind [of "modifyObj _"] wp_modifyObj del: wp_bind\<close>)
  then show ?thesis by (rule wpD [OF _ run])
qed

theorem source_is_polled_again_witness: "sourceComesBack (fst (mockPoll None))"
proof (rule source_is_polled_again [where R = sourceReconciler, OF _ _ _ _ mockPoll_run])
  show "keepsInterval sourceReconciler"
    by (auto simp: keepsInterval_def sourceReconciler_contracts(4) apiServer_def apiPutSource_def)
  show "sk_Get (ts_Client sourceReconciler) ''ns'' ''src''
      (world (startState (plainSource None) (plainWorld None [plainItem ''a'' ''a.example''] []))) =
    (Inr (plainSource None), plainWorld None [plainItem ''a'' ''a.example''] [])"
    by (simp add: sourceReconciler_contracts(4) apiServer_def apiGetSource_def startState_def plainWorld_def)
  show "om_DeletionTimestamp (ts_Meta (plainSource None)) = None" "pollOk (plainSource None)"
    by (simp_all add: plainSource_def pollOk_def)
qed

section \<open>Deletion of a source\<close>

lemma wp_deleteAll:
  "wp (ts_deleteAll R ts) (\<lambda>res s'. \<exists>new. trace s' = trace s @ new \<and>
     list_all (\<lambda>e. \<exists>t r. e = TenDelete t r \<and> t \<in> set ts) new \<and>
     (\<forall>r. res = Done r \<longrightarrow> RequeueAfter r = 5 * second \<and> length new = length ts)) s"
proof (induction ts arbitrary: s)
  case Nil
  then show ?case by (simp add: wp_return requeueIn_def)
next
  case (Cons t ts)
  have rest: "wp (ts_deleteAll R ts) (\<lambda>res s'. \<exists>new. trace s' = trace s @ new \<and>
     list_all (\<lambda>e. \<exists>u r. e = TenDelete u r \<and> u \<in> set (t # ts)) new \<and>
     (\<forall>r. res = Done r \<longrightarrow> RequeueAfter r = 5 * second \<and> length new = length (t # ts))) s1"
    if "trace s1 = trace s @ [TenDelete t r]" for s1 r
  proof (rule wp_mono [OF Cons.IH], elim exE conjE, goal_cases)
    case (1 res s2 new)
    then show ?case
      using that by (intro exI [of _ "TenDelete t r # new"]) (auto simp: list_all_iff)
  qed
  show ?case
    unfolding ts_deleteAll.simps wp_bind
  proof (rule wp_extern_known, goal_cases)
    case (1 r w')
    show ?case
      by (cases r) (auto simp: wp_return intro!: rest [simplified])
  qed
qed

text \<open>C32: The finalizer of a TenantSource is released only after the API server answered that no
  labelled tenant is left: a reconcile of a source that is being deleted updates the source only
  after an empty listing, and then without its finalizer; after any other listing it deletes the
  listed tenants, leaves the source alone and, when all deletions were accepted, comes back in five
  seconds.\<close>

theorem finalizer_waits_for_tenants:
  fixes R :: "'w TenantSourceReconciler"
  assumes "apimachinery (ts_Apim R)"
    and run: "run_state (ts_reconcileDelete R) s = (res, s')"
    and fin: "TenantSourceFinalizerName \<in> set (om_Finalizers (ts_Meta (obj s)))"
  shows "\<exists>l new. trace s' = trace s @ TenList (targetNamespace (obj s)) TenantSourceLabelKey (ts_Name (obj s)) l # new \<and>
    (case l of
       Inl e \<Rightarrow> new = [] \<and> (\<exists>e'. res = Fail e')
     | Inr [] \<Rightarrow> (\<exists>src r. new = [SrcUpdate src r] \<and>
         TenantSourceFinalizerName \<notin> set (om_Finalizers (ts_Meta src)))
     | Inr ts \<Rightarrow> list_all (\<lambda>e. \<exists>t r. e = TenDelete t r \<and> t \<in> set ts) new \<and>
         (\<forall>r. res = Done r \<longrightarrow> RequeueAfter r = 5 * second \<and> length new = length ts))"
proof -
  have ns: "(case tss_TargetNamespace (ts_Spec x) of
       Some ns \<Rightarrow> if ns \<noteq> [] then ns else ts_Namespace x | None \<Rightarrow> ts_Namespace x) = targetNamespace x" for x
    by (simp add: targetNamespace_def)
  have c: "ContainsFinalizer (ts_Apim R) (om_Finalizers (ts_Meta (obj s))) TenantSourceFinalizerName = True"
    using fin by (simp add: apimachinery.contains_iff [OF assms(1)])
  have "wp (ts_reconcileDelete R) (\<lambda>res s'. \<exists>l new.
    trace s' = trace s @ TenList (targetNamespace (obj s)) TenantSourceLabelKey (ts_Name (obj s)) l # new \<and>
    (case l of
       Inl e \<Rightarrow> new = [] \<and> (\<exists>e'. res = Fail e')
     | Inr [] \<Rightarrow> (\<exists>src r. new = [SrcUpdate src r] \<and>
         TenantSourceFinalizerName \<notin> set (om_Finalizers (ts_Meta src)))
     | Inr ts \<Rightarrow> list_all (\<lambda>e. \<exists>t r. e = TenDelete t r \<and> t \<in> set ts) new \<and>
         (\<forall>r. res = Done r \<longrightarrow> RequeueAfter r = 5 * second \<and> length new = length ts))) s"
    unfolding ts_reconcileDelete_def ns Let_def listOwnedTenants_def wp_bind wp_getObj
    unfolding c not_True_eq_False if_False wp_bind
  proof (rule wp_extern_known, goal_cases)
    case (1 l w')
    show ?case
    proof (cases l)
      case (Inl e)
      then show ?thesis by (auto simp: wp_return)
    next
      case (Inr ts)
      show ?thesis
      proof (cases ts)
        case Nil
        have "TenantSourceFinalizerName \<notin> set (RemoveFinalizer (ts_Apim R) fs TenantSourceFinalizerName)" for fs
          by (simp add: apimachinery.set_remove [OF assms(1)])
        then show ?thesis
          by (auto simp: Inr Nil wp_simps split: sum.split)
      next
        case (Cons t rest)
        then have "0 < length ts" by simp
        then show ?thesis
          unfolding Inr sum.case if_P [OF \<open>0 < length ts\<close>]
          by (rule_tac wp_mono [OF wp_deleteAll]) (auto simp: Cons)
      qed
    qed
  qed
  then show ?thesis by (rule wpD [OF _ run])
qed

definition deletingStart :: "sourceWorld tsState" where
  "deletingStart = startState ((plainSource None)
     \<lparr>ts_Meta := (ts_Meta (plainSource None))\<lparr>om_DeletionTimestamp := Some 5\<rparr>\<rparr>) (plainWorld None [] [])"

theorem finalizer_waits_for_tenants_witness:
  "\<exists>src r. trace (snd (run_state (ts_reconcileDelete sourceReconciler) deletingStart)) =
     [TenList ''ns'' TenantSourceLabelKey ''src'' (Inr []), SrcUpdate src r] \<and>
     TenantSourceFinalizerName \<notin> set (om_Finalizers (ts_Meta src))"
proof -
  let ?r = "run_state (ts_reconcileDelete sourceReconciler) deletingStart"
  have fin: "TenantSourceFinalizerName \<in> set (om_Finalizers (ts_Meta (obj deletingStart)))"
    by (simp add: deletingStart_def startState_def plainSource_def)
  have "?r = (fst ?r, snd ?r)" by simp
  note released = finalizer_waits_for_tenants [OF sourceReconciler_contracts(5) this fin]
  have empty: "\<exists>new. trace (snd ?r) = TenList ''ns'' TenantSourceLabelKey ''src'' (Inr []) # new"
    by (simp add: ts_reconcileDelete_def listOwnedTenants_def run_simps deletingStart_def startState_def
        plainSource_def sourceReconciler_def metaRef_def apiServer_def apiListTenants_def viewT_def
        List.map_filter_def plainWorld_def apiPutSource_def Let_def)
  show ?thesis
    using released empty by (auto simp: deletingStart_def startState_def plainSource_def targetNamespace_def)
qed

text \<open>The listing goes by label alone, and every listed tenant is deleted: a tenant that carries
  the label and belongs to somebody else is deleted with the source, although a poll would refuse
  to touch it.\<close>

definition strayTenant :: DistributionTenant where
  "strayTenant = newTenant (plainSource None) (buildTenantSpec asStored (plainSource None) (plainItem ''a'' ''a.example''))
     ''a'' ''ns''"

lemma source_deletion_ignores_owner:
  "\<not> isOwnedBySource strayTenant (plainSource None)"
  "\<exists>pre r. trace (snd (run_state (ts_reconcileDelete sourceReconciler)
     (startState (plainSource None) (plainWorld None [] [strayTenant])))) = pre @ [TenDelete strayTenant r]"
  by (simp_all add: ts_reconcileDelete_def listOwnedTenants_def run_simps startState_def plainSource_def
      sourceReconciler_def metaRef_def apiServer_def apiListTenants_def viewT_def List.map_filter_def
      plainWorld_def apiDeleteTenant_def Let_def isOwnedBySource_def strayTenant_def newTenant_def keyOf_def)

end
