(* ===== verification/DynamoOutcomes.thy ===== *)
theory DynamoOutcomes
  imports DynamoScan SourceOutcomes
begin

text \<open>
  Properties of the DynamoDB source: the scan returns, with the items of every page or with the
  error of the page that failed; the items it returns are well-formed whatever the table holds;
  and a DynamoDB error is reported and retried by its code, through client, backend and
  controller.
\<close>

section \<open>Pagination\<close>

text \<open>The table answers the pages one by one, and the last of them ends the scan or fails.\<close>

inductive servesPages ::
  "'w dynamoDBAPI \<Rightarrow> string \<Rightarrow> dynamoItem option \<Rightarrow> dynamoItem list list \<Rightarrow> go_error option \<Rightarrow> 'w \<Rightarrow> 'w \<Rightarrow> bool"
  for api :: "'w dynamoDBAPI" and table :: string where
  last_page: "api_Scan api \<lparr>sin_TableName = Some table, sin_ExclusiveStartKey = start\<rparr> w =
      (Inr \<lparr>sout_Items = p, sout_LastEvaluatedKey = None\<rparr>, w') \<Longrightarrow>
    servesPages api table start [p] None w w'"
| failed_page: "api_Scan api \<lparr>sin_TableName = Some table, sin_ExclusiveStartKey = start\<rparr> w = (Inl e, w') \<Longrightarrow>
    servesPages api table start [] (Some e) w w'"
| next_page: "api_Scan api \<lparr>sin_TableName = Some table, sin_ExclusiveStartKey = start\<rparr> w =
      (Inr \<lparr>sout_Items = p, sout_LastEvaluatedKey = Some k\<rparr>, w1) \<Longrightarrow>
    servesPages api table (Some k) ps res w1 w' \<Longrightarrow>
    servesPages api table start (p # ps) res w w'"

definition scanResult ::
  "ScanTenantsInput \<Rightarrow> dynamoItem list list \<Rightarrow> go_error option \<Rightarrow> go_error + TenantItem list" where
  "scanResult input pages res = (case res of
     None \<Rightarrow> Inr (concat (map (mapItems input) pages))
   | Some e \<Rightarrow> Inl (classifiedBy classifyDynamoDBError e))"

lemma scanLoop_pages:
  assumes "servesPages api (sti_TableName input) start pages res w w'"
  shows "scanLoop api input acc start w = Some (map_sum id ((@) acc) (scanResult input pages res), w')"
  using assms
proof (induction arbitrary: acc rule: servesPages.induct)
  case (last_page start w p w')
  then show ?case by (simp add: scanLoop.simps scanResult_def)
next
  case (failed_page start w e w')
  then show ?case by (simp add: scanLoop.simps scanResult_def)
next
  case (next_page start w p k w1 ps res w')
  then show ?case by (subst scanLoop.simps) (simp add: scanResult_def split: option.split)
qed

lemma scan_pages:
  assumes "servesPages api (sti_TableName input) None pages res w w'"
  shows "ScanTenants (RealDynamoDBClient api) input w = Some (scanResult input pages res, w')"
  using scanLoop_pages [OF assms, of "[]"]
  by (cases "scanResult input pages res") (simp_all add: RealDynamoDBClient_def)

text \<open>C35: A scan returns whenever the table has finitely many pages: with the mapped items of all
  pages in order, items without a name or without domains skipped, or, if a page fails, with the
  classified error of that page and no items, so that an incomplete scan is never taken for the
  full list (which would delete the missing tenants).\<close>

theorem scan_returns_all_pages:
  assumes "servesPages api (sti_TableName input) None pages res w w'"
  shows "ScanTenants (RealDynamoDBClient api) input w = Some
    (case res of None \<Rightarrow> Inr (concat (map (mapItems input) pages))
     | Some e \<Rightarrow> Inl (classifiedBy classifyDynamoDBError e), w')"
  using scan_pages [OF assms] by (simp only: scanResult_def)

text \<open>A table that serves a list of pages, and fails when there is none left.\<close>

definition pagedTable :: "go_error \<Rightarrow> dynamoItem list list dynamoDBAPI" where
  "pagedTable e = \<lparr>api_Scan = (\<lambda>i w. case w of
       [] \<Rightarrow> (Inl e, w)
     | [p] \<Rightarrow> (Inr \<lparr>sout_Items = p, sout_LastEvaluatedKey = None\<rparr>, [])
     | p # ps \<Rightarrow> (Inr \<lparr>sout_Items = p, sout_LastEvaluatedKey = Some []\<rparr>, ps))\<rparr>"

lemma pagedTable_serves: "ps \<noteq> [] \<Longrightarrow> servesPages (pagedTable e) table start ps None ps []"
proof (induction ps arbitrary: start)
  case Nil
  then show ?case by simp
next
  case (Cons p ps)
  show ?case
  proof (cases ps)
    case Nil
    show ?thesis unfolding Nil by (rule last_page) (simp add: pagedTable_def)
  next
    case (Cons q qs)
    show ?thesis
    proof (rule next_page)
      show "servesPages (pagedTable e) table (Some []) ps None ps []" by (rule Cons.IH) (simp add: Cons)
    qed (simp add: pagedTable_def Cons)
  qed
qed

definition tableInput :: ScanTenantsInput where
  "tableInput = buildScanInput \<lparr>dd_TableName = ''t'', dd_Region = None, dd_NameAttribute = None,
     dd_DomainsAttribute = None, dd_EnabledAttribute = None, dd_ConnectionGroupIdAttribute = None,
     dd_CertificateArnAttribute = None, dd_ValidationTokenHostAttribute = None,
     dd_PrimaryDomainNameAttribute = None, dd_CertificateTransparencyLoggingPreferenceAttribute = None,
     dd_DNSProviderAttribute = None, dd_HostedZoneIdAttribute = None, dd_DNSTTLAttribute = Some ''ttl'',
     dd_DNSAssumeRoleArnAttribute = None, dd_WebAclActionAttribute = None, dd_WebAclArnAttribute = None,
     dd_GeoRestrictionTypeAttribute = None, dd_GeoLocationsAttribute = None,
     dd_ParametersAttribute = None, dd_TagsAttribute = None\<rparr>"

definition twoPages :: "dynamoItem list list" where
  "twoPages = [[[(''name'', MemberS ''a''), (''domains'', MemberS ''a.example''), (''ttl'', MemberN ''60'')],
                [(''domains'', MemberS ''no-name.example'')]],
               [[(''name'', MemberS ''b''), (''domains'', MemberSS [''b.example'', ''c.example''])]]]"

theorem scan_returns_all_pages_witness:
  "map_option (\<lambda>r. case fst r of Inl _ \<Rightarrow> [] | Inr items \<Rightarrow> map it_Name items)
     (ScanTenants (RealDynamoDBClient (pagedTable (OtherError ''x''))) tableInput twoPages) = Some [''a'', ''b'']"
proof -
  have "twoPages \<noteq> []" by (simp add: twoPages_def)
  from scan_returns_all_pages [OF pagedTable_serves [OF this], of "OtherError ''x''" tableInput]
  show ?thesis
    by (simp add: twoPages_def mapItems_def List.map_filter_def mapDynamoItem_def tableInput_def
        buildScanInput_def getStringAttr_def getDomainsAttr_def Let_def)
qed

section \<open>Items\<close>

lemma fold_strings_distinct:
  "distinct (map fst r) \<Longrightarrow>
   distinct (map fst (fold (\<lambda>(k, v) r. case v of MemberS s \<Rightarrow> AList.update k s r | _ \<Rightarrow> r) m r))"
  by (induction m arbitrary: r) (auto simp: distinct_update split: AttributeValue.split)

lemma getMapStringAttr_keyed:
  "getMapStringAttr item key = Some m \<Longrightarrow> distinct (map fst m) \<and> m \<noteq> []"
  using fold_strings_distinct [of "[]"]
  by (auto simp: getMapStringAttr_def Let_def split: option.splits AttributeValue.splits if_splits)

lemma setOptionalString_nonempty: "setOptionalString item attr \<noteq> Some []"
  by (simp add: setOptionalString_def split: option.split)

text \<open>What every item of a scan satisfies.\<close>

definition scannedItem :: "TenantItem \<Rightarrow> bool" where
  "scannedItem t \<longleftrightarrow>
     it_Name t \<noteq> [] \<and> it_Domains t \<noteq> [] \<and> keyedItem t \<and>
     it_GeoLocations t \<noteq> Some [] \<and> it_Parameters t \<noteq> Some [] \<and> it_Tags t \<noteq> Some [] \<and>
     Some [] \<notin> {it_ConnectionGroupId t, it_CertificateArn t, it_ValidationTokenHost t,
       it_PrimaryDomainName t, it_CertificateTransparencyLoggingPreference t, it_DNSProvider t,
       it_HostedZoneId t, it_DNSAssumeRoleArn t, it_WebAclAction t, it_WebAclArn t,
       it_GeoRestrictionType t}"

lemma mapDynamoItem_scanned: "mapDynamoItem item input = Inr t \<Longrightarrow> scannedItem t"
proof -
  assume "mapDynamoItem item input = Inr t"
  then have
    "it_Name t \<noteq> []" "it_Domains t \<noteq> []"
    "it_GeoLocations t = (if sti_GeoLocationsAttribute input \<noteq> []
       then getStringSetAttr item (sti_GeoLocationsAttribute input) else None)"
    "it_Parameters t = (if sti_ParametersAttribute input \<noteq> []
       then getMapStringAttr item (sti_ParametersAttribute input) else None)"
    "it_Tags t = (if sti_TagsAttribute input \<noteq> []
       then getMapStringAttr item (sti_TagsAttribute input) else None)"
    "Some [] \<notin> {it_ConnectionGroupId t, it_CertificateArn t, it_ValidationTokenHost t,
       it_PrimaryDomainName t, it_CertificateTransparencyLoggingPreference t, it_DNSProvider t,
       it_HostedZoneId t, it_DNSAssumeRoleArn t, it_WebAclAction t, it_WebAclArn t,
       it_GeoRestrictionType t}"
    unfolding mapDynamoItem_def
    by (cases "getStringAttr item (sti_NameAttribute input)"; simp split: if_splits;
        cases "getDomainsAttr item (sti_DomainsAttribute input)"; simp split: if_splits;
        hypsubst; simp add: setOptionalString_nonempty setOptionalString_nonempty [symmetric])+
  moreover have "getStringSetAttr item k \<noteq> Some []" for k
    by (simp add: getStringSetAttr_def split: option.split AttributeValue.split)
  ultimately show ?thesis
    by (auto simp: scannedItem_def keyedItem_def split: option.split dest: getMapStringAttr_keyed)
qed

text \<open>C36: Every item a scan returns is well-formed, whatever the table holds: it has a name and a
  domain, an optional field is unset rather than empty (an empty attribute never overrides the
  template), and parameters and tags have distinct keys, as the sync needs to settle.\<close>

theorem scanned_items_wellformed:
  assumes "servesPages api (sti_TableName input) None pages None w w'"
  shows "\<exists>items. ScanTenants (RealDynamoDBClient api) input w = Some (Inr items, w') \<and>
    list_all scannedItem items \<and> length items \<le> length (concat pages)"
proof -
  have "(case r of Inl _ \<Rightarrow> None | Inr t \<Rightarrow> Some t) = Some t \<longleftrightarrow> r = Inr t" for r :: "go_error + TenantItem" and t
    by (cases r) simp_all
  note member = this
  have one: "list_all scannedItem (mapItems input raw) \<and> length (mapItems input raw) \<le> length raw" for raw
  proof
    show "list_all scannedItem (mapItems input raw)"
      by (auto simp: list_all_iff mapItems_def set_map_filter member intro: mapDynamoItem_scanned)
    show "length (mapItems input raw) \<le> length raw"
      by (simp add: mapItems_def List.map_filter_def)
  qed
  then have "list_all scannedItem (concat (map (mapItems input) pages)) \<and>
      length (concat (map (mapItems input) pages)) \<le> length (concat pages)"
    by (induction pages) (auto intro: add_mono)
  then show ?thesis using scan_pages [OF assms] by (simp add: scanResult_def)
qed

theorem scanned_items_wellformed_witness:
  "\<exists>items. ScanTenants (RealDynamoDBClient (pagedTable (OtherError ''x''))) tableInput twoPages = Some (Inr items, []) \<and>
    list_all scannedItem items \<and> length items \<le> 3"
proof -
  have "twoPages \<noteq> []" by (simp add: twoPages_def)
  from scanned_items_wellformed [OF pagedTable_serves [OF this], of "OtherError ''x''" tableInput]
  show ?thesis by (simp add: twoPages_def eval_nat_numeral)
qed

text \<open>\<open>Sscanf\<close> stops at the first character that is no digit: a fraction is cut off, an exponent
  is dropped, and only a number outside the 64-bit range is refused.\<close>

lemma ttl_is_cut_off:
  "getNumberAttr [(''ttl'', MemberN ''3.5'')] ''ttl'' = Some 3"
  "getNumberAttr [(''ttl'', MemberN ''1E+2'')] ''ttl'' = Some 1"
  "getNumberAttr [(''ttl'', MemberN ''9223372036854775808'')] ''ttl'' = None"
  by (simp_all add: getNumberAttr_def SscanfD_def isBlank_def isDigit_def digitsValue_def)

section \<open>Errors\<close>

text \<open>The class of a DynamoDB error code, and the sentinel the controller sees.\<close>

definition dynamoCodeClass :: "string \<Rightarrow> sentinel option" where
  "dynamoCodeClass code = map_of
     [(''ResourceNotFoundException'', ErrSourceNotFound), (''AccessDeniedException'', ErrSourceAccessDenied),
      (''Throttling'', ErrSourceThrottled), (''ThrottlingException'', ErrSourceThrottled),
      (''ProvisionedThroughputExceededException'', ErrSourceThrottled)] code"

lemma translated_by_code:
  assumes "asAPIError e = Some (code, msg)"
  shows "errorsIs (translateErr (Some (classifiedBy classifyDynamoDBError e))) s \<longleftrightarrow> dynamoCodeClass code = Some s"
    and "\<exists>pre. dynamoCodeClass code \<noteq> None \<longrightarrow>
      errorText (classifiedBy translateErr (classifiedBy classifyDynamoDBError e)) = pre @ msg"
proof -
  have n: "\<not> chainHas e s" for s using assms by (rule asAPIError_not_sentinel)
  show "errorsIs (translateErr (Some (classifiedBy classifyDynamoDBError e))) s \<longleftrightarrow> dynamoCodeClass code = Some s"
    by (auto simp: translateErr_def classifiedBy_def classifyDynamoDBError_def assms dynamoCodeClass_def
        wrapSentinel_def n errorsIs_def)
  show "\<exists>pre. dynamoCodeClass code \<noteq> None \<longrightarrow>
      errorText (classifiedBy translateErr (classifiedBy classifyDynamoDBError e)) = pre @ msg"
    by (auto simp: translateErr_def classifiedBy_def classifyDynamoDBError_def assms dynamoCodeClass_def
        wrapSentinel_def n errorsIs_def)
qed

text \<open>The backend registered for \<open>dynamodb\<close> (\<open>cmd/main.go\<close>), for a scan that returns.\<close>

definition dynamoBackendFor :: "(string option \<Rightarrow> 'w dynamoDBAPI) \<Rightarrow> 'w Backend" where
  "dynamoBackendFor api = \<lparr>QueryTenants = (\<lambda>source w. the (dynamoQueryTenants (NewBackend api) source w))\<rparr>"

lemma classifiedBy_Some: "(\<And>e. f (Some e) \<noteq> None) \<Longrightarrow> Some (classifiedBy f e) = f (Some e)"
  by (simp add: classifiedBy_def split: option.split)

lemma translateErr_Some [simp]: "translateErr (Some e) \<noteq> None"
  by (simp add: translateErr_def wrapSentinel_def)

text \<open>C37: An error of the DynamoDB API, on whichever page of the scan it comes, reaches the status
  and the schedule of the TenantSource by its code: a missing table or a denied access is looked at
  again in five minutes, throttling and every other code in thirty seconds; the poll is reported as
  failed (never as an invalid configuration), no tenant is touched, and the message of the API is
  the end of the reported error for every classified code.\<close>

theorem dynamo_failure_reaches_schedule:
  fixes R :: "'w TenantSourceReconciler"
  assumes "apimachinery (ts_Apim R)"
    and cfg: "tss_DynamoDB (ts_Spec source) = Some cfg" "\<And>r. api r = table"
    and page: "servesPages table (dd_TableName cfg) None pages (Some e) (world s) w1"
    and code: "asAPIError e = Some (code, msg)"
    and run: "run_state (pollFrom R (dynamoBackendFor api) source) s = (res, s')"
  shows "\<exists>err src r events.
    trace s' = trace s @ Query source (Inl err) # SrcStatusUpdate src r # events \<and>
    list_all (\<lambda>e. \<exists>x y z. e = SrcEvent x y z) events \<and>
    readyIs R src ConditionFalse TSReasonPollFailed \<and>
    res = (case r of Inl x \<Rightarrow> Fail x | Inr _ \<Rightarrow> Done (requeueIn
      (if code \<in> {''ResourceNotFoundException'', ''AccessDeniedException''} then 5 * minute else 30 * second))) \<and>
    (dynamoCodeClass code \<noteq> None \<longrightarrow> (\<exists>pre. errorText err = pre @ msg))"
proof -
  let ?err = "classifiedBy translateErr (classifiedBy classifyDynamoDBError e)"
  have cls: "errorsIs (Some ?err) s \<longleftrightarrow> dynamoCodeClass code = Some s" for s
    using translated_by_code(1) [OF code] by (simp add: classifiedBy_Some)
  have "sti_TableName (buildScanInput cfg) = dd_TableName cfg" by (simp add: buildScanInput_def Let_def)
  then have "ScanTenants (RealDynamoDBClient table) (buildScanInput cfg) (world s) =
      Some (Inl (classifiedBy classifyDynamoDBError e), w1)"
    using scan_pages [of table "buildScanInput cfg" pages "Some e" "world s" w1] page
    by (simp add: scanResult_def)
  then have q: "QueryTenants (dynamoBackendFor api) source (world s) = (Inl ?err, w1)"
    by (simp add: dynamoBackendFor_def dynamoQueryTenants_def NewBackend_def cfg Let_def)
  have reason: "scanReason ?err = TSReasonPollFailed"
    unfolding scanReason_def cls by (simp add: dynamoCodeClass_def)
  have perm: "permanentScanError ?err \<longleftrightarrow> code \<in> {''ResourceNotFoundException'', ''AccessDeniedException''}"
    unfolding permanentScanError_def cls by (simp add: dynamoCodeClass_def)
  have msg: "dynamoCodeClass code \<noteq> None \<longrightarrow> (\<exists>pre. errorText ?err = pre @ msg)"
    using translated_by_code(2) [OF code] by blast
  show ?thesis
    using wpD [OF failed_query_reported [OF assms(1) q] run] msg unfolding reason perm by blast
qed

definition dynamoSource :: TenantSource where
  "dynamoSource = (plainSource None)\<lparr>ts_Spec := (ts_Spec (plainSource None))\<lparr>tss_DynamoDB := Some
     \<lparr>dd_TableName = ''t'', dd_Region = None, dd_NameAttribute = None,
     dd_DomainsAttribute = None, dd_EnabledAttribute = None, dd_ConnectionGroupIdAttribute = None,
     dd_CertificateArnAttribute = None, dd_ValidationTokenHostAttribute = None,
     dd_PrimaryDomainNameAttribute = None, dd_CertificateTransparencyLoggingPreferenceAttribute = None,
     dd_DNSProviderAttribute = None, dd_HostedZoneIdAttribute = None, dd_DNSTTLAttribute = Some ''ttl'',
     dd_DNSAssumeRoleArnAttribute = None, dd_WebAclActionAttribute = None, dd_WebAclArnAttribute = None,
     dd_GeoRestrictionTypeAttribute = None, dd_GeoLocationsAttribute = None,
     dd_ParametersAttribute = None, dd_TagsAttribute = None\<rparr>\<rparr>\<rparr>"

text \<open>A table without pages, next to the API server: every scan is denied.\<close>

definition deniedTable :: "sourceWorld dynamoDBAPI" where
  "deniedTable = \<lparr>api_Scan = (\<lambda>i w. (Inl (ApiError ''AccessDeniedException'' ''no scan'' ''t''), w))\<rparr>"

theorem dynamo_failure_reaches_schedule_witness:
  "\<exists>err src r events.
    trace (snd (run_state (pollFrom sourceReconciler (dynamoBackendFor (\<lambda>_. deniedTable)) dynamoSource) pollStart)) =
      Query dynamoSource (Inl err) # SrcStatusUpdate src r # events \<and>
    fst (run_state (pollFrom sourceReconciler (dynamoBackendFor (\<lambda>_. deniedTable)) dynamoSource) pollStart) =
      (case r of Inl x \<Rightarrow> Fail x | Inr _ \<Rightarrow> Done (requeueIn (5 * minute))) \<and>
    (\<exists>pre. errorText err = pre @ ''no scan'')"
proof -
  define e where "e = ApiError ''AccessDeniedException'' ''no scan'' ''t''"
  define cfg where "cfg = the (tss_DynamoDB (ts_Spec dynamoSource))"
  define run where "run = run_state (pollFrom sourceReconciler (dynamoBackendFor (\<lambda>_. deniedTable)) dynamoSource) pollStart"
  have cfg: "tss_DynamoDB (ts_Spec dynamoSource) = Some cfg"
    by (simp add: cfg_def dynamoSource_def)
  have page: "servesPages deniedTable (dd_TableName cfg) None [] (Some e) (world pollStart) (world pollStart)"
    by (rule failed_page) (simp add: deniedTable_def e_def)
  have code: "asAPIError e = Some (''AccessDeniedException'', ''no scan'')" by (simp add: e_def)
  have step: "run_state (pollFrom sourceReconciler (dynamoBackendFor (\<lambda>_. deniedTable)) dynamoSource) pollStart =
      (fst run, snd run)" by (simp add: run_def)
  have perm: "(''AccessDeniedException'' \<in> {''ResourceNotFoundException'', ''AccessDeniedException''}) = True"
    and cls: "(dynamoCodeClass ''AccessDeniedException'' \<noteq> None) = True"
    by (simp_all add: dynamoCodeClass_def)
  have empty: "trace pollStart = []" by (simp add: pollStart_def startState_def)
  show ?thesis
    using dynamo_failure_reaches_schedule
      [OF sourceReconciler_contracts(5) cfg refl page code step, unfolded perm cls empty if_True append_Nil]
    unfolding run_def by blast
qed

end
