(* ===== verification/ChangeDetection.thy ===== *)
theory ChangeDetection
  imports ApiTypes
begin

text \<open>
  The three-way diff of \<open>internal/controller/change_detection.go\<close>: the drift policy, the
  field-by-field comparison of a spec with the tenant AWS reports, and the classification of
  a reconcile as spec change, drift or no change. The comparison is proved to decide equality
  of abstract views (sets of domains, parameter maps, ...) of the two sides.
\<close>

section \<open>Drift policy\<close>

abbreviation DriftPolicyEnforce :: string where "DriftPolicyEnforce \<equiv> ''enforce''"
abbreviation DriftPolicyReport :: string where "DriftPolicyReport \<equiv> ''report''"
abbreviation DriftPolicySuspend :: string where "DriftPolicySuspend \<equiv> ''suspend''"

definition ValidateDriftPolicy :: "string \<Rightarrow> error" where
  "ValidateDriftPolicy p =
     (if p = DriftPolicyEnforce \<or> p = DriftPolicyReport \<or> p = DriftPolicySuspend then None
      else Some (OtherError (''invalid drift policy '' @ Quote p @
        '': must be one of enforce, report, suspend'')))"

section \<open>Change types\<close>

datatype changeType = changeNone | changeSpec | changeDrift

text \<open>Go numbers the constants with \<open>iota\<close>; the order is the one of the numbers.\<close>

fun iota :: "changeType \<Rightarrow> nat" where
  "iota changeNone = 0" | "iota changeSpec = 1" | "iota changeDrift = 2"

instantiation changeType :: linorder
begin
definition less_eq_changeType :: "changeType \<Rightarrow> changeType \<Rightarrow> bool" where
  "less_eq_changeType a b \<longleftrightarrow> iota a \<le> iota b"
definition less_changeType :: "changeType \<Rightarrow> changeType \<Rightarrow> bool" where
  "less_changeType a b \<longleftrightarrow> iota a < iota b"
instance
proof
  fix a b :: changeType
  show "a \<le> b \<Longrightarrow> b \<le> a \<Longrightarrow> a = b"
    by (cases a; cases b) (simp_all add: less_eq_changeType_def)
qed (auto simp: less_eq_changeType_def less_changeType_def)
end

fun changeString :: "changeType \<Rightarrow> string" where
  "changeString changeNone = ''none''"
| "changeString changeSpec = ''spec_changed''"
| "changeString changeDrift = ''drift''"

section \<open>Comparing customizations\<close>

definition webAclMatch ::
  "WebAclCustomization option \<Rightarrow> WebAclCustomizationInput option \<Rightarrow> bool" where
  "webAclMatch spec aws =
     (if (spec = None) \<noteq> (aws = None) then False
      else case (spec, aws) of
        (Some s, Some a) \<Rightarrow>
          if wac_Action s \<noteq> waci_Action a then False
          else (case wac_Arn s of None \<Rightarrow> [] | Some x \<Rightarrow> x) =
               (case waci_Arn a of None \<Rightarrow> [] | Some x \<Rightarrow> x)
      | _ \<Rightarrow> True)"

definition certificateMatch ::
  "CertificateCustomization option \<Rightarrow> CertificateCustomizationInput option \<Rightarrow> bool" where
  "certificateMatch spec aws =
     (if (spec = None) \<noteq> (aws = None) then False
      else case (spec, aws) of
        (Some s, Some a) \<Rightarrow> cert_Arn s = certi_Arn a
      | _ \<Rightarrow> True)"

definition geoRestrictionsMatch ::
  "GeoRestrictionCustomization option \<Rightarrow> GeoRestrictionCustomizationInput option \<Rightarrow> bool" where
  "geoRestrictionsMatch spec aws =
     (if (spec = None) \<noteq> (aws = None) then False
      else case (spec, aws) of
        (Some s, Some a) \<Rightarrow>
          if geo_RestrictionType s \<noteq> geoi_RestrictionType a then False
          else if length (geo_Locations s) \<noteq> length (geoi_Locations a) then False
          else let specLocs = mapFromList (map (\<lambda>l. (l, True)) (geo_Locations s)) Map.empty
               in list_all (\<lambda>l. mapGet False specLocs l) (geoi_Locations a)
      | _ \<Rightarrow> True)"

definition customizationsMatch ::
  "Customizations option \<Rightarrow> CustomizationsInput option \<Rightarrow> bool" where
  "customizationsMatch spec aws =
     (case (spec, aws) of
        (None, None) \<Rightarrow> True
      | (Some s, Some a) \<Rightarrow>
          if \<not> webAclMatch (cus_WebAcl s) (cusi_WebAcl a) then False
          else if \<not> certificateMatch (cus_Certificate s) (cusi_Certificate a) then False
          else geoRestrictionsMatch (cus_GeoRestrictions s) (cusi_GeoRestrictions a)
      | _ \<Rightarrow> False)"

section \<open>Comparing the whole spec\<close>

definition specMatchesAWS :: "DistributionTenantSpec \<Rightarrow> DistributionTenantOutput \<Rightarrow> bool" where
  "specMatchesAWS spec aws =
     (let specEnabled = (case spec_Enabled spec of None \<Rightarrow> True | Some b \<Rightarrow> b) in
      if specEnabled \<noteq> out_Enabled aws then False
      else if spec_DistributionId spec \<noteq> out_DistributionId aws then False
      else if (case spec_ConnectionGroupId spec of
                 None \<Rightarrow> False | Some cg \<Rightarrow> cg \<noteq> out_ConnectionGroupId aws) then False
      else if length (spec_Domains spec) \<noteq> length (out_Domains aws) then False
      else let specDomains =
                 mapFromList (map (\<lambda>d. (dom_Domain d, True)) (spec_Domains spec)) Map.empty in
      if \<not> list_all (\<lambda>d. mapGet False specDomains (dro_Domain d)) (out_Domains aws) then False
      else if length (spec_Parameters spec) \<noteq> length (out_Parameters aws) then False
      else if 0 < length (spec_Parameters spec) \<and>
              (let specParams =
                 mapFromList (map (\<lambda>p. (param_Name p, param_Value p)) (spec_Parameters spec)) Map.empty
               in \<not> list_all (\<lambda>p. mapGet [] specParams (pin_Name p) = pin_Value p)
                    (out_Parameters aws))
      then False
      else customizationsMatch (spec_Customizations spec) (out_Customizations aws))"

definition detectChanges ::
  "DistributionTenant \<Rightarrow> DistributionTenantOutput \<Rightarrow> changeType" where
  "detectChanges tenant awsTenant =
     (let specChanged = (dt_Generation tenant \<noteq> st_ObservedGeneration (dt_Status tenant));
          awsMatchesSpec = specMatchesAWS (dt_Spec tenant) awsTenant in
      if specChanged \<and> \<not> awsMatchesSpec then changeSpec
      else if \<not> specChanged \<and> \<not> awsMatchesSpec then changeDrift
      else changeNone)"

lemma detectChanges_None:
  "detectChanges t a = changeNone \<longleftrightarrow> specMatchesAWS (dt_Spec t) a"
  by (simp add: detectChanges_def Let_def)

lemma detectChanges_Spec:
  "detectChanges t a = changeSpec \<longleftrightarrow>
     dt_Generation t \<noteq> st_ObservedGeneration (dt_Status t) \<and> \<not> specMatchesAWS (dt_Spec t) a"
  by (simp add: detectChanges_def Let_def)

lemma detectChanges_Drift:
  "detectChanges t a = changeDrift \<longleftrightarrow>
     dt_Generation t = st_ObservedGeneration (dt_Status t) \<and> \<not> specMatchesAWS (dt_Spec t) a"
  by (simp add: detectChanges_def Let_def)

section \<open>What the comparison decides\<close>

text \<open>
  The abstract view of a tenant: what the operator manages, without the order of lists, and
  with an absent ARN identified with the empty one. The connection group is compared only
  where the spec names one.
\<close>

record tenantView =
  v_enabled :: bool
  v_distribution :: string
  v_domains :: "string set"
  v_parameters :: "string \<rightharpoonup> string"
  v_custom :: "((string \<times> string) option \<times> string option \<times> (string \<times> string set) option) option"

definition specView :: "DistributionTenantSpec \<Rightarrow> tenantView" where
  "specView s =
     \<lparr>v_enabled = (case spec_Enabled s of None \<Rightarrow> True | Some b \<Rightarrow> b),
      v_distribution = spec_DistributionId s,
      v_domains = dom_Domain ` set (spec_Domains s),
      v_parameters = map_of (map (\<lambda>p. (param_Name p, param_Value p)) (spec_Parameters s)),
      v_custom = map_option (\<lambda>c.
        (map_option (\<lambda>w. (wac_Action w, case wac_Arn w of None \<Rightarrow> [] | Some x \<Rightarrow> x)) (cus_WebAcl c),
         map_option cert_Arn (cus_Certificate c),
         map_option (\<lambda>g. (geo_RestrictionType g, set (geo_Locations g))) (cus_GeoRestrictions c)))
        (spec_Customizations s)\<rparr>"

definition awsView :: "DistributionTenantOutput \<Rightarrow> tenantView" where
  "awsView a =
     \<lparr>v_enabled = out_Enabled a,
      v_distribution = out_DistributionId a,
      v_domains = dro_Domain ` set (out_Domains a),
      v_parameters = map_of (map (\<lambda>p. (pin_Name p, pin_Value p)) (out_Parameters a)),
      v_custom = map_option (\<lambda>c.
        (map_option (\<lambda>w. (waci_Action w, case waci_Arn w of None \<Rightarrow> [] | Some x \<Rightarrow> x)) (cusi_WebAcl c),
         map_option certi_Arn (cusi_Certificate c),
         map_option (\<lambda>g. (geoi_RestrictionType g, set (geoi_Locations g))) (cusi_GeoRestrictions c)))
        (out_Customizations a)\<rparr>"

text \<open>No duplicates, and no empty parameter value: what AWS and the CRD schema enforce.\<close>

definition specDistinct :: "DistributionTenantSpec \<Rightarrow> bool" where
  "specDistinct s \<longleftrightarrow>
     distinct (map dom_Domain (spec_Domains s)) \<and>
     distinct (map param_Name (spec_Parameters s)) \<and>
     (\<forall>p \<in> set (spec_Parameters s). param_Value p \<noteq> []) \<and>
     (\<forall>c g. spec_Customizations s = Some c \<longrightarrow> cus_GeoRestrictions c = Some g \<longrightarrow>
        distinct (geo_Locations g))"

definition awsDistinct :: "DistributionTenantOutput \<Rightarrow> bool" where
  "awsDistinct a \<longleftrightarrow>
     distinct (map dro_Domain (out_Domains a)) \<and>
     distinct (map pin_Name (out_Parameters a)) \<and>
     (\<forall>p \<in> set (out_Parameters a). pin_Value p \<noteq> []) \<and>
     (\<forall>c g. out_Customizations a = Some c \<longrightarrow> cusi_GeoRestrictions c = Some g \<longrightarrow>
        distinct (geoi_Locations g))"

text \<open>Two duplicate-free lists of the same length, one included in the other, have the same
  elements: the shape of every order-independent comparison of the code.\<close>

lemma length_subset_iff_set_eq:
  assumes "distinct xs" "distinct ys"
  shows "length xs = length ys \<and> set ys \<subseteq> set xs \<longleftrightarrow> set xs = set ys"
  using assms by (metis card_subset_eq distinct_card finite_set order_refl)

lemma domains_compare:
  assumes "distinct (map f xs)" "distinct (map g ys)"
  shows "length xs = length ys \<and>
      list_all (\<lambda>y. mapGet False (mapFromList (map (\<lambda>x. (f x, True)) xs) Map.empty) (g y)) ys
    \<longleftrightarrow> f ` set xs = g ` set ys"
  using length_subset_iff_set_eq [OF assms] by (auto simp: list_all_iff mapGet_True_iff)

lemma params_compare:
  assumes d: "distinct (map fst xs)" "distinct (map fst ys)" and ne: "\<forall>y \<in> set ys. snd y \<noteq> []"
  shows "length xs = length ys \<and>
      list_all (\<lambda>y. mapGet [] (mapFromList xs Map.empty) (fst y) = snd y) ys
    \<longleftrightarrow> map_of xs = map_of (ys :: ('a \<times> string) list)"
proof -
  have "mapGet [] (mapFromList xs Map.empty) (fst y) = snd y \<longleftrightarrow> y \<in> set xs"
    if "y \<in> set ys" for y
  proof -
    have "snd y \<noteq> []" using that ne by blast
    then have "mapGet [] (mapFromList xs Map.empty) (fst y) = snd y \<longleftrightarrow>
        map_of xs (fst y) = Some (snd y)"
      by (auto simp: mapFromList_distinct [OF d(1)] mapGet_def split: option.splits)
    also have "\<dots> \<longleftrightarrow> y \<in> set xs"
      using map_of_eq_Some_iff [OF d(1)] by simp
    finally show ?thesis .
  qed
  then have "list_all (\<lambda>y. mapGet [] (mapFromList xs Map.empty) (fst y) = snd y) ys
      \<longleftrightarrow> set ys \<subseteq> set xs"
    by (auto simp: list_all_iff)
  moreover have "distinct xs" "distinct ys" using d by (auto simp: distinct_map)
  ultimately have "length xs = length ys \<and>
      list_all (\<lambda>y. mapGet [] (mapFromList xs Map.empty) (fst y) = snd y) ys
    \<longleftrightarrow> set xs = set ys"
    using length_subset_iff_set_eq by simp
  then show ?thesis using map_of_inject_set [OF d] by simp
qed

lemma webAclMatch_iff:
  "webAclMatch s a \<longleftrightarrow>
     map_option (\<lambda>w. (wac_Action w, case wac_Arn w of None \<Rightarrow> [] | Some x \<Rightarrow> x)) s =
     map_option (\<lambda>w. (waci_Action w, case waci_Arn w of None \<Rightarrow> [] | Some x \<Rightarrow> x)) a"
  by (cases s; cases a) (auto simp: webAclMatch_def)

lemma certificateMatch_iff:
  "certificateMatch s a \<longleftrightarrow> map_option cert_Arn s = map_option certi_Arn a"
  by (cases s; cases a) (auto simp: certificateMatch_def)

lemma geoRestrictionsMatch_iff:
  assumes "\<And>g. s = Some g \<Longrightarrow> distinct (geo_Locations g)"
    and "\<And>g. a = Some g \<Longrightarrow> distinct (geoi_Locations g)"
  shows "geoRestrictionsMatch s a \<longleftrightarrow>
     map_option (\<lambda>g. (geo_RestrictionType g, set (geo_Locations g))) s =
     map_option (\<lambda>g. (geoi_RestrictionType g, set (geoi_Locations g))) a"
proof (cases s; cases a)
  fix g h
  assume sa: "s = Some g" "a = Some h"
  have "length (geo_Locations g) = length (geoi_Locations h) \<and>
      set (geoi_Locations h) \<subseteq> set (geo_Locations g)
    \<longleftrightarrow> set (geo_Locations g) = set (geoi_Locations h)"
    using assms sa by (intro length_subset_iff_set_eq) simp_all
  then show ?thesis using sa
    by (auto simp: geoRestrictionsMatch_def Let_def list_all_iff subset_iff)
qed (simp_all add: geoRestrictionsMatch_def)

lemma customizationsMatch_iff:
  assumes "\<And>c g. s = Some c \<Longrightarrow> cus_GeoRestrictions c = Some g \<Longrightarrow> distinct (geo_Locations g)"
    and "\<And>c g. a = Some c \<Longrightarrow> cusi_GeoRestrictions c = Some g \<Longrightarrow> distinct (geoi_Locations g)"
  shows "customizationsMatch s a \<longleftrightarrow>
     map_option (\<lambda>c.
        (map_option (\<lambda>w. (wac_Action w, case wac_Arn w of None \<Rightarrow> [] | Some x \<Rightarrow> x)) (cus_WebAcl c),
         map_option cert_Arn (cus_Certificate c),
         map_option (\<lambda>g. (geo_RestrictionType g, set (geo_Locations g))) (cus_GeoRestrictions c))) s =
     map_option (\<lambda>c.
        (map_option (\<lambda>w. (waci_Action w, case waci_Arn w of None \<Rightarrow> [] | Some x \<Rightarrow> x)) (cusi_WebAcl c),
         map_option certi_Arn (cusi_Certificate c),
         map_option (\<lambda>g. (geoi_RestrictionType g, set (geoi_Locations g))) (cusi_GeoRestrictions c))) a"
  using assms
  by (cases s; cases a)
    (simp_all add: customizationsMatch_def webAclMatch_iff certificateMatch_iff
      geoRestrictionsMatch_iff)

text \<open>The early returns of the comparison as one conjunction.\<close>

lemma specMatchesAWS_conj:
  "specMatchesAWS s a \<longleftrightarrow>
     (case spec_Enabled s of None \<Rightarrow> True | Some b \<Rightarrow> b) = out_Enabled a \<and>
     spec_DistributionId s = out_DistributionId a \<and>
     (case spec_ConnectionGroupId s of None \<Rightarrow> True | Some cg \<Rightarrow> cg = out_ConnectionGroupId a) \<and>
     (length (spec_Domains s) = length (out_Domains a) \<and>
      list_all (\<lambda>d. mapGet False (mapFromList (map (\<lambda>d. (dom_Domain d, True)) (spec_Domains s))
        Map.empty) (dro_Domain d)) (out_Domains a)) \<and>
     (length (spec_Parameters s) = length (out_Parameters a) \<and>
      list_all (\<lambda>p. mapGet [] (mapFromList (map (\<lambda>p. (param_Name p, param_Value p))
        (spec_Parameters s)) Map.empty) (pin_Name p) = pin_Value p) (out_Parameters a)) \<and>
     customizationsMatch (spec_Customizations s) (out_Customizations a)"
proof -
  define D where "D = list_all (\<lambda>d. mapGet False (mapFromList (map (\<lambda>d. (dom_Domain d, True))
    (spec_Domains s)) Map.empty) (dro_Domain d)) (out_Domains a)"
  define L where "L = list_all (\<lambda>p. mapGet [] (mapFromList (map (\<lambda>p. (param_Name p, param_Value p))
    (spec_Parameters s)) Map.empty) (pin_Name p) = pin_Value p) (out_Parameters a)"
  have "L" if "length (out_Parameters a) = 0"
    using that by (simp add: L_def)
  then show ?thesis
    unfolding specMatchesAWS_def Let_def early_return D_def [symmetric] L_def [symmetric]
    by (cases "spec_ConnectionGroupId s") auto
qed

text \<open>C26: The spec-vs-AWS comparison decides equality of the abstract views (same enabled
  flag, distribution, set of domains, parameter map and customizations) together with the
  connection group where the spec names one, for duplicate-free lists in any order.\<close>

theorem specMatchesAWS_iff_views:
  assumes "specDistinct s" and "awsDistinct a"
  shows "specMatchesAWS s a \<longleftrightarrow>
    specView s = awsView a \<and>
    (case spec_ConnectionGroupId s of None \<Rightarrow> True | Some cg \<Rightarrow> cg = out_ConnectionGroupId a)"
proof -
  have dom: "length (spec_Domains s) = length (out_Domains a) \<and>
      list_all (\<lambda>d. mapGet False (mapFromList (map (\<lambda>d. (dom_Domain d, True)) (spec_Domains s))
        Map.empty) (dro_Domain d)) (out_Domains a)
    \<longleftrightarrow> dom_Domain ` set (spec_Domains s) = dro_Domain ` set (out_Domains a)"
    using assms by (intro domains_compare) (simp_all add: specDistinct_def awsDistinct_def)
  have par: "length (spec_Parameters s) = length (out_Parameters a) \<and>
      list_all (\<lambda>p. mapGet [] (mapFromList (map (\<lambda>p. (param_Name p, param_Value p))
        (spec_Parameters s)) Map.empty) (pin_Name p) = pin_Value p) (out_Parameters a)
    \<longleftrightarrow> map_of (map (\<lambda>p. (param_Name p, param_Value p)) (spec_Parameters s)) =
        map_of (map (\<lambda>p. (pin_Name p, pin_Value p)) (out_Parameters a))"
    using assms
      params_compare [of "map (\<lambda>p. (param_Name p, param_Value p)) (spec_Parameters s)"
        "map (\<lambda>p. (pin_Name p, pin_Value p)) (out_Parameters a)"]
    by (simp add: specDistinct_def awsDistinct_def list_all_iff comp_def)
  have cus: "customizationsMatch (spec_Customizations s) (out_Customizations a) \<longleftrightarrow>
      v_custom (specView s) = v_custom (awsView a)"
    unfolding specView_def awsView_def tenantView.simps
    using assms by (intro customizationsMatch_iff) (auto simp: specDistinct_def awsDistinct_def)
  show ?thesis
    unfolding specMatchesAWS_conj dom par cus
    by (auto simp: specView_def awsView_def)
qed

text \<open>Two orders of the same domains.\<close>

definition exSpec :: DistributionTenantSpec where
  "exSpec =
     \<lparr>spec_DistributionId = ''E'', spec_Domains = [\<lparr>dom_Domain = ''a''\<rparr>, \<lparr>dom_Domain = ''b''\<rparr>],
      spec_Enabled = None, spec_ConnectionGroupId = Some ''g'',
      spec_Parameters = [\<lparr>param_Name = ''p'', param_Value = ''v''\<rparr>],
      spec_Customizations = None, spec_ManagedCertificateRequest = None, spec_Tags = [],
      spec_DNS = None\<rparr>"

definition exAWS :: DistributionTenantOutput where
  "exAWS =
     \<lparr>out_ID = ''T'', out_Arn = [], out_DistributionId = ''E'', out_Name = ''n'', out_ETag = ''e'',
      out_Status = ''Deployed'', out_Enabled = True, out_ConnectionGroupId = ''g'',
      out_CreatedTime = None, out_LastModifiedTime = None,
      out_Domains = [\<lparr>dro_Domain = ''b'', dro_Status = []\<rparr>, \<lparr>dro_Domain = ''a'', dro_Status = []\<rparr>],
      out_Parameters = [\<lparr>pin_Name = ''p'', pin_Value = ''v''\<rparr>], out_Customizations = None\<rparr>"

theorem specMatchesAWS_iff_views_witness:
  "specMatchesAWS exSpec exAWS \<longleftrightarrow>
    specView exSpec = awsView exAWS \<and>
    (case spec_ConnectionGroupId exSpec of None \<Rightarrow> True | Some cg \<Rightarrow> cg = out_ConnectionGroupId exAWS)"
  by (rule specMatchesAWS_iff_views)
    (simp_all add: specDistinct_def awsDistinct_def exSpec_def exAWS_def)

end
