(* ===== verification/Conversions.thy ===== *)
theory Conversions
  imports ChangeDetection
begin

text \<open>
  The pure helpers of \<open>internal/controller/distributiontenant_controller.go\<close> that translate
  between the custom resource and the AWS domain types: \<open>buildCreateInput\<close>,
  \<open>buildUpdateInput\<close>, the \<open>specToAWS\<close> converters and \<open>updateStatusFromAWS\<close>. What is pushed
  to AWS is shown to be what the comparison of \<open>ChangeDetection\<close> recognises as in sync.
\<close>

section \<open>Spec to AWS\<close>

definition specToAWSDomains :: "DomainSpec list \<Rightarrow> DomainInput list" where
  "specToAWSDomains domains = map (\<lambda>d. \<lparr>din_Domain = dom_Domain d\<rparr>) domains"

definition specToAWSParameters :: "Parameter list \<Rightarrow> ParameterInput list" where
  "specToAWSParameters params =
     map (\<lambda>p. \<lparr>pin_Name = param_Name p, pin_Value = param_Value p\<rparr>) params"

definition specToAWSCustomizations :: "Customizations \<Rightarrow> CustomizationsInput" where
  "specToAWSCustomizations c =
     \<lparr>cusi_WebAcl = map_option
        (\<lambda>w. \<lparr>waci_Action = wac_Action w, waci_Arn = wac_Arn w\<rparr>) (cus_WebAcl c),
      cusi_Certificate = map_option (\<lambda>x. \<lparr>certi_Arn = cert_Arn x\<rparr>) (cus_Certificate c),
      cusi_GeoRestrictions = map_option
        (\<lambda>g. \<lparr>geoi_RestrictionType = geo_RestrictionType g, geoi_Locations = geo_Locations g\<rparr>)
        (cus_GeoRestrictions c)\<rparr>"

definition specToAWSManagedCertRequest ::
  "ManagedCertificateRequest \<Rightarrow> DomainSpec list \<Rightarrow> ManagedCertificateRequestInput" where
  "specToAWSManagedCertRequest m domains =
     (let primaryDomain =
        (if mcr_PrimaryDomainName m = [] \<and> 0 < length domains then dom_Domain (domains ! 0)
         else mcr_PrimaryDomainName m);
        pdnPtr = (if primaryDomain \<noteq> [] then Some primaryDomain else None) in
      \<lparr>mcri_ValidationTokenHost = mcr_ValidationTokenHost m,
       mcri_PrimaryDomainName = pdnPtr,
       mcri_CertificateTransparencyLoggingPreference =
         mcr_CertificateTransparencyLoggingPreference m\<rparr>)"

definition specToAWSTags :: "Tag list \<Rightarrow> TagInput list" where
  "specToAWSTags tags = map (\<lambda>t. \<lparr>tagi_Key = tag_Key t, tagi_Value = tag_Value t\<rparr>) tags"

definition buildCreateInput :: "DistributionTenant \<Rightarrow> CreateDistributionTenantInput" where
  "buildCreateInput tenant =
     (let spec = dt_Spec tenant in
      \<lparr>ci_DistributionId = spec_DistributionId spec,
       ci_Name = dt_Name tenant,
       ci_Domains = specToAWSDomains (spec_Domains spec),
       ci_Enabled = spec_Enabled spec,
       ci_ConnectionGroupId = spec_ConnectionGroupId spec,
       ci_Parameters = (if 0 < length (spec_Parameters spec)
          then specToAWSParameters (spec_Parameters spec) else []),
       ci_Customizations = map_option specToAWSCustomizations (spec_Customizations spec),
       ci_ManagedCertificateRequest = map_option
          (\<lambda>m. specToAWSManagedCertRequest m (spec_Domains spec))
          (spec_ManagedCertificateRequest spec),
       ci_Tags = (if 0 < length (spec_Tags spec) then specToAWSTags (spec_Tags spec) else [])\<rparr>)"

definition buildUpdateInput :: "DistributionTenant \<Rightarrow> string \<Rightarrow> UpdateDistributionTenantInput" where
  "buildUpdateInput tenant eTag =
     (let spec = dt_Spec tenant in
      \<lparr>ui_ID = st_ID (dt_Status tenant),
       ui_DistributionId = spec_DistributionId spec,
       ui_IfMatch = eTag,
       ui_Domains = specToAWSDomains (spec_Domains spec),
       ui_Enabled = spec_Enabled spec,
       ui_ConnectionGroupId = spec_ConnectionGroupId spec,
       ui_Parameters = (if 0 < length (spec_Parameters spec)
          then specToAWSParameters (spec_Parameters spec) else []),
       ui_Customizations = map_option specToAWSCustomizations (spec_Customizations spec),
       ui_ManagedCertificateRequest = map_option
          (\<lambda>m. specToAWSManagedCertRequest m (spec_Domains spec))
          (spec_ManagedCertificateRequest spec)\<rparr>)"

section \<open>AWS to status\<close>

definition updateStatusFromAWS ::
  "DistributionTenantOutput \<Rightarrow> DistributionTenant \<Rightarrow> DistributionTenant" where
  "updateStatusFromAWS out = updStatus (\<lambda>st.
     st\<lparr>st_CreatedTime := (case out_CreatedTime out of
           None \<Rightarrow> st_CreatedTime st | Some t \<Rightarrow> Some t),
        st_LastModifiedTime := (case out_LastModifiedTime out of
           None \<Rightarrow> st_LastModifiedTime st | Some t \<Rightarrow> Some t),
        st_DomainResults := map (\<lambda>d. \<lparr>dr_Domain = dro_Domain d, dr_Status = dro_Status d\<rparr>)
           (out_Domains out)\<rparr>)"

definition allDomainsActive :: "DistributionTenant \<Rightarrow> bool" where
  "allDomainsActive tenant =
     (let drs = st_DomainResults (dt_Status tenant) in
      if length drs = 0 then False else list_all (\<lambda>dr. dr_Status dr = ''active'') drs)"

definition domainsToStrings :: "DomainSpec list \<Rightarrow> string list" where
  "domainsToStrings domains = map dom_Domain domains"

section \<open>What is pushed is recognised as in sync\<close>

lemma specToAWS_simps [simp]:
  "map din_Domain (specToAWSDomains ds) = map dom_Domain ds"
  "length (specToAWSDomains ds) = length ds"
  "length (specToAWSParameters ps) = length ps"
  "specToAWSDomains [] = []" "specToAWSParameters [] = []" "specToAWSTags [] = []"
  by (simp_all add: specToAWSDomains_def specToAWSParameters_def specToAWSTags_def comp_def)

lemma buildUpdateInput_simps [simp]:
  "ui_ID (buildUpdateInput t e) = st_ID (dt_Status t)"
  "ui_IfMatch (buildUpdateInput t e) = e"
  "ui_DistributionId (buildUpdateInput t e) = spec_DistributionId (dt_Spec t)"
  "ui_Enabled (buildUpdateInput t e) = spec_Enabled (dt_Spec t)"
  "ui_ConnectionGroupId (buildUpdateInput t e) = spec_ConnectionGroupId (dt_Spec t)"
  "ui_Domains (buildUpdateInput t e) = specToAWSDomains (spec_Domains (dt_Spec t))"
  "ui_Parameters (buildUpdateInput t e) = specToAWSParameters (spec_Parameters (dt_Spec t))"
  "ui_Customizations (buildUpdateInput t e) =
     map_option specToAWSCustomizations (spec_Customizations (dt_Spec t))"
  by (simp_all add: buildUpdateInput_def Let_def)

lemma buildCreateInput_simps [simp]:
  "ci_Name (buildCreateInput t) = dt_Name t"
  "ci_DistributionId (buildCreateInput t) = spec_DistributionId (dt_Spec t)"
  "ci_Enabled (buildCreateInput t) = spec_Enabled (dt_Spec t)"
  "ci_ConnectionGroupId (buildCreateInput t) = spec_ConnectionGroupId (dt_Spec t)"
  "ci_Domains (buildCreateInput t) = specToAWSDomains (spec_Domains (dt_Spec t))"
  "ci_Parameters (buildCreateInput t) = specToAWSParameters (spec_Parameters (dt_Spec t))"
  "ci_Customizations (buildCreateInput t) =
     map_option specToAWSCustomizations (spec_Customizations (dt_Spec t))"
  by (simp_all add: buildCreateInput_def Let_def)

lemma updateStatusFromAWS_simps [simp]:
  "dt_Meta (updateStatusFromAWS out t) = dt_Meta t"
  "dt_Spec (updateStatusFromAWS out t) = dt_Spec t"
  "st_ID (dt_Status (updateStatusFromAWS out t)) = st_ID (dt_Status t)"
  "st_ETag (dt_Status (updateStatusFromAWS out t)) = st_ETag (dt_Status t)"
  "st_ObservedGeneration (dt_Status (updateStatusFromAWS out t)) =
     st_ObservedGeneration (dt_Status t)"
  "st_DNSChangeId (dt_Status (updateStatusFromAWS out t)) = st_DNSChangeId (dt_Status t)"
  "st_DNSTarget (dt_Status (updateStatusFromAWS out t)) = st_DNSTarget (dt_Status t)"
  "st_Conditions (dt_Status (updateStatusFromAWS out t)) = st_Conditions (dt_Status t)"
  "map dr_Domain (st_DomainResults (dt_Status (updateStatusFromAWS out t))) =
     map dro_Domain (out_Domains out)"
  by (simp_all add: updateStatusFromAWS_def comp_def)

lemma customizations_pushed:
  "customizationsMatch c (map_option specToAWSCustomizations c)"
proof (cases c)
  case (Some x)
  have "geoRestrictionsMatch g (map_option (\<lambda>g. \<lparr>geoi_RestrictionType = geo_RestrictionType g,
      geoi_Locations = geo_Locations g\<rparr>) g)" for g
    by (cases g) (simp_all add: geoRestrictionsMatch_def list_all_iff Let_def)
  then show ?thesis using Some
    by (simp add: customizationsMatch_def specToAWSCustomizations_def webAclMatch_iff
        certificateMatch_iff option.map_comp comp_def)
qed (simp add: customizationsMatch_def)

text \<open>AWS holding what a spec pushes: the fields the two builders fill from it.\<close>

definition holdsPushed :: "DistributionTenantSpec \<Rightarrow> DistributionTenantOutput \<Rightarrow> bool" where
  "holdsPushed s a \<longleftrightarrow>
     out_DistributionId a = spec_DistributionId s \<and>
     map dro_Domain (out_Domains a) = map dom_Domain (spec_Domains s) \<and>
     out_Enabled a = (case spec_Enabled s of None \<Rightarrow> True | Some b \<Rightarrow> b) \<and>
     (case spec_ConnectionGroupId s of None \<Rightarrow> True | Some cg \<Rightarrow> out_ConnectionGroupId a = cg) \<and>
     out_Parameters a = specToAWSParameters (spec_Parameters s) \<and>
     out_Customizations a = map_option specToAWSCustomizations (spec_Customizations s)"

lemma holdsPushed_matches:
  assumes "holdsPushed s a" and "distinct (map param_Name (spec_Parameters s))"
  shows "specMatchesAWS s a"
proof -
  let ?ps = "map (\<lambda>p. (param_Name p, param_Value p)) (spec_Parameters s)"
  have dom: "dro_Domain ` set (out_Domains a) = dom_Domain ` set (spec_Domains s)"
    "length (out_Domains a) = length (spec_Domains s)"
    using assms(1) unfolding holdsPushed_def by (metis set_map, metis length_map)
  have "mapFromList ?ps Map.empty = map_of ?ps"
    using assms(2) by (intro mapFromList_distinct) (simp add: comp_def)
  moreover have "map_of ?ps (param_Name p) = Some (param_Value p)"
    if "p \<in> set (spec_Parameters s)" for p
    using that assms(2) by (intro map_of_is_SomeI) (auto simp: comp_def)
  ultimately have par: "list_all (\<lambda>p. mapGet [] (mapFromList ?ps Map.empty) (pin_Name p) =
      pin_Value p) (out_Parameters a)"
    using assms(1) by (simp add: holdsPushed_def specToAWSParameters_def list_all_iff mapGet_def)
  show ?thesis
    using assms(1) dom par customizations_pushed
    by (auto simp: specMatchesAWS_conj holdsPushed_def list_all_iff mapGet_True_iff
        split: option.splits)
qed

end
