(* ===== verification/Validation.thy ===== *)
theory Validation
  imports Conversions
begin

text \<open>
  The local checks of the DistributionTenant controller that need no call: the resource name
  pattern, the coverage of domains by certificate SANs, and the checks of \<open>validateSpec\<close>
  against the configuration of the parent distribution.
\<close>

section \<open>The resource name\<close>

text \<open>\<open>^[a-z0-9][a-z0-9.\-]{1,126}[a-z0-9]$\<close>, read from both ends.\<close>

definition lowerAlnum :: "char \<Rightarrow> bool" where
  "lowerAlnum c =
     (let n = (of_char c :: nat) in (97 \<le> n \<and> n \<le> 122) \<or> (48 \<le> n \<and> n \<le> 57))"

definition nameMiddle :: "char \<Rightarrow> bool" where
  "nameMiddle c = (lowerAlnum c \<or> c = CHR ''.'' \<or> c = CHR ''-'')"

definition tenantNameRegex :: "string \<Rightarrow> bool" where
  "tenantNameRegex s =
     (case s of
        [] \<Rightarrow> False
      | c # rest \<Rightarrow>
          (case rev rest of
             [] \<Rightarrow> False
           | d # middle \<Rightarrow>
               lowerAlnum c \<and> 1 \<le> length middle \<and> length middle \<le> 126 \<and>
               list_all nameMiddle middle \<and> lowerAlnum d))"

text \<open>The pattern as the concatenation it denotes.\<close>

lemma tenantNameRegex_iff:
  "tenantNameRegex s \<longleftrightarrow>
     (\<exists>c m d. s = c # m @ [d] \<and> lowerAlnum c \<and> lowerAlnum d \<and>
        1 \<le> length m \<and> length m \<le> 126 \<and> (\<forall>x \<in> set m. nameMiddle x))"
proof (cases s)
  case Nil
  then show ?thesis by (simp add: tenantNameRegex_def)
next
  case (Cons c rest)
  show ?thesis
  proof (cases rest rule: rev_cases)
    case Nil
    with Cons show ?thesis by (simp add: tenantNameRegex_def)
  next
    case (snoc m d)
    with Cons show ?thesis by (auto simp: tenantNameRegex_def list_all_iff)
  qed
qed

text \<open>A resource name is accepted exactly when it has 3 to 128 characters, all of them
  lowercase letters, digits, dots or hyphens, and starts and ends with a letter or digit.\<close>

theorem tenant_name_accepted_iff:
  "tenantNameRegex s \<longleftrightarrow>
     3 \<le> length s \<and> length s \<le> 128 \<and> set s \<subseteq> {x. nameMiddle x} \<and>
     lowerAlnum (hd s) \<and> lowerAlnum (last s)"
proof
  assume "tenantNameRegex s"
  then show "3 \<le> length s \<and> length s \<le> 128 \<and> set s \<subseteq> {x. nameMiddle x} \<and>
     lowerAlnum (hd s) \<and> lowerAlnum (last s)"
    by (auto simp: tenantNameRegex_iff nameMiddle_def)
next
  assume *: "3 \<le> length s \<and> length s \<le> 128 \<and> set s \<subseteq> {x. nameMiddle x} \<and>
     lowerAlnum (hd s) \<and> lowerAlnum (last s)"
  then obtain c rest where s: "s = c # rest" by (cases s) auto
  with * have "rest \<noteq> []" by auto
  then obtain m d where m: "rest = m @ [d]" by (cases rest rule: rev_cases) auto
  from * show "tenantNameRegex s"
    unfolding tenantNameRegex_iff s m by auto
qed

section \<open>Certificate SANs\<close>

fun sanLoop :: "string \<Rightarrow> string list \<Rightarrow> bool" where
  "sanLoop domain [] = False"
| "sanLoop domain (san0 # sans) =
     (let san = ToLower san0 in
      if san = domain then True
      else if HasPrefix san ''*.'' \<and>
        (let wildcard = drop 2 san in
         case IndexByte domain (CHR ''.'') of
           None \<Rightarrow> False
         | Some idx \<Rightarrow> 0 < idx \<and> drop (idx + 1) domain = wildcard) then True
      else sanLoop domain sans)"

definition domainCoveredBySANs :: "string \<Rightarrow> string list \<Rightarrow> bool" where
  "domainCoveredBySANs domain sans = sanLoop (ToLower domain) sans"

text \<open>One SAN entry covers a domain: equal, or a wildcard over exactly one non-empty label.\<close>

definition sanCovers :: "string \<Rightarrow> string \<Rightarrow> bool" where
  "sanCovers san d \<longleftrightarrow> ToLower san = ToLower d \<or>
     (\<exists>label parent. ToLower d = label @ CHR ''.'' # parent \<and> label \<noteq> [] \<and>
        CHR ''.'' \<notin> set label \<and> ToLower san = ''*.'' @ parent)"

lemma wildcard_step:
  "(HasPrefix san ''*.'' \<and>
     (case IndexByte d (CHR ''.'') of
        None \<Rightarrow> False
      | Some idx \<Rightarrow> 0 < idx \<and> drop (idx + 1) d = drop 2 san))
   \<longleftrightarrow> (\<exists>label parent. d = label @ CHR ''.'' # parent \<and> label \<noteq> [] \<and>
        CHR ''.'' \<notin> set label \<and> san = ''*.'' @ parent)"
proof (cases "IndexByte d (CHR ''.'')")
  case None
  then have "CHR ''.'' \<notin> set d" by simp
  then show ?thesis using None by (auto simp del: IndexByte_None)
next
  case (Some i)
  then obtain a b where ab: "d = a @ CHR ''.'' # b" "CHR ''.'' \<notin> set a" "length a = i"
    by (auto simp: IndexByte_Some)
  have uniq: "label = a \<and> parent = b"
    if "d = label @ CHR ''.'' # parent" "CHR ''.'' \<notin> set label" for label parent
  proof -
    have "IndexByte d (CHR ''.'') = Some (length label)"
      using that by (auto simp: IndexByte_Some)
    then have "length label = length a" using Some ab by simp
    then show ?thesis using that ab by simp
  qed
  show ?thesis
  proof
    assume "HasPrefix san ''*.'' \<and>
     (case IndexByte d (CHR ''.'') of None \<Rightarrow> False
      | Some idx \<Rightarrow> 0 < idx \<and> drop (idx + 1) d = drop 2 san)"
    then obtain t where "san = ''*.'' @ t" "0 < i" "drop (i + 1) d = t"
      using Some by (auto simp: HasPrefix_iff)
    moreover have "drop (i + 1) d = b" using ab by simp
    ultimately show "\<exists>label parent. d = label @ CHR ''.'' # parent \<and> label \<noteq> [] \<and>
        CHR ''.'' \<notin> set label \<and> san = ''*.'' @ parent"
      using ab by (intro exI [of _ a] exI [of _ b]) auto
  next
    assume "\<exists>label parent. d = label @ CHR ''.'' # parent \<and> label \<noteq> [] \<and>
        CHR ''.'' \<notin> set label \<and> san = ''*.'' @ parent"
    then have "a \<noteq> []" "san = ''*.'' @ b" using uniq by auto
    then show "HasPrefix san ''*.'' \<and>
     (case IndexByte d (CHR ''.'') of None \<Rightarrow> False
      | Some idx \<Rightarrow> 0 < idx \<and> drop (idx + 1) d = drop 2 san)"
      using Some ab by auto
  qed
qed

lemma sanLoop_iff:
  "sanLoop d sans \<longleftrightarrow> (\<exists>san \<in> set sans. ToLower san = d \<or>
     (\<exists>label parent. d = label @ CHR ''.'' # parent \<and> label \<noteq> [] \<and>
        CHR ''.'' \<notin> set label \<and> ToLower san = ''*.'' @ parent))"
proof (induction sans)
  case (Cons san sans)
  show ?case
    unfolding sanLoop.simps Let_def wildcard_step Cons.IH by simp blast
qed simp

text \<open>The SAN check accepts a domain exactly when some SAN equals it, ignoring case, or
  is a wildcard whose parent is what follows the domain's first label (so a wildcard covers
  one level: neither the parent itself nor a deeper name).\<close>

theorem domain_covered_iff:
  "domainCoveredBySANs d sans \<longleftrightarrow> (\<exists>san \<in> set sans. sanCovers san d)"
  unfolding domainCoveredBySANs_def sanLoop_iff sanCovers_def by (rule refl)

section \<open>The checks against the parent distribution\<close>

definition msgBadName :: string where
  "msgBadName = ''resource name must be 3-128 characters, start and end with a lowercase alphanumeric, '' @
     ''and contain only lowercase alphanumerics, dots, and hyphens''"

definition msgDistributionNotFound :: "string \<Rightarrow> string" where
  "msgDistributionNotFound i =
     ''distribution '' @ Quote i @ '' not found: verify spec.distributionId''"

definition msgNoCertificate :: string where
  "msgNoCertificate = ''the parent distribution does not have a custom ACM certificate; '' @
     ''the tenant must provide either spec.customizations.certificate.arn '' @
     ''or spec.managedCertificateRequest to cover its domain(s)''"

definition msgMissingParameters :: "string list \<Rightarrow> string" where
  "msgMissingParameters ps =
     ''the parent distribution requires the following parameter(s) that are not provided: '' @
     Join ps '', ''"

definition hasCertCoverage :: "DistributionTenantSpec \<Rightarrow> bool" where
  "hasCertCoverage spec =
     ((case spec_Customizations spec of None \<Rightarrow> False | Some c \<Rightarrow> cus_Certificate c \<noteq> None) \<or>
      spec_ManagedCertificateRequest spec \<noteq> None)"

definition missingParams :: "DistributionTenantSpec \<Rightarrow> ParameterDefinitionOutput list \<Rightarrow> string list" where
  "missingParams spec defs =
     (let tenantParams =
        mapFromList (map (\<lambda>p. (param_Name p, param_Value p)) (spec_Parameters spec)) Map.empty in
      map pd_Name (filter (\<lambda>pd. pd_Required pd \<and> pd_DefaultValue pd = [] \<and>
        tenantParams (pd_Name pd) = None) defs))"

definition distInfoErrors :: "DistributionTenantSpec \<Rightarrow> DistributionInfo \<Rightarrow> string list" where
  "distInfoErrors spec info =
     (if (di_UsesCloudFrontDefaultCert info \<or> di_ViewerCertificateArn info = []) \<and>
         \<not> hasCertCoverage spec
      then [msgNoCertificate] else []) @
     (if 0 < length (di_ParameterDefinitions info)
      then (let missing = missingParams spec (di_ParameterDefinitions info) in
            if 0 < length missing then [msgMissingParameters missing] else [])
      else [])"

lemma missingParams_set:
  "set (missingParams spec defs) =
     {pd_Name pd | pd. pd \<in> set defs \<and> pd_Required pd \<and> pd_DefaultValue pd = [] \<and>
        pd_Name pd \<notin> param_Name ` set (spec_Parameters spec)}"
proof -
  let ?m = "mapFromList (map (\<lambda>p. (param_Name p, param_Value p)) (spec_Parameters spec)) Map.empty"
  have "dom ?m = param_Name ` set (spec_Parameters spec)"
    by (simp add: dom_mapFromList image_image)
  then have "?m k = None \<longleftrightarrow> k \<notin> param_Name ` set (spec_Parameters spec)" for k
    by (metis domIff)
  then show ?thesis by (auto simp: missingParams_def Let_def)
qed

lemma missingParams_Nil:
  "missingParams spec defs = [] \<longleftrightarrow>
     (\<forall>pd \<in> set defs. pd_Required pd \<longrightarrow> pd_DefaultValue pd = [] \<longrightarrow>
        (\<exists>p \<in> set (spec_Parameters spec). param_Name p = pd_Name pd))"
proof -
  have "missingParams spec defs = [] \<longleftrightarrow> set (missingParams spec defs) = {}" by simp
  also have "\<dots> \<longleftrightarrow> (\<forall>pd \<in> set defs. pd_Required pd \<longrightarrow> pd_DefaultValue pd = [] \<longrightarrow>
        pd_Name pd \<in> param_Name ` set (spec_Parameters spec))"
    unfolding missingParams_set by blast
  also have "\<dots> \<longleftrightarrow> (\<forall>pd \<in> set defs. pd_Required pd \<longrightarrow> pd_DefaultValue pd = [] \<longrightarrow>
        (\<exists>p \<in> set (spec_Parameters spec). param_Name p = pd_Name pd))"
    by (metis (no_types, lifting) image_iff)
  finally show ?thesis .
qed

lemma distInfoErrors_Nil:
  "distInfoErrors spec info = [] \<longleftrightarrow>
     (di_UsesCloudFrontDefaultCert info \<or> di_ViewerCertificateArn info = [] \<longrightarrow>
        hasCertCoverage spec) \<and>
     missingParams spec (di_ParameterDefinitions info) = []"
proof -
  have "missingParams spec [] = []" by (simp add: missingParams_Nil)
  then show ?thesis by (auto simp: distInfoErrors_def Let_def)
qed

text \<open>The checks against the parent distribution pass exactly when the tenant brings a
  certificate (own or managed) whenever the distribution has no custom one, and provides a
  value for every required parameter without default.\<close>

theorem dist_info_errors_none_iff:
  "distInfoErrors spec info = [] \<longleftrightarrow>
     ((di_ViewerCertificateArn info \<noteq> [] \<and> \<not> di_UsesCloudFrontDefaultCert info) \<or>
      (\<exists>c x. spec_Customizations spec = Some c \<and> cus_Certificate c = Some x) \<or>
      (\<exists>r. spec_ManagedCertificateRequest spec = Some r)) \<and>
     {pd_Name pd | pd. pd \<in> set (di_ParameterDefinitions info) \<and> pd_Required pd \<and>
        pd_DefaultValue pd = []} \<subseteq> param_Name ` set (spec_Parameters spec)"
proof -
  have "missingParams spec defs = [] \<longleftrightarrow> {pd_Name pd | pd. pd \<in> set defs \<and> pd_Required pd \<and>
      pd_DefaultValue pd = []} \<subseteq> param_Name ` set (spec_Parameters spec)" for defs
    using missingParams_set [of spec defs] by (auto simp: set_empty [symmetric] simp del: set_empty)
  then show ?thesis
    unfolding distInfoErrors_Nil hasCertCoverage_def by (auto split: option.split)
qed

end
