(* ===== verification/TenantHandlers.thy ===== *)
theory TenantHandlers
  imports Validation Runtime
begin

text \<open>
  The handlers of \<open>internal/controller/distributiontenant_controller.go\<close> that other handlers
  call: error handling, spec validation, conditions, and the management of DNS records.
  Each is one definition in the order and with the branches of the code; log lines are left
  out, metrics and events are entries of the trace.
\<close>

section \<open>Messages\<close>

definition msgAWSFailed :: "string \<Rightarrow> go_error \<Rightarrow> string" where
  "msgAWSFailed operation err = ''AWS '' @ operation @ '' failed: '' @ errorText err"

definition msgTerminal :: "string \<Rightarrow> go_error \<Rightarrow> string" where
  "msgTerminal operation err = ''Terminal error during '' @ operation @ '': '' @ errorText err"

definition msgDNSFailed :: "string \<Rightarrow> go_error \<Rightarrow> string" where
  "msgDNSFailed operation err = ''DNS '' @ operation @ '' failed: '' @ errorText err"

definition msgTerminalDNS :: "string \<Rightarrow> go_error \<Rightarrow> string" where
  "msgTerminalDNS operation err =
     ''Terminal DNS error during '' @ operation @ '': '' @ errorText err"

definition msgValidationFailed :: "string list \<Rightarrow> string" where
  "msgValidationFailed errs = ''Spec validation failed: '' @ Join errs ''; ''"

definition msgSANMismatch :: "string \<Rightarrow> string list \<Rightarrow> string" where
  "msgSANMismatch certArn uncovered =
     ''Certificate '' @ certArn @ '' does not cover domain(s): '' @ Join uncovered '', '' @
     ''. Add a managed certificate request or use a certificate whose SANs include these domains.''"

definition msgPropagating :: "string \<Rightarrow> string" where
  "msgPropagating changeId = ''Waiting for Route53 change '' @ changeId @ '' to propagate''"

definition msgPropagated :: string where
  "msgPropagated = ''DNS CNAME records are propagated''"

definition msgDNSNotConfigured :: string where
  "msgDNSNotConfigured = ''DNS management is not configured''"

definition msgInSync :: string where
  "msgInSync = ''Spec is in sync with AWS''"

definition msgDomainValidation :: "go_error \<Rightarrow> string" where
  "msgDomainValidation err =
     ''Domain validation pending: CloudFront cannot verify domain ownership yet '' @
     ''(DNS may still be propagating globally). Will retry. Original error: '' @ errorText err"

section \<open>AWS errors\<close>

definition handleTerminalError ::
  "'w Reconciler \<Rightarrow> go_error \<Rightarrow> string \<Rightarrow> string \<Rightarrow> string \<Rightarrow> ('w, hres) act" where
  "handleTerminalError R err operation reason errorType = do {
     tenant \<leftarrow> getObj;
     let msg = msgAWSFailed operation err;
     if conditionMatches R tenant ConditionTypeReady ConditionFalse reason msg
     then returns (Done (requeueIn requeueLong))
     else do {
       emit (MetricError errorType);
       setCondition R ConditionTypeReady ConditionFalse reason msg;
       setCondition R ConditionTypeSynced ConditionFalse reason msg;
       persistStatus R (do {
         recordEvent R ''Warning'' reason (msgTerminal operation err);
         returns (Done (requeueIn requeueLong))
       })
     }
   }"

definition terminalReason :: "go_error \<Rightarrow> string \<times> string" where
  "terminalReason err =
     (if errorsIs (Some err) ErrDomainConflict then (ReasonDomainConflict, ''domain_conflict'')
      else if errorsIs (Some err) ErrAccessDenied then (ReasonAccessDenied, ''access_denied'')
      else if errorsIs (Some err) ErrInvalidArgument then (ReasonInvalidSpec, ''invalid_spec'')
      else if errorsIs (Some err) ErrDistributionNotFound
      then (ReasonInvalidSpec, ''distribution_not_found'')
      else if errorsIs (Some err) ErrConnectionGroupNotFound
      then (ReasonInvalidSpec, ''connection_group_not_found'')
      else (ReasonAWSError, ''unknown''))"

definition handleAWSError :: "'w Reconciler \<Rightarrow> go_error \<Rightarrow> string \<Rightarrow> ('w, hres) act" where
  "handleAWSError R err operation =
     (if IsTerminalError (Some err) then
        (case terminalReason err of
           (reason, errorType) \<Rightarrow> handleTerminalError R err operation reason errorType)
      else if IsThrottling (Some err) then do {
        emit (MetricError ''throttling'');
        returns (Done (requeueIn (requeueShort * 2)))
      } else do {
        emit (MetricError ''retryable'');
        returns (Fail (wrapErr (''AWS '' @ operation @ '' failed (retryable): '') err))
      })"

section \<open>DNS errors\<close>

definition dnsErrorType :: "go_error \<Rightarrow> string" where
  "dnsErrorType err =
     (if errorsIs (Some err) ErrHostedZoneNotFound then ''dns_zone_not_found''
      else if errorsIs (Some err) ErrDNSAccessDenied then ''dns_access_denied''
      else if errorsIs (Some err) ErrDNSInvalidInput then ''dns_invalid_input''
      else if errorsIs (Some err) ErrConnectionGroupNotFound then ''connection_group_not_found''
      else ''dns_error'')"

definition handleDNSError :: "'w Reconciler \<Rightarrow> go_error \<Rightarrow> string \<Rightarrow> ('w, hres) act" where
  "handleDNSError R err operation =
     (if IsTerminalError (Some err) then do {
        emit (MetricError (dnsErrorType err));
        setCondition R ConditionTypeDNSReady ConditionFalse ReasonDNSError
          (msgDNSFailed operation err);
        setCondition R ConditionTypeReady ConditionFalse ReasonDNSError
          (msgDNSFailed operation err);
        persistStatus R (do {
          recordEvent R ''Warning'' ReasonDNSError (msgTerminalDNS operation err);
          returns (Done (requeueIn requeueLong))
        })
      } else if IsDNSThrottling (Some err) then do {
        emit (MetricError ''dns_throttling'');
        returns (Done (requeueIn (requeueShort * 2)))
      } else do {
        emit (MetricError ''dns_retryable'');
        returns (Fail (wrapErr (''DNS '' @ operation @ '' failed (retryable): '') err))
      })"

section \<open>Pending domain validation\<close>

definition isDomainValidationPending :: "DistributionTenant \<Rightarrow> go_error \<Rightarrow> bool" where
  "isDomainValidationPending tenant err =
     (errorsIs (Some err) ErrInvalidArgument \<and>
      (case spec_ManagedCertificateRequest (dt_Spec tenant) of
         None \<Rightarrow> False
       | Some m \<Rightarrow> mcr_ValidationTokenHost m = validationTokenHostCloudFront))"

definition handleDomainValidationPending :: "'w Reconciler \<Rightarrow> go_error \<Rightarrow> ('w, hres) act" where
  "handleDomainValidationPending R err = do {
     emit (MetricError ''domain_validation_pending'');
     setCondition R ConditionTypeReady ConditionFalse ReasonDomainValidationPending
       (msgDomainValidation err);
     persistStatus R (do {
       recordEvent R ''Warning'' ReasonDomainValidationPending (msgDomainValidation err);
       returns (Done (requeueIn requeueLong))
     })
   }"

section \<open>Validation against the parent distribution\<close>

text \<open>The validation errors, or \<open>None\<close> where validation is skipped (transient failure of the
  distribution lookup, and a good name).\<close>

definition validationErrors ::
  "DistributionTenant \<Rightarrow> go_error + DistributionInfo option \<Rightarrow> string list option" where
  "validationErrors tenant info =
     (let nameErrs = (if tenantNameRegex (dt_Name tenant) then [] else [msgBadName]) in
      case info of
        Inl err \<Rightarrow>
          if errorsIs (Some err) ErrDistributionNotFound
          then Some (nameErrs @
            [msgDistributionNotFound (spec_DistributionId (dt_Spec tenant))])
          else if length nameErrs = 0 then None else Some nameErrs
      | Inr None \<Rightarrow> Some nameErrs
      | Inr (Some distInfo) \<Rightarrow> Some (nameErrs @ distInfoErrors (dt_Spec tenant) distInfo))"

definition validateSpec :: "'w Reconciler \<Rightarrow> ('w, step) act" where
  "validateSpec R = do {
     tenant \<leftarrow> getObj;
     let distId = spec_DistributionId (dt_Spec tenant);
     info \<leftarrow> extern (cf_GetDistributionInfo (r_CFClient R) distId) (CfInfo distId);
     case validationErrors tenant info of
       None \<Rightarrow> returns Proceed
     | Some errs \<Rightarrow>
         if 0 < length errs then do {
           let msg = msgValidationFailed errs;
           if conditionMatches R tenant ConditionTypeReady ConditionFalse ReasonValidationFailed msg
           then returns (Handled (Done (requeueIn requeueLong)))
           else do {
             recordEvent R ''Warning'' ReasonValidationFailed msg;
             setCondition R ConditionTypeReady ConditionFalse ReasonValidationFailed msg;
             setCondition R ConditionTypeSynced ConditionFalse ReasonValidationFailed msg;
             res \<leftarrow> persistStatus R (returns (Done (requeueIn requeueLong)));
             returns (Handled res)
           }
         } else returns Proceed
   }"

section \<open>The certificate condition\<close>

definition tokenInfo :: "ValidationTokenDetailOutput list \<Rightarrow> string list" where
  "tokenInfo vtds =
     map (\<lambda>v. vtd_Domain v @ '': redirect '' @ vtd_RedirectFrom v @ '' -> '' @ vtd_RedirectTo v)
       (filter (\<lambda>v. vtd_RedirectFrom v \<noteq> [] \<and> vtd_RedirectTo v \<noteq> []) vtds)"

definition msgPendingValidation :: "ManagedCertificateDetailsOutput \<Rightarrow> string" where
  "msgPendingValidation d =
     ''Managed certificate validation is pending'' @
     (if mcd_ValidationTokenHost d = ''self-hosted'' \<and> 0 < length (mcd_ValidationTokenDetails d)
      then (if 0 < length (tokenInfo (mcd_ValidationTokenDetails d))
            then ''; serve these HTTP validation tokens: '' @
              Join (tokenInfo (mcd_ValidationTokenDetails d)) ''; ''
            else [])
      else if mcd_ValidationTokenHost d = validationTokenHostCloudFront
      then ''; ensure DNS CNAME records point to CloudFront'' else [])"

definition certificateCondition ::
  "DistributionTenant \<Rightarrow> ManagedCertificateDetailsOutput option \<Rightarrow>
   ConditionStatus \<times> string \<times> string" where
  "certificateCondition tenant certDetails =
     (if spec_ManagedCertificateRequest (dt_Spec tenant) = None then
        (ConditionTrue, ReasonCertNotConfigured, ''No managed certificate request configured'')
      else case certDetails of
        Some d \<Rightarrow>
          let status = mcd_CertificateStatus d in
          if status = ''issued'' then
            (if allDomainsActive tenant then
               (ConditionTrue, ReasonCertValidated,
                ''Managed certificate '' @ mcd_CertificateArn d @ '' is validated and active'')
             else
               (ConditionFalse, ReasonCertAttaching,
                ''Managed certificate '' @ mcd_CertificateArn d @
                '' is issued, attaching to domains''))
          else if status = ''pending-validation'' then
            (ConditionFalse, ReasonCertPending, msgPendingValidation d)
          else if status = ''failed'' \<or> status = ''validation-timed-out'' \<or>
                  status = ''revoked'' \<or> status = ''expired'' then
            (ConditionFalse, ReasonCertFailed,
             ''Managed certificate has status '' @ Quote status @
             ''; you may need to recreate the tenant or check DNS configuration'')
          else
            (ConditionFalse, ReasonCertPending, ''Managed certificate status: '' @ status)
      | None \<Rightarrow>
          if allDomainsActive tenant then
            (ConditionTrue, ReasonCertValidated, ''Managed certificate is validated and active'')
          else
            (ConditionFalse, ReasonCertPending,
             ''Managed certificate validation is pending; ensure DNS CNAME records are configured''))"

definition updateCertificateCondition ::
  "'w Reconciler \<Rightarrow> ManagedCertificateDetailsOutput option \<Rightarrow> ('w, unit) act" where
  "updateCertificateCondition R certDetails = do {
     tenant \<leftarrow> getObj;
     case certificateCondition tenant certDetails of
       (status, reason, msg) \<Rightarrow>
         setCondition R ConditionTypeCertificateReady status reason msg
   }"

section \<open>DNS records\<close>

text \<open>The record set of a tenant: one CNAME per domain, with the configured TTL or 300 s.\<close>

definition dnsTTL :: "DNSConfig \<Rightarrow> int64" where
  "dnsTTL dns = (case dns_TTL dns of None \<Rightarrow> 300 | Some ttl \<Rightarrow> ttl)"

definition cnameRecords :: "string list \<Rightarrow> string \<Rightarrow> int64 \<Rightarrow> DNSRecord list" where
  "cnameRecords names target ttl =
     map (\<lambda>n. \<lparr>rec_Name = n, rec_Target = target, rec_TTL = ttl\<rparr>) names"

definition resolveCNAMETarget :: "'w Reconciler \<Rightarrow> ('w, go_error + string) act" where
  "resolveCNAMETarget R = do {
     tenant \<leftarrow> getObj;
     case spec_ConnectionGroupId (dt_Spec tenant) of
       Some cg \<Rightarrow>
         if cg \<noteq> [] then
           extern (cf_GetConnectionGroupRoutingEndpoint (r_CFClient R) cg) (CfEndpoint cg)
         else extern (cf_GetDefaultConnectionGroupEndpoint (r_CFClient R)) CfDefaultEndpoint
     | None \<Rightarrow> extern (cf_GetDefaultConnectionGroupEndpoint (r_CFClient R)) CfDefaultEndpoint
   }"

definition cleanupDNSRecords :: "'w Reconciler \<Rightarrow> ('w, (go_error, unit) outcome) act" where
  "cleanupDNSRecords R = do {
     tenant \<leftarrow> getObj;
     case spec_DNS (dt_Spec tenant) of
       None \<Rightarrow> returns (Done ())
     | Some dns \<Rightarrow>
         (case dns_HostedZoneId dns of
            None \<Rightarrow> returns (Done ())
          | Some zone \<Rightarrow>
              if st_DNSTarget (dt_Status tenant) = [] then returns (Done ())
              else if r_NewDNSClient R = None then returns (Done ())
              else do {
                let records = cnameRecords (domainsToStrings (spec_Domains (dt_Spec tenant)))
                  (st_DNSTarget (dt_Status tenant)) (dnsTTL dns);
                let input = \<lparr>del_HostedZoneId = zone, del_Records = records\<rparr>;
                c \<leftarrow> getDNSClient R;
                case c of
                  Fail err \<Rightarrow> returns (Fail err)
                | Panic \<Rightarrow> returns Panic
                | Done dnsClient \<Rightarrow> do {
                    r \<leftarrow> extern (dnsc_DeleteCNAMERecords dnsClient input) (DnsDelete input);
                    case r of
                      Inl err \<Rightarrow> returns (Fail err)
                    | Inr _ \<Rightarrow> do {
                        recordEvent R ''Normal'' ''DNSCleaned''
                          (''DNS CNAME records deleted for '' @ showNat (length records) @
                           '' domain(s)'');
                        returns (Done ())
                      }
                  }
              })
   }"

definition upsertDNSForUpdate :: "'w Reconciler \<Rightarrow> ('w, (go_error, unit) outcome) act" where
  "upsertDNSForUpdate R = do {
     tenant \<leftarrow> getObj;
     case spec_DNS (dt_Spec tenant) of
       None \<Rightarrow> returns (Done ())
     | Some dns \<Rightarrow>
         (case dns_HostedZoneId dns of
            None \<Rightarrow> returns (Done ())
          | Some zone \<Rightarrow>
              if r_NewDNSClient R = None then returns (Done ())
              else do {
                t \<leftarrow> (if st_DNSTarget (dt_Status tenant) = [] then do {
                         r \<leftarrow> resolveCNAMETarget R;
                         case r of
                           Inl err \<Rightarrow> returns (Inl (wrapErr
                             ''failed to resolve CNAME target for DNS update: '' err))
                         | Inr target \<Rightarrow> do {
                             modifyObj (updStatus (\<lambda>st. st\<lparr>st_DNSTarget := target\<rparr>));
                             returns (Inr target)
                           }
                       } else returns (Inr (st_DNSTarget (dt_Status tenant))));
                case t of
                  Inl err \<Rightarrow> returns (Fail err)
                | Inr target \<Rightarrow> do {
                    let records = cnameRecords (domainsToStrings (spec_Domains (dt_Spec tenant)))
                      target (dnsTTL dns);
                    let input = \<lparr>upsert_HostedZoneId = zone, upsert_Records = records\<rparr>;
                    c \<leftarrow> getDNSClient R;
                    case c of
                      Fail err \<Rightarrow> returns (Fail err)
                    | Panic \<Rightarrow> returns Panic
                    | Done dnsClient \<Rightarrow> do {
                        r \<leftarrow> extern (dnsc_UpsertCNAMERecords dnsClient input) (DnsUpsert input);
                        case r of
                          Inl err \<Rightarrow> returns (Fail err)
                        | Inr _ \<Rightarrow> returns (Done ())
                      }
                  }
              })
   }"

text \<open>The domains AWS still had at the last observation that the spec no longer lists.\<close>

definition orphanedDomains :: "DistributionTenant \<Rightarrow> string list" where
  "orphanedDomains tenant =
     (let specDomains =
        mapFromList (map (\<lambda>d. (dom_Domain d, True)) (spec_Domains (dt_Spec tenant))) Map.empty in
      map dr_Domain (filter (\<lambda>dr. \<not> mapGet False specDomains (dr_Domain dr))
        (st_DomainResults (dt_Status tenant))))"

definition cleanupOrphanedDNSRecords ::
  "'w Reconciler \<Rightarrow> ('w, (go_error, unit) outcome) act" where
  "cleanupOrphanedDNSRecords R = do {
     tenant \<leftarrow> getObj;
     case spec_DNS (dt_Spec tenant) of
       None \<Rightarrow> returns (Done ())
     | Some dns \<Rightarrow>
         (case dns_HostedZoneId dns of
            None \<Rightarrow> returns (Done ())
          | Some zone \<Rightarrow>
              if r_NewDNSClient R = None \<or> st_DNSTarget (dt_Status tenant) = []
              then returns (Done ())
              else do {
                let orphaned = cnameRecords (orphanedDomains tenant)
                  (st_DNSTarget (dt_Status tenant)) (dnsTTL dns);
                if length orphaned = 0 then returns (Done ())
                else do {
                  let input = \<lparr>del_HostedZoneId = zone, del_Records = orphaned\<rparr>;
                  c \<leftarrow> getDNSClient R;
                  case c of
                    Fail err \<Rightarrow> returns (Fail err)
                  | Panic \<Rightarrow> returns Panic
                  | Done dnsClient \<Rightarrow> do {
                      r \<leftarrow> extern (dnsc_DeleteCNAMERecords dnsClient input) (DnsDelete input);
                      case r of
                        Inl err \<Rightarrow> do {
                          recordEvent R ''Warning'' ReasonDNSError
                            (''Failed to clean up orphaned DNS records: '' @ errorText err);
                          returns (Fail (wrapErr
                            ''failed to clean up orphaned DNS records: '' err))
                        }
                      | Inr _ \<Rightarrow> returns (Done ())
                    }
                }
              })
   }"

definition updateDNSCondition :: "'w Reconciler \<Rightarrow> ('w, unit) act" where
  "updateDNSCondition R = do {
     tenant \<leftarrow> getObj;
     if spec_DNS (dt_Spec tenant) = None then
       setCondition R ConditionTypeDNSReady ConditionTrue ReasonDNSNotConfigured
         msgDNSNotConfigured
     else if st_DNSTarget (dt_Status tenant) \<noteq> [] then
       setCondition R ConditionTypeDNSReady ConditionTrue ReasonDNSReady msgPropagated
     else returns ()
   }"

section \<open>Certificate coverage\<close>

definition uncoveredDomains :: "DistributionTenant \<Rightarrow> string list \<Rightarrow> string list" where
  "uncoveredDomains tenant sans =
     filter (\<lambda>d. \<not> domainCoveredBySANs d sans) (domainsToStrings (spec_Domains (dt_Spec tenant)))"

text \<open>The SANs of one certificate are checked; an empty ARN or a failing lookup skips the check.\<close>

definition checkSANs :: "'w Reconciler \<Rightarrow> 'w ACMClient \<Rightarrow> string \<Rightarrow> ('w, step) act" where
  "checkSANs R acm certArn =
     (if certArn = [] then returns Proceed
      else do {
        r \<leftarrow> extern (acm_GetCertificateSANs acm certArn) (AcmSANs certArn);
        case r of
          Inl err \<Rightarrow> returns Proceed
        | Inr sans \<Rightarrow> do {
            tenant \<leftarrow> getObj;
            let uncovered = uncoveredDomains tenant sans;
            if 0 < length uncovered then do {
              let msg = msgSANMismatch certArn uncovered;
              recordEvent R ''Warning'' ReasonCertSANMismatch msg;
              setCondition R ConditionTypeReady ConditionFalse ReasonCertSANMismatch msg;
              res \<leftarrow> persistStatus R (returns (Done (requeueIn requeueLong)));
              returns (Handled res)
            } else returns Proceed
          }
      })"

definition validateCertificateSANs :: "'w Reconciler \<Rightarrow> ('w, step) act" where
  "validateCertificateSANs R =
     (case r_ACMClient R of
        None \<Rightarrow> returns Proceed
      | Some acm \<Rightarrow> do {
          tenant \<leftarrow> getObj;
          let certArn = (case spec_Customizations (dt_Spec tenant) of
              None \<Rightarrow> []
            | Some c \<Rightarrow> (case cus_Certificate c of None \<Rightarrow> [] | Some x \<Rightarrow> cert_Arn x));
          if certArn = [] then do {
            let distId = spec_DistributionId (dt_Spec tenant);
            info \<leftarrow> extern (cf_GetDistributionInfo (r_CFClient R) distId) (CfInfo distId);
            case info of
              Inl err \<Rightarrow> returns Proceed
            | Inr None \<Rightarrow> returns (Handled Panic)
            | Inr (Some distInfo) \<Rightarrow> checkSANs R acm (di_ViewerCertificateArn distInfo)
          } else checkSANs R acm certArn
        })"

section \<open>DNS before creation\<close>

definition asStep :: "('w, hres) act \<Rightarrow> ('w, step) act" where
  "asStep m = do { res \<leftarrow> m; returns (Handled res) }"

text \<open>Step 2: poll the change in flight.\<close>

definition pollDNSChange :: "'w Reconciler \<Rightarrow> ('w, step) act" where
  "pollDNSChange R = do {
     c \<leftarrow> getDNSClient R;
     case c of
       Fail err \<Rightarrow> returns (Handled (Fail
         (wrapErr ''failed to get DNS client for polling: '' err)))
     | Panic \<Rightarrow> returns (Handled Panic)
     | Done pollClient \<Rightarrow> do {
         tenant \<leftarrow> getObj;
         let changeId = st_DNSChangeId (dt_Status tenant);
         r \<leftarrow> extern (dnsc_GetChangeStatus pollClient changeId) (DnsStatus changeId);
         case r of
           Inl err \<Rightarrow> asStep (handleDNSError R err ''poll DNS propagation'')
         | Inr status \<Rightarrow>
             if status \<noteq> dnsStatusInsync then do {
               setCondition R ConditionTypeDNSReady ConditionFalse ReasonDNSPropagating
                 (msgPropagating changeId);
               asStep (persistStatus R (returns (Done (requeueIn requeueShort))))
             } else do {
               setCondition R ConditionTypeDNSReady ConditionTrue ReasonDNSReady msgPropagated;
               returns Proceed
             }
       }
   }"

text \<open>Steps 3 and 4: resolve the target and submit the records. The hosted zone and
  the answer to the upsert are dereferenced without a check.\<close>

definition submitDNSRecords :: "'w Reconciler \<Rightarrow> DNSConfig \<Rightarrow> ('w, step) act" where
  "submitDNSRecords R dns = do {
     t \<leftarrow> resolveCNAMETarget R;
     case t of
       Inl err \<Rightarrow> asStep (handleDNSError R err ''resolve CNAME target'')
     | Inr target \<Rightarrow> do {
         tenant \<leftarrow> getObj;
         let records = cnameRecords (domainsToStrings (spec_Domains (dt_Spec tenant)))
           target (dnsTTL dns);
         c \<leftarrow> getDNSClient R;
         case c of
           Fail err \<Rightarrow> returns (Handled (Fail
             (wrapErr ''failed to get DNS client for upsert: '' err)))
         | Panic \<Rightarrow> returns (Handled Panic)
         | Done dnsClient \<Rightarrow>
             (case dns_HostedZoneId dns of
                None \<Rightarrow> returns (Handled Panic)
              | Some zone \<Rightarrow> do {
                  let input = \<lparr>upsert_HostedZoneId = zone, upsert_Records = records\<rparr>;
                  r \<leftarrow> extern (dnsc_UpsertCNAMERecords dnsClient input) (DnsUpsert input);
                  case r of
                    Inl err \<Rightarrow> asStep (handleDNSError R err ''create DNS records'')
                  | Inr None \<Rightarrow> returns (Handled Panic)
                  | Inr (Some changeOut) \<Rightarrow> do {
                      recordEvent R ''Normal'' ReasonDNSRecordCreating
                        (''DNS CNAME records created for '' @ showNat (length records) @
                         '' domain(s) pointing to '' @ target);
                      modifyObj (updStatus (\<lambda>st. st\<lparr>st_DNSChangeId := chg_ChangeId changeOut,
                        st_DNSTarget := target\<rparr>));
                      setCondition R ConditionTypeDNSReady ConditionFalse ReasonDNSPropagating
                        (msgPropagating (chg_ChangeId changeOut));
                      asStep (persistStatus R (returns (Done (requeueIn requeueShort))))
                    }
                })
       }
   }"

definition reconcileDNSBeforeCreate :: "'w Reconciler \<Rightarrow> DNSConfig \<Rightarrow> ('w, step) act" where
  "reconcileDNSBeforeCreate R dns = do {
     tenant \<leftarrow> getObj;
     s \<leftarrow> (if spec_ManagedCertificateRequest (dt_Spec tenant) = None \<and>
             st_DNSChangeId (dt_Status tenant) = []
          then validateCertificateSANs R else returns Proceed);
     case s of
       Handled res \<Rightarrow> returns (Handled res)
     | Proceed \<Rightarrow>
         if st_DNSChangeId (dt_Status tenant) \<noteq> [] then pollDNSChange R
         else submitDNSRecords R dns
   }"

end
