(* ===== verification/TenantReconciler.thy ===== *)
theory TenantReconciler
  imports TenantHandlers
begin

text \<open>
  The reconcile loop of \<open>internal/controller/distributiontenant_controller.go\<close>: \<open>Reconcile\<close>
  and the flows it dispatches to (deletion, creation, steady state, update, drift).
\<close>

section \<open>Deletion\<close>

text \<open>\<open>if err := r.cleanupDNSRecords(...); err != nil { return ..., fmt.Errorf(...) }\<close>\<close>

definition cleanupThen :: "'w Reconciler \<Rightarrow> ('w, hres) act \<Rightarrow> ('w, hres) act" where
  "cleanupThen R k = do {
     c \<leftarrow> cleanupDNSRecords R;
     case c of
       Fail err \<Rightarrow> returns (Fail (wrapErr ''failed to clean up DNS records: '' err))
     | Panic \<Rightarrow> returns Panic
     | Done _ \<Rightarrow> k
   }"

definition disableInput ::
  "DistributionTenant \<Rightarrow> DistributionTenantOutput \<Rightarrow> UpdateDistributionTenantInput" where
  "disableInput tenant awsTenant =
     \<lparr>ui_ID = st_ID (dt_Status tenant),
      ui_DistributionId = spec_DistributionId (dt_Spec tenant),
      ui_IfMatch = out_ETag awsTenant,
      ui_Domains = specToAWSDomains (spec_Domains (dt_Spec tenant)),
      ui_Enabled = Some False,
      ui_ConnectionGroupId = None,
      ui_Parameters = [],
      ui_Customizations = None,
      ui_ManagedCertificateRequest = None\<rparr>"

definition disableTenant :: "'w Reconciler \<Rightarrow> DistributionTenantOutput \<Rightarrow> ('w, hres) act" where
  "disableTenant R awsTenant = do {
     recordEvent R ''Normal'' ''Disabling'' ''Disabling distribution tenant before deletion'';
     tenant \<leftarrow> getObj;
     let input = disableInput tenant awsTenant;
     r \<leftarrow> extern (cf_UpdateDistributionTenant (r_CFClient R) input) (CfUpdate input);
     case r of
       Inl err \<Rightarrow>
         if IsTerminalError (Some err) then handleAWSError R err ''disable (during deletion)''
         else returns (Fail (wrapErr ''failed to disable distribution tenant: '' err))
     | Inr None \<Rightarrow> returns Panic
     | Inr (Some out) \<Rightarrow> do {
         modifyObj (updStatus (\<lambda>st. st\<lparr>st_ETag := out_ETag out,
           st_DistributionTenantStatus := out_Status out\<rparr>));
         setCondition R ConditionTypeReady ConditionFalse ReasonDisabling
           ''Distribution tenant is being disabled before deletion'';
         persistStatus R (returns (Done (requeueIn requeueShort)))
       }
   }"

definition deleteTenant :: "'w Reconciler \<Rightarrow> DistributionTenantOutput \<Rightarrow> ('w, hres) act" where
  "deleteTenant R awsTenant = do {
     tenant \<leftarrow> getObj;
     let i = st_ID (dt_Status tenant);
     r \<leftarrow> extern (cf_DeleteDistributionTenant (r_CFClient R) i (out_ETag awsTenant))
       (CfDelete i (out_ETag awsTenant));
     case r of
       Inl err \<Rightarrow>
         if IsResourceNotDisabled (Some err) then returns (Done (requeueIn requeueShort))
         else if IsTerminalError (Some err) then handleAWSError R err ''delete''
         else returns (Fail (wrapErr ''failed to delete distribution tenant: '' err))
     | Inr _ \<Rightarrow>
         cleanupThen R (do {
           recordEvent R ''Normal'' ''Deleted''
             (''Distribution tenant '' @ i @ '' deleted from AWS'');
           releaseFinalizer R
         })
   }"

definition reconcileDelete :: "'w Reconciler \<Rightarrow> ('w, hres) act" where
  "reconcileDelete R = do {
     tenant \<leftarrow> getObj;
     if \<not> ContainsFinalizer (r_Meta R) (om_Finalizers (dt_Meta tenant)) FinalizerName
     then returns (Done emptyResult)
     else if st_ID (dt_Status tenant) = [] then cleanupThen R (releaseFinalizer R)
     else do {
       let i = st_ID (dt_Status tenant);
       r \<leftarrow> extern (cf_GetDistributionTenant (r_CFClient R) i) (CfGet i);
       case r of
         Inl err \<Rightarrow>
           if IsNotFound (Some err) then
             cleanupThen R (do {
               recordEvent R ''Normal'' ''Deleted''
                 ''Distribution tenant was already deleted in AWS'';
               releaseFinalizer R
             })
           else if IsTerminalError (Some err) then
             handleAWSError R err ''get (during deletion)''
           else returns (Fail (wrapErr
             ''failed to get distribution tenant for deletion: '' err))
       | Inr None \<Rightarrow> returns Panic
       | Inr (Some awsTenant) \<Rightarrow>
           if out_Enabled awsTenant then disableTenant R awsTenant
           else deleteTenant R awsTenant
     }
   }"

section \<open>Creation\<close>

definition recordCreated ::
  "DistributionTenantOutput \<Rightarrow> DistributionTenant \<Rightarrow> DistributionTenant" where
  "recordCreated out t =
     updateStatusFromAWS out
       (updStatus (\<lambda>st. st\<lparr>st_ID := out_ID out, st_Arn := out_Arn out, st_ETag := out_ETag out,
          st_DistributionTenantStatus := out_Status out,
          st_ObservedGeneration := dt_Generation t, st_DNSChangeId := []\<rparr>) t)"

definition createTenant :: "'w Reconciler \<Rightarrow> ('w, hres) act" where
  "createTenant R = do {
     tenant \<leftarrow> getObj;
     let input = buildCreateInput tenant;
     r \<leftarrow> extern (cf_CreateDistributionTenant (r_CFClient R) input) (CfCreate input);
     case r of
       Inl err \<Rightarrow>
         if isDomainValidationPending tenant err then handleDomainValidationPending R err
         else handleAWSError R err ''create''
     | Inr None \<Rightarrow> returns Panic
     | Inr (Some out) \<Rightarrow> do {
         modifyObj (recordCreated out);
         setCondition R ConditionTypeReady ConditionFalse ReasonCreating
           ''Distribution tenant creation is in progress'';
         setCondition R ConditionTypeSynced ConditionTrue ReasonInSync msgInSync;
         updateCertificateCondition R None;
         persistStatus R (do {
           recordEvent R ''Normal'' ''Created''
             (''Distribution tenant created in AWS with ID '' @ out_ID out);
           returns (Done (requeueIn requeueShort))
         })
       }
   }"

definition reconcileCreate :: "'w Reconciler \<Rightarrow> ('w, hres) act" where
  "reconcileCreate R = do {
     v \<leftarrow> validateSpec R;
     case v of
       Handled res \<Rightarrow> returns res
     | Proceed \<Rightarrow> do {
         tenant \<leftarrow> getObj;
         d \<leftarrow> (case spec_DNS (dt_Spec tenant) of
                Some dns \<Rightarrow> reconcileDNSBeforeCreate R dns
              | None \<Rightarrow> do {
                  setCondition R ConditionTypeDNSReady ConditionTrue ReasonDNSNotConfigured
                    msgDNSNotConfigured;
                  returns Proceed
                });
         case d of
           Handled res \<Rightarrow> returns res
         | Proceed \<Rightarrow> createTenant R
       }
   }"

section \<open>Update and drift\<close>

definition recordUpdated ::
  "DistributionTenantOutput \<Rightarrow> DistributionTenant \<Rightarrow> DistributionTenant" where
  "recordUpdated out t =
     updateStatusFromAWS out
       (updStatus (\<lambda>st. st\<lparr>st_ETag := out_ETag out,
          st_DistributionTenantStatus := out_Status out,
          st_ObservedGeneration := dt_Generation t\<rparr>) t)"

definition reconcileUpdate :: "'w Reconciler \<Rightarrow> DistributionTenantOutput \<Rightarrow> ('w, hres) act" where
  "reconcileUpdate R awsTenant = do {
     tenant \<leftarrow> getObj;
     let input = buildUpdateInput tenant (out_ETag awsTenant);
     r \<leftarrow> extern (cf_UpdateDistributionTenant (r_CFClient R) input) (CfUpdate input);
     case r of
       Inl err \<Rightarrow>
         if IsPreconditionFailed (Some err) then
           returns (Done \<lparr>Requeue = True, RequeueAfter = 0\<rparr>)
         else handleAWSError R err ''update''
     | Inr None \<Rightarrow> returns Panic
     | Inr (Some out) \<Rightarrow> do {
         modifyObj (recordUpdated out);
         setCondition R ConditionTypeReady ConditionFalse ReasonDeploying
           ''Distribution tenant update is in progress'';
         setCondition R ConditionTypeSynced ConditionTrue ReasonUpdatePending
           ''Update submitted to AWS, waiting for deployment'';
         persistStatus R (do {
           recordEvent R ''Normal'' ''Updated'' ''Distribution tenant update submitted to AWS'';
           returns (Done (requeueIn requeueShort))
         })
       }
   }"

definition handleDrift :: "'w Reconciler \<Rightarrow> DistributionTenantOutput \<Rightarrow> ('w, hres) act" where
  "handleDrift R awsTenant = do {
     emit MetricDrift;
     now \<leftarrow> silent (r_Now R);
     modifyObj (updStatus (\<lambda>st. st\<lparr>st_LastDriftCheckTime := Some now, st_DriftDetected := True\<rparr>));
     if r_DriftPolicy R = DriftPolicyEnforce then do {
       recordEvent R ''Warning'' ''DriftCorrected''
         ''External drift detected, enforcing K8s spec as source of truth'';
       reconcileUpdate R awsTenant
     } else if r_DriftPolicy R = DriftPolicySuspend then
       persistStatus R (returns (Done (requeueIn requeueLong)))
     else do {
       recordEvent R ''Warning'' ''DriftDetected''
         ''External drift detected: AWS state differs from K8s spec (spec unchanged since last successful reconciliation)'';
       setCondition R ConditionTypeSynced ConditionFalse ReasonDriftDetected
         ''External drift detected: AWS state was modified outside the operator while K8s spec remained unchanged'';
       persistStatus R (returns (Done (requeueIn requeueLong)))
     }
   }"

section \<open>Steady state\<close>

definition statusInProgress :: string where
  "statusInProgress = ''InProgress''"

definition clearAWSIdentity :: "DistributionTenant \<Rightarrow> DistributionTenant" where
  "clearAWSIdentity = updStatus (\<lambda>st. st\<lparr>st_ID := [], st_Arn := [], st_ETag := []\<rparr>)"

definition recordObserved ::
  "DistributionTenantOutput \<Rightarrow> DistributionTenant \<Rightarrow> DistributionTenant" where
  "recordObserved awsTenant t =
     updateStatusFromAWS awsTenant
       (updStatus (\<lambda>st. st\<lparr>st_ETag := out_ETag awsTenant,
          st_DistributionTenantStatus := out_Status awsTenant\<rparr>) t)"

definition fetchCertDetails ::
  "'w Reconciler \<Rightarrow> ('w, ManagedCertificateDetailsOutput option) act" where
  "fetchCertDetails R = do {
     tenant \<leftarrow> getObj;
     if spec_ManagedCertificateRequest (dt_Spec tenant) = None then returns None
     else do {
       let i = st_ID (dt_Status tenant);
       r \<leftarrow> extern (cf_GetManagedCertificateDetails (r_CFClient R) i) (CfCert i);
       case r of
         Inl err \<Rightarrow> returns None
       | Inr None \<Rightarrow> returns None
       | Inr (Some d) \<Rightarrow> do {
           modifyObj (updStatus (\<lambda>st. st\<lparr>st_CertificateArn := mcd_CertificateArn d,
             st_ManagedCertificateStatus := mcd_CertificateStatus d\<rparr>));
           returns (Some d)
         }
     }
   }"

definition attachCertificate :: "string \<Rightarrow> DistributionTenant \<Rightarrow> DistributionTenant" where
  "attachCertificate arn = updSpec (\<lambda>s. s\<lparr>spec_Customizations := Some
     ((case spec_Customizations s of
         None \<Rightarrow> \<lparr>cus_WebAcl = None, cus_Certificate = None, cus_GeoRestrictions = None\<rparr>
       | Some c \<Rightarrow> c)\<lparr>cus_Certificate := Some \<lparr>cert_Arn = arn\<rparr>\<rparr>)\<rparr>)"

text \<open>A certificate that is issued but not active on all domains has to be attached.\<close>

definition certToAttach ::
  "DistributionTenant \<Rightarrow> ManagedCertificateDetailsOutput option \<Rightarrow> string option" where
  "certToAttach tenant certDetails =
     (case certDetails of
        None \<Rightarrow> None
      | Some d \<Rightarrow>
          if mcd_CertificateStatus d = ''issued'' \<and> mcd_CertificateArn d \<noteq> [] \<and>
             \<not> allDomainsActive tenant
          then Some (mcd_CertificateArn d) else None)"

definition persistCertificate :: "'w Reconciler \<Rightarrow> string \<Rightarrow> ('w, hres) act" where
  "persistCertificate R arn = do {
     recordEvent R ''Normal'' ''CertificateAttaching''
       (''Managed certificate '' @ arn @ '' issued, attaching to domains'');
     modifyObj (attachCertificate arn);
     t \<leftarrow> getObj;
     r \<leftarrow> extern (k_Update (r_Client R) t) (KUpdate t);
     case r of
       Inl err \<Rightarrow> returns (Fail (wrapErr
         ''failed to persist managed certificate ARN to spec: '' err))
     | Inr t' \<Rightarrow> do { modifyObj (\<lambda>_. t'); returns (Done emptyResult) }
   }"

definition stillDeploying ::
  "'w Reconciler \<Rightarrow> ManagedCertificateDetailsOutput option \<Rightarrow> ('w, hres) act" where
  "stillDeploying R certDetails = do {
     setCondition R ConditionTypeReady ConditionFalse ReasonDeploying
       ''Distribution tenant deployment is in progress'';
     setCondition R ConditionTypeSynced ConditionTrue ReasonInSync msgInSync;
     updateCertificateCondition R certDetails;
     modifyObj (\<lambda>t. updStatus (\<lambda>st. st\<lparr>st_ObservedGeneration := dt_Generation t\<rparr>) t);
     persistStatus R (returns (Done (requeueIn requeueShort)))
   }"

definition steadyState ::
  "'w Reconciler \<Rightarrow> ManagedCertificateDetailsOutput option \<Rightarrow> ('w, hres) act" where
  "steadyState R certDetails = do {
     now \<leftarrow> silent (r_Now R);
     modifyObj (\<lambda>t. updStatus (\<lambda>st. st\<lparr>st_LastDriftCheckTime := Some now,
       st_DriftDetected := False, st_ObservedGeneration := dt_Generation t\<rparr>) t);
     setCondition R ConditionTypeReady ConditionTrue ReasonDeployed
       ''Distribution tenant is deployed and serving traffic'';
     setCondition R ConditionTypeSynced ConditionTrue ReasonInSync msgInSync;
     updateDNSCondition R;
     updateCertificateCondition R certDetails;
     c \<leftarrow> cleanupOrphanedDNSRecords R;
     case c of
       Panic \<Rightarrow> returns Panic
     | Fail cleanupErr \<Rightarrow> persistStatus R (returns (Fail cleanupErr))
     | Done _ \<Rightarrow>
         persistStatus R (returns (Done (requeueIn
           (if (case certDetails of None \<Rightarrow> False
                | Some d \<Rightarrow> mcd_CertificateStatus d = ''pending-validation'')
            then requeueShort else requeueLong))))
   }"

definition recreateAfterExternalDeletion :: "'w Reconciler \<Rightarrow> ('w, hres) act" where
  "recreateAfterExternalDeletion R = do {
     recordEvent R ''Warning'' ''ExternalDeletion''
       ''AWS resource was deleted externally, recreating'';
     modifyObj clearAWSIdentity;
     setCondition R ConditionTypeReady ConditionFalse ReasonCreating
       ''AWS resource not found, recreating'';
     persistStatus R (returns (Done (requeueIn (1 * second))))
   }"

definition applySpecChange :: "'w Reconciler \<Rightarrow> DistributionTenantOutput \<Rightarrow> ('w, hres) act" where
  "applySpecChange R awsTenant = do {
     v \<leftarrow> validateSpec R;
     case v of
       Handled res \<Rightarrow> returns res
     | Proceed \<Rightarrow> do {
         d \<leftarrow> upsertDNSForUpdate R;
         case d of
           Panic \<Rightarrow> returns Panic
         | Fail err \<Rightarrow> do {
             let msg = ''DNS upsert failed during update: '' @ errorText err;
             setCondition R ConditionTypeDNSReady ConditionFalse ReasonDNSError msg;
             persistStatus R (do {
               recordEvent R ''Warning'' ReasonDNSError msg;
               returns (Fail (wrapErr ''DNS upsert failed during update: '' err))
             })
           }
         | Done _ \<Rightarrow> reconcileUpdate R awsTenant
       }
   }"

definition reconcileExisting :: "'w Reconciler \<Rightarrow> ('w, hres) act" where
  "reconcileExisting R = do {
     tenant0 \<leftarrow> getObj;
     let i = st_ID (dt_Status tenant0);
     r \<leftarrow> extern (cf_GetDistributionTenant (r_CFClient R) i) (CfGet i);
     case r of
       Inl err \<Rightarrow>
         if IsNotFound (Some err) then recreateAfterExternalDeletion R
         else if IsTerminalError (Some err) then handleAWSError R err ''get''
         else returns (Fail (wrapErr ''failed to get distribution tenant: '' err))
     | Inr None \<Rightarrow> returns Panic
     | Inr (Some awsTenant) \<Rightarrow> do {
         modifyObj (recordObserved awsTenant);
         certDetails \<leftarrow> fetchCertDetails R;
         tenant \<leftarrow> getObj;
         case detectChanges tenant awsTenant of
           changeSpec \<Rightarrow> applySpecChange R awsTenant
         | changeDrift \<Rightarrow> handleDrift R awsTenant
         | changeNone \<Rightarrow>
             (case certToAttach tenant certDetails of
                Some arn \<Rightarrow> persistCertificate R arn
              | None \<Rightarrow>
                  if out_Status awsTenant = statusInProgress then stillDeploying R certDetails
                  else steadyState R certDetails)
       }
   }"

section \<open>Reconcile\<close>

definition Reconcile :: "'w Reconciler \<Rightarrow> string \<Rightarrow> string \<Rightarrow> ('w, hres) act" where
  "Reconcile R namespace name = do {
     r \<leftarrow> extern (k_Get (r_Client R) namespace name) (KGet namespace name);
     case r of
       Inl err \<Rightarrow>
         (case IgnoreNotFound (r_Meta R) err of
            None \<Rightarrow> returns (Done emptyResult)
          | Some e \<Rightarrow> returns (Fail e))
     | Inr tenant \<Rightarrow> do {
         modifyObj (\<lambda>_. tenant);
         if om_DeletionTimestamp (dt_Meta tenant) \<noteq> None then reconcileDelete R
         else if \<not> ContainsFinalizer (r_Meta R) (om_Finalizers (dt_Meta tenant)) FinalizerName
         then do {
           modifyObj (updFinalizers (\<lambda>fs. AddFinalizer (r_Meta R) fs FinalizerName));
           t \<leftarrow> getObj;
           u \<leftarrow> extern (k_Update (r_Client R) t) (KUpdate t);
           case u of
             Inl err \<Rightarrow> returns (Fail err)
           | Inr t' \<Rightarrow> do { modifyObj (\<lambda>_. t'); returns (Done (requeueIn second)) }
         }
         else if st_ID (dt_Status tenant) = [] then reconcileCreate R
         else reconcileExisting R
       }
   }"

end
