(* ===== verification/MockClients.thy ===== *)
theory MockClients
  imports TenantReconciler
begin

text \<open>
  The in-memory clients of \<open>internal/aws/mock.go\<close>: \<open>MockCloudFrontClient\<close>,
  \<open>MockDNSClient\<close> and \<open>MockACMClient\<close>, as state machines on records with the fields of the
  Go structs. \<open>int\<close> counters are 64-bit words. A method that calls \<open>time.Now\<close> takes the
  instant as an argument. \<open>mockWorld\<close> puts the three together with a clock, as one world the
  reconciler can run in.
\<close>

section \<open>MockCloudFrontClient\<close>

record MockCloudFrontClient =
  m_tenants :: "string \<rightharpoonup> DistributionTenantOutput"
  m_nextID :: int64
  m_CreateError :: error
  m_GetError :: error
  m_UpdateError :: error
  m_DeleteError :: error
  m_GetDistributionInfoError :: error
  m_GetManagedCertError :: error
  m_CreateCallCount :: int64
  m_GetCallCount :: int64
  m_UpdateCallCount :: int64
  m_DeleteCallCount :: int64
  m_GetDistributionInfoCallCount :: int64
  m_GetManagedCertCallCount :: int64
  m_DistributionInfos :: "string \<rightharpoonup> DistributionInfo"
  m_ManagedCertDetails :: "string \<rightharpoonup> ManagedCertificateDetailsOutput"
  m_ConnectionGroupEndpoints :: "string \<rightharpoonup> string"
  m_DefaultConnectionGroupEndpoint :: string
  m_GetConnectionGroupError :: error
  m_GetDefaultConnectionGroupError :: error
  m_GetConnectionGroupCallCount :: int64
  m_GetDefaultConnectionGroupCallCount :: int64

definition NewMockCloudFrontClient :: MockCloudFrontClient where
  "NewMockCloudFrontClient =
     \<lparr>m_tenants = Map.empty, m_nextID = 0, m_CreateError = None, m_GetError = None,
      m_UpdateError = None, m_DeleteError = None, m_GetDistributionInfoError = None,
      m_GetManagedCertError = None, m_CreateCallCount = 0, m_GetCallCount = 0,
      m_UpdateCallCount = 0, m_DeleteCallCount = 0, m_GetDistributionInfoCallCount = 0,
      m_GetManagedCertCallCount = 0, m_DistributionInfos = Map.empty,
      m_ManagedCertDetails = Map.empty, m_ConnectionGroupEndpoints = Map.empty,
      m_DefaultConnectionGroupEndpoint = [], m_GetConnectionGroupError = None,
      m_GetDefaultConnectionGroupError = None, m_GetConnectionGroupCallCount = 0,
      m_GetDefaultConnectionGroupCallCount = 0\<rparr>"

definition derefString :: "string option \<Rightarrow> string" where
  "derefString s = (case s of None \<Rightarrow> [] | Some x \<Rightarrow> x)"

definition activeDomains :: "DomainInput list \<Rightarrow> DomainResultOutput list" where
  "activeDomains ds = map (\<lambda>d. \<lparr>dro_Domain = din_Domain d, dro_Status = ''active''\<rparr>) ds"

definition mockID :: "int64 \<Rightarrow> string" where
  "mockID n = ''dt_mock_'' @ showInt (sint n)"

definition mockCreate ::
  "gotime \<Rightarrow> CreateDistributionTenantInput \<Rightarrow>
   (MockCloudFrontClient, DistributionTenantOutput option) call" where
  "mockCreate now input m0 =
     (let m = m0\<lparr>m_CreateCallCount := m_CreateCallCount m0 + 1\<rparr> in
      case m_CreateError m of
        Some e \<Rightarrow> (Inl e, m)
      | None \<Rightarrow>
          let n = m_nextID m + 1;
              i = mockID n;
              out = \<lparr>out_ID = i,
                out_Arn = ''arn:aws:cloudfront::123456789012:distribution-tenant/'' @ i,
                out_DistributionId = ci_DistributionId input,
                out_Name = ci_Name input,
                out_ETag = ''ETAG_'' @ showInt (sint n),
                out_Status = ''InProgress'',
                out_Enabled = (case ci_Enabled input of None \<Rightarrow> True | Some b \<Rightarrow> b),
                out_ConnectionGroupId = derefString (ci_ConnectionGroupId input),
                out_CreatedTime = Some now,
                out_LastModifiedTime = Some now,
                out_Domains = activeDomains (ci_Domains input),
                out_Parameters = ci_Parameters input,
                out_Customizations = ci_Customizations input\<rparr>
          in (Inr (Some out), m\<lparr>m_nextID := n, m_tenants := (m_tenants m)(i \<mapsto> out)\<rparr>))"

definition mockGet ::
  "string \<Rightarrow> (MockCloudFrontClient, DistributionTenantOutput option) call" where
  "mockGet i m0 =
     (let m = m0\<lparr>m_GetCallCount := m_GetCallCount m0 + 1\<rparr> in
      case m_GetError m of
        Some e \<Rightarrow> (Inl e, m)
      | None \<Rightarrow>
          (case m_tenants m i of
             None \<Rightarrow> (Inl (Sentinel ErrNotFound), m)
           | Some tenant \<Rightarrow> (Inr (Some tenant), m)))"

text \<open>The tenant is updated in place; the new ETag is taken from the clock.\<close>

definition mockUpdated ::
  "gotime \<Rightarrow> UpdateDistributionTenantInput \<Rightarrow> DistributionTenantOutput \<Rightarrow>
   DistributionTenantOutput" where
  "mockUpdated now input tenant =
     tenant\<lparr>out_ETag := ''ETAG_updated_'' @ showInt now,
       out_Status := ''InProgress'',
       out_Enabled := (case ui_Enabled input of None \<Rightarrow> out_Enabled tenant | Some b \<Rightarrow> b),
       out_DistributionId := ui_DistributionId input,
       out_Domains := activeDomains (ui_Domains input),
       out_Parameters := ui_Parameters input,
       out_Customizations := ui_Customizations input,
       out_ConnectionGroupId := derefString (ui_ConnectionGroupId input),
       out_LastModifiedTime := Some now\<rparr>"

definition mockUpdate ::
  "gotime \<Rightarrow> UpdateDistributionTenantInput \<Rightarrow>
   (MockCloudFrontClient, DistributionTenantOutput option) call" where
  "mockUpdate now input m0 =
     (let m = m0\<lparr>m_UpdateCallCount := m_UpdateCallCount m0 + 1\<rparr> in
      case m_UpdateError m of
        Some e \<Rightarrow> (Inl e, m)
      | None \<Rightarrow>
          (case m_tenants m (ui_ID input) of
             None \<Rightarrow> (Inl (Sentinel ErrNotFound), m)
           | Some tenant \<Rightarrow>
               if out_ETag tenant \<noteq> ui_IfMatch input
               then (Inl (Sentinel ErrPreconditionFailed), m)
               else
                 let tenant' = mockUpdated now input tenant in
                 (Inr (Some tenant'),
                  m\<lparr>m_tenants := (m_tenants m)(ui_ID input \<mapsto> tenant')\<rparr>)))"

definition mockDelete :: "string \<Rightarrow> string \<Rightarrow> (MockCloudFrontClient, unit) call" where
  "mockDelete i ifMatch m0 =
     (let m = m0\<lparr>m_DeleteCallCount := m_DeleteCallCount m0 + 1\<rparr> in
      case m_DeleteError m of
        Some e \<Rightarrow> (Inl e, m)
      | None \<Rightarrow>
          (case m_tenants m i of
             None \<Rightarrow> (Inl (Sentinel ErrNotFound), m)
           | Some tenant \<Rightarrow>
               if out_ETag tenant \<noteq> ifMatch then (Inl (Sentinel ErrPreconditionFailed), m)
               else if out_Enabled tenant then (Inl (Sentinel ErrResourceNotDisabled), m)
               else (Inr (), m\<lparr>m_tenants := (m_tenants m)(i := None)\<rparr>)))"

definition mockInfo :: "string \<Rightarrow> (MockCloudFrontClient, DistributionInfo option) call" where
  "mockInfo distributionId m0 =
     (let m = m0\<lparr>m_GetDistributionInfoCallCount := m_GetDistributionInfoCallCount m0 + 1\<rparr> in
      case m_GetDistributionInfoError m of
        Some e \<Rightarrow> (Inl e, m)
      | None \<Rightarrow>
          (case m_DistributionInfos m distributionId of
             None \<Rightarrow> (Inl (Sentinel ErrNotFound), m)
           | Some info \<Rightarrow> (Inr (Some info), m)))"

definition mockCert ::
  "string \<Rightarrow> (MockCloudFrontClient, ManagedCertificateDetailsOutput option) call" where
  "mockCert tenantIdentifier m0 =
     (let m = m0\<lparr>m_GetManagedCertCallCount := m_GetManagedCertCallCount m0 + 1\<rparr> in
      case m_GetManagedCertError m of
        Some e \<Rightarrow> (Inl e, m)
      | None \<Rightarrow> (Inr (m_ManagedCertDetails m tenantIdentifier), m))"

definition mockEndpoint :: "string \<Rightarrow> (MockCloudFrontClient, string) call" where
  "mockEndpoint connectionGroupId m0 =
     (let m = m0\<lparr>m_GetConnectionGroupCallCount := m_GetConnectionGroupCallCount m0 + 1\<rparr> in
      case m_GetConnectionGroupError m of
        Some e \<Rightarrow> (Inl e, m)
      | None \<Rightarrow>
          (case m_ConnectionGroupEndpoints m connectionGroupId of
             None \<Rightarrow> (Inl (Sentinel ErrConnectionGroupNotFound), m)
           | Some endpoint \<Rightarrow> (Inr endpoint, m)))"

definition mockDefaultEndpoint :: "(MockCloudFrontClient, string) call" where
  "mockDefaultEndpoint m0 =
     (let m = m0\<lparr>m_GetDefaultConnectionGroupCallCount :=
            m_GetDefaultConnectionGroupCallCount m0 + 1\<rparr> in
      case m_GetDefaultConnectionGroupError m of
        Some e \<Rightarrow> (Inl e, m)
      | None \<Rightarrow>
          if m_DefaultConnectionGroupEndpoint m = []
          then (Inl (Sentinel ErrConnectionGroupNotFound), m)
          else (Inr (m_DefaultConnectionGroupEndpoint m), m))"

text \<open>The helpers of tests: the deployment of a tenant completes, a tenant is read.\<close>

definition SetTenantStatus :: "string \<Rightarrow> string \<Rightarrow> MockCloudFrontClient \<Rightarrow> MockCloudFrontClient" where
  "SetTenantStatus i status m =
     (case m_tenants m i of
        None \<Rightarrow> m
      | Some tenant \<Rightarrow> m\<lparr>m_tenants := (m_tenants m)(i \<mapsto> tenant\<lparr>out_Status := status\<rparr>)\<rparr>)"

definition GetTenant :: "string \<Rightarrow> MockCloudFrontClient \<Rightarrow> DistributionTenantOutput option" where
  "GetTenant i m = m_tenants m i"

section \<open>MockDNSClient\<close>

record MockDNSClient =
  md_records :: "string \<rightharpoonup> DNSRecord list"
  md_UpsertError :: error
  md_GetChangeError :: error
  md_DeleteError :: error
  md_UpsertCallCount :: int64
  md_GetChangeCallCount :: int64
  md_DeleteCallCount :: int64
  md_ChangeStatus :: string
  md_lastChangeCounter :: int64

definition NewMockDNSClient :: MockDNSClient where
  "NewMockDNSClient =
     \<lparr>md_records = Map.empty, md_UpsertError = None, md_GetChangeError = None,
      md_DeleteError = None, md_UpsertCallCount = 0, md_GetChangeCallCount = 0,
      md_DeleteCallCount = 0, md_ChangeStatus = [], md_lastChangeCounter = 0\<rparr>"

definition mockUpsert :: "UpsertDNSRecordsInput \<Rightarrow> (MockDNSClient, DNSChangeOutput option) call" where
  "mockUpsert input m0 =
     (let m = m0\<lparr>md_UpsertCallCount := md_UpsertCallCount m0 + 1\<rparr> in
      case md_UpsertError m of
        Some e \<Rightarrow> (Inl e, m)
      | None \<Rightarrow>
          let n = md_lastChangeCounter m + 1 in
          (Inr (Some \<lparr>chg_ChangeId = ''/change/MOCK'' @ showInt (sint n)\<rparr>),
           m\<lparr>md_records := (md_records m)(upsert_HostedZoneId input \<mapsto> upsert_Records input),
             md_lastChangeCounter := n\<rparr>))"

definition mockChangeStatus :: "string \<Rightarrow> (MockDNSClient, string) call" where
  "mockChangeStatus changeId m0 =
     (let m = m0\<lparr>md_GetChangeCallCount := md_GetChangeCallCount m0 + 1\<rparr> in
      case md_GetChangeError m of
        Some e \<Rightarrow> (Inl e, m)
      | None \<Rightarrow> (Inr (if md_ChangeStatus m = [] then ''INSYNC'' else md_ChangeStatus m), m))"

definition mockDeleteRecords :: "DeleteDNSRecordsInput \<Rightarrow> (MockDNSClient, unit) call" where
  "mockDeleteRecords input m0 =
     (let m = m0\<lparr>md_DeleteCallCount := md_DeleteCallCount m0 + 1\<rparr> in
      case md_DeleteError m of
        Some e \<Rightarrow> (Inl e, m)
      | None \<Rightarrow> (Inr (), m\<lparr>md_records := (md_records m)(del_HostedZoneId input := None)\<rparr>))"

definition GetRecords :: "string \<Rightarrow> MockDNSClient \<Rightarrow> DNSRecord list option" where
  "GetRecords hostedZoneId m = md_records m hostedZoneId"

section \<open>MockACMClient\<close>

record MockACMClient =
  ma_CertificateSANs :: "string \<rightharpoonup> string list"
  ma_GetSANsError :: error
  ma_GetSANsCallCount :: int64

definition NewMockACMClient :: MockACMClient where
  "NewMockACMClient =
     \<lparr>ma_CertificateSANs = Map.empty, ma_GetSANsError = None, ma_GetSANsCallCount = 0\<rparr>"

definition mockSANs :: "string \<Rightarrow> (MockACMClient, string list) call" where
  "mockSANs certificateArn m0 =
     (let m = m0\<lparr>ma_GetSANsCallCount := ma_GetSANsCallCount m0 + 1\<rparr> in
      case ma_GetSANsError m of
        Some e \<Rightarrow> (Inl e, m)
      | None \<Rightarrow>
          (case ma_CertificateSANs m certificateArn of
             None \<Rightarrow> (Inl (Sentinel ErrCertificateNotFound), m)
           | Some sans \<Rightarrow> (Inr sans, m)))"

section \<open>A world to run in\<close>

text \<open>The mocks share a world with a clock that advances at every reading and with the
  custom resource as the API server stores it.\<close>

record mockWorld =
  mw_cf :: MockCloudFrontClient
  mw_dns :: MockDNSClient
  mw_acm :: MockACMClient
  mw_clock :: gotime
  mw_store :: "DistributionTenant option"

definition onCF :: "(gotime \<Rightarrow> (MockCloudFrontClient, 'a) call) \<Rightarrow> (mockWorld, 'a) call" where
  "onCF f w = (case f (mw_clock w) (mw_cf w) of
     (r, m) \<Rightarrow> (r, w\<lparr>mw_cf := m, mw_clock := mw_clock w + 1\<rparr>))"

definition onDNS :: "(MockDNSClient, 'a) call \<Rightarrow> (mockWorld, 'a) call" where
  "onDNS f w = (case f (mw_dns w) of (r, m) \<Rightarrow> (r, w\<lparr>mw_dns := m\<rparr>))"

definition onACM :: "(MockACMClient, 'a) call \<Rightarrow> (mockWorld, 'a) call" where
  "onACM f w = (case f (mw_acm w) of (r, m) \<Rightarrow> (r, w\<lparr>mw_acm := m\<rparr>))"

definition mockCF :: "mockWorld CloudFrontClient" where
  "mockCF =
     \<lparr>cf_CreateDistributionTenant = (\<lambda>i. onCF (\<lambda>now. mockCreate now i)),
      cf_GetDistributionTenant = (\<lambda>i. onCF (\<lambda>_. mockGet i)),
      cf_UpdateDistributionTenant = (\<lambda>i. onCF (\<lambda>now. mockUpdate now i)),
      cf_DeleteDistributionTenant = (\<lambda>i e. onCF (\<lambda>_. mockDelete i e)),
      cf_GetDistributionInfo = (\<lambda>d. onCF (\<lambda>_. mockInfo d)),
      cf_GetManagedCertificateDetails = (\<lambda>i. onCF (\<lambda>_. mockCert i)),
      cf_GetConnectionGroupRoutingEndpoint = (\<lambda>c. onCF (\<lambda>_. mockEndpoint c)),
      cf_GetDefaultConnectionGroupEndpoint = onCF (\<lambda>_. mockDefaultEndpoint)\<rparr>"

definition mockDNS :: "mockWorld DNSClient" where
  "mockDNS =
     \<lparr>dnsc_UpsertCNAMERecords = (\<lambda>i. onDNS (mockUpsert i)),
      dnsc_GetChangeStatus = (\<lambda>c. onDNS (mockChangeStatus c)),
      dnsc_DeleteCNAMERecords = (\<lambda>i. onDNS (mockDeleteRecords i))\<rparr>"

definition mockACM :: "mockWorld ACMClient" where
  "mockACM = \<lparr>acm_GetCertificateSANs = (\<lambda>c. onACM (mockSANs c))\<rparr>"

text \<open>An API server that stores one object. As the API server does, it refuses a write that is based
  on another generation, an update of the resource leaves the stored status alone and bumps the
  generation when the spec changes, an update of the status leaves everything else alone, and an
  object that is being deleted disappears with its last finalizer.\<close>

definition mockPut :: "DistributionTenant \<Rightarrow> DistributionTenant option" where
  "mockPut t = (if beingDeleted t \<and> om_Finalizers (dt_Meta t) = [] then None else Some t)"

definition mockWrite ::
  "DistributionTenant \<Rightarrow> (DistributionTenant \<Rightarrow> DistributionTenant option) \<Rightarrow>
   (DistributionTenant \<Rightarrow> DistributionTenant) \<Rightarrow> (mockWorld, DistributionTenant) call" where
  "mockWrite t put f w = (case mw_store w of
       None \<Rightarrow> (Inl (OtherError ''not found''), w)
     | Some stored \<Rightarrow>
         if dt_Generation t \<noteq> dt_Generation stored then (Inl (OtherError ''conflict''), w)
         else (Inr (f stored), w\<lparr>mw_store := put (f stored)\<rparr>))"

definition mockBump :: "DistributionTenantSpec \<Rightarrow> DistributionTenant \<Rightarrow> DistributionTenant" where
  "mockBump old t = (if dt_Spec t = old then t
     else t\<lparr>dt_Meta := (dt_Meta t)\<lparr>om_Generation := om_Generation (dt_Meta t) + 1\<rparr>\<rparr>)"

definition mockK8s :: "mockWorld K8sClient" where
  "mockK8s =
     \<lparr>k_Get = (\<lambda>ns n w. (case mw_store w of
         None \<Rightarrow> (Inl (OtherError ''not found''), w) | Some t \<Rightarrow> (Inr t, w))),
      k_Update = (\<lambda>t. mockWrite t mockPut (\<lambda>stored. mockBump (dt_Spec stored) (t\<lparr>dt_Status := dt_Status stored\<rparr>))),
      k_StatusUpdate = (\<lambda>t. mockWrite t Some (\<lambda>stored. stored\<lparr>dt_Status := dt_Status t\<rparr>))\<rparr>"

definition mockReconciler :: "string \<Rightarrow> mockWorld Reconciler" where
  "mockReconciler policy =
     \<lparr>r_Meta = metaRef (\<lambda>_. None), r_Client = mockK8s, r_CFClient = mockCF,
      r_ACMClient = Some mockACM, r_NewDNSClient = Some (\<lambda>role w. (Inr mockDNS, w)),
      r_HasRecorder = True, r_DriftPolicy = policy,
      r_Now = (\<lambda>w. (mw_clock w, w\<lparr>mw_clock := mw_clock w + 1\<rparr>))\<rparr>"

end
