(* ===== verification/TenantProtocol.thy ===== *)
theory TenantProtocol
  imports TenantReconciler
begin

text \<open>
  The abstract specification of one reconcile of a DistributionTenant: a monitor that reads
  the external calls in order, remembers what they have shown so far (\<open>knowledge\<close>), and
  says which call may come next (\<open>permits\<close>). \<open>lawful\<close> is the language of the monitor.
  The theory proves that \<open>Reconcile\<close> refines it: every run, against every world and every
  answer of it, produces a lawful trace. The safety properties of \<open>TenantSafety\<close> are read
  off the monitor.
\<close>

section \<open>What the calls have shown\<close>

record knowledge =
  kn_obj :: "DistributionTenant option"
  kn_aws :: "DistributionTenantOutput option"
  kn_gone :: bool
  kn_cert :: "ManagedCertificateDetailsOutput option"
  kn_insync :: bool
  kn_dnsWritten :: bool
  kn_mutated :: bool
  kn_created :: "DistributionTenantOutput option"
  kn_deleted :: bool
  kn_cleaned :: bool
  kn_over :: bool

definition ignorant :: knowledge where
  "ignorant = \<lparr>kn_obj = None, kn_aws = None, kn_gone = False, kn_cert = None,
     kn_insync = False, kn_dnsWritten = False, kn_mutated = False, kn_created = None,
     kn_deleted = False, kn_cleaned = False, kn_over = False\<rparr>"

fun learn :: "knowledge \<Rightarrow> effect \<Rightarrow> knowledge" where
  "learn k (KGet ns n r) = 
     (case r of Inl _ \<Rightarrow> k\<lparr>kn_over := True\<rparr> | Inr t \<Rightarrow> k\<lparr>kn_obj := Some t\<rparr>)"
| "learn k (KUpdate t r) = k\<lparr>kn_over := True\<rparr>"
| "learn k (KStatusUpdate t r) = k\<lparr>kn_over := True\<rparr>"
| "learn k (CfCreate i r) = k\<lparr>kn_mutated := True,
     kn_created := (case r of Inl _ \<Rightarrow> None | Inr out \<Rightarrow> out)\<rparr>"
| "learn k (CfGet i r) =
     (case r of Inl err \<Rightarrow> k\<lparr>kn_gone := IsNotFound (Some err)\<rparr> | Inr out \<Rightarrow> k\<lparr>kn_aws := out\<rparr>)"
| "learn k (CfUpdate i r) = k\<lparr>kn_mutated := True\<rparr>"
| "learn k (CfDelete i e r) = k\<lparr>kn_mutated := True,
     kn_deleted := (case r of Inl _ \<Rightarrow> False | Inr _ \<Rightarrow> True)\<rparr>"
| "learn k (CfCert i r) = (case r of Inl _ \<Rightarrow> k | Inr d \<Rightarrow> k\<lparr>kn_cert := d\<rparr>)"
| "learn k (DnsUpsert i r) = k\<lparr>kn_dnsWritten := True\<rparr>"
| "learn k (DnsStatus c r) = k\<lparr>kn_insync := (r = Inr dnsStatusInsync)\<rparr>"
| "learn k (DnsDelete i r) = k\<lparr>kn_dnsWritten := True,
     kn_cleaned := (case r of Inl _ \<Rightarrow> False | Inr _ \<Rightarrow> True)\<rparr>"
| "learn k _ = k"

definition knows :: "effect list \<Rightarrow> knowledge" where
  "knows tr = foldl learn ignorant tr"

lemma knows_simps [simp]: "knows [] = ignorant" "knows (tr @ [e]) = learn (knows tr) e"
  by (simp_all add: knows_def)

lemma ignorant_simps [simp]:
  "kn_obj ignorant = None" "kn_aws ignorant = None" "\<not> kn_gone ignorant"
  "kn_cert ignorant = None" "\<not> kn_insync ignorant" "\<not> kn_dnsWritten ignorant"
  "\<not> kn_mutated ignorant" "kn_created ignorant = None" "\<not> kn_deleted ignorant"
  "\<not> kn_cleaned ignorant" "\<not> kn_over ignorant"
  by (simp_all add: ignorant_def)

section \<open>Which call may come next\<close>

definition hasFinalizer :: "'w Reconciler \<Rightarrow> DistributionTenant \<Rightarrow> bool" where
  "hasFinalizer R t \<longleftrightarrow> ContainsFinalizer (r_Meta R) (om_Finalizers (dt_Meta t)) FinalizerName"

definition tenantID :: "DistributionTenant \<Rightarrow> string" where
  "tenantID t = st_ID (dt_Status t)"

text \<open>Nothing is left in AWS: the tenant never existed, is gone, or was just deleted.\<close>

definition awsReleased :: "knowledge \<Rightarrow> DistributionTenant \<Rightarrow> bool" where
  "awsReleased k t \<longleftrightarrow> tenantID t = [] \<or> kn_gone k \<or> kn_deleted k"

text \<open>The DNS records of the tenant have to be removed before it goes.\<close>

definition needsCleanup :: "'w Reconciler \<Rightarrow> DistributionTenant \<Rightarrow> bool" where
  "needsCleanup R t \<longleftrightarrow>
     (case spec_DNS (dt_Spec t) of None \<Rightarrow> False | Some dns \<Rightarrow> dns_HostedZoneId dns \<noteq> None) \<and>
     st_DNSTarget (dt_Status t) \<noteq> [] \<and> r_NewDNSClient R \<noteq> None"

text \<open>The identity a status update has to carry.\<close>

definition expectedID :: "knowledge \<Rightarrow> DistributionTenant \<Rightarrow> string" where
  "expectedID k t = (case kn_created k of
     Some out \<Rightarrow> out_ID out
   | None \<Rightarrow> if kn_gone k \<and> \<not> beingDeleted t then [] else tenantID t)"

definition recordsFor :: "DistributionTenant \<Rightarrow> DNSRecord list \<Rightarrow> bool" where
  "recordsFor t recs \<longleftrightarrow> map rec_Name recs = map dom_Domain (spec_Domains (dt_Spec t))"

definition sameObject :: "DistributionTenant \<Rightarrow> DistributionTenant \<Rightarrow> bool" where
  "sameObject t u \<longleftrightarrow> dt_Meta u = dt_Meta t \<and> dt_Spec u = dt_Spec t"

text \<open>The update that may be sent to AWS for an observed tenant.\<close>

definition updateAllowed ::
  "'w Reconciler \<Rightarrow> DistributionTenant \<Rightarrow> DistributionTenantOutput \<Rightarrow>
   UpdateDistributionTenantInput \<Rightarrow> bool" where
  "updateAllowed R t out inp \<longleftrightarrow>
     (if beingDeleted t then out_Enabled out \<and> inp = disableInput t out
      else inp = buildUpdateInput t (out_ETag out) \<and>
        (case detectChanges t out of
           changeSpec \<Rightarrow> True
         | changeDrift \<Rightarrow> r_DriftPolicy R = DriftPolicyEnforce
         | changeNone \<Rightarrow> False))"

text \<open>The object that may be written back whole: the finalizer is added, the finalizer is
  released, or the ARN of an issued managed certificate is attached.\<close>

definition objectWriteAllowed ::
  "'w Reconciler \<Rightarrow> knowledge \<Rightarrow> DistributionTenant \<Rightarrow> DistributionTenant \<Rightarrow> bool" where
  "objectWriteAllowed R k t u \<longleftrightarrow>
     (if beingDeleted t then
        hasFinalizer R t \<and> awsReleased k t \<and> (needsCleanup R t \<longrightarrow> kn_cleaned k) \<and>
        u = updFinalizers (\<lambda>fs. RemoveFinalizer (r_Meta R) fs FinalizerName) t
      else if \<not> hasFinalizer R t then
        u = updFinalizers (\<lambda>fs. AddFinalizer (r_Meta R) fs FinalizerName) t
      else (case (kn_aws k, kn_cert k) of
          (Some out, Some d) \<Rightarrow>
            detectChanges t out = changeNone \<and> mcd_CertificateStatus d = ''issued'' \<and>
            dt_Meta u = dt_Meta t \<and>
            dt_Spec u = dt_Spec (attachCertificate (mcd_CertificateArn d) t)
        | _ \<Rightarrow> False))"

fun permits' :: "'w Reconciler \<Rightarrow> knowledge \<Rightarrow> DistributionTenant \<Rightarrow> effect \<Rightarrow> bool" where
  "permits' R k t (KGet ns n r) = False"
| "permits' R k t (KUpdate u r) =
     ((\<not> kn_mutated k \<or> kn_deleted k) \<and> objectWriteAllowed R k t u)"
| "permits' R k t (KStatusUpdate u r) =
     (hasFinalizer R t \<and> sameObject t u \<and> tenantID u = expectedID k t \<and>
      \<not> kn_deleted k \<and> (beingDeleted t \<longrightarrow> \<not> kn_gone k))"
| "permits' R k t (CfCreate inp r) =
     (\<not> beingDeleted t \<and> hasFinalizer R t \<and> tenantID t = [] \<and> \<not> kn_mutated k \<and>
      \<not> kn_dnsWritten k \<and> inp = buildCreateInput t \<and>
      (spec_DNS (dt_Spec t) \<noteq> None \<longrightarrow> st_DNSChangeId (dt_Status t) \<noteq> [] \<and> kn_insync k))"
| "permits' R k t (CfGet i r) =
     (hasFinalizer R t \<and> i = tenantID t \<and> i \<noteq> [] \<and> kn_aws k = None \<and> \<not> kn_gone k \<and>
      \<not> kn_mutated k \<and> \<not> kn_dnsWritten k)"
| "permits' R k t (CfUpdate inp r) =
     (hasFinalizer R t \<and> \<not> kn_mutated k \<and>
      (case kn_aws k of None \<Rightarrow> False | Some out \<Rightarrow> updateAllowed R t out inp))"
| "permits' R k t (CfDelete i e r) =
     (hasFinalizer R t \<and> beingDeleted t \<and> i = tenantID t \<and> \<not> kn_mutated k \<and>
      (case kn_aws k of None \<Rightarrow> False | Some out \<Rightarrow> \<not> out_Enabled out \<and> e = out_ETag out))"
| "permits' R k t (CfInfo d r) =
     (\<not> beingDeleted t \<and> hasFinalizer R t \<and> d = spec_DistributionId (dt_Spec t) \<and> \<not> kn_mutated k)"
| "permits' R k t (CfCert i r) =
     (\<not> beingDeleted t \<and> kn_aws k \<noteq> None \<and> i = tenantID t \<and>
      spec_ManagedCertificateRequest (dt_Spec t) \<noteq> None \<and> \<not> kn_mutated k)"
| "permits' R k t (CfEndpoint cg r) =
     (\<not> beingDeleted t \<and> spec_ConnectionGroupId (dt_Spec t) = Some cg \<and>
      spec_DNS (dt_Spec t) \<noteq> None \<and> \<not> kn_mutated k \<and> \<not> kn_dnsWritten k)"
| "permits' R k t (CfDefaultEndpoint r) =
     (\<not> beingDeleted t \<and> spec_DNS (dt_Spec t) \<noteq> None \<and> \<not> kn_mutated k \<and> \<not> kn_dnsWritten k)"
| "permits' R k t (AcmSANs arn r) =
     (\<not> beingDeleted t \<and> arn \<noteq> [] \<and> tenantID t = [] \<and>
      spec_ManagedCertificateRequest (dt_Spec t) = None \<and> \<not> kn_mutated k)"
| "permits' R k t (NewDNS role r) =
     (spec_DNS (dt_Spec t) \<noteq> None \<and> role = dnsRole t \<and> \<not> kn_dnsWritten k)"
| "permits' R k t (DnsUpsert inp r) =
     (\<not> beingDeleted t \<and> hasFinalizer R t \<and> \<not> kn_mutated k \<and> \<not> kn_dnsWritten k \<and>
      recordsFor t (upsert_Records inp) \<and>
      (case spec_DNS (dt_Spec t) of None \<Rightarrow> False
       | Some dns \<Rightarrow> dns_HostedZoneId dns = Some (upsert_HostedZoneId inp)) \<and>
      (tenantID t \<noteq> [] \<longrightarrow>
        (case kn_aws k of None \<Rightarrow> False | Some out \<Rightarrow> detectChanges t out = changeSpec)))"
| "permits' R k t (DnsStatus c r) =
     (\<not> beingDeleted t \<and> tenantID t = [] \<and> c = st_DNSChangeId (dt_Status t) \<and> c \<noteq> [] \<and>
      \<not> kn_mutated k \<and> \<not> kn_dnsWritten k)"
| "permits' R k t (DnsDelete inp r) =
     (beingDeleted t \<and> hasFinalizer R t \<and> needsCleanup R t \<and> awsReleased k t \<and>
      \<not> kn_dnsWritten k \<and> recordsFor t (del_Records inp) \<and>
      (case spec_DNS (dt_Spec t) of None \<Rightarrow> False
       | Some dns \<Rightarrow> dns_HostedZoneId dns = Some (del_HostedZoneId inp)))"
| "permits' R k t (Event ty re msg) = True"
| "permits' R k t (MetricError ty) = True"
| "permits' R k t MetricDrift =
     (\<not> beingDeleted t \<and> \<not> kn_mutated k \<and>
      (case kn_aws k of None \<Rightarrow> False | Some out \<Rightarrow> detectChanges t out = changeDrift))"

definition isEvent :: "effect \<Rightarrow> bool" where
  "isEvent e = (case e of Event _ _ _ \<Rightarrow> True | _ \<Rightarrow> False)"

definition isKGet :: "effect \<Rightarrow> bool" where
  "isKGet e = (case e of KGet _ _ _ \<Rightarrow> True | _ \<Rightarrow> False)"

text \<open>The read of the object comes first; after a write to the API server, or when the object
  could not be read, the reconcile is over and only events may follow.\<close>

definition permits :: "'w Reconciler \<Rightarrow> knowledge \<Rightarrow> effect \<Rightarrow> bool" where
  "permits R k e =
     (case kn_obj k of
        None \<Rightarrow> isKGet e \<and> k = ignorant
      | Some t \<Rightarrow> (kn_over k \<longrightarrow> isEvent e) \<and> permits' R k t e)"

fun lawfulFrom :: "'w Reconciler \<Rightarrow> knowledge \<Rightarrow> effect list \<Rightarrow> bool" where
  "lawfulFrom R k [] = True"
| "lawfulFrom R k (e # es) = (permits R k e \<and> lawfulFrom R (learn k e) es)"

definition lawful :: "'w Reconciler \<Rightarrow> effect list \<Rightarrow> bool" where
  "lawful R tr = lawfulFrom R ignorant tr"

lemma lawfulFrom_append:
  "lawfulFrom R k (xs @ ys) \<longleftrightarrow> lawfulFrom R k xs \<and> lawfulFrom R (foldl learn k xs) ys"
  by (induction xs arbitrary: k) auto

lemma lawful_Nil [simp]: "lawful R []"
  by (simp add: lawful_def)

lemma lawful_snoc: "lawful R (tr @ [e]) \<longleftrightarrow> lawful R tr \<and> permits R (knows tr) e"
  by (simp add: lawful_def knows_def lawfulFrom_append)

section \<open>Handlers that keep to the protocol\<close>

text \<open>Traces grow at the end: they are kept in the form \<open>(tr @ [a]) @ [b]\<close>.\<close>

declare append_assoc [simp del]

text \<open>
  The invariant of a handler before its write to the API server: the trace is lawful, nothing
  has been written, and the object in memory is the one that was read, up to its status.
\<close>

definition onTrack ::
  "'w Reconciler \<Rightarrow> DistributionTenant \<Rightarrow> effect list \<Rightarrow> DistributionTenant \<Rightarrow> bool" where
  "onTrack R t tr u \<longleftrightarrow>
     lawful R tr \<and> kn_obj (knows tr) = Some t \<and> \<not> kn_over (knows tr) \<and>
     sameObject t u \<and> tenantID u = expectedID (knows tr) t"

definition mayPersist ::
  "'w Reconciler \<Rightarrow> DistributionTenant \<Rightarrow> effect list \<Rightarrow> DistributionTenant \<Rightarrow> bool" where
  "mayPersist R t tr u \<longleftrightarrow>
     onTrack R t tr u \<and> hasFinalizer R t \<and> \<not> kn_deleted (knows tr) \<and>
     (beingDeleted t \<longrightarrow> \<not> kn_gone (knows tr))"

lemma sameObject_simps [simp]:
  "sameObject t t"
  "sameObject t (u\<lparr>dt_Status := st\<rparr>) = sameObject t u"
  by (simp_all add: sameObject_def)

lemma putCondition_simps [simp]:
  "dt_Meta (putCondition R now ty st re msg u) = dt_Meta u"
  "dt_Spec (putCondition R now ty st re msg u) = dt_Spec u"
  "tenantID (putCondition R now ty st re msg u) = tenantID u"
  "st_ID (dt_Status (putCondition R now ty st re msg u)) = st_ID (dt_Status u)"
  "st_ETag (dt_Status (putCondition R now ty st re msg u)) = st_ETag (dt_Status u)"
  "st_DNSTarget (dt_Status (putCondition R now ty st re msg u)) = st_DNSTarget (dt_Status u)"
  "st_DNSChangeId (dt_Status (putCondition R now ty st re msg u)) = st_DNSChangeId (dt_Status u)"
  "st_DomainResults (dt_Status (putCondition R now ty st re msg u)) = st_DomainResults (dt_Status u)"
  "sameObject t (putCondition R now ty st re msg u) = sameObject t u"
  by (simp_all add: putCondition_def tenantID_def)

lemma onTrack_putCondition [simp]:
  "onTrack R t tr (putCondition R' now ty st re msg u) = onTrack R t tr u"
  "mayPersist R t tr (putCondition R' now ty st re msg u) = mayPersist R t tr u"
  by (simp_all add: onTrack_def mayPersist_def)

lemma onTrack_report [simp]:
  "onTrack R t (tr @ [Event ty re msg]) u = onTrack R t tr u"
  "onTrack R t (tr @ [MetricError m]) u = onTrack R t tr u"
  "mayPersist R t (tr @ [Event ty re msg]) u = mayPersist R t tr u"
  "mayPersist R t (tr @ [MetricError m]) u = mayPersist R t tr u"
  by (auto simp: onTrack_def mayPersist_def permits_def lawful_snoc)

lemma onTrack_lawful: "onTrack R t tr u \<Longrightarrow> lawful R tr"
  by (simp add: onTrack_def)

lemma mayPersist_onTrack: "mayPersist R t tr u \<Longrightarrow> onTrack R t tr u"
  by (simp add: mayPersist_def)

text \<open>A call that teaches nothing keeps the handler on track.\<close>

lemma onTrack_quiet:
  "onTrack R t tr u \<Longrightarrow> permits' R (knows tr) t e \<Longrightarrow> learn (knows tr) e = knows tr \<Longrightarrow>
   onTrack R t (tr @ [e]) u"
  by (auto simp: onTrack_def permits_def lawful_snoc)

lemma mayPersist_quiet:
  "mayPersist R t tr u \<Longrightarrow> permits' R (knows tr) t e \<Longrightarrow> learn (knows tr) e = knows tr \<Longrightarrow>
   mayPersist R t (tr @ [e]) u"
  by (simp add: mayPersist_def onTrack_quiet)

lemma persisted_lawful:
  assumes "mayPersist R t tr u"
  shows "lawful R (tr @ [KStatusUpdate u r])"
    and "lawful R ((tr @ [KStatusUpdate u r]) @ [Event ty re msg])"
  using assms by (auto simp: mayPersist_def onTrack_def permits_def isEvent_def lawful_snoc)

abbreviation lawfulRun :: "'w Reconciler \<Rightarrow> ('w, 'a) act \<Rightarrow> 'w dtState \<Rightarrow> bool" where
  "lawfulRun R m s \<equiv> wp m (\<lambda>_ s'. lawful R (trace s')) s"

lemma lawful_persistStatus:
  assumes "mayPersist R t (trace s) (obj s)"
    and "\<And>s' u r. trace s' = trace s @ [KStatusUpdate (obj s) r] \<Longrightarrow> lawfulRun R k s'"
  shows "lawfulRun R (persistStatus R k) s"
  using persisted_lawful [OF assms(1)] assms(2)
  by (auto simp: persistStatus_def wp_simps split: sum.split)

text \<open>What follows a write in the handlers: an event, or nothing.\<close>

lemma lawful_persist_event:
  assumes "mayPersist R t (trace s) (obj s)"
  shows "lawfulRun R (persistStatus R (do { recordEvent R ty re msg; returns x })) s"
    "lawfulRun R (persistStatus R (returns x)) s"
  using persisted_lawful [OF assms]
  by (auto intro!: lawful_persistStatus [OF assms] simp: recordEvent_def wp_simps)

lemma lawful_handleTerminalError:
  "mayPersist R t (trace s) (obj s) \<Longrightarrow> lawfulRun R (handleTerminalError R err op reason ty) s"
  by (auto simp: handleTerminalError_def setCondition_def wp_simps Let_def
      intro!: lawful_persist_event [where t = t] dest: mayPersist_onTrack onTrack_lawful)

lemma lawful_report:
  "mayPersist R t tr u \<Longrightarrow> lawful R (tr @ [MetricError m])"
  by (auto simp: mayPersist_def onTrack_def permits_def lawful_snoc)

lemma lawful_handleAWSError:
  "mayPersist R t (trace s) (obj s) \<Longrightarrow> lawfulRun R (handleAWSError R err op) s"
  by (auto simp: handleAWSError_def wp_simps
      intro!: lawful_handleTerminalError [where t = t] split: prod.split
      dest: mayPersist_onTrack onTrack_lawful lawful_report)

lemma lawful_handleDNSError:
  "mayPersist R t (trace s) (obj s) \<Longrightarrow> lawfulRun R (handleDNSError R err op) s"
  by (auto simp: handleDNSError_def setCondition_def wp_simps
      intro!: lawful_persist_event [where t = t]
      dest: mayPersist_onTrack onTrack_lawful lawful_report)

lemma lawful_handleDomainValidationPending:
  "mayPersist R t (trace s) (obj s) \<Longrightarrow> lawfulRun R (handleDomainValidationPending R err) s"
  by (auto simp: handleDomainValidationPending_def setCondition_def wp_simps
      intro!: lawful_persist_event [where t = t])

text \<open>Sequencing: a helper that keeps everything as it was, apart from calls that only read.\<close>

definition keeps ::
  "'w Reconciler \<Rightarrow> DistributionTenant \<Rightarrow> 'w dtState \<Rightarrow> 'w dtState \<Rightarrow> bool" where
  "keeps R t s s' \<longleftrightarrow> onTrack R t (trace s') (obj s') \<and> knows (trace s') = knows (trace s) \<and>
     obj s' = obj s"

lemma keepsD:
  assumes "keeps R t s s'"
  shows "onTrack R t (trace s') (obj s')" "knows (trace s') = knows (trace s)" "obj s' = obj s"
    "lawful R (trace s')"
  using assms by (auto simp: keeps_def onTrack_def)

lemma keeps_mayPersist:
  "keeps R t s s' \<Longrightarrow> mayPersist R t (trace s) (obj s) \<Longrightarrow> mayPersist R t (trace s') (obj s')"
  by (auto simp: keeps_def mayPersist_def)

lemma wp_then:
  "wp m P s \<Longrightarrow> (\<And>a s'. P a s' \<Longrightarrow> wp (f a) Q s') \<Longrightarrow> wp (State_Monad.bind m f) Q s"
  by (simp add: wp_bind wp_mono)

lemma onTrack_obj:
  assumes "onTrack R t tr u"
  shows "dt_Spec u = dt_Spec t" "dt_Meta u = dt_Meta t" "kn_obj (knows tr) = Some t"
    "\<not> kn_over (knows tr)" "lawful R tr"
  using assms by (auto simp: onTrack_def sameObject_def)

lemma onTrack_same: "onTrack R t tr u \<Longrightarrow> sameObject t u"
  by (simp add: onTrack_def)

lemma getDNSClient_keeps:
  assumes "onTrack R t (trace s) (obj s)" and "spec_DNS (dt_Spec t) \<noteq> None"
    and "\<not> kn_dnsWritten (knows (trace s))"
  shows "wp (getDNSClient R) (\<lambda>_ s'. keeps R t s s') s"
proof -
  have "onTrack R t (trace s @ [NewDNS (dnsRole (obj s)) r]) (obj s)" for r
    using assms by (intro onTrack_quiet) (auto simp: dnsRole_def onTrack_obj(1))
  then show ?thesis
    using assms(1)
    by (auto simp: getDNSClient_def wp_simps Let_def keeps_def split: option.split sum.split)
qed

lemma resolveCNAMETarget_keeps:
  assumes "onTrack R t (trace s) (obj s)" and "spec_DNS (dt_Spec t) \<noteq> None"
    and "\<not> beingDeleted t" and "\<not> kn_dnsWritten (knows (trace s))"
    and "\<not> kn_mutated (knows (trace s))"
  shows "wp (resolveCNAMETarget R) (\<lambda>_ s'. keeps R t s s') s"
proof -
  have "onTrack R t (trace s @ [CfDefaultEndpoint r]) (obj s)" for r
    using assms by (intro onTrack_quiet) auto
  moreover have "onTrack R t (trace s @ [CfEndpoint cg r]) (obj s)"
    if "spec_ConnectionGroupId (dt_Spec t) = Some cg" for cg r
    using assms that by (intro onTrack_quiet) auto
  ultimately show ?thesis
    using onTrack_obj(1) [OF assms(1)]
    by (auto simp: resolveCNAMETarget_def wp_simps keeps_def split: option.split)
qed

text \<open>A step either ends the reconcile lawfully or proceeds with everything kept.\<close>

definition stepOK ::
  "'w Reconciler \<Rightarrow> ('w dtState \<Rightarrow> bool) \<Rightarrow> step \<Rightarrow> 'w dtState \<Rightarrow> bool" where
  "stepOK R P d s' \<longleftrightarrow> lawful R (trace s') \<and> (d = Proceed \<longrightarrow> P s')"

lemma stepOK_simps [simp]:
  "stepOK R P (Handled r) s \<longleftrightarrow> lawful R (trace s)"
  "stepOK R P Proceed s \<longleftrightarrow> lawful R (trace s) \<and> P s"
  by (simp_all add: stepOK_def)

lemma wp_step:
  assumes "wp m (stepOK R P) s" and "\<And>s'. P s' \<Longrightarrow> lawful R (trace s') \<Longrightarrow> lawfulRun R k s'"
  shows "lawfulRun R (do { d \<leftarrow> m; case d of Handled res \<Rightarrow> returns res | Proceed \<Rightarrow> k }) s"
  by (rule wp_then [OF assms(1)]) (use assms(2) in \<open>auto simp: wp_simps split: step.split\<close>)

lemma asStep_OK: "lawfulRun R m s \<Longrightarrow> wp (asStep m) (stepOK R P) s"
  by (simp add: asStep_def wp_simps)

lemma validateSpec_OK:
  assumes "mayPersist R t (trace s) (obj s)" and "\<not> beingDeleted t"
    and "\<not> kn_mutated (knows (trace s))"
  shows "wp (validateSpec R) (stepOK R (keeps R t s)) s"
proof -
  have spec: "dt_Spec (obj s) = dt_Spec t"
    using assms(1) mayPersist_onTrack onTrack_obj(1) by blast
  have "mayPersist R t (trace s @ [CfInfo (spec_DistributionId (dt_Spec (obj s))) r]) (obj s)" for r
    using assms spec by (intro mayPersist_quiet) (auto simp: mayPersist_def)
  moreover from this have
    "lawful R (trace s @ [CfInfo (spec_DistributionId (dt_Spec (obj s))) r])" for r
    using mayPersist_onTrack onTrack_lawful by blast
  ultimately show ?thesis
    by (auto simp: validateSpec_def setCondition_def recordEvent_def wp_simps Let_def keeps_def
        intro!: lawful_persist_event [where t = t] split: option.split
        dest: mayPersist_onTrack onTrack_lawful)
qed

section \<open>Creation keeps to the protocol\<close>

lemma onTrack_step:
  assumes "onTrack R t tr u" and "permits' R (knows tr) t e"
  shows "lawful R (tr @ [e])"
    and "kn_obj (learn (knows tr) e) = Some t \<Longrightarrow> \<not> kn_over (learn (knows tr) e) \<Longrightarrow>
      tenantID u' = expectedID (learn (knows tr) e) t \<Longrightarrow> sameObject t u' \<Longrightarrow>
      onTrack R t (tr @ [e]) u'"
  using assms by (auto simp: onTrack_def permits_def lawful_snoc)

lemma mayPersist_step:
  assumes "mayPersist R t tr u" and "permits' R (knows tr) t e"
    and "kn_obj (learn (knows tr) e) = kn_obj (knows tr)"
    and "kn_over (learn (knows tr) e) = kn_over (knows tr)"
    and "kn_created (learn (knows tr) e) = kn_created (knows tr)"
    and "kn_gone (learn (knows tr) e) = kn_gone (knows tr)"
    and "kn_deleted (learn (knows tr) e) = kn_deleted (knows tr)"
  shows "mayPersist R t (tr @ [e]) u" "lawful R (tr @ [e])"
  using assms
  by (auto simp: mayPersist_def onTrack_def permits_def lawful_snoc expectedID_def)

lemma mayPersist_status [simp]:
  "st_ID st = tenantID u \<Longrightarrow>
   mayPersist R t tr (u\<lparr>dt_Status := st\<rparr>) = mayPersist R t tr u"
  by (simp add: mayPersist_def onTrack_def tenantID_def)

lemma checkSANs_OK:
  assumes "mayPersist R t (trace s) (obj s)" and "\<not> beingDeleted t" and "tenantID t = []"
    and "spec_ManagedCertificateRequest (dt_Spec t) = None" and "\<not> kn_mutated (knows (trace s))"
  shows "wp (checkSANs R acm arn) (stepOK R (keeps R t s)) s"
proof -
  have *: "mayPersist R t (trace s @ [AcmSANs arn r]) (obj s)"
      "lawful R (trace s @ [AcmSANs arn r])" if "arn \<noteq> []" for r
    using mayPersist_step [OF assms(1), of "AcmSANs arn r"] assms that by auto
  show ?thesis
    using * assms(1)
    by (auto simp: checkSANs_def setCondition_def recordEvent_def wp_simps Let_def keeps_def
        intro!: lawful_persist_event [where t = t] split: sum.split
        dest: mayPersist_onTrack onTrack_lawful)
qed

lemma keeps_trans: "keeps R t s s' \<Longrightarrow> keeps R t s' s'' \<Longrightarrow> keeps R t s s''"
  by (auto simp: keeps_def)

lemma stepOK_keeps_trans:
  "wp m (stepOK R (keeps R t s')) s' \<Longrightarrow> keeps R t s s' \<Longrightarrow> wp m (stepOK R (keeps R t s)) s'"
  by (erule wp_mono) (auto simp: stepOK_def intro: keeps_trans)

lemma validateCertificateSANs_OK:
  assumes "mayPersist R t (trace s) (obj s)" and "\<not> beingDeleted t" and "tenantID t = []"
    and "spec_ManagedCertificateRequest (dt_Spec t) = None" and "\<not> kn_mutated (knows (trace s))"
  shows "wp (validateCertificateSANs R) (stepOK R (keeps R t s)) s"
proof -
  let ?info = "CfInfo (spec_DistributionId (dt_Spec (obj s)))"
  have spec: "dt_Spec (obj s) = dt_Spec t"
    using assms(1) mayPersist_onTrack onTrack_obj(1) by blast
  have *: "mayPersist R t (trace s @ [?info r]) (obj s)" "lawful R (trace s @ [?info r])" for r
    using mayPersist_step [OF assms(1), of "?info r"] assms spec by (auto simp: mayPersist_def)
  have k: "keeps R t s (s\<lparr>world := w, trace := trace s @ [?info r]\<rparr>)" for w r
    using * assms spec by (auto simp: keeps_def mayPersist_onTrack)
  have c: "wp (checkSANs R acm arn) (stepOK R (keeps R t s))
      (s\<lparr>world := w, trace := trace s @ [?info r]\<rparr>)" for acm arn w r
    using * assms by (intro stepOK_keeps_trans [OF checkSANs_OK k]) auto
  have "lawful R (trace s)" "keeps R t s s"
    using assms(1) by (auto simp: keeps_def dest: mayPersist_onTrack onTrack_lawful)
  with c k *(2) show ?thesis
    by (simp add: validateCertificateSANs_def wp_simps Let_def checkSANs_OK [OF assms]
        split: option.split sum.split)
qed

lemma pollDNSChange_OK:
  assumes "mayPersist R t (trace s) (obj s)" and "\<not> beingDeleted t" and "tenantID t = []"
    and "spec_DNS (dt_Spec t) \<noteq> None" and "knows (trace s) = k"
    and "\<not> kn_mutated k" and "\<not> kn_dnsWritten k"
    and "st_DNSChangeId (dt_Status (obj s)) = st_DNSChangeId (dt_Status t)"
    and "st_DNSChangeId (dt_Status t) \<noteq> []"
  shows "wp (pollDNSChange R) (stepOK R (\<lambda>s'. mayPersist R t (trace s') (obj s') \<and>
    knows (trace s') = k\<lparr>kn_insync := True\<rparr>)) s"
proof -
  let ?c = "st_DNSChangeId (dt_Status t)"
  have c: "wp (getDNSClient R) (\<lambda>_ s'. keeps R t s s') s"
    using assms by (intro getDNSClient_keeps) (auto simp: mayPersist_onTrack)
  have *: "mayPersist R t (trace s' @ [DnsStatus ?c r]) (obj s')"
      "lawful R (trace s' @ [DnsStatus ?c r])" if "keeps R t s s'" for s' :: "'a dtState" and r
    using mayPersist_step [OF keeps_mayPersist [OF that assms(1)], of "DnsStatus ?c r"] assms that
    by (auto simp: keeps_def)
  show ?thesis
    unfolding pollDNSChange_def
  proof (rule wp_then [OF c], goal_cases)
    case (1 oc s')
    then have eq: "st_DNSChangeId (dt_Status (obj s')) = ?c" "knows (trace s') = k"
      "lawful R (trace s')"
      using assms by (auto simp: keeps_def dest: onTrack_lawful)
    show ?case
      using * [OF 1] eq
      by (auto simp: wp_simps Let_def setCondition_def split: outcome.split sum.split
          intro!: asStep_OK lawful_handleDNSError [where t = t] lawful_persist_event [where t = t])
  qed
qed

lemma cnameRecords_for [simp]:
  "dt_Spec u = dt_Spec t \<Longrightarrow>
   recordsFor t (cnameRecords (domainsToStrings (spec_Domains (dt_Spec u))) target ttl)"
  by (simp add: recordsFor_def cnameRecords_def domainsToStrings_def comp_def)

lemma submitDNSRecords_OK:
  assumes "mayPersist R t (trace s) (obj s)" and "\<not> beingDeleted t" and "tenantID t = []"
    and "spec_DNS (dt_Spec t) = Some dns"
    and "\<not> kn_mutated (knows (trace s))" and "\<not> kn_dnsWritten (knows (trace s))"
  shows "wp (submitDNSRecords R dns) (stepOK R (\<lambda>s'. False)) s"
proof -
  have c: "wp (resolveCNAMETarget R) (\<lambda>_ s'. keeps R t s s') s"
    using assms by (intro resolveCNAMETarget_keeps) (auto simp: mayPersist_onTrack)
  show ?thesis
    unfolding submitDNSRecords_def
  proof (rule wp_then [OF c], goal_cases)
    case (1 target s')
    note k1 = 1
    then have m1: "mayPersist R t (trace s') (obj s')"
      using assms keeps_mayPersist by blast
    have d: "wp (getDNSClient R) (\<lambda>_ s''. keeps R t s' s'') s'"
      using assms m1 k1 by (intro getDNSClient_keeps) (auto simp: mayPersist_onTrack keeps_def)
    show ?case
    proof (cases target)
      case (Inl err)
      then show ?thesis
        by (simp add: asStep_OK lawful_handleDNSError [OF m1])
    next
      case (Inr tg)
      have sp: "dt_Spec (obj s') = dt_Spec t"
        using m1 mayPersist_onTrack onTrack_obj(1) by blast
      let ?recs = "cnameRecords (domainsToStrings (spec_Domains (dt_Spec (obj s')))) tg (dnsTTL dns)"
      show ?thesis
        unfolding Inr sum.case wp_bind wp_getObj Let_def
      proof (rule wp_mono [OF d], goal_cases)
        case (1 oc s'')
        then have m2: "mayPersist R t (trace s'') (obj s'')" and k2: "keeps R t s s''"
          using m1 k1 keeps_mayPersist keeps_trans by blast+
        have u: "mayPersist R t (trace s'' @ [DnsUpsert (UpsertDNSRecordsInput.make z ?recs) r]) (obj s'')"
          "lawful R (trace s'' @ [DnsUpsert (UpsertDNSRecordsInput.make z ?recs) r])"
          if "dns_HostedZoneId dns = Some z" for z r
          using mayPersist_step [OF m2, of "DnsUpsert (UpsertDNSRecordsInput.make z ?recs) r"] assms
            that k2 sp
          by (auto simp: keeps_def UpsertDNSRecordsInput.make_def mayPersist_def)
        then show ?case
          using m2 mayPersist_onTrack [OF m2]
          by (auto simp: wp_simps setCondition_def recordEvent_def UpsertDNSRecordsInput.make_def
              tenantID_def onTrack_lawful split: outcome.split sum.split option.split
              intro!: asStep_OK lawful_handleDNSError [where t = t]
                lawful_persist_event [where t = t]
              dest: onTrack_lawful)
      qed
    qed
  qed
qed

lemma reconcileDNSBeforeCreate_OK:
  assumes "mayPersist R t (trace s) (obj s)" and "\<not> beingDeleted t" and "tenantID t = []"
    and "spec_DNS (dt_Spec t) = Some dns"
    and "\<not> kn_mutated (knows (trace s))" and "\<not> kn_dnsWritten (knows (trace s))"
    and "st_DNSChangeId (dt_Status (obj s)) = st_DNSChangeId (dt_Status t)"
  shows "wp (reconcileDNSBeforeCreate R dns) (stepOK R (\<lambda>s'. mayPersist R t (trace s') (obj s') \<and>
    st_DNSChangeId (dt_Status t) \<noteq> [] \<and>
    knows (trace s') = (knows (trace s))\<lparr>kn_insync := True\<rparr>)) s"
proof -
  have spec: "dt_Spec (obj s) = dt_Spec t" "lawful R (trace s)" "onTrack R t (trace s) (obj s)"
    using assms(1) mayPersist_onTrack onTrack_obj(1,5) by blast+
  let ?v = "if spec_ManagedCertificateRequest (dt_Spec (obj s)) = None \<and>
      st_DNSChangeId (dt_Status (obj s)) = [] then validateCertificateSANs R else returns Proceed"
  have v: "wp ?v (stepOK R (keeps R t s)) s"
    using validateCertificateSANs_OK assms spec by (auto simp: wp_simps keeps_def)
  show ?thesis
    unfolding reconcileDNSBeforeCreate_def wp_bind wp_getObj
  proof (rule wp_mono [OF v], goal_cases)
    case (1 d s')
    show ?case
    proof (cases d)
      case (Handled r)
      with 1 show ?thesis by (simp add: wp_simps)
    next
      case Proceed
      with 1 have k: "keeps R t s s'" by simp
      then have "mayPersist R t (trace s') (obj s')"
        using keeps_mayPersist assms(1) by blast
      moreover have "obj s' = obj s" "knows (trace s') = knows (trace s)"
        using k by (auto simp: keeps_def)
      ultimately show ?thesis
        using assms Proceed
          pollDNSChange_OK [of R t s' "knows (trace s)"]
          wp_mono [OF submitDNSRecords_OK [of R t s' dns], of "stepOK R P" for P]
        by (auto simp: stepOK_def)
    qed
  qed
qed

lemma lawful_createTenant:
  assumes "mayPersist R t (trace s) (obj s)" and "\<not> beingDeleted t" and "tenantID t = []"
    and "\<not> kn_mutated (knows (trace s))" and "\<not> kn_dnsWritten (knows (trace s))"
    and "spec_DNS (dt_Spec t) \<noteq> None \<Longrightarrow>
      st_DNSChangeId (dt_Status t) \<noteq> [] \<and> kn_insync (knows (trace s))"
    and "kn_created (knows (trace s)) = None"
  shows "lawfulRun R (createTenant R) s"
proof -
  have on: "onTrack R t (trace s) (obj s)" using assms(1) by (rule mayPersist_onTrack)
  have inp: "buildCreateInput (obj s) = buildCreateInput t"
    by (simp add: buildCreateInput_def onTrack_obj [OF on])
  let ?e = "\<lambda>r. CfCreate (buildCreateInput t) r"
  have p: "permits' R (knows (trace s)) t (?e r)" for r
    using assms by (auto simp: mayPersist_def)
  have l: "lawful R (trace s @ [?e r])" for r
    using onTrack_step(1) [OF on p] .
  have m: "mayPersist R t (trace s @ [?e (Inl err)]) (obj s)" for err
    using mayPersist_step [OF assms(1) p] assms(7) by auto
  have c: "mayPersist R t (trace s @ [?e (Inr (Some out))]) u"
    if "tenantID u = out_ID out" "sameObject t u" for out u
    using onTrack_step(2) [OF on p] assms that
    by (auto simp: mayPersist_def onTrack_obj [OF on] expectedID_def)
  have r: "tenantID (recordCreated out u) = out_ID out"
    "sameObject t (recordCreated out u) = sameObject t u" for out u
    by (simp_all add: recordCreated_def tenantID_def sameObject_def)
  show ?thesis
    using l m onTrack_same [OF on]
    by (auto simp: createTenant_def wp_simps Let_def inp setCondition_def
        updateCertificateCondition_def r c
        split: sum.split option.split prod.split
        intro!: lawful_handleDomainValidationPending [where t = t] lawful_handleAWSError [where t = t]
          lawful_persist_event [where t = t])
qed

text \<open>The knowledge right after the object was read.\<close>

definition justRead :: "DistributionTenant \<Rightarrow> knowledge" where
  "justRead t = ignorant\<lparr>kn_obj := Some t\<rparr>"

lemma justRead_simps [simp]:
  "kn_obj (justRead t) = Some t" "kn_aws (justRead t) = None" "\<not> kn_gone (justRead t)"
  "kn_cert (justRead t) = None" "\<not> kn_insync (justRead t)" "\<not> kn_dnsWritten (justRead t)"
  "\<not> kn_mutated (justRead t)" "kn_created (justRead t) = None" "\<not> kn_deleted (justRead t)"
  "\<not> kn_cleaned (justRead t)" "\<not> kn_over (justRead t)"
  by (simp_all add: justRead_def)

lemma expectedID_simps [simp]:
  "expectedID (justRead t) t = tenantID t"
  "expectedID (k\<lparr>kn_dnsWritten := a\<rparr>) t = expectedID k t"
  "expectedID (k\<lparr>kn_cleaned := b\<rparr>) t = expectedID k t"
  "expectedID (k\<lparr>kn_mutated := a\<rparr>) t = expectedID k t"
  "expectedID (k\<lparr>kn_deleted := b\<rparr>) t = expectedID k t"
  "expectedID (k\<lparr>kn_aws := a'\<rparr>) t = expectedID k t"
  "expectedID (k\<lparr>kn_cert := c'\<rparr>) t = expectedID k t"
  "\<not> kn_gone k \<Longrightarrow> expectedID (k\<lparr>kn_gone := False\<rparr>) t = expectedID k t"
  "beingDeleted t \<Longrightarrow> expectedID (k\<lparr>kn_gone := b\<rparr>) t = expectedID k t"
  by (auto simp: expectedID_def split: option.split)

lemma lawful_reconcileCreate:
  assumes "lawful R (trace s)" and "knows (trace s) = justRead t" and "obj s = t"
    and "hasFinalizer R t" and "\<not> beingDeleted t" and "tenantID t = []"
  shows "lawfulRun R (reconcileCreate R) s"
proof -
  have m: "mayPersist R t (trace s) (obj s)"
    using assms by (simp add: mayPersist_def onTrack_def)
  have v: "wp (validateSpec R) (stepOK R (keeps R t s)) s"
    using assms m by (intro validateSpec_OK) auto
  let ?d = "\<lambda>dns. case dns of Some dns \<Rightarrow> reconcileDNSBeforeCreate R dns
    | None \<Rightarrow> do { setCondition R ConditionTypeDNSReady ConditionTrue ReasonDNSNotConfigured
        msgDNSNotConfigured; returns Proceed }"
  let ?P = "\<lambda>s'. mayPersist R t (trace s') (obj s') \<and>
    kn_created (knows (trace s')) = None \<and>
    \<not> kn_mutated (knows (trace s')) \<and> \<not> kn_dnsWritten (knows (trace s')) \<and>
    (spec_DNS (dt_Spec t) \<noteq> None \<longrightarrow>
       st_DNSChangeId (dt_Status t) \<noteq> [] \<and> kn_insync (knows (trace s')))"
  have d: "wp (?d (spec_DNS (dt_Spec (obj s')))) (stepOK R ?P) s'" if "keeps R t s s'" for s'
  proof -
    have *: "mayPersist R t (trace s') (obj s')" "obj s' = t" "knows (trace s') = justRead t"
        "lawful R (trace s')"
      using keeps_mayPersist [OF that m] that assms(2,3) keepsD [OF that] by auto
    show ?thesis
    proof (cases "spec_DNS (dt_Spec t)")
      case None
      with * show ?thesis by (simp add: wp_simps setCondition_def)
    next
      case (Some dns)
      have "wp (reconcileDNSBeforeCreate R dns) (stepOK R (\<lambda>s'a. mayPersist R t (trace s'a) (obj s'a) \<and>
          st_DNSChangeId (dt_Status t) \<noteq> [] \<and>
          knows (trace s'a) = (knows (trace s'))\<lparr>kn_insync := True\<rparr>)) s'"
        using * assms Some by (intro reconcileDNSBeforeCreate_OK) auto
      then show ?thesis
        using * Some by (auto elim!: wp_mono simp: stepOK_def)
    qed
  qed
  show ?thesis
    unfolding reconcileCreate_def
  proof (rule wp_step [OF v])
    fix s' assume k: "keeps R t s s'"
    show "lawfulRun R (do { tenant \<leftarrow> getObj; d \<leftarrow> ?d (spec_DNS (dt_Spec tenant));
        case d of Handled res \<Rightarrow> returns res | Proceed \<Rightarrow> createTenant R }) s'"
      unfolding wp_bind [of getObj] wp_getObj
      by (rule wp_step [OF d [OF k]]) (use assms in \<open>auto intro!: lawful_createTenant [where t = t]\<close>)
  qed
qed

section \<open>Deletion keeps to the protocol\<close>

definition cleanedUp :: "'w Reconciler \<Rightarrow> DistributionTenant \<Rightarrow> 'w dtState \<Rightarrow> 'w dtState \<Rightarrow> bool" where
  "cleanedUp R t s s' \<longleftrightarrow>
     onTrack R t (trace s') (obj s') \<and> obj s' = obj s \<and> awsReleased (knows (trace s')) t \<and>
     (needsCleanup R t \<longrightarrow> kn_cleaned (knows (trace s'))) \<and>
     (kn_mutated (knows (trace s')) \<longrightarrow> kn_deleted (knows (trace s')))"

definition releasing :: "'w Reconciler \<Rightarrow> DistributionTenant \<Rightarrow> 'w dtState \<Rightarrow> bool" where
  "releasing R t s \<longleftrightarrow>
     onTrack R t (trace s) (obj s) \<and> obj s = t \<and> hasFinalizer R t \<and> beingDeleted t \<and>
     awsReleased (knows (trace s)) t \<and> \<not> kn_dnsWritten (knows (trace s)) \<and>
     (kn_mutated (knows (trace s)) \<longrightarrow> kn_deleted (knows (trace s)))"

lemma cleanupDNSRecords_OK:
  assumes "releasing R t s"
  shows "wp (cleanupDNSRecords R) (\<lambda>c s'. lawful R (trace s') \<and> (c = Done () \<longrightarrow> cleanedUp R t s s')) s"
proof (cases "needsCleanup R t")
  case False
  with assms show ?thesis
    by (auto simp: cleanupDNSRecords_def wp_simps cleanedUp_def releasing_def needsCleanup_def
        split: option.split dest: onTrack_lawful)
next
  case True
  then obtain dns zone where dns: "spec_DNS (dt_Spec t) = Some dns" "dns_HostedZoneId dns = Some zone"
    "st_DNSTarget (dt_Status t) \<noteq> []" "r_NewDNSClient R \<noteq> None"
    by (auto simp: needsCleanup_def split: option.splits)
  have on: "onTrack R t (trace s) (obj s)" "obj s = t" using assms by (auto simp: releasing_def)
  let ?inp = "\<lparr>del_HostedZoneId = zone, del_Records = cnameRecords
    (domainsToStrings (spec_Domains (dt_Spec t))) (st_DNSTarget (dt_Status t)) (dnsTTL dns)\<rparr>"
  have c: "wp (getDNSClient R) (\<lambda>_ s'. keeps R t s s') s"
    using assms dns by (intro getDNSClient_keeps) (auto simp: releasing_def)
  show ?thesis
    unfolding cleanupDNSRecords_def
  proof (simp only: wp_bind wp_getObj dns on(2) option.case if_False Let_def,
      rule wp_mono [OF c], goal_cases)
    case (1 oc s')
    then have on': "onTrack R t (trace s') (obj s')" "knows (trace s') = knows (trace s)" "obj s' = t"
      using on by (auto simp: keeps_def)
    have p: "permits' R (knows (trace s')) t (DnsDelete ?inp r)" for r
      using assms dns on' True by (auto simp: releasing_def)
    have w: "\<not> kn_over (knows (trace s))" "kn_obj (knows (trace s)) = Some t"
        "tenantID t = expectedID (knows (trace s)) t"
      using on by (auto simp: onTrack_def)
    have t: "onTrack R t (trace s' @ [DnsDelete ?inp r]) t" for r
      using onTrack_step(2) [OF on'(1) p] on' w by auto
    have e: "onTrack R t ((trace s' @ [DnsDelete ?inp r]) @ [Event ty re msg]) t" for r ty re msg
      using t by simp
    show ?case
      using t e on' on(2) assms onTrack_lawful [OF on'(1)] onTrack_lawful [OF t]
        onTrack_lawful [OF e]
      by (auto simp: wp_simps recordEvent_def cleanedUp_def releasing_def awsReleased_def
          split: outcome.split sum.split)
  qed
qed

lemma lawful_releaseFinalizer:
  assumes "cleanedUp R t s s'" and "releasing R t s"
  shows "lawfulRun R (releaseFinalizer R) s'"
    "lawfulRun R (do { recordEvent R ty re msg; releaseFinalizer R }) s'"
proof -
  let ?u = "updFinalizers (\<lambda>fs. RemoveFinalizer (r_Meta R) fs FinalizerName) t"
  have u: "obj s' = t" "onTrack R t (trace s') t"
    using assms by (auto simp: cleanedUp_def releasing_def)
  have "permits' R (knows (trace s')) t (KUpdate ?u r)" for r
    using assms by (auto simp: cleanedUp_def releasing_def objectWriteAllowed_def)
  then have *: "lawful R (trace s' @ [KUpdate ?u r])"
      "lawful R ((trace s' @ [Event ty re msg]) @ [KUpdate ?u r])" for r ty re msg
    using onTrack_step(1) [OF u(2)] onTrack_step(1) [of R t "trace s' @ [Event ty re msg]" t] u(2)
    by auto
  then show "lawfulRun R (releaseFinalizer R) s'"
    "lawfulRun R (do { recordEvent R ty re msg; releaseFinalizer R }) s'"
    using u by (auto simp: releaseFinalizer_def recordEvent_def wp_simps split: sum.split)
qed

lemma lawful_cleanupThen:
  assumes "releasing R t s"
  shows "lawfulRun R (cleanupThen R (releaseFinalizer R)) s"
    "lawfulRun R (cleanupThen R (do { recordEvent R ty re msg; releaseFinalizer R })) s"
  using lawful_releaseFinalizer [OF _ assms] unfolding cleanupThen_def
  by (auto intro!: wp_then [OF cleanupDNSRecords_OK [OF assms]] simp: wp_return
      split: outcome.split)

lemma lawful_deleteTenant:
  assumes "mayPersist R t (trace s) (obj s)" and "obj s = t" and "beingDeleted t"
    and "kn_aws (knows (trace s)) = Some out" and "\<not> out_Enabled out"
    and "\<not> kn_mutated (knows (trace s))" and "\<not> kn_dnsWritten (knows (trace s))"
  shows "lawfulRun R (deleteTenant R out) s"
proof -
  let ?e = "\<lambda>r. CfDelete (tenantID t) (out_ETag out) r"
  have on: "onTrack R t (trace s) t" using assms(1,2) mayPersist_onTrack by simp
  have p: "permits' R (knows (trace s)) t (?e r)" for r
    using assms by (auto simp: mayPersist_def)
  have l: "lawful R (trace s @ [?e r])" for r
    using onTrack_step(1) [OF on p] .
  have m: "mayPersist R t (trace s @ [?e (Inl err)]) (obj s)" for err
    using mayPersist_step [OF assms(1) p] assms(1) by (auto simp: mayPersist_def)
  have "onTrack R t (trace s @ [?e (Inr ())]) t"
    using onTrack_step(2) [OF on p] on by (auto simp: onTrack_def)
  then have rel: "releasing R t (s\<lparr>world := w, trace := trace s @ [?e (Inr ())]\<rparr>)" for w
    using assms by (auto simp: releasing_def mayPersist_def awsReleased_def)
  show ?thesis
    using l m lawful_cleanupThen(2) [OF rel] assms(2)
    by (auto simp: deleteTenant_def wp_simps Let_def tenantID_def split: sum.split
        intro!: lawful_handleAWSError [where t = t])
qed

lemma lawful_disableTenant:
  assumes "mayPersist R t (trace s) (obj s)" and "obj s = t" and "beingDeleted t"
    and "kn_aws (knows (trace s)) = Some out" and "out_Enabled out"
    and "\<not> kn_mutated (knows (trace s))"
  shows "lawfulRun R (disableTenant R out) s"
proof -
  let ?e = "\<lambda>r. CfUpdate (disableInput t out) r"
  have m: "mayPersist R t (tr @ [?e r]) t" "lawful R (tr @ [?e r])"
    if "mayPersist R t tr t" "knows tr = knows (trace s)" for r tr
    using mayPersist_step [OF that(1), of "?e r"] that(2) assms
    by (auto simp: mayPersist_def updateAllowed_def)
  have m2: "mayPersist R t (trace s) t" "mayPersist R t (trace s @ [Event ty re msg]) t"
    for ty re msg
    using assms(1,2) by auto
  show ?thesis
    using m [OF m2(1)] m [OF m2(2)] assms(2)
    by (auto simp: disableTenant_def wp_simps recordEvent_def setCondition_def Let_def tenantID_def
        split: sum.split option.split
        intro!: lawful_handleAWSError [where t = t] lawful_persist_event [where t = t])
qed

lemma lawful_reconcileDelete:
  assumes "lawful R (trace s)" and "knows (trace s) = justRead t" and "obj s = t"
    and "beingDeleted t"
  shows "lawfulRun R (reconcileDelete R) s"
proof (cases "hasFinalizer R t")
  case False
  with assms show ?thesis by (simp add: reconcileDelete_def wp_simps hasFinalizer_def)
next
  case True
  have on: "onTrack R t (trace s) t" using assms by (simp add: onTrack_def)
  show ?thesis
  proof (cases "tenantID t = []")
    case id: True
    then have "releasing R t s"
      using on assms True by (simp add: releasing_def awsReleased_def)
    with id True assms(3) show ?thesis
      by (simp add: reconcileDelete_def wp_simps hasFinalizer_def tenantID_def lawful_cleanupThen)
  next
    case id: False
    let ?e = "\<lambda>r. CfGet (tenantID t) r"
    have p: "permits' R (knows (trace s)) t (?e r)" for r
      using assms True id by auto
    have l: "lawful R (trace s @ [?e r])" for r
      using onTrack_step(1) [OF on p] .
    have on': "onTrack R t (trace s @ [?e r]) t" if "\<And>e. r = Inl e \<Longrightarrow> \<not> IsNotFound (Some e)" for r
      using onTrack_step(2) [OF on p, of r t] that assms by (cases r) auto
    have mp: "mayPersist R t (trace s @ [?e r]) t" if "\<And>e. r = Inl e \<Longrightarrow> \<not> IsNotFound (Some e)" for r
      using on' [OF that] that True assms by (cases r) (auto simp: mayPersist_def)
    have rel: "releasing R t (s\<lparr>world := w, trace := trace s @ [?e (Inl err)]\<rparr>)"
      if "IsNotFound (Some err)" for w err
      using l that assms True by (simp add: releasing_def awsReleased_def onTrack_def expectedID_def)
    have mp': "mayPersist R t (trace s @ [?e (Inr out)]) t"
      "\<not> IsNotFound (Some err) \<Longrightarrow> mayPersist R t (trace s @ [?e (Inl err)]) t" for out err
      by (rule mp; simp)+
    show ?thesis
      using True id assms(2,4) l
      by (auto simp: assms(3) mp' reconcileDelete_def wp_simps hasFinalizer_def [symmetric] Let_def
          tenantID_def [symmetric] split: sum.split option.split
          intro!: lawful_handleAWSError [where t = t] lawful_cleanupThen [where t = t] rel
            lawful_disableTenant [where t = t] lawful_deleteTenant [where t = t])
  qed
qed

section \<open>The steady state and updates keep to the protocol\<close>

definition watching ::
  "'w Reconciler \<Rightarrow> DistributionTenant \<Rightarrow> DistributionTenantOutput \<Rightarrow> 'w dtState \<Rightarrow> bool" where
  "watching R t out s \<longleftrightarrow>
     mayPersist R t (trace s) (obj s) \<and> \<not> beingDeleted t \<and> tenantID t \<noteq> [] \<and>
     kn_aws (knows (trace s)) = Some out \<and> \<not> kn_mutated (knows (trace s)) \<and>
     tenantID (obj s) = tenantID t"

lemma watchingD:
  assumes "watching R t out s"
  shows "mayPersist R t (trace s) (obj s)" "onTrack R t (trace s) (obj s)"
    "lawful R (trace s)" "dt_Spec (obj s) = dt_Spec t" "dt_Meta (obj s) = dt_Meta t"
    "\<not> kn_mutated (knows (trace s))" "tenantID (obj s) = tenantID t"
    "st_ID (dt_Status (obj s)) = tenantID t"
proof -
  show m: "mayPersist R t (trace s) (obj s)" and "\<not> kn_mutated (knows (trace s))"
    and i: "tenantID (obj s) = tenantID t"
    using assms by (simp_all add: watching_def)
  show on: "onTrack R t (trace s) (obj s)" using m by (rule mayPersist_onTrack)
  show "lawful R (trace s)" "dt_Spec (obj s) = dt_Spec t" "dt_Meta (obj s) = dt_Meta t"
    using onTrack_obj [OF on] by simp_all
  show "st_ID (dt_Status (obj s)) = tenantID t" using i by (simp add: tenantID_def)
qed

lemma watching_keeps: "watching R t out s \<Longrightarrow> keeps R t s s' \<Longrightarrow> watching R t out s'"
  using keeps_mayPersist [of R t s s'] by (auto simp: watching_def keeps_def)

lemma recordUpdated_simps [simp]:
  "tenantID (recordUpdated out u) = tenantID u"
  "sameObject t (recordUpdated out u) = sameObject t u"
  "tenantID (recordObserved out u) = tenantID u"
  "sameObject t (recordObserved out u) = sameObject t u"
  "tenantID (updateStatusFromAWS out u) = tenantID u"
  by (simp_all add: recordUpdated_def recordObserved_def tenantID_def sameObject_def)

lemma mayPersist_alike:
  "mayPersist R t tr u \<Longrightarrow> sameObject t u' \<Longrightarrow> tenantID u' = tenantID u \<Longrightarrow> mayPersist R t tr u'"
  by (simp add: mayPersist_def onTrack_def)

lemma lawful_reconcileUpdate:
  assumes "watching R t out s"
    and "updateAllowed R t out (buildUpdateInput t (out_ETag out))"
  shows "lawfulRun R (reconcileUpdate R out) s"
proof -
  note w = watchingD [OF assms(1)]
  let ?e = "\<lambda>r. CfUpdate (buildUpdateInput t (out_ETag out)) r"
  have inp: "buildUpdateInput (obj s) e = buildUpdateInput t e" for e
    using w(4,7) by (simp add: buildUpdateInput_def tenantID_def)
  have m: "mayPersist R t (trace s @ [?e r]) (obj s)" "lawful R (trace s @ [?e r])" for r
    using mayPersist_step [OF w(1), of "?e r"] assms by (auto simp: watching_def mayPersist_def)
  have "mayPersist R t (trace s @ [?e r]) (recordUpdated o' (obj s))" for r o'
    by (rule mayPersist_alike [OF m(1)]) (use onTrack_same [OF w(2)] in auto)
  then show ?thesis
    using m
    by (auto simp: reconcileUpdate_def wp_simps Let_def inp setCondition_def
        split: sum.split option.split
        intro!: lawful_handleAWSError [where t = t] lawful_persist_event [where t = t])
qed

lemma lawful_handleDrift:
  assumes "watching R t out s" and "detectChanges t out = changeDrift"
  shows "lawfulRun R (handleDrift R out) s"
proof -
  note w = watchingD [OF assms(1)]
  let ?u = "\<lambda>now. updStatus (\<lambda>st. st\<lparr>st_LastDriftCheckTime := Some now, st_DriftDetected := True\<rparr>) (obj s)"
  have m: "mayPersist R t (trace s @ [MetricDrift]) (obj s)"
    using mayPersist_step [OF w(1), of MetricDrift] assms by (auto simp: watching_def)
  have u: "mayPersist R t (trace s @ [MetricDrift]) (?u now)" for now
    by (rule mayPersist_alike [OF m]) (use onTrack_same [OF w(2)] in \<open>auto simp: tenantID_def\<close>)
  have "updateAllowed R t out (buildUpdateInput t (out_ETag out))"
    if "r_DriftPolicy R = DriftPolicyEnforce"
    using that assms by (simp add: updateAllowed_def watching_def)
  then show ?thesis
    using u assms(1)
    by (auto simp: handleDrift_def wp_simps setCondition_def recordEvent_def watching_def tenantID_def
        intro!: lawful_persist_event [where t = t] lawful_reconcileUpdate [where t = t])
qed

lemma upsertDNSForUpdate_OK:
  assumes "watching R t out s" and "detectChanges t out = changeSpec"
    and "\<not> kn_dnsWritten (knows (trace s))"
  shows "wp (upsertDNSForUpdate R) (\<lambda>_ s'. watching R t out s') s"
proof (cases "spec_DNS (dt_Spec t)")
  case None
  then show ?thesis
    using assms watchingD(4) [OF assms(1)] by (simp add: upsertDNSForUpdate_def wp_simps)
next
  case (Some dns)
  note w = watchingD [OF assms(1)]
  let ?recs = "\<lambda>tg. cnameRecords (domainsToStrings (spec_Domains (dt_Spec t))) tg (dnsTTL dns)"
  let ?t = "if st_DNSTarget (dt_Status (obj s)) = [] then do {
       r \<leftarrow> resolveCNAMETarget R;
       case r of
         Inl err \<Rightarrow> returns (Inl (wrapErr
           ''failed to resolve CNAME target for DNS update: '' err))
       | Inr target \<Rightarrow> do {
           modifyObj (updStatus (\<lambda>st. st\<lparr>st_DNSTarget := target\<rparr>));
           returns (Inr target)
         }
     } else returns (Inr (st_DNSTarget (dt_Status (obj s))))"
  let ?P = "\<lambda>s'. watching R t out s' \<and> \<not> kn_dnsWritten (knows (trace s'))"
  have res: "wp (resolveCNAMETarget R) (\<lambda>_ s'. keeps R t s s') s"
    using assms w Some by (intro resolveCNAMETarget_keeps) (auto simp: watching_def)
  have tgt: "wp ?t (\<lambda>_. ?P) s"
  proof -
    have "?P s' \<and> ?P (s'\<lparr>obj := updStatus (\<lambda>st. st\<lparr>st_DNSTarget := tg\<rparr>) (obj s')\<rparr>)"
      if "keeps R t s s'" for s' tg
      using watching_keeps [OF assms(1) that] that assms(3)
      by (auto simp: keeps_def watching_def tenantID_def)
    then show ?thesis
      using assms by (auto simp: wp_simps intro!: wp_mono [OF res] split: sum.split)
  qed
  have up: "watching R t out (s'\<lparr>world := w', trace := trace s' @
      [DnsUpsert \<lparr>upsert_HostedZoneId = z, upsert_Records = ?recs tg\<rparr> r]\<rparr>)"
    if "?P s'" "dns_HostedZoneId dns = Some z" for s' w' z tg r
    using mayPersist_step [of R t "trace s'" "obj s'"
        "DnsUpsert \<lparr>upsert_HostedZoneId = z, upsert_Records = ?recs tg\<rparr> r"] that assms(2) Some
    by (auto simp: watching_def mayPersist_def)
  have cl: "wp (getDNSClient R) (\<lambda>_. ?P) s'" if "?P s'" for s'
  proof -
    have "wp (getDNSClient R) (\<lambda>_ s''. keeps R t s' s'') s'"
      using that Some watchingD(2) by (intro getDNSClient_keeps) auto
    then show ?thesis
      by (rule wp_mono) (use that in \<open>auto intro: watching_keeps dest: keepsD(2)\<close>)
  qed
  show ?thesis
  proof (cases "dns_HostedZoneId dns = None \<or> r_NewDNSClient R = None")
    case True
    then show ?thesis
      using assms(1) w(4) Some
      by (auto simp: upsertDNSForUpdate_def wp_simps split: option.split)
  next
    case False
    then obtain zone where zone: "dns_HostedZoneId dns = Some zone" "r_NewDNSClient R \<noteq> None" by auto
    show ?thesis
      unfolding upsertDNSForUpdate_def
    proof (simp only: wp_bind [of getObj] wp_getObj w(4) Some zone option.case if_False,
        rule wp_then [OF tgt], goal_cases)
      case (1 tg s')
      then show ?case
        using zone
        by (cases tg) (auto simp: wp_simps Let_def split: sum.split outcome.split
            intro!: wp_mono [OF cl] up)
    qed
  qed
qed

lemma updateConditions_wp:
  assumes "\<And>w u. sameObject (obj s) u \<Longrightarrow> tenantID u = tenantID (obj s) \<Longrightarrow>
      st_DNSTarget (dt_Status u) = st_DNSTarget (dt_Status (obj s)) \<Longrightarrow>
      st_DomainResults (dt_Status u) = st_DomainResults (dt_Status (obj s)) \<Longrightarrow>
      Q () (s\<lparr>world := w, obj := u\<rparr>)"
  shows "wp (setCondition R ty st re msg) Q s"
    and "wp (updateCertificateCondition R cert) Q s"
    and "wp (updateDNSCondition R) Q s"
proof -
  have *: "Q () s"
    using assms [of "obj s" "world s"] by simp
  show "wp (setCondition R ty st re msg) Q s" "wp (updateCertificateCondition R cert) Q s"
    "wp (updateDNSCondition R) Q s"
    using * by (auto simp: setCondition_def updateCertificateCondition_def updateDNSCondition_def
        wp_simps split: prod.split intro!: assms)
qed

lemma cleanupOrphaned_none:
  "orphanedDomains (obj s) = [] \<Longrightarrow> wp (cleanupOrphanedDNSRecords R) Q s \<longleftrightarrow> Q (Done ()) s"
  by (auto simp: cleanupOrphanedDNSRecords_def cnameRecords_def wp_simps split: option.split)

text \<open>A tenant whose domain results come from an AWS tenant that matches the spec has no
  orphaned domain.\<close>

lemma no_orphans:
  assumes "specMatchesAWS (dt_Spec u) out"
    and "map dr_Domain (st_DomainResults (dt_Status u)) = map dro_Domain (out_Domains out)"
  shows "orphanedDomains u = []"
proof -
  have "dro_Domain d \<in> dom_Domain ` set (spec_Domains (dt_Spec u))" if "d \<in> set (out_Domains out)" for d
    using assms(1) that by (auto simp: specMatchesAWS_conj list_all_iff mapGet_True_iff)
  moreover have "dr_Domain ` set (st_DomainResults (dt_Status u)) = dro_Domain ` set (out_Domains out)"
    using assms(2) by (metis set_map)
  ultimately have "dr_Domain ` set (st_DomainResults (dt_Status u)) \<subseteq>
      dom_Domain ` set (spec_Domains (dt_Spec u))"
    by (simp add: image_subset_iff)
  then show ?thesis
    by (auto simp: orphanedDomains_def Let_def mapGet_True_iff filter_empty_conv)
qed

lemma lawful_steadyState:
  assumes "watching R t out s" and "orphanedDomains (obj s) = []"
  shows "lawfulRun R (steadyState R cert) s"
proof -
  note w = watchingD [OF assms(1)]
  have m: "mayPersist R t (trace s) u" if "sameObject (obj s) u" "tenantID u = tenantID (obj s)" for u
    by (rule mayPersist_alike [OF w(1)]) (use that onTrack_same [OF w(2)] in \<open>auto simp: sameObject_def\<close>)
  have o: "orphanedDomains u = []" if "sameObject (obj s) u"
    "st_DomainResults (dt_Status u) = st_DomainResults (dt_Status (obj s))" for u
    using assms(2) that by (simp add: orphanedDomains_def sameObject_def)
  show ?thesis
    unfolding steadyState_def wp_bind wp_silent wp_modifyObj
    by (auto intro!: updateConditions_wp lawful_persist_event(2) [where t = t] m
        simp: cleanupOrphaned_none o wp_simps sameObject_def tenantID_def)
qed

lemma lawful_stillDeploying:
  assumes "watching R t out s"
  shows "lawfulRun R (stillDeploying R cert) s"
proof -
  note w = watchingD [OF assms(1)]
  have m: "mayPersist R t (trace s) u" if "sameObject (obj s) u" "tenantID u = tenantID (obj s)" for u
    by (rule mayPersist_alike [OF w(1)]) (use that onTrack_same [OF w(2)] in \<open>auto simp: sameObject_def\<close>)
  show ?thesis
    unfolding stillDeploying_def wp_bind wp_silent wp_modifyObj
    by (auto intro!: updateConditions_wp lawful_persist_event(2) [where t = t] m
        simp: wp_simps sameObject_def tenantID_def)
qed

definition fetched ::
  "ManagedCertificateDetailsOutput option \<Rightarrow> 'w dtState \<Rightarrow> 'w dtState \<Rightarrow> bool" where
  "fetched cert s s' \<longleftrightarrow>
     st_DomainResults (dt_Status (obj s')) = st_DomainResults (dt_Status (obj s)) \<and>
     st_ObservedGeneration (dt_Status (obj s')) = st_ObservedGeneration (dt_Status (obj s)) \<and>
     kn_dnsWritten (knows (trace s')) = kn_dnsWritten (knows (trace s)) \<and>
     (cert \<noteq> None \<longrightarrow> kn_cert (knows (trace s')) = cert)"

lemma fetchCertDetails_OK:
  assumes "watching R t out s"
  shows "wp (fetchCertDetails R) (\<lambda>cert s'. watching R t out s' \<and> fetched cert s s') s"
proof (cases "spec_ManagedCertificateRequest (dt_Spec t) = None")
  case True
  then show ?thesis
    using assms watchingD(4) [OF assms] by (simp add: fetchCertDetails_def wp_simps fetched_def)
next
  case False
  note w = watchingD [OF assms]
  let ?e = "\<lambda>r. CfCert (tenantID t) r"
  have m: "mayPersist R t (trace s @ [?e r]) (obj s)" for r
    using mayPersist_step(1) [OF w(1), of "?e r"] False assms
    by (cases r) (auto simp: watching_def)
  then have wa: "watching R t out (s\<lparr>world := w', trace := trace s @ [?e r]\<rparr>)" for w' r
    using assms by (cases r) (auto simp: watching_def)
  have wo: "watching R t out (s\<lparr>world := w', trace := trace s @ [?e r],
      obj := updStatus (\<lambda>st. st\<lparr>st_CertificateArn := a, st_ManagedCertificateStatus := b\<rparr>) (obj s)\<rparr>)"
    for w' r a b
    using wa [of r w'] by (simp add: watching_def tenantID_def)
  show ?thesis
    using False wa wo
    by (auto simp: fetchCertDetails_def wp_simps Let_def w(4,8) fetched_def
        split: sum.split option.split)
qed

lemma lawful_persistCertificate:
  assumes "watching R t out s" and "detectChanges t out = changeNone"
    and "kn_cert (knows (trace s)) = Some d" and "mcd_CertificateStatus d = ''issued''"
  shows "lawfulRun R (persistCertificate R (mcd_CertificateArn d)) s"
proof -
  note w = watchingD [OF assms(1)]
  let ?u = "attachCertificate (mcd_CertificateArn d) (obj s)"
  have "lawful R (tr @ [KUpdate ?u r])" if "onTrack R t tr (obj s)" "knows tr = knows (trace s)" for tr r
  proof (rule onTrack_step(1) [OF that(1)])
    have "dt_Meta ?u = dt_Meta t" "dt_Spec ?u = dt_Spec (attachCertificate (mcd_CertificateArn d) t)"
      using w(4,5) by (simp_all add: attachCertificate_def)
    then show "permits' R (knows tr) t (KUpdate ?u r)"
      using assms that(2) by (auto simp: objectWriteAllowed_def watching_def mayPersist_def)
  qed
  note * = this [OF w(2)] this [of "trace s @ [Event ty re msg]" for ty re msg]
  show ?thesis
    using * w(2)
    by (auto simp: persistCertificate_def recordEvent_def wp_simps split: sum.split)
qed

lemma lawful_recreateAfterExternalDeletion:
  assumes "onTrack R t (trace s) t" and "obj s = t" and "hasFinalizer R t" and "\<not> beingDeleted t"
    and "knows (trace s) = justRead t" and "IsNotFound (Some err)" and "tenantID t \<noteq> []"
  shows "lawfulRun R (recreateAfterExternalDeletion R)
    (s\<lparr>world := w, trace := trace s @ [CfGet (tenantID t) (Inl err)]\<rparr>)"
proof -
  let ?e = "CfGet (tenantID t) (Inl err)"
  have p: "permits' R (knows (trace s)) t ?e"
    using assms by auto
  have "onTrack R t (trace s @ [?e]) (clearAWSIdentity t)"
    using onTrack_step(2) [OF assms(1) p, of "clearAWSIdentity t"] assms
    by (simp add: expectedID_def clearAWSIdentity_def tenantID_def)
  then have m: "mayPersist R t (trace s @ [?e]) (clearAWSIdentity t)"
    using assms by (simp add: mayPersist_def)
  then show ?thesis
    using assms(2)
    by (auto simp: recreateAfterExternalDeletion_def wp_simps recordEvent_def setCondition_def
        intro!: lawful_persist_event [where t = t])
qed

lemma lawful_applySpecChange:
  assumes "watching R t out s" and "detectChanges t out = changeSpec"
    and "\<not> kn_dnsWritten (knows (trace s))"
  shows "lawfulRun R (applySpecChange R out) s"
proof -
  note w = watchingD [OF assms(1)]
  have v: "wp (validateSpec R) (stepOK R (keeps R t s)) s"
    using assms w by (intro validateSpec_OK) (auto simp: watching_def)
  have upd: "updateAllowed R t out (buildUpdateInput t (out_ETag out))"
    using assms by (simp add: updateAllowed_def watching_def)
  show ?thesis
    unfolding applySpecChange_def
  proof (rule wp_step [OF v])
    fix s' assume k: "keeps R t s s'"
    then have w': "watching R t out s'" "\<not> kn_dnsWritten (knows (trace s'))"
      using watching_keeps [OF assms(1)] assms(3) by (auto simp: keeps_def)
    have "lawfulRun R (case d of Panic \<Rightarrow> returns Panic
        | Fail err \<Rightarrow> do {
             let msg = ''DNS upsert failed during update: '' @ errorText err;
             setCondition R ConditionTypeDNSReady ConditionFalse ReasonDNSError msg;
             persistStatus R (do {
               recordEvent R ''Warning'' ReasonDNSError msg;
               returns (Fail (wrapErr ''DNS upsert failed during update: '' err))
             })
           }
        | Done _ \<Rightarrow> reconcileUpdate R out) s''" if "watching R t out s''" for d s''
      using that watchingD(1,3) [OF that] upd
      by (auto simp: wp_simps Let_def setCondition_def split: outcome.split
          intro!: lawful_persist_event [where t = t] lawful_reconcileUpdate [where t = t])
    then show "lawfulRun R (do {
         d \<leftarrow> upsertDNSForUpdate R;
         case d of
           Panic \<Rightarrow> returns Panic
         | Fail err \<Rightarrow> do {
             let msg = ''DNS upsert failed during update: '' @ errorText err;
             setCondition R ConditionTypeDNSReady ConditionFalse ReasonDNSError msg;
             persistStatus R (do {
               recordEvent R ''Warning'' ReasonDNSError msg;
               returns (Fail (wrapErr ''DNS upsert failed during update: '' err))
             })
           }
         | Done _ \<Rightarrow> reconcileUpdate R out
       }) s'"
      by (rule wp_then [OF upsertDNSForUpdate_OK [OF w'(1) assms(2) w'(2)]])
  qed
qed

lemma certToAttach_Some:
  "certToAttach u cert = Some arn \<Longrightarrow>
   \<exists>d. cert = Some d \<and> mcd_CertificateStatus d = ''issued'' \<and> arn = mcd_CertificateArn d"
  by (auto simp: certToAttach_def split: option.splits if_splits)

lemma lawful_reconcileExisting:
  assumes "lawful R (trace s)" and "knows (trace s) = justRead t" and "obj s = t"
    and "hasFinalizer R t" and "\<not> beingDeleted t" and "tenantID t \<noteq> []"
  shows "lawfulRun R (reconcileExisting R) s"
proof -
  have on: "onTrack R t (trace s) t" using assms by (simp add: onTrack_def)
  let ?e = "\<lambda>r. CfGet (tenantID t) r"
  have p: "permits' R (knows (trace s)) t (?e r)" for r
    using assms by auto
  have l: "lawful R (trace s @ [?e r])" for r
    using onTrack_step(1) [OF on p] .
  have "onTrack R t (trace s @ [?e (Inl err)]) t" if "\<not> IsNotFound (Some err)" for err
    using onTrack_step(2) [OF on p] that assms by auto
  then have mE: "mayPersist R t (trace s @ [?e (Inl err)]) t" if "\<not> IsNotFound (Some err)" for err
    using that assms by (simp add: mayPersist_def)
  have "onTrack R t (trace s @ [?e (Inr (Some out))]) (recordObserved out t)" for out
    using onTrack_step(2) [OF on p] assms by auto
  then have wa: "watching R t out (s\<lparr>world := w, trace := trace s @ [?e (Inr (Some out))],
      obj := recordObserved out t\<rparr>)" for w out
    using assms by (simp add: watching_def mayPersist_def)
  let ?rest = "\<lambda>out. do {
         certDetails \<leftarrow> fetchCertDetails R;
         tenant \<leftarrow> getObj;
         case detectChanges tenant out of
           changeSpec \<Rightarrow> applySpecChange R out
         | changeDrift \<Rightarrow> handleDrift R out
         | changeNone \<Rightarrow>
             (case certToAttach tenant certDetails of
                Some arn \<Rightarrow> persistCertificate R arn
              | None \<Rightarrow>
                  if out_Status out = statusInProgress then stillDeploying R certDetails
                  else steadyState R certDetails)
       }"
  have rest: "lawfulRun R (?rest out) (s\<lparr>world := w, trace := trace s @ [?e (Inr (Some out))],
      obj := recordObserved out t\<rparr>)" (is "lawfulRun R _ ?s") for w out
  proof (rule wp_then [OF fetchCertDetails_OK [OF wa]], unfold wp_bind wp_getObj, goal_cases)
    case (1 cert s')
    then have w': "watching R t out s'" and f: "fetched cert ?s s'" by auto
    have dc: "detectChanges (obj s') out = detectChanges t out"
      using f watchingD(4,5) [OF w']
      by (simp add: detectChanges_def fetched_def recordObserved_def)
    have dw: "\<not> kn_dnsWritten (knows (trace s'))"
      using f assms by (simp add: fetched_def)
    have no: "orphanedDomains (obj s') = []" if "detectChanges t out = changeNone"
      using that f watchingD(4) [OF w']
      by (intro no_orphans [of _ out]) (auto simp: detectChanges_None fetched_def recordObserved_def)
    show ?case
    proof (cases "detectChanges t out")
      case changeNone
      show ?thesis
      proof (cases "certToAttach (obj s') cert")
        case None
        then show ?thesis
          using changeNone dc no lawful_stillDeploying [OF w'] lawful_steadyState [OF w'] by simp
      next
        case (Some arn)
        then obtain d where "cert = Some d" "mcd_CertificateStatus d = ''issued''"
          "arn = mcd_CertificateArn d"
          using certToAttach_Some by blast
        then show ?thesis
          using Some changeNone dc f lawful_persistCertificate [OF w' changeNone]
          by (simp add: fetched_def)
      qed
    qed (use dc dw lawful_applySpecChange [OF w'] lawful_handleDrift [OF w'] in auto)
  qed
  have rc: "lawfulRun R (recreateAfterExternalDeletion R)
      (s\<lparr>world := w, trace := trace s @ [?e (Inl err)]\<rparr>)" if "IsNotFound (Some err)" for w err
    using on assms that by (intro lawful_recreateAfterExternalDeletion) auto
  have he: "lawfulRun R (handleAWSError R err op)
      (s\<lparr>world := w, trace := trace s @ [?e (Inl err)]\<rparr>)" if "\<not> IsNotFound (Some err)" for w err op
    using mE [OF that] assms(3) by (intro lawful_handleAWSError [where t = t]) auto
  show ?thesis
    unfolding reconcileExisting_def Let_def
  proof (simp only: wp_bind wp_getObj wp_extern assms(3) tenantID_def [symmetric],
      intro allI impI, goal_cases)
    case (1 r w)
    show ?case
    proof (cases r)
      case (Inl err)
      then show ?thesis
        using rc [where w = w and err = err] he [where w = w and err = err] l by (simp add: wp_simps)
    next
      case (Inr o')
      then show ?thesis
        using rest [where w = w] l assms(3)
        by (cases o') (simp_all add: wp_return wp_bind wp_modifyObj)
    qed
  qed
qed

definition start :: "DistributionTenant \<Rightarrow> 'w \<Rightarrow> (string \<Rightarrow> 'w DNSClient option) \<Rightarrow> 'w dtState" where
  "start t0 w cache = \<lparr>obj = t0, world = w, trace = [], dnsClientCache = cache\<rparr>"

lemma start_simps [simp]:
  "trace (start t0 w cache) = []" "world (start t0 w cache) = w" "obj (start t0 w cache) = t0"
  "dnsClientCache (start t0 w cache) = cache"
  by (simp_all add: start_def)

lemma lawful_Reconcile: "lawfulRun R (Reconcile R ns n) (start t0 w cache)"
proof -
  let ?tr = "\<lambda>r. [KGet ns n r]"
  have l: "lawful R (?tr r)" for r
    using lawful_snoc [of R "[]"] by (simp add: permits_def isKGet_def)
  have k: "knows (?tr (Inr t)) = justRead t" for t
    using knows_simps(2) [of "[]"] by (simp add: justRead_def)
  have on: "onTrack R t (?tr (Inr t)) t" for t
    using l k by (simp add: onTrack_def)
  have add: "lawful R ([KGet ns n (Inr t)] @ [KUpdate (updFinalizers
      (\<lambda>fs. AddFinalizer (r_Meta R) fs FinalizerName) t) r])"
    if "\<not> hasFinalizer R t" "\<not> beingDeleted t" for t r
    using onTrack_step(1) [OF on] that k by (auto simp: objectWriteAllowed_def)
  show ?thesis
    using l k add
    by (auto simp: Reconcile_def wp_simps hasFinalizer_def [symmetric] beingDeleted_def
        tenantID_def [symmetric] split: sum.split option.split
        intro!: lawful_reconcileDelete lawful_reconcileCreate lawful_reconcileExisting)
qed

end
