(* ===== verification/Scenarios.thy ===== *)
theory Scenarios
  imports MockClients TenantProtocol
begin

text \<open>
  Concrete runs: a tenant and a mock AWS account in the phases of a tenant's life. The
  witnesses of the properties run the reconciler of the model on them.
\<close>

definition demoSpec :: DistributionTenantSpec where
  "demoSpec =
     \<lparr>spec_DistributionId = ''E1'', spec_Domains = [\<lparr>dom_Domain = ''a.b''\<rparr>],
      spec_Enabled = Some True, spec_ConnectionGroupId = None, spec_Parameters = [],
      spec_Customizations = None, spec_ManagedCertificateRequest = None, spec_Tags = [],
      spec_DNS = None\<rparr>"

definition demoDNS :: DNSConfig where
  "demoDNS = \<lparr>dns_Provider = ''route53'', dns_HostedZoneId = Some ''Z1'', dns_TTL = None,
     dns_AssumeRoleArn = None\<rparr>"

definition demoMeta :: "gotime option \<Rightarrow> ObjectMeta" where
  "demoMeta deleted =
     \<lparr>om_Name = ''abc'', om_Namespace = ''ns'', om_UID = ''u1'', om_Generation = 2,
      om_DeletionTimestamp = deleted, om_Finalizers = [FinalizerName], om_Labels = [],
      om_OwnerReferences = []\<rparr>"

definition demoStatus :: "string \<Rightarrow> int64 \<Rightarrow> DistributionTenantStatus" where
  "demoStatus i gen =
     \<lparr>st_ObservedGeneration = gen, st_ID = i, st_Arn = [], st_ETag = [],
      st_DistributionTenantStatus = [], st_CreatedTime = None, st_LastModifiedTime = None,
      st_DomainResults = [], st_CertificateArn = [], st_ManagedCertificateStatus = [],
      st_LastDriftCheckTime = None, st_DriftDetected = False, st_DNSChangeId = [],
      st_DNSTarget = [], st_Conditions = []\<rparr>"

definition demoTenant :: "gotime option \<Rightarrow> string \<Rightarrow> int64 \<Rightarrow> DistributionTenant" where
  "demoTenant deleted i gen =
     \<lparr>dt_Meta = demoMeta deleted, dt_Spec = demoSpec, dt_Status = demoStatus i gen\<rparr>"

definition demoDNSTenant :: "gotime option \<Rightarrow> string \<Rightarrow> string \<Rightarrow> DistributionTenant" where
  "demoDNSTenant deleted change target =
     (demoTenant deleted [] 2)\<lparr>dt_Spec := demoSpec\<lparr>spec_DNS := Some demoDNS\<rparr>,
       dt_Status := (demoStatus [] 2)\<lparr>st_DNSChangeId := change, st_DNSTarget := target\<rparr>\<rparr>"

text \<open>The tenant as AWS holds it, enabled or not, with the given connection group.\<close>

definition demoOut :: "bool \<Rightarrow> string \<Rightarrow> DistributionTenantOutput" where
  "demoOut enabled dist =
     \<lparr>out_ID = ''T1'', out_Arn = ''arn'', out_DistributionId = dist, out_Name = ''abc'',
      out_ETag = ''v1'', out_Status = ''Deployed'', out_Enabled = enabled,
      out_ConnectionGroupId = [], out_CreatedTime = None, out_LastModifiedTime = None,
      out_Domains = [\<lparr>dro_Domain = ''a.b'', dro_Status = ''active''\<rparr>], out_Parameters = [],
      out_Customizations = None\<rparr>"

definition demoInfo :: DistributionInfo where
  "demoInfo = \<lparr>di_ID = ''E1'', di_DomainName = ''d'', di_ViewerCertificateArn = ''c1'',
     di_UsesCloudFrontDefaultCert = False, di_ParameterDefinitions = []\<rparr>"

definition demoWorld :: "DistributionTenant \<Rightarrow> DistributionTenantOutput option \<Rightarrow> mockWorld" where
  "demoWorld t aws =
     \<lparr>mw_cf = NewMockCloudFrontClient\<lparr>
        m_tenants := (case aws of None \<Rightarrow> Map.empty | Some out \<Rightarrow> [''T1'' \<mapsto> out]),
        m_DistributionInfos := [''E1'' \<mapsto> demoInfo],
        m_DefaultConnectionGroupEndpoint := ''cg''\<rparr>,
      mw_dns = NewMockDNSClient, mw_acm = NewMockACMClient, mw_clock = 1, mw_store = Some t\<rparr>"

definition demoRun ::
  "string \<Rightarrow> DistributionTenant \<Rightarrow> DistributionTenantOutput option \<Rightarrow> hres \<times> mockWorld dtState" where
  "demoRun policy t aws =
     run_state (Reconcile (mockReconciler policy) ''ns'' ''abc'')
       (start t (demoWorld t aws) Map.empty)"

text \<open>The tenants of the witnesses: alive or being deleted, with what AWS holds for them.\<close>

abbreviation dying :: DistributionTenant where
  "dying \<equiv> demoTenant (Some 1) ''T1'' 2"
abbreviation dyingDNS :: DistributionTenant where
  "dyingDNS \<equiv> demoDNSTenant (Some 1) [] ''cg''"
abbreviation fresh :: DistributionTenant where
  "fresh \<equiv> demoTenant None [] 1"
abbreviation freshDNS :: DistributionTenant where
  "freshDNS \<equiv> demoDNSTenant None ''C1'' ''cg''"
abbreviation unsubmitted :: DistributionTenant where
  "unsubmitted \<equiv> demoDNSTenant None [] []"
abbreviation edited :: DistributionTenant where
  "edited \<equiv> demoTenant None ''T1'' 1"
abbreviation settled :: DistributionTenant where
  "settled \<equiv> demoTenant None ''T1'' 2"

abbreviation awsOff :: "DistributionTenantOutput option" where
  "awsOff \<equiv> Some (demoOut False ''E1'')"
abbreviation awsOn :: "DistributionTenantOutput option" where
  "awsOn \<equiv> Some (demoOut True ''E1'')"
abbreviation awsDrifted :: "DistributionTenantOutput option" where
  "awsDrifted \<equiv> Some (demoOut True ''E2'')"

lemma demo_name [run_simps]: "tenantNameRegex ''abc''"
  by code_simp

text \<open>The definitions a run unfolds; messages stay folded.\<close>

lemmas run_defs [run_simps] = metaRef_def requeueShort_def requeueLong_def wrapErr_def
  recordEvent_def putCondition_def setCondition_def conditionMatches_def persistStatus_def
  releaseFinalizer_def dnsRole_def getDNSClient_def handleTerminalError_def terminalReason_def
  handleAWSError_def dnsErrorType_def handleDNSError_def isDomainValidationPending_def
  handleDomainValidationPending_def validationErrors_def validateSpec_def tokenInfo_def
  certificateCondition_def updateCertificateCondition_def dnsTTL_def cnameRecords_def
  resolveCNAMETarget_def cleanupDNSRecords_def upsertDNSForUpdate_def orphanedDomains_def
  cleanupOrphanedDNSRecords_def updateDNSCondition_def uncoveredDomains_def checkSANs_def
  validateCertificateSANs_def asStep_def pollDNSChange_def submitDNSRecords_def
  reconcileDNSBeforeCreate_def cleanupThen_def disableInput_def disableTenant_def deleteTenant_def
  reconcileDelete_def recordCreated_def createTenant_def reconcileCreate_def recordUpdated_def
  reconcileUpdate_def handleDrift_def statusInProgress_def clearAWSIdentity_def recordObserved_def
  fetchCertDetails_def attachCertificate_def certToAttach_def persistCertificate_def
  stillDeploying_def steadyState_def recreateAfterExternalDeletion_def applySpecChange_def
  reconcileExisting_def Reconcile_def NewMockCloudFrontClient_def derefString_def
  activeDomains_def mockID_def mockCreate_def mockGet_def mockUpdated_def mockUpdate_def
  mockDelete_def mockInfo_def mockCert_def mockEndpoint_def mockDefaultEndpoint_def
  SetTenantStatus_def GetTenant_def NewMockDNSClient_def mockUpsert_def mockChangeStatus_def
  mockDeleteRecords_def GetRecords_def NewMockACMClient_def mockSANs_def onCF_def onDNS_def
  onACM_def mockCF_def mockDNS_def mockACM_def mockK8s_def mockWrite_def mockPut_def mockBump_def mockReconciler_def beingDeleted_def buildCreateInput_def
  detectChanges_def specMatchesAWS_def updateStatusFromAWS_def allDomainsActive_def
  domainsToStrings_def specToAWSDomains_def specToAWSParameters_def customizationsMatch_def
  webAclMatch_def certificateMatch_def geoRestrictionsMatch_def mapGet_def requeueIn_def
  distInfoErrors_def demoSpec_def demoDNS_def demoMeta_def demoStatus_def
  demoTenant_def demoDNSTenant_def demoOut_def demoInfo_def demoWorld_def demoRun_def start_def

end
