(* ===== verification/TenantSafety.thy ===== *)
theory TenantSafety
  imports Scenarios
begin

text \<open>
  Safety of the DistributionTenant reconciler, for every Kubernetes and AWS behaviour: the
  refinement of the protocol of \<open>TenantProtocol\<close> and what follows from it about writes to the
  API server, creation, update, deletion, finalizer and DNS records.
\<close>

section \<open>Reading the monitor\<close>

definition reconcileTrace ::
  "'w Reconciler \<Rightarrow> string \<Rightarrow> string \<Rightarrow> DistributionTenant \<Rightarrow> 'w \<Rightarrow>
   (string \<Rightarrow> 'w DNSClient option) \<Rightarrow> effect list" where
  "reconcileTrace R ns n t0 w cache = trace (snd (run_state (Reconcile R ns n) (start t0 w cache)))"

definition isKWrite :: "effect \<Rightarrow> bool" where
  "isKWrite e = (case e of KUpdate _ _ \<Rightarrow> True | KStatusUpdate _ _ \<Rightarrow> True | _ \<Rightarrow> False)"

definition isAwsMutation :: "effect \<Rightarrow> bool" where
  "isAwsMutation e =
     (case e of CfCreate _ _ \<Rightarrow> True | CfUpdate _ _ \<Rightarrow> True | CfDelete _ _ _ \<Rightarrow> True | _ \<Rightarrow> False)"

definition isDnsMutation :: "effect \<Rightarrow> bool" where
  "isDnsMutation e = (case e of DnsUpsert _ _ \<Rightarrow> True | DnsDelete _ _ \<Rightarrow> True | _ \<Rightarrow> False)"

lemma lawful_trace: "lawful R (reconcileTrace R ns n t0 w cache)"
  using lawful_Reconcile [of R ns n t0 w cache]
  by (simp add: wp_def reconcileTrace_def split: prod.splits)

lemma lawful_at:
  assumes "reconcileTrace R ns n t0 w cache = pre @ e # post"
  shows "permits R (knows pre) e"
  using lawful_trace [of R ns n t0 w cache]
  by (simp add: assms lawful_def lawfulFrom_append knows_def)

lemma lawful_prefix: "lawful R (xs @ ys) \<Longrightarrow> lawful R xs"
  by (simp add: lawful_def lawfulFrom_append)

text \<open>What is known was answered.\<close>

lemma learn_case:
  "learn k e = (case e of
     KGet ns n r \<Rightarrow>
       (case r of Inl _ \<Rightarrow> k\<lparr>kn_over := True\<rparr> | Inr t \<Rightarrow> k\<lparr>kn_obj := Some t\<rparr>)
   | KUpdate t r \<Rightarrow> k\<lparr>kn_over := True\<rparr>
   | KStatusUpdate t r \<Rightarrow> k\<lparr>kn_over := True\<rparr>
   | CfCreate i r \<Rightarrow> k\<lparr>kn_mutated := True,
       kn_created := (case r of Inl _ \<Rightarrow> None | Inr out \<Rightarrow> out)\<rparr>
   | CfGet i r \<Rightarrow>
       (case r of Inl err \<Rightarrow> k\<lparr>kn_gone := IsNotFound (Some err)\<rparr> | Inr out \<Rightarrow> k\<lparr>kn_aws := out\<rparr>)
   | CfUpdate i r \<Rightarrow> k\<lparr>kn_mutated := True\<rparr>
   | CfDelete i e r \<Rightarrow> k\<lparr>kn_mutated := True,
       kn_deleted := (case r of Inl _ \<Rightarrow> False | Inr _ \<Rightarrow> True)\<rparr>
   | CfCert i r \<Rightarrow> (case r of Inl _ \<Rightarrow> k | Inr d \<Rightarrow> k\<lparr>kn_cert := d\<rparr>)
   | DnsUpsert i r \<Rightarrow> k\<lparr>kn_dnsWritten := True\<rparr>
   | DnsStatus c r \<Rightarrow> k\<lparr>kn_insync := (r = Inr dnsStatusInsync)\<rparr>
   | DnsDelete i r \<Rightarrow> k\<lparr>kn_dnsWritten := True,
       kn_cleaned := (case r of Inl _ \<Rightarrow> False | Inr _ \<Rightarrow> True)\<rparr>
   | _ \<Rightarrow> k)"
  by (cases e) simp_all

lemma knows_from:
  assumes "Q (knows tr)" and "\<not> Q ignorant" and "\<And>k e. Q (learn k e) \<Longrightarrow> Q k \<or> E e"
  shows "\<exists>e \<in> set tr. E e"
  using assms(1)
proof (induction tr rule: rev_induct)
  case Nil
  with assms(2) show ?case by simp
next
  case (snoc e tr)
  then have "Q (knows tr) \<or> E e" using assms(3) by simp
  with snoc.IH show ?case by auto
qed

lemma knows_obj:
  assumes "kn_obj (knows tr) = Some t"
  shows "\<exists>ns n. KGet ns n (Inr t) \<in> set tr"
proof -
  have "\<exists>e \<in> set tr. \<exists>ns n. e = KGet ns n (Inr t)"
    by (rule knows_from [of "\<lambda>k. kn_obj k = Some t", OF assms])
      (auto simp: learn_case split: effect.splits sum.splits)
  then show ?thesis by auto
qed

lemma knows_aws:
  assumes "kn_aws (knows tr) = Some out"
  shows "\<exists>i. CfGet i (Inr (Some out)) \<in> set tr"
proof -
  have "\<exists>e \<in> set tr. \<exists>i. e = CfGet i (Inr (Some out))"
    by (rule knows_from [of "\<lambda>k. kn_aws k = Some out", OF assms])
      (auto simp: learn_case split: effect.splits sum.splits)
  then show ?thesis by auto
qed

lemma knows_gone:
  assumes "kn_gone (knows tr)"
  shows "\<exists>i err. CfGet i (Inl err) \<in> set tr \<and> IsNotFound (Some err)"
proof -
  have "\<exists>e \<in> set tr. \<exists>i err. e = CfGet i (Inl err) \<and> IsNotFound (Some err)"
    by (rule knows_from [of kn_gone, OF assms])
      (auto simp: learn_case split: effect.splits sum.splits)
  then show ?thesis by auto
qed

lemma knows_cert:
  assumes "kn_cert (knows tr) = Some d"
  shows "\<exists>i. CfCert i (Inr (Some d)) \<in> set tr"
proof -
  have "\<exists>e \<in> set tr. \<exists>i. e = CfCert i (Inr (Some d))"
    by (rule knows_from [of "\<lambda>k. kn_cert k = Some d", OF assms])
      (auto simp: learn_case split: effect.splits sum.splits)
  then show ?thesis by auto
qed

lemma knows_insync:
  assumes "kn_insync (knows tr)"
  shows "\<exists>c. DnsStatus c (Inr dnsStatusInsync) \<in> set tr"
proof -
  have "\<exists>e \<in> set tr. \<exists>c. e = DnsStatus c (Inr dnsStatusInsync)"
    by (rule knows_from [of kn_insync, OF assms])
      (auto simp: learn_case split: effect.splits sum.splits)
  then show ?thesis by auto
qed

lemma knows_deleted:
  assumes "kn_deleted (knows tr)"
  shows "\<exists>i e. CfDelete i e (Inr ()) \<in> set tr"
proof -
  have "\<exists>e \<in> set tr. \<exists>i et. e = CfDelete i et (Inr ())"
    by (rule knows_from [of kn_deleted, OF assms])
      (auto simp: learn_case split: effect.splits sum.splits)
  then show ?thesis by auto
qed

lemma knows_cleaned:
  assumes "kn_cleaned (knows tr)"
  shows "\<exists>i. DnsDelete i (Inr ()) \<in> set tr"
proof -
  have "\<exists>e \<in> set tr. \<exists>i. e = DnsDelete i (Inr ())"
    by (rule knows_from [of kn_cleaned, OF assms])
      (auto simp: learn_case split: effect.splits sum.splits)
  then show ?thesis by auto
qed

text \<open>The object is read once.\<close>

lemma one_object:
  "lawful R tr \<Longrightarrow> KGet ns n (Inr t) \<in> set tr \<Longrightarrow> kn_obj (knows tr) = Some t"
proof (induction tr rule: rev_induct)
  case Nil
  then show ?case by simp
next
  case (snoc e tr)
  then have p: "permits R (knows tr) e" "lawful R tr" by (simp_all add: lawful_snoc)
  show ?case
  proof (cases "KGet ns n (Inr t) \<in> set tr")
    case True
    then have "kn_obj (knows tr) = Some t" using snoc p by blast
    then show ?thesis
      using p by (cases e) (auto simp: permits_def split: sum.splits)
  next
    case False
    then show ?thesis using snoc.prems(2) by auto
  qed
qed

lemma learn_obj:
  "permits' R k u e \<Longrightarrow> kn_obj (learn k e) = kn_obj k"
  by (cases e) (simp_all split: sum.split)

lemma fresh_trace:
  assumes "lawful R (ys @ [y])"
  shows "knows (ys @ [y]) \<noteq> ignorant"
proof (cases "kn_obj (knows ys)")
  case (Some u)
  with assms have "kn_obj (learn (knows ys) y) = Some u"
    using learn_obj by (fastforce simp: lawful_snoc permits_def)
  then show ?thesis by auto
next
  case None
  with assms obtain ns n r where y: "y = KGet ns n r" "knows ys = ignorant"
    by (cases y) (auto simp: lawful_snoc permits_def isKGet_def)
  then show ?thesis by (cases r) (simp_all add: ignorant_def)
qed

text \<open>Calls that are asked with the ID of the object.\<close>

lemma asked_with_id:
  "lawful R tr \<Longrightarrow> kn_obj (knows tr) = Some t \<Longrightarrow>
   (CfGet i r \<in> set tr \<longrightarrow> i = tenantID t) \<and> (CfDelete i e r' \<in> set tr \<longrightarrow> i = tenantID t) \<and>
   (DnsStatus c r'' \<in> set tr \<longrightarrow> c = st_DNSChangeId (dt_Status t))"
proof (induction tr rule: rev_induct)
  case Nil
  then show ?case by simp
next
  case (snoc ev tr)
  then have p: "permits R (knows tr) ev" "lawful R tr" by (simp_all add: lawful_snoc)
  show ?case
  proof (cases "kn_obj (knows tr)")
    case None
    then have "knows tr = ignorant" using p(1) by (simp add: permits_def)
    then have "tr = []"
      using p(2) fresh_trace by (metis rev_exhaust)
    then show ?thesis
      using p None by (auto simp: permits_def isKGet_def)
  next
    case (Some u)
    moreover from this have "kn_obj (learn (knows tr) ev) = Some u"
      using p learn_obj by (fastforce simp: permits_def)
    ultimately show ?thesis
      using snoc p by (auto simp: permits_def split: option.splits)
  qed
qed

lemma called:
  assumes "reconcileTrace R ns n t0 w cache = pre @ e # post" and "\<not> isKGet e"
  obtains t where "kn_obj (knows pre) = Some t" "permits' R (knows pre) t e"
    "\<exists>ns' n'. KGet ns' n' (Inr t) \<in> set pre" "lawful R pre"
proof (cases "kn_obj (knows pre)")
  case None
  then show ?thesis using lawful_at [OF assms(1)] assms(2) by (simp add: permits_def)
next
  case (Some t)
  have "lawful R pre"
    using lawful_trace [of R ns n t0 w cache] lawful_prefix [of R pre "e # post"] assms(1) by simp
  then show ?thesis
    using that [OF Some] Some knows_obj [OF Some] lawful_at [OF assms(1)] by (simp add: permits_def)
qed

lemma one_each:
  assumes "lawful R tr"
  shows "length (filter isKWrite tr) \<le> (if kn_over (knows tr) then 1 else 0) \<and>
    length (filter isAwsMutation tr) \<le> (if kn_mutated (knows tr) then 1 else 0) \<and>
    length (filter isDnsMutation tr) \<le> (if kn_dnsWritten (knows tr) then 1 else 0)"
  using assms
proof (induction tr rule: rev_induct)
  case Nil
  show ?case by simp
next
  case (snoc e tr)
  then have p: "permits R (knows tr) e" and l: "lawful R tr" by (simp_all add: lawful_snoc)
  show ?case
    using p snoc.IH [OF l]
    by (cases e; cases "kn_obj (knows tr)")
      (auto simp: permits_def isEvent_def isKGet_def isKWrite_def isAwsMutation_def isDnsMutation_def
        split: sum.splits if_splits)
qed

text \<open>The trace of a demo run, for the witnesses.\<close>

definition demoTrace :: "string \<Rightarrow> DistributionTenant \<Rightarrow> DistributionTenantOutput option \<Rightarrow> effect list" where
  "demoTrace policy t aws =
     reconcileTrace (mockReconciler policy) ''ns'' ''abc'' t (demoWorld t aws) Map.empty"

definition finalized :: "DistributionTenant \<Rightarrow> DistributionTenant" where
  "finalized t = updFinalizers (\<lambda>_. []) t"

definition demoDeletion :: DeleteDNSRecordsInput where
  "demoDeletion = \<lparr>del_HostedZoneId = ''Z1'',
     del_Records = [\<lparr>rec_Name = ''a.b'', rec_Target = ''cg'', rec_TTL = 300\<rparr>]\<rparr>"

lemma demoTrace_at:
  assumes "take (Suc 0) (drop k (demoTrace policy t aws)) = [e]"
  shows "reconcileTrace (mockReconciler policy) ''ns'' ''abc'' t (demoWorld t aws) Map.empty =
    take k (demoTrace policy t aws) @ e # drop (Suc k) (demoTrace policy t aws)"
proof -
  let ?tr = "demoTrace policy t aws"
  have "?tr = take k ?tr @ drop k ?tr" by simp
  also have "drop k ?tr = e # drop (Suc k) ?tr"
    using assms by (cases "drop k ?tr") (simp_all add: drop_Suc flip: tl_drop)
  finally show ?thesis by (simp add: demoTrace_def)
qed

lemmas trace_run = run_simps demoTrace_def reconcileTrace_def Let_def error_preds

section \<open>The protocol is followed\<close>

text \<open>C1: The reconciler refines its protocol: against every Kubernetes API server, CloudFront,
  Route53 and ACM behaviour, every reconcile only makes the calls \<open>permits\<close> allows, in an
  order and with arguments it allows.\<close>

theorem reconcile_refines_protocol:
  "lawful R (reconcileTrace R ns n t0 w cache)"
  by (rule lawful_trace)

section \<open>Writes\<close>

text \<open>C11: A reconcile makes at most one write to the Kubernetes API server, counting updates of
  the object and of its status, failed ones included (the resourceVersion-conflict rule), at
  most one mutating CloudFront call and at most one mutating Route53 call.\<close>

theorem at_most_one_write:
  "length (filter isKWrite (reconcileTrace R ns n t0 w cache)) \<le> 1 \<and>
   length (filter isAwsMutation (reconcileTrace R ns n t0 w cache)) \<le> 1 \<and>
   length (filter isDnsMutation (reconcileTrace R ns n t0 w cache)) \<le> 1"
  using one_each [OF lawful_trace [of R ns n t0 w cache]] by (auto split: if_splits)

section \<open>Deletion\<close>

text \<open>C13: A CloudFront tenant is deleted only on behalf of an object that is being deleted, after
  a read in the same reconcile showed it disabled, and with the ETag of that read.\<close>

theorem delete_only_when_disabled:
  assumes "reconcileTrace R ns n t0 w cache = pre @ CfDelete i e r # post"
  shows "\<exists>t out. (\<exists>ns' n'. KGet ns' n' (Inr t) \<in> set pre) \<and> beingDeleted t \<and>
    CfGet i (Inr (Some out)) \<in> set pre \<and> i = tenantID t \<and>
    \<not> out_Enabled out \<and> e = out_ETag out"
proof -
  obtain t where t: "kn_obj (knows pre) = Some t" "permits' R (knows pre) t (CfDelete i e r)"
    "\<exists>ns' n'. KGet ns' n' (Inr t) \<in> set pre" "lawful R pre"
    using called [OF assms] by (auto simp: isKGet_def)
  then obtain out where out: "kn_aws (knows pre) = Some out" "\<not> out_Enabled out" "e = out_ETag out"
    "beingDeleted t" "i = tenantID t"
    by (auto split: option.splits)
  moreover obtain j where "CfGet j (Inr (Some out)) \<in> set pre"
    using knows_aws [OF out(1)] by blast
  moreover have "j = tenantID t"
    using asked_with_id [OF t(4,1)] calculation by blast
  ultimately show ?thesis using t(3) by blast
qed

theorem delete_only_when_disabled_witness:
  "\<exists>t out. (\<exists>ns' n'. KGet ns' n' (Inr t) \<in> set (take 2 (demoTrace [] dying awsOff))) \<and>
    beingDeleted t \<and> CfGet ''T1'' (Inr (Some out)) \<in> set (take 2 (demoTrace [] dying awsOff)) \<and>
    ''T1'' = tenantID t \<and> \<not> out_Enabled out \<and> ''v1'' = out_ETag out"
  by (rule delete_only_when_disabled [OF demoTrace_at [where k = 2 and policy = "[]" and t = dying and
      aws = awsOff and e = "CfDelete ''T1'' ''v1'' (Inr ())"]])
    (simp_all add: trace_run cong: bind_weak_cong)

text \<open>C12: While an object is being deleted it is written back only to release the finalizer, and
  only when nothing is left in AWS (it never had a CloudFront tenant, the read in this reconcile
  found none, or this reconcile deleted it) and, where DNS records are managed, after their
  deletion succeeded in this reconcile; nothing else of the object is changed.\<close>

theorem finalizer_released_last:
  assumes "reconcileTrace R ns n t0 w cache = pre @ KUpdate u r # post"
    and "KGet ns' n' (Inr t) \<in> set pre" and "beingDeleted t"
  shows "(tenantID t = [] \<or>
      (\<exists>err. CfGet (tenantID t) (Inl err) \<in> set pre \<and> IsNotFound (Some err)) \<or>
      (\<exists>e. CfDelete (tenantID t) e (Inr ()) \<in> set pre)) \<and>
    (needsCleanup R t \<longrightarrow> (\<exists>inp. DnsDelete inp (Inr ()) \<in> set pre)) \<and>
    u = updFinalizers (\<lambda>fs. RemoveFinalizer (r_Meta R) fs FinalizerName) t"
proof -
  obtain t' where t': "kn_obj (knows pre) = Some t'" "permits' R (knows pre) t' (KUpdate u r)"
    "lawful R pre"
    using called [OF assms(1)] by (auto simp: isKGet_def)
  have "t' = t" using one_object [OF t'(3) assms(2)] t'(1) by simp
  then have w: "objectWriteAllowed R (knows pre) t u" and obj: "kn_obj (knows pre) = Some t"
    using t' by auto
  then show ?thesis
    using assms(3) asked_with_id [OF t'(3) obj] knows_gone [of pre] knows_deleted [of pre]
      knows_cleaned [of pre]
    by (auto simp: objectWriteAllowed_def awsReleased_def) blast+
qed

theorem finalizer_released_last_witness:
  "(\<exists>inp. DnsDelete inp (Inr ()) \<in> set (take 4 (demoTrace [] dyingDNS None))) \<and>
    finalized dyingDNS = updFinalizers
      (\<lambda>fs. RemoveFinalizer (r_Meta (mockReconciler [])) fs FinalizerName) dyingDNS"
proof -
  have clean: "needsCleanup (mockReconciler []) dyingDNS"
    by (simp add: needsCleanup_def run_simps)
  show ?thesis
    using finalizer_released_last [OF demoTrace_at [where k = 4 and policy = "[]" and
      t = dyingDNS and aws = None and e = "KUpdate (finalized dyingDNS) (Inr (finalized dyingDNS))"],
      where ns' = "''ns''" and n' = "''abc''" and t = dyingDNS]
    by (simp add: clean) (simp add: trace_run finalized_def beingDeleted_def cong: bind_weak_cong)
qed

text \<open>C16: DNS records are only ever deleted for an object that is being deleted, once its
  CloudFront tenant is gone, for exactly the domains of its spec in its hosted zone. In
  particular the steady-state clean-up of records of domains removed from the spec never
  deletes anything.\<close>

theorem dns_deleted_only_at_the_end:
  assumes "reconcileTrace R ns n t0 w cache = pre @ DnsDelete inp r # post"
  shows "\<exists>t ns' n'. KGet ns' n' (Inr t) \<in> set pre \<and> beingDeleted t \<and>
    (tenantID t = [] \<or>
      (\<exists>err. CfGet (tenantID t) (Inl err) \<in> set pre \<and> IsNotFound (Some err)) \<or>
      (\<exists>e. CfDelete (tenantID t) e (Inr ()) \<in> set pre)) \<and>
    map rec_Name (del_Records inp) = map dom_Domain (spec_Domains (dt_Spec t)) \<and>
    (\<exists>dns. spec_DNS (dt_Spec t) = Some dns \<and> dns_HostedZoneId dns = Some (del_HostedZoneId inp))"
proof -
  obtain t where t: "kn_obj (knows pre) = Some t" "permits' R (knows pre) t (DnsDelete inp r)"
    "\<exists>ns' n'. KGet ns' n' (Inr t) \<in> set pre" "lawful R pre"
    using called [OF assms] by (auto simp: isKGet_def)
  have "tenantID t = [] \<or>
      (\<exists>err. CfGet (tenantID t) (Inl err) \<in> set pre \<and> IsNotFound (Some err)) \<or>
      (\<exists>e. CfDelete (tenantID t) e (Inr ()) \<in> set pre)"
    using t(2) asked_with_id [OF t(4,1)] knows_gone [of pre] knows_deleted [of pre]
    by (auto simp: awsReleased_def) blast+
  then show ?thesis
    using t(2,3) by (auto simp: recordsFor_def split: option.splits)
qed

theorem dns_deleted_only_at_the_end_witness:
  "\<exists>t ns' n'. KGet ns' n' (Inr t) \<in> set (take 2 (demoTrace [] dyingDNS None)) \<and> beingDeleted t \<and>
    (tenantID t = [] \<or>
      (\<exists>err. CfGet (tenantID t) (Inl err) \<in> set (take 2 (demoTrace [] dyingDNS None)) \<and>
        IsNotFound (Some err)) \<or>
      (\<exists>e. CfDelete (tenantID t) e (Inr ()) \<in> set (take 2 (demoTrace [] dyingDNS None)))) \<and>
    map rec_Name (del_Records demoDeletion) = map dom_Domain (spec_Domains (dt_Spec t)) \<and>
    (\<exists>dns. spec_DNS (dt_Spec t) = Some dns \<and>
      dns_HostedZoneId dns = Some (del_HostedZoneId demoDeletion))"
  by (rule dns_deleted_only_at_the_end [OF demoTrace_at [where k = 2 and policy = "[]" and
      t = dyingDNS and aws = None and e = "DnsDelete demoDeletion (Inr ())"]])
    (simp_all add: trace_run demoDeletion_def cong: bind_weak_cong)

section \<open>Creation\<close>

text \<open>C14: A CloudFront tenant is created only for a live object that carries the finalizer and has
  no tenant yet, with the input built from its spec. Where the spec manages DNS, a change was
  submitted earlier and the poll in this reconcile answered INSYNC; no DNS record is written in
  the reconcile that creates the tenant (DNS first).\<close>

theorem create_after_dns:
  assumes "reconcileTrace R ns n t0 w cache = pre @ CfCreate inp r # post"
    and "KGet ns' n' (Inr t) \<in> set pre"
  shows "\<not> beingDeleted t \<and> hasFinalizer R t \<and> tenantID t = [] \<and> inp = buildCreateInput t \<and>
    (spec_DNS (dt_Spec t) = None \<or> st_DNSChangeId (dt_Status t) \<noteq> [] \<and>
      DnsStatus (st_DNSChangeId (dt_Status t)) (Inr dnsStatusInsync) \<in> set pre) \<and>
    filter isDnsMutation pre = []"
proof -
  obtain t' where t': "kn_obj (knows pre) = Some t'" "permits' R (knows pre) t' (CfCreate inp r)"
    "lawful R pre"
    using called [OF assms(1)] by (auto simp: isKGet_def)
  have eq: "t' = t" using one_object [OF t'(3) assms(2)] t'(1) by simp
  have "filter isDnsMutation pre = []"
    using one_each [OF t'(3)] t'(2) by simp
  moreover have "spec_DNS (dt_Spec t) = None \<or> st_DNSChangeId (dt_Status t) \<noteq> [] \<and>
      DnsStatus (st_DNSChangeId (dt_Status t)) (Inr dnsStatusInsync) \<in> set pre"
    using t'(2) asked_with_id [OF t'(3,1)] knows_insync [of pre] unfolding eq by auto
  ultimately show ?thesis
    using t' eq by auto
qed

theorem create_after_dns_witness:
  "DnsStatus ''C1'' (Inr dnsStatusInsync) \<in> set (take 4 (demoTrace [] freshDNS None)) \<and>
    filter isDnsMutation (take 4 (demoTrace [] freshDNS None)) = []"
proof -
  have dns: "spec_DNS (dt_Spec freshDNS) \<noteq> None" "st_DNSChangeId (dt_Status freshDNS) = ''C1''"
    by (simp_all add: run_simps)
  show ?thesis
    using create_after_dns [OF demoTrace_at [where k = 4 and policy = "[]" and t = freshDNS and
      aws = None and e = "CfCreate (buildCreateInput freshDNS)
        (fst (mockCreate 3 (buildCreateInput freshDNS) NewMockCloudFrontClient))"],
      where ns' = "''ns''" and n' = "''abc''" and t = freshDNS]
    by (simp only: dns) (simp add: trace_run cong: bind_weak_cong)
qed

section \<open>Updates and drift\<close>

text \<open>C15: CloudFront is updated only from a tenant read in the same reconcile, under its ETag. An
  object being deleted is only disabled, and only while it is enabled. For a live object the
  input is built from the spec, AWS did not match the spec, and either the spec is newer than
  the last observed generation or the drift policy is enforce: with report or suspend, drift
  alone never changes AWS.\<close>

theorem update_only_when_needed:
  assumes "reconcileTrace R ns n t0 w cache = pre @ CfUpdate inp r # post"
  shows "\<exists>t out. (\<exists>ns' n'. KGet ns' n' (Inr t) \<in> set pre) \<and>
    CfGet (tenantID t) (Inr (Some out)) \<in> set pre \<and>
    ui_ID inp = tenantID t \<and> ui_IfMatch inp = out_ETag out \<and>
    (if beingDeleted t then out_Enabled out \<and> ui_Enabled inp = Some False
     else inp = buildUpdateInput t (out_ETag out) \<and> \<not> specMatchesAWS (dt_Spec t) out \<and>
       (dt_Generation t \<noteq> st_ObservedGeneration (dt_Status t) \<or>
        r_DriftPolicy R = DriftPolicyEnforce))"
proof -
  obtain t where t: "kn_obj (knows pre) = Some t" "permits' R (knows pre) t (CfUpdate inp r)"
    "\<exists>ns' n'. KGet ns' n' (Inr t) \<in> set pre" "lawful R pre"
    using called [OF assms] by (auto simp: isKGet_def)
  then obtain out where out: "kn_aws (knows pre) = Some out" "updateAllowed R t out inp"
    by (auto split: option.splits)
  obtain j where "CfGet j (Inr (Some out)) \<in> set pre"
    using knows_aws [OF out(1)] by blast
  moreover from this have "j = tenantID t"
    using asked_with_id [OF t(4,1)] by blast
  moreover have "ui_ID inp = tenantID t" "ui_IfMatch inp = out_ETag out"
    using out(2) by (auto simp: updateAllowed_def disableInput_def tenantID_def split: if_splits)
  moreover have "if beingDeleted t then out_Enabled out \<and> ui_Enabled inp = Some False
     else inp = buildUpdateInput t (out_ETag out) \<and> \<not> specMatchesAWS (dt_Spec t) out \<and>
       (dt_Generation t \<noteq> st_ObservedGeneration (dt_Status t) \<or>
        r_DriftPolicy R = DriftPolicyEnforce)"
    using out(2)
    by (auto simp: updateAllowed_def disableInput_def detectChanges_def Let_def
        split: if_splits)
  ultimately show ?thesis using t(3) by blast
qed

theorem update_only_when_needed_witness:
  "\<exists>t out. (\<exists>ns' n'. KGet ns' n' (Inr t)
      \<in> set (take 4 (demoTrace DriftPolicyEnforce settled awsDrifted))) \<and>
    CfGet (tenantID t) (Inr (Some out)) \<in> set (take 4 (demoTrace DriftPolicyEnforce settled awsDrifted)) \<and>
    ui_ID (buildUpdateInput settled ''v1'') = tenantID t \<and>
    ui_IfMatch (buildUpdateInput settled ''v1'') = out_ETag out \<and>
    (if beingDeleted t then out_Enabled out \<and> ui_Enabled (buildUpdateInput settled ''v1'') = Some False
     else buildUpdateInput settled ''v1'' = buildUpdateInput t (out_ETag out) \<and>
       \<not> specMatchesAWS (dt_Spec t) out \<and>
       (dt_Generation t \<noteq> st_ObservedGeneration (dt_Status t) \<or>
        r_DriftPolicy (mockReconciler DriftPolicyEnforce) = DriftPolicyEnforce))"
  by (rule update_only_when_needed [OF demoTrace_at [where k = 4 and policy = DriftPolicyEnforce
      and t = settled and aws = awsDrifted and e = "CfUpdate (buildUpdateInput settled ''v1'')
        (Inr (Some (mockUpdated 3 (buildUpdateInput settled ''v1'') (demoOut True ''E2''))))"]])
    (simp_all add: trace_run buildUpdateInput_def cong: bind_weak_cong)

section \<open>What is written back\<close>

lemma knows_created:
  assumes "kn_created (knows tr) = Some out"
  shows "\<exists>i. CfCreate i (Inr (Some out)) \<in> set tr"
proof -
  have "\<exists>e \<in> set tr. \<exists>i. e = CfCreate i (Inr (Some out))"
    by (rule knows_from [of "\<lambda>k. kn_created k = Some out", OF assms])
      (auto simp: learn_case split: effect.splits sum.splits)
  then show ?thesis by auto
qed

text \<open>C17: A status update never touches the metadata or the spec that were read, and never
  confuses the identity of the CloudFront tenant: the ID it stores is the one a creation in this
  reconcile answered, or empty after a read that found the tenant gone, or the one that was
  read.\<close>

theorem status_update_keeps_identity:
  assumes "reconcileTrace R ns n t0 w cache = pre @ KStatusUpdate u r # post"
  shows "\<exists>t ns' n'. KGet ns' n' (Inr t) \<in> set pre \<and> dt_Meta u = dt_Meta t \<and> dt_Spec u = dt_Spec t \<and>
    ((\<exists>inp out. CfCreate inp (Inr (Some out)) \<in> set pre \<and> tenantID u = out_ID out) \<or>
     (\<exists>err. CfGet (tenantID t) (Inl err) \<in> set pre \<and> IsNotFound (Some err) \<and> tenantID u = []) \<or>
     tenantID u = tenantID t)"
proof -
  obtain t where t: "kn_obj (knows pre) = Some t" "permits' R (knows pre) t (KStatusUpdate u r)"
    "\<exists>ns' n'. KGet ns' n' (Inr t) \<in> set pre" "lawful R pre"
    using called [OF assms] by (auto simp: isKGet_def)
  have "tenantID u = expectedID (knows pre) t" using t(2) by simp
  then consider out where "kn_created (knows pre) = Some out" "tenantID u = out_ID out"
    | "kn_gone (knows pre)" "tenantID u = []" | "tenantID u = tenantID t"
    by (auto simp: expectedID_def split: option.splits if_splits)
  then have "(\<exists>inp out. CfCreate inp (Inr (Some out)) \<in> set pre \<and> tenantID u = out_ID out) \<or>
     (\<exists>err. CfGet (tenantID t) (Inl err) \<in> set pre \<and> IsNotFound (Some err) \<and> tenantID u = []) \<or>
     tenantID u = tenantID t"
    using knows_created [of pre] knows_gone [of pre] asked_with_id [OF t(4,1)]
    by cases blast+
  then show ?thesis using t by (auto simp: sameObject_def)
qed

theorem status_update_keeps_identity_witness:
  "\<exists>t ns' n'. KGet ns' n' (Inr t) \<in> set (take 4 (demoTrace [] dying awsOn)) \<and>
    dt_Meta (obj (snd (demoRun [] dying awsOn))) = dt_Meta t \<and>
    dt_Spec (obj (snd (demoRun [] dying awsOn))) = dt_Spec t \<and>
    ((\<exists>inp out. CfCreate inp (Inr (Some out)) \<in> set (take 4 (demoTrace [] dying awsOn)) \<and>
        tenantID (obj (snd (demoRun [] dying awsOn))) = out_ID out) \<or>
     (\<exists>err. CfGet (tenantID t) (Inl err) \<in> set (take 4 (demoTrace [] dying awsOn)) \<and>
        IsNotFound (Some err) \<and> tenantID (obj (snd (demoRun [] dying awsOn))) = []) \<or>
     tenantID (obj (snd (demoRun [] dying awsOn))) = tenantID t)"
  by (rule status_update_keeps_identity [OF demoTrace_at [where k = 4 and policy = "[]" and
      t = dying and aws = awsOn and e = "KStatusUpdate (obj (snd (demoRun [] dying awsOn)))
        (Inr (obj (snd (demoRun [] dying awsOn))))"]])
    (simp_all add: trace_run cong: bind_weak_cong)

text \<open>C18: A live object is written back whole only to add the finalizer, before anything else
  was asked, or to attach the ARN of a managed certificate that CloudFront reports as issued
  while AWS matches the spec; nothing else of its metadata or spec is changed.\<close>

theorem object_update_is_minimal:
  assumes "reconcileTrace R ns n t0 w cache = pre @ KUpdate u r # post"
    and "KGet ns' n' (Inr t) \<in> set pre" and "\<not> beingDeleted t"
  shows "(\<not> hasFinalizer R t \<and> u = updFinalizers (\<lambda>fs. AddFinalizer (r_Meta R) fs FinalizerName) t) \<or>
    (\<exists>out d. CfGet (tenantID t) (Inr (Some out)) \<in> set pre \<and> specMatchesAWS (dt_Spec t) out \<and>
      (\<exists>i. CfCert i (Inr (Some d)) \<in> set pre) \<and> mcd_CertificateStatus d = ''issued'' \<and>
      dt_Meta u = dt_Meta t \<and>
      dt_Spec u = dt_Spec (attachCertificate (mcd_CertificateArn d) t))"
proof -
  obtain t' where t': "kn_obj (knows pre) = Some t'" "permits' R (knows pre) t' (KUpdate u r)"
    "lawful R pre"
    using called [OF assms(1)] by (auto simp: isKGet_def)
  have "t' = t" using one_object [OF t'(3) assms(2)] t'(1) by simp
  then have w: "objectWriteAllowed R (knows pre) t u" and obj: "kn_obj (knows pre) = Some t"
    using t' by auto
  show ?thesis
  proof (cases "hasFinalizer R t")
    case False
    then show ?thesis using w assms(3) by (simp add: objectWriteAllowed_def)
  next
    case True
    then obtain out d where od: "kn_aws (knows pre) = Some out" "kn_cert (knows pre) = Some d"
      "specMatchesAWS (dt_Spec t) out" "mcd_CertificateStatus d = ''issued''"
      "dt_Meta u = dt_Meta t" "dt_Spec u = dt_Spec (attachCertificate (mcd_CertificateArn d) t)"
      using w assms(3) by (auto simp: objectWriteAllowed_def detectChanges_None split: option.splits)
    moreover obtain j where "CfGet j (Inr (Some out)) \<in> set pre"
      using knows_aws [OF od(1)] by blast
    moreover have "j = tenantID t"
      using asked_with_id [OF t'(3) obj] calculation by blast
    ultimately show ?thesis using knows_cert [OF od(2)] by blast
  qed
qed

theorem object_update_is_minimal_witness:
  "(\<not> hasFinalizer (mockReconciler []) (finalized settled) \<and> settled = updFinalizers
      (\<lambda>fs. AddFinalizer (r_Meta (mockReconciler [])) fs FinalizerName) (finalized settled)) \<or>
    (\<exists>out d. CfGet (tenantID (finalized settled)) (Inr (Some out))
        \<in> set (take 1 (demoTrace [] (finalized settled) None)) \<and>
      specMatchesAWS (dt_Spec (finalized settled)) out \<and>
      (\<exists>i. CfCert i (Inr (Some d)) \<in> set (take 1 (demoTrace [] (finalized settled) None))) \<and>
      mcd_CertificateStatus d = ''issued'' \<and> dt_Meta settled = dt_Meta (finalized settled) \<and>
      dt_Spec settled = dt_Spec (attachCertificate (mcd_CertificateArn d) (finalized settled)))"
  by (rule object_update_is_minimal [OF demoTrace_at [where k = 1 and policy = "[]" and
      t = "finalized settled" and aws = None and e = "KUpdate settled (Inr settled)"],
      where ns' = "''ns''" and n' = "''abc''"])
    (simp_all add: trace_run finalized_def beingDeleted_def cong: bind_weak_cong)

end
