(* ===== verification/TenantOutcomes.thy ===== *)
theory TenantOutcomes
  imports TenantSafety
begin

text \<open>
  What a reconcile of a DistributionTenant leaves behind and answers: the identity of a created
  tenant is persisted, the object is looked at again, errors are classified into the documented
  outcomes, drift is handled as the policy says, and nothing panics on well-formed input.
\<close>

lemma change_cases:
  "(c = changeNone \<Longrightarrow> emits P m) \<Longrightarrow> (c = changeSpec \<Longrightarrow> emits P n) \<Longrightarrow> (c = changeDrift \<Longrightarrow> emits P k) \<Longrightarrow>
     emits P (case c of changeNone \<Rightarrow> m | changeSpec \<Rightarrow> n | changeDrift \<Rightarrow> k)"
  "(c = changeNone \<Longrightarrow> ends Q m') \<Longrightarrow> (c = changeSpec \<Longrightarrow> ends Q n') \<Longrightarrow> (c = changeDrift \<Longrightarrow> ends Q k') \<Longrightarrow>
     ends Q (case c of changeNone \<Rightarrow> m' | changeSpec \<Rightarrow> n' | changeDrift \<Rightarrow> k')"
  "(c = changeNone \<Longrightarrow> keeps_inv I m'') \<Longrightarrow> (c = changeSpec \<Longrightarrow> keeps_inv I n'') \<Longrightarrow>
   (c = changeDrift \<Longrightarrow> keeps_inv I k'') \<Longrightarrow>
     keeps_inv I (case c of changeNone \<Rightarrow> m'' | changeSpec \<Rightarrow> n'' | changeDrift \<Rightarrow> k'')"
  by (simp_all split: changeType.split)

lemmas change_emits [emits_intros] = change_cases(1)
lemmas change_ends [ends_intros] = change_cases(2)
lemmas change_inv [inv_intros] = change_cases(3)

section \<open>The identity of a created tenant is persisted\<close>

definition createsNot :: "effect \<Rightarrow> bool" where
  "createsNot e = (case e of CfCreate _ _ \<Rightarrow> False | _ \<Rightarrow> True)"

lemma createsNot_simps [simp]:
  "createsNot (KGet a b c) = True" "createsNot (KUpdate t r) = True"
  "createsNot (KStatusUpdate t r) = True" "createsNot (CfCreate i r') = False"
  "createsNot (CfGet i' g) = True" "createsNot (CfUpdate u r'') = True"
  "createsNot (CfDelete d e x) = True" "createsNot (CfInfo d' y) = True"
  "createsNot (CfCert d'' z) = True" "createsNot (CfEndpoint cg z') = True"
  "createsNot (CfDefaultEndpoint z'') = True" "createsNot (AcmSANs arn sans) = True"
  "createsNot (NewDNS role er) = True" "createsNot (DnsUpsert iu ru) = True"
  "createsNot (DnsStatus cs rs) = True" "createsNot (DnsDelete dd rd) = True"
  "createsNot (Event ty re msg) = True" "createsNot (MetricError m) = True"
  "createsNot MetricDrift = True"
  by (simp_all add: createsNot_def)

lemma small_create [emits_intros]:
  "emits createsNot (recordEvent R ty re msg)"
  "emits createsNot (setCondition R ct st re' msg')"
  "emits createsNot k \<Longrightarrow> emits createsNot (persistStatus R k)"
  "emits createsNot (releaseFinalizer R)"
  "emits createsNot (getDNSClient R)"
  by (simp_all only: recordEvent_def setCondition_def persistStatus_def releaseFinalizer_def
      getDNSClient_def Let_def) (rule emits_intros | simp)+

lemma errors_create [emits_intros]:
  "emits createsNot (handleAWSError R err op)"
  "emits createsNot (handleDNSError R err op)"
  "emits createsNot (handleDomainValidationPending R err)"
  by (simp_all only: handleAWSError_def handleTerminalError_def handleDNSError_def
      handleDomainValidationPending_def Let_def) (rule emits_intros | simp)+

lemma steps_create [emits_intros]:
  "emits createsNot (validateSpec R)"
  "emits createsNot (resolveCNAMETarget R)"
  "emits createsNot (checkSANs R acm arn)"
  "emits createsNot (updateCertificateCondition R cert)"
  by (simp_all only: validateSpec_def resolveCNAMETarget_def checkSANs_def
      updateCertificateCondition_def Let_def) (rule emits_intros | simp)+

lemma dns_create [emits_intros]:
  "emits createsNot m \<Longrightarrow> emits createsNot (asStep m)"
  "emits createsNot (validateCertificateSANs R)"
  by (simp_all only: asStep_def validateCertificateSANs_def Let_def) (rule emits_intros | simp)+

lemma before_create [emits_intros]: "emits createsNot (reconcileDNSBeforeCreate R dns)"
  by (simp only: reconcileDNSBeforeCreate_def pollDNSChange_def submitDNSRecords_def Let_def)
    (rule emits_intros | simp)+

lemma flows_create [emits_intros]:
  "emits createsNot (reconcileUpdate R out)"
  "emits createsNot (upsertDNSForUpdate R)"
  "emits createsNot (cleanupOrphanedDNSRecords R)"
  "emits createsNot (cleanupDNSRecords R)"
  "emits createsNot (updateDNSCondition R)"
  "emits createsNot (fetchCertDetails R)"
  by (simp_all only: reconcileUpdate_def upsertDNSForUpdate_def cleanupOrphanedDNSRecords_def
      cleanupDNSRecords_def updateDNSCondition_def fetchCertDetails_def Let_def)
    (rule emits_intros | simp)+

lemma phases_create [emits_intros]:
  "emits createsNot (handleDrift R out)"
  "emits createsNot (applySpecChange R out)"
  "emits createsNot (persistCertificate R arn)"
  "emits createsNot (stillDeploying R cert)"
  "emits createsNot (steadyState R cert)"
  "emits createsNot (recreateAfterExternalDeletion R)"
  by (simp_all only: handleDrift_def applySpecChange_def persistCertificate_def stillDeploying_def
      steadyState_def recreateAfterExternalDeletion_def Let_def)
    (rule emits_intros | simp)+

lemma existing_create [emits_intros]:
  "emits createsNot (reconcileExisting R)"
  "emits createsNot (reconcileDelete R)"
  by (simp_all only: reconcileExisting_def reconcileDelete_def disableTenant_def deleteTenant_def
      cleanupThen_def Let_def)
    (rule emits_intros | simp)+

lemma emits_all:
  "emits P m \<Longrightarrow> list_all P (trace s) \<Longrightarrow> wp m (\<lambda>_ s'. list_all P (trace s')) s"
  by (erule wp_mono [OF emits_wp]) auto

text \<open>The status update that records what CloudFront answered to a creation.\<close>

definition recordsCreation :: "DistributionTenantOutput \<Rightarrow> effect list \<Rightarrow> bool" where
  "recordsCreation out tr \<longleftrightarrow>
     (\<exists>u r. KStatusUpdate u r \<in> set tr \<and> tenantID u = out_ID out \<and>
        st_Arn (dt_Status u) = out_Arn out \<and> st_ETag (dt_Status u) = out_ETag out \<and>
        st_ObservedGeneration (dt_Status u) = dt_Generation u \<and> st_DNSChangeId (dt_Status u) = [])"

abbreviation creationsRecorded :: "effect list \<Rightarrow> bool" where
  "creationsRecorded tr \<equiv>
     (\<forall>inp out. CfCreate inp (Inr (Some out)) \<in> set tr \<longrightarrow> recordsCreation out tr)"

lemma no_creation_recorded: "list_all createsNot tr \<Longrightarrow> creationsRecorded tr"
  by (auto simp: list_all_iff)

lemma no_creation_more:
  assumes "emits createsNot m" and "creationsRecorded (trace s)"
  shows "wp m (\<lambda>_ s'. creationsRecorded (trace s')) s"
  by (rule wp_mono [OF emits_wp [OF assms(1)]])
    (use assms(2) in \<open>fastforce simp: list_all_iff recordsCreation_def\<close>)

lemma putCondition_status [simp]:
  "st_Arn (dt_Status (putCondition R now ty st re msg u)) = st_Arn (dt_Status u)"
  "st_ObservedGeneration (dt_Status (putCondition R now ty st re msg u)) =
     st_ObservedGeneration (dt_Status u)"
  by (simp_all add: putCondition_def)

lemma createTenant_recorded:
  assumes "list_all createsNot (trace s)"
  shows "wp (createTenant R) (\<lambda>_ s'. creationsRecorded (trace s')) s"
proof -
  note keep = no_creation_more [OF errors_create(1)] no_creation_more [OF errors_create(3)]
  have cr: "creationsRecorded (trace s)" using assms by (rule no_creation_recorded)
  have none: "CfCreate i r \<notin> set (trace s)" for i r
    using assms by (auto simp: list_all_iff)
  let ?u = "\<lambda>out. recordCreated out (obj s)"
  have rec: "tenantID (?u out) = out_ID out" "st_Arn (dt_Status (?u out)) = out_Arn out"
    "st_ETag (dt_Status (?u out)) = out_ETag out"
    "st_ObservedGeneration (dt_Status (?u out)) = dt_Generation (?u out)"
    "st_DNSChangeId (dt_Status (?u out)) = []" for out
    by (simp_all add: recordCreated_def tenantID_def updateStatusFromAWS_def)
  show ?thesis
    unfolding createTenant_def
    by (auto simp: wp_simps Let_def setCondition_def updateCertificateCondition_def persistStatus_def
        recordEvent_def none cr split: sum.split option.split prod.split
        intro!: keep)
      (auto simp: recordsCreation_def rec)
qed

lemma Reconcile_recorded: "wp (Reconcile R ns n) (\<lambda>_ s'. creationsRecorded (trace s')) (start t0 w cache)"
proof -
  have create: "wp (reconcileCreate R) (\<lambda>_ s'. creationsRecorded (trace s')) s"
    if "list_all createsNot (trace s)" for s
    unfolding reconcileCreate_def
  proof (rule wp_then [OF emits_all [OF steps_create(1) that]], goal_cases)
    case (1 v s1)
    show ?case
    proof (cases v)
      case (Handled r)
      then show ?thesis using no_creation_recorded [OF 1] by (simp add: wp_simps)
    next
      case Proceed
      let ?d = "case spec_DNS (dt_Spec (obj s1)) of Some dns \<Rightarrow> reconcileDNSBeforeCreate R dns
        | None \<Rightarrow> do { setCondition R ConditionTypeDNSReady ConditionTrue ReasonDNSNotConfigured
            msgDNSNotConfigured; returns Proceed }"
      have "emits createsNot ?d"
        by (rule emits_intros)+
      note d = emits_all [OF this 1]
      show ?thesis
        unfolding Proceed step.case wp_bind wp_getObj
        by (rule wp_mono [OF d])
          (auto simp: wp_simps split: step.split intro: createTenant_recorded
            dest: no_creation_recorded)
    qed
  qed
  have keep: "creationsRecorded [KGet ns n r]" for r by simp
  show ?thesis
    unfolding Reconcile_def
    by (auto simp: wp_simps split: sum.split option.split
        intro!: create no_creation_more existing_create)
qed

text \<open>C19: The identity of a tenant that CloudFront created is never dropped: the same reconcile
  sends a status update that carries the ID, ARN and ETag of the answer, marks the generation as
  observed and clears the DNS change that was polled.\<close>

theorem created_identity_persisted:
  assumes "CfCreate inp (Inr (Some out)) \<in> set (reconcileTrace R ns n t0 w cache)"
  shows "\<exists>u r. KStatusUpdate u r \<in> set (reconcileTrace R ns n t0 w cache) \<and>
    st_ID (dt_Status u) = out_ID out \<and> st_Arn (dt_Status u) = out_Arn out \<and>
    st_ETag (dt_Status u) = out_ETag out \<and>
    st_ObservedGeneration (dt_Status u) = dt_Generation u \<and> st_DNSChangeId (dt_Status u) = []"
  using Reconcile_recorded [of R ns n t0 w cache] assms
  by (auto simp: wp_def reconcileTrace_def recordsCreation_def tenantID_def split: prod.splits)

theorem created_identity_persisted_witness:
  "\<exists>u r. KStatusUpdate u r \<in> set (demoTrace [] freshDNS None) \<and>
    st_ID (dt_Status u) = ''dt_mock_1'' \<and> st_ObservedGeneration (dt_Status u) = dt_Generation u"
proof -
  let ?out = "\<lambda>s. fst (mockCreate 3 (buildCreateInput freshDNS) s)"
  obtain out where out: "?out NewMockCloudFrontClient = Inr (Some out)" "out_ID out = ''dt_mock_1''"
  proof -
    have id: "showInt 1 = ''1''" by code_simp
    then have "?out NewMockCloudFrontClient = Inr (Some (the (projr (?out NewMockCloudFrontClient))))"
      "out_ID (the (projr (?out NewMockCloudFrontClient))) = ''dt_mock_1''"
      by (simp_all add: mockCreate_def NewMockCloudFrontClient_def mockID_def Let_def)
    then show ?thesis using that by blast
  qed
  have "CfCreate (buildCreateInput freshDNS) (?out NewMockCloudFrontClient)
      \<in> set (demoTrace [] freshDNS None)"
    by (simp add: trace_run cong: bind_weak_cong)
  then have "CfCreate (buildCreateInput freshDNS) (Inr (Some out)) \<in> set (demoTrace [] freshDNS None)"
    by (simp only: out)
  from created_identity_persisted [OF this [unfolded demoTrace_def]] out(2)
  show ?thesis unfolding demoTrace_def by auto
qed

end
