(* ===== verification/TenantReady.thy ===== *)
theory TenantReady
  imports TenantOutcomes
begin

text \<open>
  What Ready=True means: the invariant that carries the readiness of the stored object through
  every handler, and the one place that turns it on.
\<close>

declare append_assoc [simp del]

section \<open>The readiness invariant\<close>

definition readyIn :: "'w Reconciler \<Rightarrow> DistributionTenant \<Rightarrow> bool" where
  "readyIn R u \<longleftrightarrow>
     map_option cond_Status (FindStatusCondition (r_Meta R) (st_Conditions (dt_Status u))
       ConditionTypeReady) = Some ConditionTrue"

definition writes :: "effect list \<Rightarrow> nat" where
  "writes tr = length (filter isKWrite tr)"

text \<open>The tenant was seen in sync and deployed, and the generation is marked as observed.\<close>

definition inSyncFor :: "DistributionTenant \<Rightarrow> effect list \<Rightarrow> bool" where
  "inSyncFor u tr \<longleftrightarrow>
     (\<exists>i out. CfGet i (Inr (Some out)) \<in> set tr \<and> specMatchesAWS (dt_Spec u) out \<and>
        out_Status out \<noteq> statusInProgress \<and>
        st_ObservedGeneration (dt_Status u) = dt_Generation u)"

definition readyOnlyInSync :: "'w Reconciler \<Rightarrow> effect list \<Rightarrow> bool" where
  "readyOnlyInSync R tr \<longleftrightarrow>
     (\<forall>u r. KStatusUpdate u r \<in> set tr \<longrightarrow> readyIn R u \<longrightarrow> inSyncFor u tr)"

definition readyOK :: "'w Reconciler \<Rightarrow> effect list \<Rightarrow> DistributionTenant \<Rightarrow> bool" where
  "readyOK R tr u \<longleftrightarrow> 2 \<le> writes tr \<or>
     readyOnlyInSync R tr \<and> (writes tr = 1 \<or> \<not> readyIn R u)"

definition readyInv :: "'w Reconciler \<Rightarrow> 'w dtState \<Rightarrow> bool" where
  "readyInv R s \<longleftrightarrow> readyOK R (trace s) (obj s)"

lemma writes_simps [simp]:
  "writes [] = 0" "writes (tr @ [e]) = writes tr + (if isKWrite e then 1 else 0)"
  by (simp_all add: writes_def)

lemma inSyncFor_more: "inSyncFor u tr \<Longrightarrow> inSyncFor u (tr @ new)"
  by (auto simp: inSyncFor_def)

lemma readyOnlyInSync_snoc:
  "readyOnlyInSync R tr \<Longrightarrow> (\<And>u r. e = KStatusUpdate u r \<Longrightarrow> readyIn R u \<Longrightarrow> inSyncFor u tr) \<Longrightarrow>
   readyOnlyInSync R (tr @ [e])"
  by (auto simp: readyOnlyInSync_def intro: inSyncFor_more)

lemma isKWrite_simps [simp]:
  "\<not> isKWrite (KGet a b c)" "isKWrite (KUpdate t r)" "isKWrite (KStatusUpdate t r)"
  "\<not> isKWrite (CfCreate i r')" "\<not> isKWrite (CfGet i' g)" "\<not> isKWrite (CfUpdate u r'')"
  "\<not> isKWrite (CfDelete d e x)" "\<not> isKWrite (CfInfo d' y)" "\<not> isKWrite (CfCert d'' z)"
  "\<not> isKWrite (CfEndpoint cg z')" "\<not> isKWrite (CfDefaultEndpoint z'')"
  "\<not> isKWrite (AcmSANs arn sans)" "\<not> isKWrite (NewDNS role er)" "\<not> isKWrite (DnsUpsert iu ru)"
  "\<not> isKWrite (DnsStatus cs rs)" "\<not> isKWrite (DnsDelete dd rd)" "\<not> isKWrite (Event ty re msg)"
  "\<not> isKWrite (MetricError m)" "\<not> isKWrite MetricDrift"
  by (simp_all add: isKWrite_def)

lemma readyOK_quiet: "\<not> isKWrite e \<Longrightarrow> readyOK R tr u \<Longrightarrow> readyOK R (tr @ [e]) u"
  using readyOnlyInSync_snoc [of R tr e] by (cases e) (auto simp: readyOK_def)

text \<open>A write is done with an object that is not ready, or it is not the first one.\<close>

lemma readyOK_write:
  "readyOK R tr u \<Longrightarrow> readyOK R (tr @ [KStatusUpdate u r]) v"
  "readyOK R tr u \<Longrightarrow> readyOK R (tr @ [KUpdate t r']) v"
  using readyOnlyInSync_snoc [of R tr] by (auto simp: readyOK_def)

lemma readyOK_same:
  "st_Conditions (dt_Status u) = st_Conditions (dt_Status v) \<Longrightarrow> readyOK R tr u = readyOK R tr v"
  by (simp add: readyOK_def readyIn_def)

lemma inv_basic [inv_intros]:
  "(\<And>u. st_Conditions (dt_Status (h u)) = st_Conditions (dt_Status u)) \<Longrightarrow>
     keeps_inv (readyInv R) (modifyObj h)"
  "keeps_inv (readyInv R) (silent g)"
  "\<not> isKWrite e \<Longrightarrow> keeps_inv (readyInv R) (emit e)"
  "(\<And>a. \<not> isKWrite (ev a)) \<Longrightarrow> keeps_inv (readyInv R) (extern f ev)"
  "keeps_inv (readyInv R) (storeCache k c)"
  by (auto simp: keeps_inv_def wp_simps readyInv_def readyOK_quiet
      dest: readyOK_same [THEN iffD2, rotated])

text \<open>Setting a condition keeps the invariant unless it turns Ready on.\<close>

lemma readyIn_putCondition:
  assumes "apimachinery (r_Meta R)"
  shows "readyIn R (putCondition R now ct st re msg u) \<longleftrightarrow>
    (if ct = ConditionTypeReady then st = ConditionTrue else readyIn R u)"
  using apimachinery.found_status [OF assms]
  by (auto simp: readyIn_def putCondition_def)

lemma setCondition_inv [inv_intros]:
  assumes "apimachinery (r_Meta R)" and "ct = ConditionTypeReady \<Longrightarrow> st \<noteq> ConditionTrue"
  shows "keeps_inv (readyInv R) (setCondition R ct st re msg)"
  using assms(2)
  by (auto simp: keeps_inv_def setCondition_def wp_simps readyInv_def readyOK_def
      readyIn_putCondition [OF assms(1)])

lemma persistStatus_inv [inv_intros]:
  assumes "keeps_inv (readyInv R) k"
  shows "keeps_inv (readyInv R) (persistStatus R k)"
  unfolding keeps_inv_def persistStatus_def
  by (auto simp: wp_simps readyInv_def readyOK_write split: sum.split
      intro!: assms [unfolded keeps_inv_def, rule_format])

lemma releaseFinalizer_inv [inv_intros]: "keeps_inv (readyInv R) (releaseFinalizer R)"
proof -
  have "readyOK R tr (updFinalizers f u) = readyOK R tr u" for tr f u
    by (rule readyOK_same) simp
  then show ?thesis
    unfolding keeps_inv_def releaseFinalizer_def
    by (auto simp: wp_simps readyInv_def readyOK_write split: sum.split)
qed

section \<open>Every handler but the steady state keeps it\<close>

lemma small_inv [inv_intros]:
  "keeps_inv (readyInv R) (recordEvent R ty re msg)"
  "keeps_inv (readyInv R) (getDNSClient R)"
  by (simp_all only: recordEvent_def getDNSClient_def Let_def) (rule inv_intros | simp)+

lemma errors_inv [inv_intros]:
  assumes "apimachinery (r_Meta R)"
  shows "keeps_inv (readyInv R) (handleAWSError R err op)"
    "keeps_inv (readyInv R) (handleDNSError R err op)"
    "keeps_inv (readyInv R) (handleDomainValidationPending R err)"
    "keeps_inv (readyInv R) (validateSpec R)"
    "keeps_inv (readyInv R) (checkSANs R acm arn)"
  by (simp_all only: handleAWSError_def handleTerminalError_def handleDNSError_def
      handleDomainValidationPending_def validateSpec_def checkSANs_def Let_def)
    (rule inv_intros assms | simp)+

lemma dns_inv [inv_intros]:
  assumes "apimachinery (r_Meta R)"
  shows "keeps_inv (readyInv R) m \<Longrightarrow> keeps_inv (readyInv R) (asStep m)"
    "keeps_inv (readyInv R) (resolveCNAMETarget R)"
    "keeps_inv (readyInv R) (validateCertificateSANs R)"
    "keeps_inv (readyInv R) (upsertDNSForUpdate R)"
    "keeps_inv (readyInv R) (cleanupDNSRecords R)"
    "keeps_inv (readyInv R) (updateCertificateCondition R cert)"
  by (simp_all only: asStep_def resolveCNAMETarget_def validateCertificateSANs_def
      upsertDNSForUpdate_def cleanupDNSRecords_def updateCertificateCondition_def Let_def)
    (rule inv_intros assms | simp)+

lemma before_inv [inv_intros]:
  assumes "apimachinery (r_Meta R)"
  shows "keeps_inv (readyInv R) (reconcileDNSBeforeCreate R dns)"
  by (simp only: reconcileDNSBeforeCreate_def pollDNSChange_def submitDNSRecords_def Let_def)
    (rule inv_intros assms | simp)+

lemma recorded_conditions [simp]:
  "st_Conditions (dt_Status (recordCreated out u)) = st_Conditions (dt_Status u)"
  "st_Conditions (dt_Status (recordUpdated out u)) = st_Conditions (dt_Status u)"
  "st_Conditions (dt_Status (recordObserved out u)) = st_Conditions (dt_Status u)"
  "st_Conditions (dt_Status (clearAWSIdentity u)) = st_Conditions (dt_Status u)"
  "st_Conditions (dt_Status (attachCertificate arn u)) = st_Conditions (dt_Status u)"
  by (simp_all add: recordCreated_def recordUpdated_def recordObserved_def clearAWSIdentity_def
      attachCertificate_def)

lemma flows_inv [inv_intros]:
  assumes "apimachinery (r_Meta R)"
  shows "keeps_inv (readyInv R) (reconcileCreate R)"
    "keeps_inv (readyInv R) (reconcileUpdate R out)"
    "keeps_inv (readyInv R) (fetchCertDetails R)"
    "keeps_inv (readyInv R) (stillDeploying R cert)"
    "keeps_inv (readyInv R) (recreateAfterExternalDeletion R)"
    "keeps_inv (readyInv R) (reconcileDelete R)"
  by (simp_all only: reconcileCreate_def createTenant_def reconcileUpdate_def fetchCertDetails_def
      stillDeploying_def recreateAfterExternalDeletion_def reconcileDelete_def disableTenant_def
      deleteTenant_def cleanupThen_def Let_def)
    (rule inv_intros assms | simp)+

lemma phases_inv [inv_intros]:
  assumes "apimachinery (r_Meta R)"
  shows "keeps_inv (readyInv R) (applySpecChange R out)"
    "keeps_inv (readyInv R) (handleDrift R out)"
  by (simp_all only: applySpecChange_def handleDrift_def Let_def)
    (rule inv_intros assms | simp)+

lemma persistCertificate_inv [inv_intros]: "keeps_inv (readyInv R) (persistCertificate R arn)"
proof -
  have "readyOK R tr (attachCertificate arn u) = readyOK R tr u" for tr u
    by (rule readyOK_same) simp
  moreover have "readyOK R ((tr @ [Event a b c]) @ [KUpdate t r]) v" if "readyOK R tr u"
    for tr u a b c t r v
    by (rule readyOK_write(2) [OF readyOK_quiet [OF _ that]]) simp
  ultimately show ?thesis
    unfolding keeps_inv_def persistCertificate_def recordEvent_def
    by (auto simp: wp_simps readyInv_def intro: readyOK_write split: sum.split)
qed

section \<open>The steady state\<close>

text \<open>After the steady state the trace still tells the truth about readiness.\<close>

definition readyDone :: "'w Reconciler \<Rightarrow> 'w dtState \<Rightarrow> bool" where
  "readyDone R s \<longleftrightarrow> 2 \<le> writes (trace s) \<or> readyOnlyInSync R (trace s)"

lemma readyInv_done: "readyInv R s \<Longrightarrow> readyDone R s"
  by (auto simp: readyInv_def readyOK_def readyDone_def)

lemma keeps_inv_done:
  "keeps_inv (readyInv R) m \<Longrightarrow> readyInv R s \<Longrightarrow> wp m (\<lambda>_ s'. readyDone R s') s"
  unfolding keeps_inv_def by (auto intro: wp_mono readyInv_done)

lemma steadyState_ready:
  assumes "readyInv R s" and "CfGet i (Inr (Some out)) \<in> set (trace s)"
    and "specMatchesAWS (dt_Spec (obj s)) out" and "out_Status out \<noteq> statusInProgress"
    and "orphanedDomains (obj s) = []"
  shows "wp (steadyState R cert) (\<lambda>_ s'. readyDone R s') s"
proof -
  let ?o = "obj s"
  have "readyDone R (s\<lparr>world := w, trace := trace s @ [KStatusUpdate u r], obj := v\<rparr>)
      \<and> readyDone R (s\<lparr>world := w, obj := u', trace := trace s @ [KStatusUpdate u r]\<rparr>)"
    if "sameObject ?o u" "st_ObservedGeneration (dt_Status u) = dt_Generation u" for w u v u' r
  proof -
    have "inSyncFor u (trace s)"
      using assms(2-4) that by (auto simp: inSyncFor_def sameObject_def)
    then show ?thesis
      using assms(1) readyOnlyInSync_snoc [of R "trace s" "KStatusUpdate u r"]
      by (auto simp: readyInv_def readyOK_def readyDone_def)
  qed
  note persist = this
  let ?Q = "\<lambda>u. sameObject ?o u \<and> st_ObservedGeneration (dt_Status u) = dt_Generation u \<and>
    st_DomainResults (dt_Status u) = st_DomainResults (dt_Status ?o)"
  have put: "?Q (putCondition R now ct st re msg u) = ?Q u" for now ct st re msg u
    by (simp add: putCondition_def sameObject_def)
  have orphan: "orphanedDomains u = []" if "?Q u" for u
    using assms(5) that by (simp add: orphanedDomains_def sameObject_def)
  have set_cond: "wp (setCondition R ct st re msg) (\<lambda>_ s'. trace s' = trace s \<and> ?Q (obj s')) s0"
    if "trace s0 = trace s" "?Q (obj s0)" for ct st re msg s0
    using that put by (simp add: setCondition_def wp_simps)
  have dns_cond: "wp (updateDNSCondition R) (\<lambda>_ s'. trace s' = trace s \<and> ?Q (obj s')) s0"
    "wp (updateCertificateCondition R cert) (\<lambda>_ s'. trace s' = trace s \<and> ?Q (obj s')) s0"
    if "trace s0 = trace s" "?Q (obj s0)" for s0
    using that set_cond [OF that]
    by (auto simp: updateDNSCondition_def updateCertificateCondition_def wp_simps split: prod.split)
  have last: "wp (persistStatus R (returns x)) (\<lambda>_ s'. readyDone R s') s0"
    if "trace s0 = trace s" "?Q (obj s0)" for x s0
    using that persist [of "obj s0"]
    by (auto simp: persistStatus_def wp_simps readyDone_def split: sum.split)
  show ?thesis
    unfolding steadyState_def wp_bind wp_silent wp_modifyObj
    by (auto intro!: wp_mono [OF set_cond] wp_mono [OF dns_cond(1)] wp_mono [OF dns_cond(2)] last
        simp: cleanupOrphaned_none orphan sameObject_def)
qed

text \<open>Observing a tenant keeps the invariant and leaves its domains in the status.\<close>

definition observed :: "DistributionTenantOutput \<Rightarrow> 'w dtState \<Rightarrow> bool" where
  "observed out s \<longleftrightarrow> (\<exists>i. CfGet i (Inr (Some out)) \<in> set (trace s)) \<and>
     map dr_Domain (st_DomainResults (dt_Status (obj s))) = map dro_Domain (out_Domains out)"

lemma fetchCertDetails_ready:
  assumes "apimachinery (r_Meta R)" and "readyInv R s" and "observed out s"
  shows "wp (fetchCertDetails R) (\<lambda>_ s'. readyInv R s' \<and> observed out s') s"
proof (rule wp_conj)
  show "wp (fetchCertDetails R) (\<lambda>_ s'. readyInv R s') s"
    using flows_inv(3) [OF assms(1)] assms(2) by (simp add: keeps_inv_def)
  show "wp (fetchCertDetails R) (\<lambda>_ s'. observed out s') s"
    using assms(3)
    by (auto simp: fetchCertDetails_def wp_simps Let_def observed_def split: sum.split option.split)
qed

lemma reconcileExisting_ready:
  assumes "apimachinery (r_Meta R)" and "readyInv R s"
  shows "wp (reconcileExisting R) (\<lambda>_ s'. readyDone R s') s"
proof -
  let ?e = "\<lambda>r. CfGet (st_ID (dt_Status (obj s))) r"
  have quiet: "readyInv R (s\<lparr>world := w, trace := trace s @ [?e r]\<rparr>)" for w r
    using assms(2) by (simp add: readyInv_def readyOK_quiet)
  have "readyOK R (trace s @ [?e r]) (obj s)" for r
    using assms(2) by (intro readyOK_quiet) (simp_all add: readyInv_def)
  then have "readyOK R (trace s @ [?e r]) (recordObserved out (obj s))" for r out
    using readyOK_same [of "recordObserved out (obj s)" "obj s" R] by simp
  then have rec: "readyInv R (s\<lparr>world := w, trace := trace s @ [?e (Inr (Some out))],
      obj := recordObserved out (obj s)\<rparr>)" for w out
    by (simp add: readyInv_def)
  have obs: "observed out (s\<lparr>world := w, trace := trace s @ [?e (Inr (Some out))],
      obj := recordObserved out (obj s)\<rparr>)" for w out
    by (auto simp: observed_def recordObserved_def)
  have steady: "wp (steadyState R cert) (\<lambda>_ s'. readyDone R s') s1"
    if "readyInv R s1" "observed out s1" "detectChanges (obj s1) out = changeNone"
      "out_Status out \<noteq> statusInProgress" for s1 out cert
    using that no_orphans [of "obj s1" out]
    by (auto simp: observed_def detectChanges_None intro: steadyState_ready)
  have inner: "wp (case detectChanges (obj s1) out of
        changeSpec \<Rightarrow> applySpecChange R out
      | changeDrift \<Rightarrow> handleDrift R out
      | changeNone \<Rightarrow>
          (case certToAttach (obj s1) cert of
             Some arn \<Rightarrow> persistCertificate R arn
           | None \<Rightarrow> if out_Status out = statusInProgress then stillDeploying R cert
               else steadyState R cert)) (\<lambda>_ s'. readyDone R s') s1"
    if "readyInv R s1 \<and> observed out s1" for s1 out cert
    using that steady [of s1 out cert]
      phases_inv(1) [OF assms(1), THEN keeps_inv_done] phases_inv(2) [OF assms(1), THEN keeps_inv_done]
      persistCertificate_inv [THEN keeps_inv_done] flows_inv(4) [OF assms(1), THEN keeps_inv_done]
    by (auto split: changeType.split option.split)
  show ?thesis
    using quiet [THEN readyInv_done] flows_inv(5) [OF assms(1), THEN keeps_inv_done, OF quiet]
      errors_inv(1) [OF assms(1), THEN keeps_inv_done, OF quiet]
      wp_mono [OF fetchCertDetails_ready [OF assms(1) rec obs] inner]
    by (auto simp: reconcileExisting_def wp_simps Let_def split: sum.split option.split)
qed

lemma emits_any:
  assumes "emits P m"
  shows "emits (\<lambda>_. True) m"
  unfolding emits_def
  by (intro allI, rule wp_mono [OF emits_wp [OF assms]]) (auto simp: list_all_iff)

lemma createTenant_any: "emits (\<lambda>_. True) (createTenant R)"
  unfolding createTenant_def recordEvent_def setCondition_def persistStatus_def
    updateCertificateCondition_def Let_def
  by (rule errors_create(1,3) [THEN emits_any] emits_intros TrueI)+

lemma beforeCreate_any:
  "emits (\<lambda>_. True) (validateSpec R)" "emits (\<lambda>_. True) (reconcileDNSBeforeCreate R dns)"
  "emits (\<lambda>_. True) (setCondition R ct st re msg)"
  by (rule emits_any, rule steps_create(1) before_create small_create(2))+

lemma reconcileCreate_any: "emits (\<lambda>_. True) (reconcileCreate R)"
  unfolding reconcileCreate_def by (rule beforeCreate_any createTenant_any emits_intros)+

lemma reconcile_prefix:
  assumes "emits P m"
  shows "wp m (\<lambda>_ s'. \<exists>new. trace s' = trace s @ new) s"
  by (rule wp_mono [OF emits_wp [OF assms]]) blast

lemma Reconcile_ready:
  assumes "apimachinery (r_Meta R)"
    and "\<And>t. fst (k_Get (r_Client R) ns n w) = Inr t \<Longrightarrow> \<not> readyIn R t"
  shows "wp (Reconcile R ns n) (\<lambda>_ s'. readyDone R s') (start t0 w cache)"
proof -
  have inv: "readyInv R \<lparr>obj = t, world = w', trace = [KGet ns n r], dnsClientCache = cache\<rparr>"
    if "\<not> readyIn R t" for t w' r
    using that by (simp add: readyInv_def readyOK_def readyOnlyInSync_def writes_def)
  have none: "readyDone R \<lparr>obj = t, world = w', trace = [KGet ns n r], dnsClientCache = cache\<rparr>"
    "readyDone R \<lparr>obj = t, world = w', trace = [KGet ns n r, KUpdate u r'], dnsClientCache = cache\<rparr>"
    for t w' r u r'
    by (auto simp: readyDone_def readyOnlyInSync_def)
  show ?thesis
    using assms(2) none inv [THEN flows_inv(6) [OF assms(1), THEN keeps_inv_done]]
      inv [THEN flows_inv(1) [OF assms(1), THEN keeps_inv_done]]
      inv [THEN reconcileExisting_ready [OF assms(1)]]
    by (auto simp: Reconcile_def wp_simps start_def append_assoc split: sum.split option.split)
qed

lemma reconcile_reads_first:
  "\<exists>new. reconcileTrace R ns n t0 w cache = KGet ns n (fst (k_Get (r_Client R) ns n w)) # new"
proof -
  have "wp (Reconcile R ns n) (\<lambda>_ s'. \<exists>new. trace s' =
      KGet ns n (fst (k_Get (r_Client R) ns n w)) # new) (start t0 w cache)"
    unfolding Reconcile_def
    by (auto simp: wp_simps split: sum.split option.split
        intro!: reconcileCreate_any existing_create wp_mono [OF reconcile_prefix])
  then show ?thesis by (auto simp: wp_def reconcileTrace_def split: prod.splits)
qed

text \<open>C20: Ready is never turned on without cause: when the object that was read was not Ready, a
  status update with Ready=True is sent only after CloudFront answered, in the same reconcile,
  with a tenant of this object that matches its spec and is not still deploying, and it marks
  the generation as observed.\<close>

theorem ready_only_in_sync:
  assumes "apimachinery (r_Meta R)"
    and "KGet ns' n' (Inr t) \<in> set (reconcileTrace R ns n t0 w cache)" and "\<not> readyIn R t"
    and "KStatusUpdate u r \<in> set (reconcileTrace R ns n t0 w cache)" and "readyIn R u"
  shows "\<exists>out. CfGet (tenantID t) (Inr (Some out)) \<in> set (reconcileTrace R ns n t0 w cache) \<and>
    specMatchesAWS (dt_Spec u) out \<and> out_Status out \<noteq> ''InProgress'' \<and>
    st_ObservedGeneration (dt_Status u) = dt_Generation u"
proof -
  let ?tr = "reconcileTrace R ns n t0 w cache"
  have obj: "kn_obj (knows ?tr) = Some t"
    using one_object [OF lawful_trace assms(2)] .
  have "\<not> readyIn R t'" if "fst (k_Get (r_Client R) ns n w) = Inr t'" for t'
  proof -
    have "KGet ns n (Inr t') \<in> set ?tr"
      using reconcile_reads_first [of R ns n t0 w cache] that by auto
    then show ?thesis using one_object [OF lawful_trace] obj assms(3) by fastforce
  qed
  then have "wp (Reconcile R ns n) (\<lambda>_ s'. readyDone R s') (start t0 w cache)"
    by (intro Reconcile_ready [OF assms(1)]) blast
  then have "readyDone R (snd (run_state (Reconcile R ns n) (start t0 w cache)))"
    by (auto simp: wp_def split: prod.splits)
  then have "readyOnlyInSync R ?tr"
    using one_each [OF lawful_trace [of R ns n t0 w cache]]
    by (auto simp: readyDone_def writes_def reconcileTrace_def split: if_splits)
  then have "inSyncFor u ?tr" using assms(4,5) by (auto simp: readyOnlyInSync_def)
  then show ?thesis
    using asked_with_id [OF lawful_trace obj] by (auto simp: inSyncFor_def statusInProgress_def)
qed

theorem ready_only_in_sync_witness:
  "\<exists>out. CfGet ''T1'' (Inr (Some out)) \<in> set (demoTrace [] settled awsOn) \<and>
    specMatchesAWS (dt_Spec (obj (snd (demoRun [] settled awsOn)))) out \<and>
    out_Status out \<noteq> ''InProgress'' \<and>
    st_ObservedGeneration (dt_Status (obj (snd (demoRun [] settled awsOn)))) =
      dt_Generation (obj (snd (demoRun [] settled awsOn)))"
proof -
  have meta: "apimachinery (r_Meta (mockReconciler []))"
    by (simp add: mockReconciler_def ref.apimachinery_axioms)
  have "KGet ''ns'' ''abc'' (Inr settled) \<in> set (demoTrace [] settled awsOn)"
    "\<not> readyIn (mockReconciler []) settled"
    "KStatusUpdate (obj (snd (demoRun [] settled awsOn))) (Inr (obj (snd (demoRun [] settled awsOn))))
      \<in> set (demoTrace [] settled awsOn)"
    "readyIn (mockReconciler []) (obj (snd (demoRun [] settled awsOn)))"
    by (simp_all add: trace_run readyIn_def cong: bind_weak_cong)
  from ready_only_in_sync [OF meta this [unfolded demoTrace_def]]
  show ?thesis by (simp add: demoTrace_def tenantID_def demoTenant_def demoStatus_def)
qed

end
