(* ===== verification/TenantErrors.thy ===== *)
theory TenantErrors
  imports TenantReady
begin

text \<open>
  How a reconcile of a DistributionTenant ends: terminal errors settle, every other outcome
  comes back, drift is reported or enforced by the policy, a DNS client is created once per
  role, and nothing panics on well-formed input.
\<close>

section \<open>Terminal errors settle\<close>

text \<open>An API server that stores conditions as they are sent.\<close>

definition storesConditions :: "'w Reconciler \<Rightarrow> bool" where
  "storesConditions R \<longleftrightarrow>
     (\<forall>t w t'. fst (k_StatusUpdate (r_Client R) t w) = Inr t' \<longrightarrow>
        st_Conditions (dt_Status t') = st_Conditions (dt_Status t) \<and>
        dt_Generation t' = dt_Generation t)"

lemma storesConditionsD:
  "storesConditions R \<Longrightarrow> k_StatusUpdate (r_Client R) t w = (Inr t', w') \<Longrightarrow>
     st_Conditions (dt_Status t') = st_Conditions (dt_Status t) \<and> dt_Generation t' = dt_Generation t"
  unfolding storesConditions_def by (metis fst_conv)

lemma conditionMatches_put_other:
  assumes "apimachinery (r_Meta R)" and "ct \<noteq> ct'"
  shows "conditionMatches R (putCondition R now ct' st re msg t) ct st' re' msg' =
    conditionMatches R t ct st' re' msg'"
  using apimachinery.find_set_other [OF assms(1)] assms(2)
  by (simp add: conditionMatches_def putCondition_def split: option.split)

lemma conditionMatches_put_same:
  assumes "apimachinery (r_Meta R)"
  shows "conditionMatches R (putCondition R now ct st re msg t) ct st re msg"
proof -
  let ?c = "\<lparr>cond_Type = ct, cond_Status = st, cond_ObservedGeneration = dt_Generation t,
    cond_LastTransitionTime = now, cond_Reason = re, cond_Message = msg\<rparr>"
  obtain tm where "FindStatusCondition (r_Meta R) (SetStatusCondition (r_Meta R)
      (st_Conditions (dt_Status t)) ?c) ct = Some (?c\<lparr>cond_LastTransitionTime := tm\<rparr>)"
    using apimachinery.find_set_same [OF assms, of "st_Conditions (dt_Status t)" ?c] by auto
  then show ?thesis by (simp add: conditionMatches_def putCondition_def)
qed

lemma conditionMatches_stored:
  assumes "storesConditions R" and "k_StatusUpdate (r_Client R) t w = (Inr t', w')"
    and "conditionMatches R t ct st re msg"
  shows "conditionMatches R t' ct st re msg"
  using storesConditionsD [OF assms(1,2)] assms(3)
  by (simp add: conditionMatches_def split: option.splits)

lemma handleTerminalError_marks:
  assumes "apimachinery (r_Meta R)" and "storesConditions R"
  shows "wp (handleTerminalError R err op reason ty) (\<lambda>a s'. \<forall>r. a = Done r \<longrightarrow>
    r = requeueIn requeueLong \<and>
    conditionMatches R (obj s') ConditionTypeReady ConditionFalse reason (msgAWSFailed op err)) s"
proof -
  note put = conditionMatches_put_other [OF assms(1)] conditionMatches_put_same [OF assms(1)]
  show ?thesis
    by (auto simp: handleTerminalError_def wp_simps Let_def setCondition_def persistStatus_def
        recordEvent_def put split: sum.split intro: conditionMatches_stored [OF assms(2)])
qed

lemma handleTerminalError_again:
  assumes "conditionMatches R (obj s) ConditionTypeReady ConditionFalse reason (msgAWSFailed op err)"
  shows "run_state (handleTerminalError R err op reason ty) s = (Done (requeueIn requeueLong), s)"
  using assms by (simp add: handleTerminalError_def run_simps)

text \<open>C23: A terminal AWS error settles: once it has been reported, the object carries Ready=False
  with the reason of the error's class, and meeting the same error again only schedules the next
  look in five minutes. The second run changes nothing: no status write (which would trigger
  another reconcile), no event, no metric.\<close>

theorem terminal_error_settles:
  assumes "apimachinery (r_Meta R)" and "storesConditions R"
    and "IsTerminalError (Some err)" and "run_state (handleAWSError R err op) s = (Done r, s1)"
  shows "r = requeueIn (5 * minute) \<and>
    run_state (handleAWSError R err op) s1 = (Done (requeueIn (5 * minute)), s1) \<and>
    conditionMatches R (obj s1) ConditionTypeReady ConditionFalse (fst (terminalReason err))
      (msgAWSFailed op err)"
proof -
  obtain reason ty where t: "terminalReason err = (reason, ty)" by fastforce
  then have h: "handleAWSError R err op = handleTerminalError R err op reason ty"
    using assms(3) by (simp add: handleAWSError_def)
  have "r = requeueIn requeueLong \<and> conditionMatches R (obj s1) ConditionTypeReady ConditionFalse
      reason (msgAWSFailed op err)"
    using wpD [OF handleTerminalError_marks [OF assms(1,2)], of err op reason ty s] assms(4) h by simp
  then show ?thesis
    using handleTerminalError_again [of R s1 reason op err ty] h t by (simp add: requeueLong_def)
qed

lemma mock_stores: "storesConditions (mockReconciler policy)"
  by (auto simp: storesConditions_def mockReconciler_def mockK8s_def mockWrite_def split: option.splits)

lemma mock_meta: "apimachinery (r_Meta (mockReconciler policy))"
  by (simp add: mockReconciler_def ref.apimachinery_axioms)

theorem terminal_error_settles_witness:
  "fst (run_state (handleAWSError (mockReconciler []) (Sentinel ErrDomainConflict) ''create'')
     (snd (run_state (handleAWSError (mockReconciler []) (Sentinel ErrDomainConflict) ''create'')
       (start fresh (demoWorld fresh None) Map.empty)))) = Done (requeueIn (5 * minute))"
proof -
  let ?h = "handleAWSError (mockReconciler []) (Sentinel ErrDomainConflict) ''create''"
  let ?s = "start fresh (demoWorld fresh None) Map.empty"
  have "fst (run_state ?h ?s) = Done (requeueIn (5 * minute))"
    by (simp add: run_simps Let_def error_preds cong: bind_weak_cong)
  then obtain s1 where "run_state ?h ?s = (Done (requeueIn (5 * minute)), s1)"
    by (metis prod.collapse)
  from terminal_error_settles [OF mock_meta mock_stores _ this]
  show ?thesis using \<open>run_state ?h ?s = _\<close> by (simp add: IsTerminalError_def)
qed

section \<open>The cache of DNS clients\<close>

text \<open>What holds of the client cache holds through a reconcile when \<open>getDNSClient\<close> keeps it: nothing else
  touches the cache or announces a new client.\<close>

locale cache_invariant =
  fixes R :: "'w Reconciler"
    and I :: "'w dtState \<Rightarrow> bool"
  assumes of_cache [simp]:
      "I (s\<lparr>obj := t\<rparr>) = I s" "I (s\<lparr>world := w\<rparr>) = I s"
      "(\<And>role x. e \<noteq> NewDNS role x) \<Longrightarrow> I (s\<lparr>trace := trace s @ [e]\<rparr>) = I s"
      "(\<And>role x. e \<noteq> NewDNS role x) \<Longrightarrow> I (s\<lparr>world := w, trace := trace s @ [e]\<rparr>) = I s"
    and client_kept: "keeps_inv I (getDNSClient R)"
begin

lemma small_holds:
  "keeps_inv I (recordEvent R ty re msg)"
  "keeps_inv I (setCondition R ct st re' msg')"
  "keeps_inv I k \<Longrightarrow> keeps_inv I (persistStatus R k)"
  "keeps_inv I (releaseFinalizer R)"
  by (simp_all only: recordEvent_def setCondition_def persistStatus_def releaseFinalizer_def Let_def)
    (rule keeps_inv_bind keeps_inv_basic keeps_inv_cases | simp)+

lemmas inv_rules = keeps_inv_bind keeps_inv_basic keeps_inv_cases step_inv change_inv

lemma errors_hold:
  "keeps_inv I (handleAWSError R err op)"
  "keeps_inv I (handleDNSError R err op)"
  "keeps_inv I (handleDomainValidationPending R err)"
  "keeps_inv I (validateSpec R)"
  "keeps_inv I (resolveCNAMETarget R)"
  "keeps_inv I (checkSANs R acm arn)"
  "keeps_inv I m \<Longrightarrow> keeps_inv I (asStep m)"
  "keeps_inv I (updateCertificateCondition R cert)"
  "keeps_inv I (updateDNSCondition R)"
  by (simp_all only: handleAWSError_def handleTerminalError_def handleDNSError_def
      handleDomainValidationPending_def validateSpec_def resolveCNAMETarget_def checkSANs_def
      asStep_def updateCertificateCondition_def updateDNSCondition_def Let_def)
    (rule small_holds inv_rules | simp)+

lemma dns_hold:
  "keeps_inv I (validateCertificateSANs R)"
  "keeps_inv I (pollDNSChange R)"
  "keeps_inv I (submitDNSRecords R dns)"
  "keeps_inv I (cleanupDNSRecords R)"
  "keeps_inv I (upsertDNSForUpdate R)"
  "keeps_inv I (cleanupOrphanedDNSRecords R)"
  by (simp_all only: validateCertificateSANs_def pollDNSChange_def submitDNSRecords_def
      cleanupDNSRecords_def upsertDNSForUpdate_def cleanupOrphanedDNSRecords_def Let_def)
    (rule client_kept small_holds errors_hold inv_rules | simp)+

lemma flows_hold:
  "keeps_inv I (reconcileDNSBeforeCreate R dns)"
  "keeps_inv I (reconcileUpdate R out)"
  "keeps_inv I (fetchCertDetails R)"
  "keeps_inv I (persistCertificate R arn)"
  "keeps_inv I (stillDeploying R cert)"
  "keeps_inv I (steadyState R cert)"
  "keeps_inv I (recreateAfterExternalDeletion R)"
  "keeps_inv I (reconcileDelete R)"
  by (simp_all only: reconcileDNSBeforeCreate_def reconcileUpdate_def fetchCertDetails_def
      persistCertificate_def stillDeploying_def steadyState_def recreateAfterExternalDeletion_def
      reconcileDelete_def disableTenant_def deleteTenant_def cleanupThen_def Let_def)
    (rule small_holds errors_hold dns_hold inv_rules | simp)+

lemma reconcile_holds: "keeps_inv I (Reconcile R ns n)"
  unfolding Reconcile_def reconcileCreate_def createTenant_def reconcileExisting_def
    applySpecChange_def handleDrift_def Let_def
  by (rule small_holds errors_hold dns_hold flows_hold inv_rules | simp)+

end

text \<open>What holds of every client the factory makes holds of every client in the cache.\<close>

definition workingCache :: "('w DNSClient \<Rightarrow> bool) \<Rightarrow> (string \<Rightarrow> 'w DNSClient option) \<Rightarrow> bool" where
  "workingCache working cache \<longleftrightarrow> (\<forall>role dns. cache role = Some dns \<longrightarrow> working dns)"

locale dns_factory =
  fixes R :: "'w Reconciler"
    and working :: "'w DNSClient \<Rightarrow> bool"
  assumes new_works: "r_NewDNSClient R = Some new \<Longrightarrow> new role w = (Inr dns, w') \<Longrightarrow> working dns"

sublocale dns_factory \<subseteq> cached: cache_invariant R "\<lambda>s. workingCache working (dnsClientCache s)"
proof
  show "keeps_inv (\<lambda>s. workingCache working (dnsClientCache s)) (getDNSClient R)"
    using new_works
    by (auto simp: keeps_inv_def getDNSClient_def wp_simps Let_def workingCache_def
        split: option.split sum.split)
qed simp_all

context dns_factory
begin

lemma getDNSClient_working:
  assumes "workingCache working (dnsClientCache s)"
  shows "wp (getDNSClient R) (\<lambda>c s'. \<forall>dns. c = Done dns \<longrightarrow> working dns) s"
  using assms new_works
  by (auto simp: getDNSClient_def wp_simps Let_def workingCache_def split: option.split sum.split)

lemma cache_kept:
  assumes "workingCache working (dnsClientCache s)"
  shows "wp (resolveCNAMETarget R) (\<lambda>_ s'. workingCache working (dnsClientCache s')) s"
    "wp (validateSpec R) (\<lambda>_ s'. workingCache working (dnsClientCache s')) s"
    "wp (validateCertificateSANs R) (\<lambda>_ s'. workingCache working (dnsClientCache s')) s"
  using cached.errors_hold(4,5) cached.dns_hold(1) assms by (simp_all add: keeps_inv_def)

end

section \<open>Nothing panics\<close>

text \<open>The contract of its clients that the reconciler relies on without checking: a call that answers
  without an error answers with an object.\<close>

locale answering_cloudfront =
  fixes C :: "'w CloudFrontClient"
  assumes create_some: "fst (cf_CreateDistributionTenant C inp w) \<noteq> Inr None"
    and get_some: "fst (cf_GetDistributionTenant C i w) \<noteq> Inr None"
    and update_some: "fst (cf_UpdateDistributionTenant C upd w) \<noteq> Inr None"
    and info_some: "fst (cf_GetDistributionInfo C d w) \<noteq> Inr None"

definition answersChange :: "'w DNSClient \<Rightarrow> bool" where
  "answersChange dns \<longleftrightarrow> (\<forall>input w. fst (dnsc_UpsertCNAMERecords dns input w) \<noteq> Inr None)"

lemma mock_calls_answer:
  "fst (mockCreate now inp m) \<noteq> Inr None" "fst (mockGet i m) \<noteq> Inr None"
  "fst (mockUpdate now upd m) \<noteq> Inr None" "fst (mockInfo d m) \<noteq> Inr None"
  "fst (mockUpsert recs md) \<noteq> Inr None"
  by (simp_all add: mockCreate_def mockGet_def mockUpdate_def mockInfo_def mockUpsert_def Let_def
      split: option.split)

lemma fst_onCF [simp]: "fst (onCF f w) = fst (f (mw_clock w) (mw_cf w))"
  by (simp add: onCF_def split: prod.split)

interpretation mock_answers: answering_cloudfront mockCF
  by unfold_locales (simp_all add: mockCF_def mock_calls_answer)

interpretation mock_factory: dns_factory "mockReconciler policy" answersChange
  by unfold_locales (auto simp: mockReconciler_def mockDNS_def answersChange_def onDNS_def mock_calls_answer
      case_prod_unfold)

definition noPanic :: "('e, 'a) outcome \<Rightarrow> bool" where
  "noPanic a = (case a of Panic \<Rightarrow> False | _ \<Rightarrow> True)"

definition noPanicStep :: "step \<Rightarrow> bool" where
  "noPanicStep d = (case d of Handled a \<Rightarrow> noPanic a | Proceed \<Rightarrow> True)"

lemma noPanic_simps [simp]:
  "noPanic (Done r)" "noPanic (Fail e)" "\<not> noPanic Panic"
  "noPanicStep (Handled a) = noPanic a" "noPanicStep Proceed"
  by (simp_all add: noPanic_def noPanicStep_def)

text \<open>An answer is constrained by the call.\<close>

lemma ends_extern_bind:
  "(\<And>a w. fst (g w) = a \<Longrightarrow> ends P (f a)) \<Longrightarrow> ends P (State_Monad.bind (extern g ev) f)"
  unfolding ends_def wp_bind wp_extern by (metis fst_conv)

lemma quiet_ends [ends_intros]:
  "ends noPanic k \<Longrightarrow> ends noPanic (persistStatus R k)"
  "ends noPanic (releaseFinalizer R)" "ends noPanic (persistCertificate R arn)"
  "ends noPanic (handleAWSError R err op)" "ends noPanic (handleDNSError R err op)"
  "ends noPanic (handleDomainValidationPending R err)"
  by (simp_all only: persistStatus_def releaseFinalizer_def persistCertificate_def handleAWSError_def
      handleTerminalError_def handleDNSError_def handleDomainValidationPending_def Let_def)
    (rule ends_intros | simp)+

lemma steps_quiet [ends_intros]:
  "ends noPanic m \<Longrightarrow> ends noPanicStep (asStep m)"
  "ends noPanicStep (validateSpec R)" "ends noPanicStep (checkSANs R acm arn)"
  by (simp_all only: asStep_def validateSpec_def checkSANs_def Let_def)
    (rule ends_bind_known [where Q = noPanic] ends_intros | simp)+

lemma getDNSClient_quiet:
  "r_NewDNSClient R \<noteq> None \<Longrightarrow> ends noPanic (getDNSClient R)"
  unfolding getDNSClient_def Let_def by (rule ends_intros | simp)+

lemma dns_quiet:
  assumes "r_NewDNSClient R \<noteq> None"
  shows "ends noPanic (cleanupDNSRecords R)" "ends noPanic (upsertDNSForUpdate R)"
    "ends noPanic (cleanupOrphanedDNSRecords R)" "ends noPanicStep (pollDNSChange R)"
  by (simp_all only: cleanupDNSRecords_def upsertDNSForUpdate_def cleanupOrphanedDNSRecords_def
      pollDNSChange_def Let_def)
    (rule ends_bind_known [OF getDNSClient_quiet [OF assms]] ends_intros | simp)+

text \<open>The submission relies on what is in the cache.\<close>

lemma submit_quiet:
  assumes "dns_factory R answersChange" and "r_NewDNSClient R \<noteq> None" and "dns_HostedZoneId dns \<noteq> None"
    and "workingCache answersChange (dnsClientCache s)"
  shows "wp (submitDNSRecords R dns) (\<lambda>d _. noPanicStep d) s"
proof -
  have resolve: "wp (resolveCNAMETarget R) (\<lambda>_ s'. workingCache answersChange (dnsClientCache s')) s"
    by (rule dns_factory.cache_kept(1) [OF assms(1,4)])
  have quiet: "wp (asStep (handleDNSError R err op)) (\<lambda>d _. noPanicStep d) s'" for err op s'
  proof -
    have "ends noPanicStep (asStep (handleDNSError R err op))" by (rule ends_intros)+
    then show ?thesis by (simp add: ends_def)
  qed
  show ?thesis
    unfolding submitDNSRecords_def
  proof (rule wp_then [OF resolve], goal_cases)
    case (1 t s1)
    show ?case
    proof (cases t)
      case (Inl err)
      then show ?thesis using quiet by simp
    next
      case (Inr target)
      note client = wp_conj [OF dns_factory.getDNSClient_working [OF assms(1) 1]
          getDNSClient_quiet [OF assms(2), unfolded ends_def, rule_format]]
      show ?thesis
        unfolding Inr sum.case wp_bind wp_getObj Let_def
      proof (rule wp_mono [OF client], goal_cases)
        case (1 c s2)
        obtain zone where zone: "dns_HostedZoneId dns = Some zone" using assms(3) by blast
        show ?case
        proof (cases c)
          case (Done client)
          have answered: "r \<noteq> Inr None" if "dnsc_UpsertCNAMERecords client i w = (r, w')" for i w r w'
            using 1 Done that unfolding answersChange_def by (metis fst_conv)
          have report: "wp (do {
              recordEvent R ''Normal'' ReasonDNSRecordCreating msg;
              modifyObj f;
              setCondition R ct st re msg';
              asStep (persistStatus R (returns (Done (requeueIn requeueShort))))
            }) (\<lambda>d _. noPanicStep d) s'" for msg f ct st re msg' s'
          proof -
            have "ends noPanicStep (do {
              recordEvent R ''Normal'' ReasonDNSRecordCreating msg;
              modifyObj f;
              setCondition R ct st re msg';
              asStep (persistStatus R (returns (Done (requeueIn requeueShort))))
            })"
              by (rule ends_intros | simp)+
            then show ?thesis by (simp add: ends_def)
          qed
          show ?thesis
            unfolding Done outcome.case zone option.case wp_bind wp_extern
            using answered by (auto simp: quiet report split: sum.split option.split)
        qed (use 1 in \<open>simp_all add: wp_return\<close>)
      qed
    qed
  qed
qed

lemma quiet_step:
  assumes "ends noPanicStep m" and "\<And>a. noPanic a \<Longrightarrow> ends P (g a)" and "ends P k"
  shows "ends P (State_Monad.bind m (\<lambda>d. case d of Handled a \<Rightarrow> g a | Proceed \<Rightarrow> k))"
  by (rule ends_bind_known [OF assms(1)]) (use assms(2,3) in \<open>auto split: step.split\<close>)

lemma flows_quiet:
  assumes "answering_cloudfront (r_CFClient R)"
  shows "ends noPanic (createTenant R)" "ends noPanic (reconcileUpdate R out)"
    "ends noPanic (disableTenant R out)" "ends noPanicStep (validateCertificateSANs R)"
    "ends noPanic (handleDrift R out)"
proof -
  note some = answering_cloudfront.create_some [OF assms] answering_cloudfront.get_some [OF assms]
    answering_cloudfront.update_some [OF assms] answering_cloudfront.info_some [OF assms]
  show "ends noPanic (createTenant R)" "ends noPanic (disableTenant R out)"
      "ends noPanicStep (validateCertificateSANs R)"
    unfolding createTenant_def disableTenant_def validateCertificateSANs_def Let_def
    by (rule ends_extern_bind quiet_ends steps_quiet ends_intros | use some in fastforce)+
  show u: "ends noPanic (reconcileUpdate R out)" for out
    unfolding reconcileUpdate_def Let_def
    by (rule ends_extern_bind quiet_ends ends_intros | use some in fastforce)+
  show "ends noPanic (handleDrift R out)"
    unfolding handleDrift_def Let_def
    by (rule u quiet_ends ends_intros | simp)+
qed

lemma recreate_quiet:
  "ends noPanic (recreateAfterExternalDeletion R)" "ends noPanic (stillDeploying R cert)"
  unfolding recreateAfterExternalDeletion_def stillDeploying_def
  by (rule quiet_ends ends_intros | simp)+

lemma existing_quiet:
  assumes "answering_cloudfront (r_CFClient R)" and "r_NewDNSClient R \<noteq> None"
  shows "ends noPanic (reconcileDelete R)" "ends noPanic (reconcileExisting R)"
proof -
  note some = answering_cloudfront.get_some [OF assms(1)]
  have clean: "ends noPanic (cleanupThen R k)" if "ends noPanic k" for k :: "('a, hres) act"
    unfolding cleanupThen_def
    by (rule ends_bind_known [OF dns_quiet(1) [OF assms(2)]]) (rule that ends_intros | simp)+
  have del: "ends noPanic (deleteTenant R out)" for out
    unfolding deleteTenant_def Let_def by (rule clean quiet_ends ends_intros | simp)+
  show "ends noPanic (reconcileDelete R)"
    unfolding reconcileDelete_def Let_def
    by (rule clean del flows_quiet(3) [OF assms(1)] ends_extern_bind quiet_ends ends_intros
        | use some in fastforce)+
  have spec: "ends noPanic (applySpecChange R out)" for out
    unfolding applySpecChange_def Let_def
    by (rule quiet_step [OF steps_quiet(2)] ends_bind_known [OF dns_quiet(2) [OF assms(2)]]
        flows_quiet(2) [OF assms(1)] quiet_ends ends_intros | simp)+
  have steady: "ends noPanic (steadyState R cert)" for cert
    unfolding steadyState_def Let_def
    by (rule ends_bind_known [OF dns_quiet(3) [OF assms(2)]] quiet_ends ends_intros | simp)+
  show "ends noPanic (reconcileExisting R)"
    unfolding reconcileExisting_def Let_def
    by (rule spec steady recreate_quiet flows_quiet(5) [OF assms(1)] ends_extern_bind quiet_ends
        ends_intros | use some in fastforce)+
qed

text \<open>A spec the CRD accepts names the hosted zone of a managed record set.\<close>

definition zoneGiven :: "DistributionTenant \<Rightarrow> bool" where
  "zoneGiven t = (case spec_DNS (dt_Spec t) of None \<Rightarrow> True | Some dns \<Rightarrow> dns_HostedZoneId dns \<noteq> None)"

lemma validateSpec_spec:
  "wp (validateSpec R) (\<lambda>v s'. noPanicStep v \<and> (v = Proceed \<longrightarrow> dt_Spec (obj s') = dt_Spec (obj s))) s"
  using steps_quiet(2) [of R]
  by (auto simp: ends_def validateSpec_def wp_simps Let_def setCondition_def persistStatus_def
      recordEvent_def split: option.split sum.split)

lemma beforeCreate_quiet:
  assumes "dns_factory R answersChange" and "r_NewDNSClient R \<noteq> None" and "dns_HostedZoneId dns \<noteq> None"
    and "workingCache answersChange (dnsClientCache s)" and "answering_cloudfront (r_CFClient R)"
  shows "wp (reconcileDNSBeforeCreate R dns) (\<lambda>d _. noPanicStep d) s"
proof -
  have sans: "wp (if b then validateCertificateSANs R else returns Proceed)
      (\<lambda>d s'. noPanicStep d \<and> workingCache answersChange (dnsClientCache s')) s" for b
    using flows_quiet(4) [OF assms(5)] dns_factory.cache_kept(3) [OF assms(1,4)] assms(4)
    by (simp add: ends_def wp_conj wp_return)
  show ?thesis
    unfolding reconcileDNSBeforeCreate_def wp_bind wp_getObj
  proof (rule wp_mono [OF sans], elim conjE, goal_cases)
    case (1 d s1)
    then show ?case
      using dns_quiet(4) [OF assms(2)] submit_quiet [OF assms(1-3), of s1]
      by (cases d) (simp_all add: ends_def wp_return)
  qed
qed

lemma reconcileCreate_quiet:
  assumes "answering_cloudfront (r_CFClient R)" and "r_NewDNSClient R \<noteq> None" and "zoneGiven (obj s)"
    and "dns_factory R answersChange" and "workingCache answersChange (dnsClientCache s)"
  shows "wp (reconcileCreate R) (\<lambda>a _. noPanic a) s"
proof -
  have dns: "wp (case spec_DNS (dt_Spec (obj s')) of Some dns \<Rightarrow> reconcileDNSBeforeCreate R dns
      | None \<Rightarrow> do { setCondition R ct st re msg; returns Proceed }) (\<lambda>d _. noPanicStep d) s'"
    if "dt_Spec (obj s') = dt_Spec (obj s)" "workingCache answersChange (dnsClientCache s')" for s' ct st re msg
    using assms(3) that beforeCreate_quiet [OF assms(4,2) _ that(2) assms(1)]
    by (auto simp: zoneGiven_def wp_simps setCondition_def split: option.splits)
  have create: "wp (createTenant R) (\<lambda>a _. noPanic a) s'" for s'
    using flows_quiet(1) [OF assms(1)] by (simp add: ends_def)
  show ?thesis
    unfolding reconcileCreate_def
  proof (rule wp_then [OF wp_conj [OF validateSpec_spec dns_factory.cache_kept(2) [OF assms(4,5)]]],
      elim conjE, goal_cases)
    case (1 v s')
    show ?case
    proof (cases v)
      case (Handled res)
      then show ?thesis using 1 by (simp add: wp_return)
    next
      case Proceed
      have "dt_Spec (obj s') = dt_Spec (obj s)" "workingCache answersChange (dnsClientCache s')"
        using 1 Proceed by simp_all
      note step = dns [OF this]
      show ?thesis
        unfolding Proceed step.case wp_bind wp_getObj
        by (rule wp_mono [OF step]) (auto simp: wp_return create split: step.split)
    qed
  qed
qed

text \<open>C24: No panic: a reconcile never ends in a nil dereference, whatever AWS and the API server
  answer, provided the operator is wired with a DNS client factory, its CloudFront client never
  answers nil without an error, nor does an upsert of the DNS clients (those that the factory makes and
  those in the cache), and the object read names a hosted zone where it asks for DNS records (the
  rule of the CRD). That the clients themselves (Go interfaces) are not nil is part of the model.\<close>

theorem reconcile_never_panics:
  assumes "answering_cloudfront (r_CFClient R)" and "r_NewDNSClient R \<noteq> None"
    and "dns_factory R answersChange" and "workingCache answersChange cache"
    and "\<And>t. fst (k_Get (r_Client R) ns n w) = Inr t \<Longrightarrow> zoneGiven t"
  shows "fst (run_state (Reconcile R ns n) (start t0 w cache)) \<noteq> Panic"
proof -
  have "wp (Reconcile R ns n) (\<lambda>a _. noPanic a) (start t0 w cache)"
    using existing_quiet [OF assms(1,2)] assms(4,5)
    unfolding Reconcile_def
    by (auto simp: wp_simps ends_def start_def split: sum.split option.split
        intro!: reconcileCreate_quiet [OF assms(1,2) _ assms(3)])
  then show ?thesis by (auto simp: wp_def split: prod.splits)
qed

theorem reconcile_never_panics_witness:
  "fst (demoRun [] freshDNS None) \<noteq> Panic"
proof -
  have r: "answering_cloudfront (r_CFClient (mockReconciler []))" "r_NewDNSClient (mockReconciler []) \<noteq> None"
    by (simp_all add: mockReconciler_def mock_answers.answering_cloudfront_axioms)
  show ?thesis
    unfolding demoRun_def
    by (rule reconcile_never_panics [OF r mock_factory.dns_factory_axioms])
      (auto simp: mockReconciler_def mockK8s_def demoWorld_def workingCache_def
        zoneGiven_def demoDNSTenant_def demoTenant_def demoDNS_def)
qed

section \<open>One DNS client per role\<close>

text \<open>The client of a role is cached, and none has been created since.\<close>

definition holdsClient :: "string \<Rightarrow> 'w DNSClient \<Rightarrow> 'w dtState \<Rightarrow> bool" where
  "holdsClient role c s \<longleftrightarrow> dnsClientCache s role = Some c \<and> (\<forall>e. NewDNS role e \<notin> set (trace s))"

interpretation client_once: cache_invariant R "holdsClient role c"
proof
  show "keeps_inv (holdsClient role c) (getDNSClient R)"
    by (auto simp: keeps_inv_def getDNSClient_def wp_simps Let_def holdsClient_def
        split: option.split sum.split)
qed (auto simp: holdsClient_def)

text \<open>A DNS client (and its STS session) is created at most once per role: once the client of
  a role is cached, no reconcile of any object creates another one for that role, and the cached
  client stays in place.\<close>

theorem dns_client_created_once:
  assumes "cache role = Some c"
  shows "(\<forall>e. NewDNS role e \<notin> set (reconcileTrace R ns n t0 w cache)) \<and>
    dnsClientCache (snd (run_state (Reconcile R ns n) (start t0 w cache))) role = Some c"
proof -
  have "holdsClient role c (start t0 w cache)"
    using assms by (simp add: holdsClient_def start_def)
  then have "wp (Reconcile R ns n) (\<lambda>_ s'. holdsClient role c s') (start t0 w cache)"
    using client_once.reconcile_holds unfolding keeps_inv_def by blast
  then show ?thesis
    by (auto simp: wp_def holdsClient_def reconcileTrace_def split: prod.splits)
qed

theorem dns_client_created_once_witness:
  "NewDNS [] None \<notin> set (reconcileTrace (mockReconciler []) ''ns'' ''abc'' freshDNS
     (demoWorld freshDNS None) [[] \<mapsto> mockDNS])"
  using dns_client_created_once [of "[[] \<mapsto> mockDNS]" "[]" mockDNS "mockReconciler []" "''ns''" "''abc''"
      freshDNS "demoWorld freshDNS None"]
  by simp

section \<open>Drift that is not enforced\<close>

text \<open>C25: Drift that the policy does not enforce is only recorded: the metric is counted, the one
  call that follows is the update of the object's own status with \<open>driftDetected\<close> and the check
  time set (under \<open>report\<close> also Synced=False with reason DriftDetected, under \<open>suspend\<close> the
  conditions stay), AWS is not touched, and the next look is in five minutes.\<close>

theorem drift_is_only_recorded:
  assumes "apimachinery (r_Meta R)" and "r_DriftPolicy R \<noteq> DriftPolicyEnforce"
    and "run_state (handleDrift R out) s = (res, s')"
  shows "\<exists>evs u r. trace s' = trace s @ MetricDrift # evs @ [KStatusUpdate u r] \<and>
    list_all isEvent evs \<and> sameObject (obj s) u \<and>
    st_DriftDetected (dt_Status u) \<and> st_LastDriftCheckTime (dt_Status u) \<noteq> None \<and>
    (if r_DriftPolicy R = DriftPolicySuspend
     then st_Conditions (dt_Status u) = st_Conditions (dt_Status (obj s))
     else \<exists>c. FindStatusCondition (r_Meta R) (st_Conditions (dt_Status u)) ConditionTypeSynced = Some c \<and>
       cond_Status c = ConditionFalse \<and> cond_Reason c = ReasonDriftDetected) \<and>
    res = (case r of Inl err \<Rightarrow> Fail err | Inr _ \<Rightarrow> Done (requeueIn (5 * minute)))"
    (is "?Q res s'")
proof -
  have found: "\<exists>c. FindStatusCondition (r_Meta R) (st_Conditions (dt_Status (putCondition R now ct st re
      msg u))) ct = Some c \<and> cond_Status c = st \<and> cond_Reason c = re" for now ct st re msg u
  proof -
    let ?c = "\<lparr>cond_Type = ct, cond_Status = st, cond_ObservedGeneration = dt_Generation u,
      cond_LastTransitionTime = now, cond_Reason = re, cond_Message = msg\<rparr>"
    show ?thesis
      using apimachinery.find_set_same [OF assms(1), of "st_Conditions (dt_Status u)" ?c]
      by (auto simp: putCondition_def)
  qed
  have drift: "st_DriftDetected (dt_Status (putCondition R now ct st re msg u)) =
      st_DriftDetected (dt_Status u)"
    "st_LastDriftCheckTime (dt_Status (putCondition R now ct st re msg u)) =
      st_LastDriftCheckTime (dt_Status u)" for now ct st re msg u
    by (simp_all add: putCondition_def)
  have "wp (handleDrift R out) ?Q s"
  proof (cases "r_DriftPolicy R = DriftPolicySuspend")
    case True
    then show ?thesis
      by (auto simp: handleDrift_def persistStatus_def wp_simps requeueLong_def sameObject_def
          append_assoc split: sum.split intro!: exI [of _ "[]"])
  next
    case False
    then show ?thesis
      using assms(2)
      by (auto simp: handleDrift_def persistStatus_def recordEvent_def setCondition_def wp_simps
          requeueLong_def append_assoc isEvent_def found drift sameObject_def split: sum.split
          intro!: exI [of _ "[Event _ _ _]"] exI [of _ "[]"])
  qed
  then show ?thesis using assms(3) by (auto simp: wp_def)
qed

theorem drift_is_only_recorded_witness:
  "\<exists>u r. KStatusUpdate u r \<in> set (trace (snd (run_state
      (handleDrift (mockReconciler ''report'') (demoOut True ''E2''))
      (start settled (demoWorld settled awsDrifted) Map.empty)))) \<and> st_DriftDetected (dt_Status u)"
proof -
  let ?run = "run_state (handleDrift (mockReconciler ''report'') (demoOut True ''E2''))
    (start settled (demoWorld settled awsDrifted) Map.empty)"
  have "r_DriftPolicy (mockReconciler ''report'') \<noteq> DriftPolicyEnforce"
    by (simp add: mockReconciler_def)
  from drift_is_only_recorded [OF mock_meta this, of "demoOut True ''E2''" _ "fst ?run" "snd ?run"]
  show ?thesis by fastforce
qed

section \<open>The certificate condition\<close>

text \<open>CertificateReady is True exactly when no managed certificate is requested, or all domains
  (at least one) are reported active and the certificate, where AWS tells its state, is issued;
  it is False otherwise, never Unknown.\<close>

theorem certificate_ready_iff:
  "fst (certificateCondition t d) =
    (if spec_ManagedCertificateRequest (dt_Spec t) = None \<or>
        (st_DomainResults (dt_Status t) \<noteq> [] \<and>
         list_all (\<lambda>r. dr_Status r = ''active'') (st_DomainResults (dt_Status t)) \<and>
         (d = None \<or> mcd_CertificateStatus (the d) = ''issued''))
     then ConditionTrue else ConditionFalse)"
  by (auto simp: certificateCondition_def allDomainsActive_def Let_def split: option.split)

end
