(* ===== verification/TenantLiveness.thy ===== *)
theory TenantLiveness
  imports TenantReady
begin

text \<open>
  A reconcile of a DistributionTenant always comes back: it returns an error or asks to be called
  again within five minutes, unless the object is gone, its finalizer was released, or the ARN of an
  issued certificate was written into the spec. The last case is looked at again in the second
  part: when the spec already holds that ARN, nothing calls the reconcile again.
\<close>

section \<open>Results that are looked at again\<close>

text \<open>The delays of the operator: 1 s, 30 s, 60 s, 5 min, or the rate limiter.\<close>

definition requeues :: "ctrlResult \<Rightarrow> bool" where
  "requeues r \<longleftrightarrow> r = \<lparr>Requeue = True, RequeueAfter = 0\<rparr> \<or>
     r \<in> {requeueIn second, requeueIn (30 * second), requeueIn minute, requeueIn (5 * minute)}"

definition comesBack :: "hres \<Rightarrow> bool" where
  "comesBack a = (case a of Done r \<Rightarrow> requeues r | _ \<Rightarrow> True)"

definition comesBackStep :: "step \<Rightarrow> bool" where
  "comesBackStep d = (case d of Handled a \<Rightarrow> comesBack a | Proceed \<Rightarrow> True)"

lemma requeues_simps [simp]:
  "requeues \<lparr>Requeue = True, RequeueAfter = 0\<rparr>" "requeues (requeueIn requeueShort)"
  "requeues (requeueIn requeueLong)" "requeues (requeueIn second)"
  "requeues (requeueIn (requeueShort * 2))" "requeues (requeueIn (2 * requeueShort))"
  by (simp_all add: requeues_def requeueShort_def requeueLong_def minute_def second_def requeueIn_def)

lemma comesBack_simps [simp]:
  "comesBack (Done r) = requeues r" "comesBack (Fail e)" "comesBack Panic"
  "comesBackStep (Handled a) = comesBack a" "comesBackStep Proceed"
  by (simp_all add: comesBack_def comesBackStep_def)

lemma ends_step:
  assumes "ends comesBackStep m" and "\<And>a. comesBack a \<Longrightarrow> ends P (g a)" and "ends P k"
  shows "ends P (State_Monad.bind m (\<lambda>d. case d of Handled a \<Rightarrow> g a | Proceed \<Rightarrow> k))"
  by (rule ends_bind_known [OF assms(1)]) (use assms(2,3) in \<open>auto split: step.split\<close>)

lemma ends_result:
  assumes "ends comesBack m" and "\<And>a. comesBack a \<Longrightarrow> ends P (g a)"
  shows "ends P (State_Monad.bind m g)"
  by (rule ends_bind_known [OF assms(1)]) (rule assms(2))

lemma persist_back [ends_intros]: "ends comesBack k \<Longrightarrow> ends comesBack (persistStatus R k)"
  unfolding persistStatus_def by (rule ends_intros | simp)+

lemma errors_back [ends_intros]:
  "ends comesBack (handleAWSError R err op)"
  "ends comesBack (handleDNSError R err op)"
  "ends comesBack (handleDomainValidationPending R err)"
  by (simp_all only: handleAWSError_def handleTerminalError_def handleDNSError_def
      handleDomainValidationPending_def Let_def) (rule ends_intros | simp)+

lemma steps_back [ends_intros]:
  "ends comesBack m \<Longrightarrow> ends comesBackStep (asStep m)"
  "ends comesBackStep (validateSpec R)"
  "ends comesBackStep (checkSANs R acm arn)"
  by (simp_all only: asStep_def validateSpec_def checkSANs_def Let_def)
    (rule ends_result persist_back ends_intros | simp)+

lemma dns_back [ends_intros]:
  "ends comesBackStep (validateCertificateSANs R)"
  "ends comesBackStep (pollDNSChange R)"
  "ends comesBackStep (submitDNSRecords R dns)"
  by (simp_all only: validateCertificateSANs_def pollDNSChange_def submitDNSRecords_def Let_def)
    (rule ends_intros | simp)+

lemma before_back: "ends comesBackStep (reconcileDNSBeforeCreate R dns)"
  unfolding reconcileDNSBeforeCreate_def
  by (rule ends_intros ends_step | simp)+

lemma flows_back [ends_intros]:
  "ends comesBack (createTenant R)"
  "ends comesBack (reconcileUpdate R out)"
  "ends comesBack (disableTenant R out)"
  "ends comesBack (stillDeploying R cert)"
  "ends comesBack (steadyState R cert)"
  "ends comesBack (recreateAfterExternalDeletion R)"
  by (simp_all only: createTenant_def reconcileUpdate_def disableTenant_def stillDeploying_def
      steadyState_def recreateAfterExternalDeletion_def Let_def)
    (rule ends_intros | simp add: second_def [symmetric])+

lemma phases_back [ends_intros]:
  "ends comesBack (handleDrift R out)"
  "ends comesBack (applySpecChange R out)"
  by (simp_all only: handleDrift_def applySpecChange_def Let_def)
    (rule ends_step ends_intros steps_back | simp)+

lemma reconcileCreate_back: "ends comesBack (reconcileCreate R)"
proof -
  have d: "ends comesBackStep (case spec_DNS sp of Some dns \<Rightarrow> reconcileDNSBeforeCreate R dns
      | None \<Rightarrow> do { setCondition R ct st re msg; returns Proceed })" for sp ct st re msg
    by (rule before_back ends_intros | simp)+
  show ?thesis
    unfolding reconcileCreate_def
    by (rule ends_step [OF steps_back(2)], simp add: ends_return)
      (rule ends_bind ends_step [OF d] flows_back | simp add: ends_return)+
qed

section \<open>Results that end the watch\<close>

text \<open>The object was changed, so the watch brings it back.\<close>

definition changedObject :: "effect list \<Rightarrow> bool" where
  "changedObject tr \<longleftrightarrow> (\<exists>t t'. KUpdate t (Inr t') \<in> set tr)"

lemma changedObject_update: "changedObject [e, KUpdate t (Inr t')]"
  by (auto simp: changedObject_def)

definition revisits :: "('w, hres) act \<Rightarrow> bool" where
  "revisits m \<longleftrightarrow> (\<forall>s. wp m (\<lambda>a s'. comesBack a \<or> changedObject (trace s')) s)"

lemma revisitsD: "revisits m \<Longrightarrow> wp m (\<lambda>a s'. comesBack a \<or> changedObject (trace s')) s"
  by (simp add: revisits_def)

named_theorems revisit_intros \<open>actions after which the object is looked at again\<close>

lemma revisits_ends [revisit_intros]: "ends comesBack m \<Longrightarrow> revisits m"
  unfolding revisits_def ends_def by (auto intro: wp_mono)

lemma revisits_return [revisit_intros]: "comesBack a \<Longrightarrow> revisits (returns a)"
  by (rule revisits_ends [OF ends_return])

lemma revisits_bind [revisit_intros]:
  assumes "\<And>a. revisits (f a)"
  shows "revisits (State_Monad.bind m f)"
proof -
  have "wp m (\<lambda>_ _. True) s" for s by (simp add: wp_def split: prod.split)
  then show ?thesis
    unfolding revisits_def wp_bind
    by (intro allI, rule wp_mono) (use assms in \<open>simp_all add: revisits_def\<close>)
qed

lemma revisits_cases [revisit_intros]:
  "(b \<Longrightarrow> revisits m) \<Longrightarrow> (\<not> b \<Longrightarrow> revisits n) \<Longrightarrow> revisits (if b then m else n)"
  "(\<And>x. r = Inl x \<Longrightarrow> revisits (g x)) \<Longrightarrow> (\<And>y. r = Inr y \<Longrightarrow> revisits (h y)) \<Longrightarrow>
     revisits (case r of Inl x \<Rightarrow> g x | Inr y \<Rightarrow> h y)"
  "(opt = None \<Longrightarrow> revisits m) \<Longrightarrow> (\<And>x. opt = Some x \<Longrightarrow> revisits (k x)) \<Longrightarrow>
     revisits (case opt of None \<Rightarrow> m | Some x \<Rightarrow> k x)"
  "(\<And>x. oc = Done x \<Longrightarrow> revisits (g' x)) \<Longrightarrow> (\<And>y. oc = Fail y \<Longrightarrow> revisits (h' y)) \<Longrightarrow>
     (oc = Panic \<Longrightarrow> revisits m) \<Longrightarrow>
     revisits (case oc of Done x \<Rightarrow> g' x | Fail y \<Rightarrow> h' y | Panic \<Rightarrow> m)"
  "(c = changeNone \<Longrightarrow> revisits m) \<Longrightarrow> (c = changeSpec \<Longrightarrow> revisits n) \<Longrightarrow>
     (c = changeDrift \<Longrightarrow> revisits n') \<Longrightarrow>
     revisits (case c of changeNone \<Rightarrow> m | changeSpec \<Rightarrow> n | changeDrift \<Rightarrow> n')"
  by (simp_all split: sum.split option.split outcome.split changeType.split)

lemma releasing_revisits [revisit_intros]:
  "revisits (releaseFinalizer R)" "revisits (persistCertificate R arn)"
  by (auto simp: revisits_def releaseFinalizer_def persistCertificate_def recordEvent_def
      changedObject_def wp_simps split: sum.split)

lemma deletion_revisits [revisit_intros]:
  "revisits k \<Longrightarrow> revisits (cleanupThen R k)"
  "revisits (deleteTenant R out)"
proof -
  show c: "revisits (cleanupThen R k)" if "revisits k" for k
    unfolding cleanupThen_def by (rule that revisits_cases revisits_bind revisits_return | simp)+
  show "revisits (deleteTenant R out)"
    unfolding deleteTenant_def Let_def
    by (rule c revisits_cases revisits_bind revisits_return releasing_revisits
        errors_back [THEN revisits_ends] | simp)+
qed

lemma reconcileExisting_revisits: "revisits (reconcileExisting R)"
  unfolding reconcileExisting_def Let_def
  by (rule revisits_cases revisits_bind revisits_return releasing_revisits
      errors_back [THEN revisits_ends] flows_back [THEN revisits_ends]
      phases_back [THEN revisits_ends] | simp)+

text \<open>A deletion ends the watch only on an object without the finalizer.\<close>

lemma reconcileDelete_revisits:
  "wp (reconcileDelete R) (\<lambda>a s'. comesBack a \<or> changedObject (trace s') \<or>
     (s' = s \<and> \<not> hasFinalizer R (obj s))) s"
proof (cases "hasFinalizer R (obj s)")
  case True
  have "revisits (do {
      tenant \<leftarrow> getObj;
      if st_ID (dt_Status tenant) = [] then cleanupThen R (releaseFinalizer R)
      else do {
        let i = st_ID (dt_Status tenant);
        r \<leftarrow> extern (cf_GetDistributionTenant (r_CFClient R) i) (CfGet i);
        case r of
          Inl err \<Rightarrow>
            if IsNotFound (Some err) then
              cleanupThen R (do {
                recordEvent R ''Normal'' ''Deleted''
                  ''Distribution tenant was already deleted in AWS'';
                releaseFinalizer R
              })
            else if IsTerminalError (Some err) then
              handleAWSError R err ''get (during deletion)''
            else returns (Fail (wrapErr
              ''failed to get distribution tenant for deletion: '' err))
        | Inr None \<Rightarrow> returns Panic
        | Inr (Some awsTenant) \<Rightarrow>
            if out_Enabled awsTenant then disableTenant R awsTenant
            else deleteTenant R awsTenant
      }
    })"
    unfolding Let_def
    by (rule revisits_cases revisits_bind revisits_return deletion_revisits releasing_revisits
        errors_back [THEN revisits_ends] flows_back [THEN revisits_ends] | simp)+
  then show ?thesis
    using True by (auto simp: revisits_def reconcileDelete_def hasFinalizer_def wp_simps
        elim!: wp_mono)
next
  case False
  then show ?thesis by (simp add: reconcileDelete_def hasFinalizer_def wp_simps)
qed

lemma reconcile_ends_watch:
  "wp (Reconcile R ns n) (\<lambda>a s'. comesBack a \<or>
     changedObject (trace s') \<and> (\<exists>t. fst (k_Get (r_Client R) ns n w) = Inr t \<and> (beingDeleted t \<or> hasFinalizer R t)) \<or>
     (\<exists>err. trace s' = [KGet ns n (Inl err)]) \<or>
     (\<exists>t. trace s' = [KGet ns n (Inr t)] \<and> beingDeleted t \<and> \<not> hasFinalizer R t)) (start t0 w cache)"
proof -
  let ?gone = "\<lambda>s'. (\<exists>err. trace s' = [KGet ns n (Inl err)]) \<or>
    (\<exists>t. trace s' = [KGet ns n (Inr t)] \<and> beingDeleted t \<and> \<not> hasFinalizer R t)"
  have del: "wp (reconcileDelete R) (\<lambda>a s'. comesBack a \<or> changedObject (trace s') \<or> ?gone s') s"
    if "trace s = [KGet ns n (Inr (obj s))]" "beingDeleted (obj s)" for s
    using that by (intro wp_mono [OF reconcileDelete_revisits]) auto
  have live: "wp (reconcileCreate R) (\<lambda>a s'. comesBack a \<or> changedObject (trace s') \<or> ?gone s') s"
    "wp (reconcileExisting R) (\<lambda>a s'. comesBack a \<or> changedObject (trace s') \<or> ?gone s') s" for s
    by (rule wp_mono [OF revisitsD], rule revisits_ends [OF reconcileCreate_back], blast,
        rule wp_mono [OF revisitsD], rule reconcileExisting_revisits, blast)
  show ?thesis
    unfolding Reconcile_def
    by (auto simp: wp_simps live beingDeleted_def [symmetric] hasFinalizer_def [symmetric] simp del: not_None_eq
        split: sum.split option.split intro!: del)
qed

text \<open>C21: No object is forgotten: a reconcile that ends without an error (an error is retried by
  the rate limiter) asks to be called again, at once or after 1 s, 30 s, 1 min or 5 min, unless the
  object is gone (not found, or being deleted and without the finalizer), or the reconcile released
  the finalizer, or it wrote the ARN of an issued managed certificate into the spec and waits for
  the watch of the generation.\<close>

theorem reconcile_comes_back:
  "case run_state (Reconcile R ns n) (start t0 w cache) of (res, s') \<Rightarrow>
     (case res of
        Fail err \<Rightarrow> True
      | Panic \<Rightarrow> True
      | Done r \<Rightarrow>
          r = \<lparr>Requeue = True, RequeueAfter = 0\<rparr> \<or>
          r \<in> {requeueIn second, requeueIn (30 * second), requeueIn minute, requeueIn (5 * minute)} \<or>
          (\<exists>err. trace s' = [KGet ns n (Inl err)]) \<or>
          (\<exists>t. trace s' = [KGet ns n (Inr t)] \<and> beingDeleted t \<and> \<not> hasFinalizer R t) \<or>
          (\<exists>t u u'. KGet ns n (Inr t) \<in> set (trace s') \<and> KUpdate u (Inr u') \<in> set (trace s') \<and>
             (if beingDeleted t
              then u = updFinalizers (\<lambda>fs. RemoveFinalizer (r_Meta R) fs FinalizerName) t
              else dt_Meta u = dt_Meta t \<and> (\<exists>i d. CfCert i (Inr (Some d)) \<in> set (trace s') \<and>
                mcd_CertificateStatus d = ''issued'' \<and>
                dt_Spec u = dt_Spec (attachCertificate (mcd_CertificateArn d) t)))))"
proof -
  obtain res s' where run: "run_state (Reconcile R ns n) (start t0 w cache) = (res, s')" by fastforce
  then have tr: "trace s' = reconcileTrace R ns n t0 w cache" by (simp add: reconcileTrace_def)
  have "\<exists>t u u'. KGet ns n (Inr t) \<in> set (trace s') \<and> KUpdate u (Inr u') \<in> set (trace s') \<and>
      (if beingDeleted t
       then u = updFinalizers (\<lambda>fs. RemoveFinalizer (r_Meta R) fs FinalizerName) t
       else dt_Meta u = dt_Meta t \<and> (\<exists>i d. CfCert i (Inr (Some d)) \<in> set (trace s') \<and>
         mcd_CertificateStatus d = ''issued'' \<and>
         dt_Spec u = dt_Spec (attachCertificate (mcd_CertificateArn d) t)))"
    if changed: "changedObject (trace s')" and read: "fst (k_Get (r_Client R) ns n w) = Inr t"
      and fin: "beingDeleted t \<or> hasFinalizer R t" for t
  proof -
    obtain u u' where "KUpdate u (Inr u') \<in> set (reconcileTrace R ns n t0 w cache)"
      using changed unfolding changedObject_def tr by blast
    then obtain pre post where u: "reconcileTrace R ns n t0 w cache = pre @ KUpdate u (Inr u') # post"
      by (metis split_list)
    obtain t' where t': "kn_obj (knows pre) = Some t'" "objectWriteAllowed R (knows pre) t' u" "lawful R pre"
      using called [OF u] by (auto simp: isKGet_def)
    have get: "KGet ns n (Inr t) \<in> set pre"
      using u reconcile_reads_first [of R ns n t0 w cache] read by (cases pre) auto
    then have "t' = t" using one_object [OF t'(3)] t'(1) by fastforce
    then show ?thesis
      using t'(2) get fin knows_cert [of pre] unfolding tr u
      by (fastforce simp: objectWriteAllowed_def split: if_splits option.splits)
  qed
  then show ?thesis
    using wpD [OF reconcile_ends_watch run]
    unfolding run by (fastforce simp: requeues_def comesBack_def split: outcome.splits)
qed

section \<open>The certificate that is already attached\<close>

lemma attachCertificate_again:
  assumes "spec_Customizations (dt_Spec t) = Some c" and "cus_Certificate c = Some \<lparr>cert_Arn = arn\<rparr>"
  shows "attachCertificate arn t = t"
  using assms by (cases t; cases c; simp add: attachCertificate_def)

lemma certToAttach_pending:
  assumes "mcd_CertificateStatus d = ''issued''" and "mcd_CertificateArn d \<noteq> []"
    and "dro \<in> set (out_Domains out)" and "dro_Status dro \<noteq> ''active''"
    and "st_DomainResults (dt_Status t) = map (\<lambda>d. \<lparr>dr_Domain = dro_Domain d, dr_Status = dro_Status d\<rparr>) (out_Domains out)"
  shows "certToAttach t (Some d) = Some (mcd_CertificateArn d)"
  using assms by (auto simp: certToAttach_def allDomainsActive_def list_all_iff Let_def)

text \<open>C22: While the domains of a tenant wait to become active under its managed certificate, a reconcile
  after the one that attached the certificate writes the object back with the metadata and the spec it
  was read with, reports nothing in the status, and ends without asking to be called again: the
  generation does not change, so the watch of the generation does not call it again either.\<close>

theorem waiting_certificate_is_forgotten:
  assumes "k_Get (r_Client R) ns n w = (Inr t, w1)"
    and "\<not> beingDeleted t" and "hasFinalizer R t" and "tenantID t \<noteq> []"
    and "cf_GetDistributionTenant (r_CFClient R) (tenantID t) w1 = (Inr (Some out), w2)"
    and "specMatchesAWS (dt_Spec t) out"
    and "spec_ManagedCertificateRequest (dt_Spec t) \<noteq> None"
    and "cf_GetManagedCertificateDetails (r_CFClient R) (tenantID t) w2 = (Inr (Some d), w3)"
    and "mcd_CertificateStatus d = ''issued''" and "mcd_CertificateArn d \<noteq> []"
    and "dro \<in> set (out_Domains out)" and "dro_Status dro \<noteq> ''active''"
    and "spec_Customizations (dt_Spec t) = Some c"
    and "cus_Certificate c = Some \<lparr>cert_Arn = mcd_CertificateArn d\<rparr>"
    and "run_state (Reconcile R ns n) (start t0 w cache) = (res, s')"
  shows "\<exists>u r. filter isKWrite (trace s') = [KUpdate u r] \<and> dt_Meta u = dt_Meta t \<and> dt_Spec u = dt_Spec t \<and>
    (\<forall>u'. r = Inr u' \<longrightarrow> res = Done emptyResult)"
proof -
  let ?t = "updStatus (\<lambda>st. st\<lparr>st_CertificateArn := mcd_CertificateArn d,
      st_ManagedCertificateStatus := mcd_CertificateStatus d\<rparr>) (recordObserved out t)"
  have parts: "dt_Spec ?t = dt_Spec t" "dt_Meta ?t = dt_Meta t" "dt_Spec (recordObserved out t) = dt_Spec t"
    "st_ID (dt_Status (recordObserved out t)) = tenantID t"
    "st_DomainResults (dt_Status ?t) = map (\<lambda>d. \<lparr>dr_Domain = dro_Domain d, dr_Status = dro_Status d\<rparr>) (out_Domains out)"
    by (simp_all add: recordObserved_def updateStatusFromAWS_def tenantID_def)
  have same: "attachCertificate (mcd_CertificateArn d) ?t = ?t"
    by (rule attachCertificate_again [OF _ assms(14)]) (simp add: parts assms(13))
  have attach: "certToAttach ?t (Some d) = Some (mcd_CertificateArn d)"
    by (rule certToAttach_pending [OF assms(9-12) parts(5)])
  have none: "detectChanges ?t out = changeNone" by (simp add: detectChanges_None parts assms(6))
  obtain mcr where mcr: "spec_ManagedCertificateRequest (dt_Spec t) = Some mcr" using assms(7) by auto
  have "wp (Reconcile R ns n) (\<lambda>a s'. \<exists>u r. filter isKWrite (trace s') = [KUpdate u r] \<and>
      dt_Meta u = dt_Meta t \<and> dt_Spec u = dt_Spec t \<and> (\<forall>u'. r = Inr u' \<longrightarrow> a = Done emptyResult)) (start t0 w cache)"
    using assms(1-5,8) mcr parts(1,2) unfolding Reconcile_def reconcileExisting_def Let_def fetchCertDetails_def
    by (simp add: wp_simps beingDeleted_def hasFinalizer_def tenantID_def parts(3,4) [unfolded tenantID_def]
        none attach same persistCertificate_def recordEvent_def isKWrite_def split: sum.split)
  then show ?thesis using assms(15) by (simp add: wp_def)
qed

text \<open>A tenant whose certificate is attached, while its domain is still inactive.\<close>

definition issuedCert :: ManagedCertificateDetailsOutput where
  "issuedCert = \<lparr>mcd_CertificateArn = ''c2'', mcd_CertificateStatus = ''issued'',
     mcd_ValidationTokenHost = ''cloudfront'', mcd_ValidationTokenDetails = []\<rparr>"

definition waitingTenant :: DistributionTenant where
  "waitingTenant = updSpec (\<lambda>s. s\<lparr>spec_ManagedCertificateRequest := Some
       \<lparr>mcr_ValidationTokenHost = ''cloudfront'', mcr_PrimaryDomainName = ''a.b'',
        mcr_CertificateTransparencyLoggingPreference = None\<rparr>,
     spec_Customizations := Some \<lparr>cus_WebAcl = None, cus_Certificate = Some \<lparr>cert_Arn = ''c2''\<rparr>,
       cus_GeoRestrictions = None\<rparr>\<rparr>) settled"

definition waitingOut :: DistributionTenantOutput where
  "waitingOut = (demoOut True ''E1'')\<lparr>out_Domains := [\<lparr>dro_Domain = ''a.b'', dro_Status = ''inactive''\<rparr>],
     out_Customizations := Some \<lparr>cusi_WebAcl = None,
       cusi_Certificate = Some \<lparr>certi_Arn = ''c2''\<rparr>, cusi_GeoRestrictions = None\<rparr>\<rparr>"

definition waitingWorld :: mockWorld where
  "waitingWorld = (let w = demoWorld waitingTenant (Some waitingOut) in
     w\<lparr>mw_cf := (mw_cf w)\<lparr>m_ManagedCertDetails := [''T1'' \<mapsto> issuedCert]\<rparr>\<rparr>)"

theorem waiting_certificate_is_forgotten_witness:
  "\<exists>res s' u r. run_state (Reconcile (mockReconciler []) ''ns'' ''abc'')
      (start waitingTenant waitingWorld Map.empty) = (res, s') \<and>
    filter isKWrite (trace s') = [KUpdate u r] \<and> dt_Spec u = dt_Spec waitingTenant \<and>
    (\<forall>u'. r = Inr u' \<longrightarrow> res = Done emptyResult)"
proof -
  let ?R = "mockReconciler []"
  have read: "k_Get (r_Client ?R) ''ns'' ''abc'' waitingWorld = (Inr waitingTenant, waitingWorld)"
    by (simp add: mockReconciler_def mockK8s_def waitingWorld_def demoWorld_def Let_def)
  have t: "\<not> beingDeleted waitingTenant" "hasFinalizer ?R waitingTenant" "tenantID waitingTenant = ''T1''"
    "spec_ManagedCertificateRequest (dt_Spec waitingTenant) \<noteq> None" "specMatchesAWS (dt_Spec waitingTenant) waitingOut"
    by (simp_all add: waitingTenant_def waitingOut_def beingDeleted_def hasFinalizer_def tenantID_def run_simps)
  obtain w2 where aws: "cf_GetDistributionTenant (r_CFClient ?R) ''T1'' waitingWorld = (Inr (Some waitingOut), w2)"
    "m_GetManagedCertError (mw_cf w2) = None" "m_ManagedCertDetails (mw_cf w2) ''T1'' = Some issuedCert"
    by (simp add: waitingWorld_def run_simps)
  obtain w3 where cert: "cf_GetManagedCertificateDetails (r_CFClient ?R) ''T1'' w2 = (Inr (Some issuedCert), w3)"
    using aws(2,3) by (simp add: run_simps)
  obtain res s' where run: "run_state (Reconcile ?R ''ns'' ''abc'') (start waitingTenant waitingWorld Map.empty) = (res, s')"
    by fastforce
  have "mcd_CertificateStatus issuedCert = ''issued''" "mcd_CertificateArn issuedCert \<noteq> []"
    "\<lparr>dro_Domain = ''a.b'', dro_Status = ''inactive''\<rparr> \<in> set (out_Domains waitingOut)"
    "spec_Customizations (dt_Spec waitingTenant) = Some \<lparr>cus_WebAcl = None, cus_Certificate = Some \<lparr>cert_Arn = ''c2''\<rparr>,
      cus_GeoRestrictions = None\<rparr>" "mcd_CertificateArn issuedCert = ''c2''"
    by (simp_all add: issuedCert_def waitingOut_def waitingTenant_def)
  then show ?thesis
    using waiting_certificate_is_forgotten [OF read t(1,2) _ aws(1) [folded t(3)] t(5,4) cert [folded t(3)] _ _ _ _ _ _ run]
      run t(3) by fastforce
qed

end
