(* ===== verification/TenantContracts.thy ===== *)
theory TenantContracts
  imports TenantErrors TenantLiveness
begin

text \<open>
  The contracts the reconciler relies on, as locales: a CloudFront that keeps tenants under
  optimistic locking, and an API server that keeps the object. The in-memory clients of
  \<open>internal/aws/mock.go\<close> satisfy them. Inside the contracts, what a sequence of reconciles
  achieves: AWS comes to hold the spec, and a deletion completes.
\<close>

section \<open>CloudFront as a store of tenants\<close>

text \<open>What an accepted update or creation leaves in AWS.\<close>

definition updateAccepted ::
  "UpdateDistributionTenantInput \<Rightarrow> DistributionTenantOutput \<Rightarrow> DistributionTenantOutput \<Rightarrow> bool" where
  "updateAccepted u t t' \<longleftrightarrow>
     out_ID t' = out_ID t \<and>
     out_DistributionId t' = ui_DistributionId u \<and>
     map dro_Domain (out_Domains t') = map din_Domain (ui_Domains u) \<and>
     out_Enabled t' = (case ui_Enabled u of None \<Rightarrow> out_Enabled t | Some b \<Rightarrow> b) \<and>
     (case ui_ConnectionGroupId u of None \<Rightarrow> True | Some cg \<Rightarrow> out_ConnectionGroupId t' = cg) \<and>
     out_Parameters t' = ui_Parameters u \<and> out_Customizations t' = ui_Customizations u"

definition createAccepted ::
  "CreateDistributionTenantInput \<Rightarrow> DistributionTenantOutput \<Rightarrow> bool" where
  "createAccepted c t' \<longleftrightarrow>
     out_ID t' \<noteq> [] \<and> out_Name t' = ci_Name c \<and>
     out_DistributionId t' = ci_DistributionId c \<and>
     map dro_Domain (out_Domains t') = map din_Domain (ci_Domains c) \<and>
     out_Enabled t' = (case ci_Enabled c of None \<Rightarrow> True | Some b \<Rightarrow> b) \<and>
     (case ci_ConnectionGroupId c of None \<Rightarrow> True | Some cg \<Rightarrow> out_ConnectionGroupId t' = cg) \<and>
     out_Parameters t' = ci_Parameters c \<and> out_Customizations t' = ci_Customizations c"

text \<open>The store may refuse a request for good (a domain that is taken, an argument it does not accept),
  and it may refuse to delete a disabled tenant as long as it is not deployed, that is, while the
  change that disabled it still propagates.\<close>

locale cloudfront_store =
  fixes C :: "'w CloudFrontClient"
    and tenantAt :: "'w \<Rightarrow> string \<Rightarrow> DistributionTenantOutput option"
    and healthy :: "'w \<Rightarrow> bool"
  assumes get:
      "healthy w \<Longrightarrow> cf_GetDistributionTenant C i w = (r, w') \<Longrightarrow>
         healthy w' \<and> tenantAt w' = tenantAt w \<and>
         (case tenantAt w i of
            None \<Rightarrow> \<exists>e. r = Inl e \<and> IsNotFound (Some e)
          | Some t \<Rightarrow> r = Inr (Some t))"
    and create:
      "healthy w \<Longrightarrow> cf_CreateDistributionTenant C c w = (r, w') \<Longrightarrow>
         healthy w' \<and> ((\<exists>t'. r = Inr (Some t') \<and> createAccepted c t' \<and>
             tenantAt w' = (tenantAt w)(out_ID t' \<mapsto> t')) \<or>
           (\<exists>e. r = Inl e \<and> IsTerminalError (Some e)) \<and> tenantAt w' = tenantAt w)"
    and update:
      "healthy w \<Longrightarrow> tenantAt w (ui_ID u) = Some t \<Longrightarrow> ui_IfMatch u = out_ETag t \<Longrightarrow>
         cf_UpdateDistributionTenant C u w = (r, w') \<Longrightarrow>
         healthy w' \<and> ((\<exists>t'. r = Inr (Some t') \<and> updateAccepted u t t' \<and>
             tenantAt w' = (tenantAt w)(ui_ID u \<mapsto> t')) \<or>
           (\<exists>e. r = Inl e \<and> IsTerminalError (Some e)) \<and> tenantAt w' = tenantAt w)"
    and update_stale:
      "healthy w \<Longrightarrow> tenantAt w (ui_ID u) = Some t \<Longrightarrow> ui_IfMatch u \<noteq> out_ETag t \<Longrightarrow>
         cf_UpdateDistributionTenant C u w = (r, w') \<Longrightarrow>
         healthy w' \<and> tenantAt w' = tenantAt w \<and> (\<exists>e. r = Inl e \<and> IsPreconditionFailed (Some e))"
    and delete:
      "healthy w \<Longrightarrow> tenantAt w i = Some t \<Longrightarrow> e = out_ETag t \<Longrightarrow>
         cf_DeleteDistributionTenant C i e w = (rd, w') \<Longrightarrow>
         healthy w' \<and>
         (tenantAt w' = tenantAt w \<and> (\<exists>x. rd = Inl x \<and> IsResourceNotDisabled (Some x)) \<and>
            (out_Enabled t \<or> out_Status t \<noteq> ''Deployed'') \<or>
          tenantAt w' = (tenantAt w)(i := None) \<and> rd = Inr () \<and> \<not> out_Enabled t)"
    and info:
      "healthy w \<Longrightarrow> cf_GetDistributionInfo C d w = (ri, w') \<Longrightarrow>
         healthy w' \<and> tenantAt w' = tenantAt w"
    and cert:
      "healthy w \<Longrightarrow> cf_GetManagedCertificateDetails C i w = (rc, w') \<Longrightarrow>
         healthy w' \<and> tenantAt w' = tenantAt w"
begin

text \<open>A tenant that is disabled and deployed can be deleted, and is not found any more.\<close>

lemma get_after_delete:
  assumes "healthy w" and "tenantAt w i = Some t" and "\<not> out_Enabled t" and "out_Status t = ''Deployed''"
    and "cf_DeleteDistributionTenant C i (out_ETag t) w = (r, w1)"
    and "cf_GetDistributionTenant C i w1 = (g, w2)"
  shows "\<exists>e. g = Inl e \<and> IsNotFound (Some e)"
  using delete [OF assms(1,2) refl assms(5)] get [of w1 i g w2] assms(3,4,6) by simp

end

text \<open>A store that accepts the requests it is sent under the current ETag.\<close>

locale accepting_store = cloudfront_store C tenantAt healthy
  for C :: "'w CloudFrontClient" and tenantAt healthy +
  assumes accepts_create:
      "healthy w \<Longrightarrow> cf_CreateDistributionTenant C c w = (Inl e, w') \<Longrightarrow> False"
    and accepts_update:
      "healthy w \<Longrightarrow> tenantAt w (ui_ID u) = Some t \<Longrightarrow> ui_IfMatch u = out_ETag t \<Longrightarrow>
         cf_UpdateDistributionTenant C u w = (Inl e, w') \<Longrightarrow> False"
begin

lemma created:
  assumes "healthy w" and "cf_CreateDistributionTenant C c w = (r, w')"
  shows "healthy w' \<and> (\<exists>t'. r = Inr (Some t') \<and> createAccepted c t' \<and>
    tenantAt w' = (tenantAt w)(out_ID t' \<mapsto> t'))"
  using create [OF assms] accepts_create [OF assms(1)] assms(2) by blast

lemma updated:
  assumes "healthy w" and "tenantAt w (ui_ID u) = Some t" and "ui_IfMatch u = out_ETag t"
    and "cf_UpdateDistributionTenant C u w = (r, w')"
  shows "healthy w' \<and> (\<exists>t'. r = Inr (Some t') \<and> updateAccepted u t t' \<and>
    tenantAt w' = (tenantAt w)(ui_ID u \<mapsto> t'))"
  using update [OF assms] accepts_update [OF assms(1-3)] assms(4) by blast

text \<open>Pushing a spec makes AWS match it, whatever AWS held: the next reconcile sees no change.\<close>

lemma push_converges:
  assumes "healthy w" and "tenantAt w (st_ID (dt_Status t)) = Some old"
    and "distinct (map param_Name (spec_Parameters (dt_Spec t)))"
    and "spec_Enabled (dt_Spec t) \<noteq> None"
    and "cf_UpdateDistributionTenant C (buildUpdateInput t (out_ETag old)) w = (r, w1)"
  obtains new where "r = Inr (Some new)" "tenantAt w1 = (tenantAt w)(st_ID (dt_Status t) \<mapsto> new)"
    "healthy w1" "specMatchesAWS (dt_Spec t) new"
proof -
  obtain new where new: "r = Inr (Some new)" "updateAccepted (buildUpdateInput t (out_ETag old)) old new"
    "tenantAt w1 = (tenantAt w)(st_ID (dt_Status t) \<mapsto> new)" "healthy w1"
    using updated [of w "buildUpdateInput t (out_ETag old)" old r w1] assms(1,2,5) by auto
  have "holdsPushed (dt_Spec t) new"
    using new(2) assms(4) by (auto simp: updateAccepted_def holdsPushed_def)
  then have "specMatchesAWS (dt_Spec t) new" using assms(3) by (rule holdsPushed_matches)
  then show ?thesis using that new by blast
qed

end

text \<open>The mock is such a store while no error is injected.\<close>

definition noInjectedErrors :: "MockCloudFrontClient \<Rightarrow> bool" where
  "noInjectedErrors m \<longleftrightarrow> m_CreateError m = None \<and> m_GetError m = None \<and> m_UpdateError m = None \<and>
     m_DeleteError m = None \<and> m_GetDistributionInfoError m = None \<and> m_GetManagedCertError m = None"

text \<open>The distributions of the account do not change while tenants do.\<close>

definition mockHealthy :: "(string \<rightharpoonup> DistributionInfo) \<Rightarrow> mockWorld \<Rightarrow> bool" where
  "mockHealthy D w \<longleftrightarrow> noInjectedErrors (mw_cf w) \<and> m_DistributionInfos (mw_cf w) = D"

lemma mockID_nonempty: "mockID n \<noteq> []"
  by (simp add: mockID_def)

lemma activeDomains_names: "map dro_Domain (activeDomains ds) = map din_Domain ds"
  by (simp add: activeDomains_def comp_def)

lemma mockCreate_accepts:
  assumes "noInjectedErrors m"
  obtains t' m' where "mockCreate now c m = (Inr (Some t'), m')" "createAccepted c t'"
    "m_tenants m' = (m_tenants m)(out_ID t' \<mapsto> t')" "noInjectedErrors m'"
    "m_DistributionInfos m' = m_DistributionInfos m"
proof -
  let ?r = "mockCreate now c m"
  have none: "m_CreateError m = None" using assms by (simp add: noInjectedErrors_def)
  then have r: "?r = (Inr (Some (the (projr (fst ?r)))), snd ?r)"
    by (simp add: mockCreate_def Let_def)
  have a: "createAccepted c (the (projr (fst ?r)))"
    using none by (simp add: mockCreate_def Let_def createAccepted_def mockID_nonempty
        activeDomains_names derefString_def split: option.split)
  have st: "m_tenants (snd ?r) = (m_tenants m)(out_ID (the (projr (fst ?r))) \<mapsto> the (projr (fst ?r)))"
    "noInjectedErrors (snd ?r)" "m_DistributionInfos (snd ?r) = m_DistributionInfos m"
    using none assms by (simp_all add: mockCreate_def Let_def noInjectedErrors_def)
  show ?thesis by (rule that [OF r a st])
qed

interpretation mock_store: accepting_store mockCF "\<lambda>w. m_tenants (mw_cf w)" "mockHealthy D"
proof (unfold_locales, goal_cases)
  case 1
  then show ?case
    by (auto simp: mockCF_def onCF_def mockGet_def mockHealthy_def noInjectedErrors_def IsNotFound_def Let_def
        split: option.splits)
next
  case (2 w c r w')
  then obtain t' m' where "mockCreate (mw_clock w) c (mw_cf w) = (Inr (Some t'), m')"
      "createAccepted c t'" "m_tenants m' = (m_tenants (mw_cf w))(out_ID t' \<mapsto> t')"
      "noInjectedErrors m'" "m_DistributionInfos m' = m_DistributionInfos (mw_cf w)"
    unfolding mockHealthy_def by (blast elim: mockCreate_accepts)
  with 2 show ?case by (auto simp: mockCF_def onCF_def mockHealthy_def)
next
  case 3
  then show ?case
    by (auto simp: mockCF_def onCF_def mockUpdate_def mockUpdated_def mockHealthy_def noInjectedErrors_def Let_def
        updateAccepted_def activeDomains_names derefString_def split: option.splits)
next
  case 4
  then show ?case
    by (auto simp: mockCF_def onCF_def mockUpdate_def mockHealthy_def noInjectedErrors_def Let_def
        IsPreconditionFailed_def split: option.splits)
next
  case (5 w i t e rd w')
  then show ?case
    by (cases "out_Enabled t") (auto simp: mockCF_def onCF_def mockDelete_def mockHealthy_def
        noInjectedErrors_def Let_def IsResourceNotDisabled_def split: option.splits)
next
  case 6
  then show ?case
    by (auto simp: mockCF_def onCF_def mockInfo_def mockHealthy_def noInjectedErrors_def Let_def split: option.splits)
next
  case (8 w c e w')
  then obtain t' m' where "mockCreate (mw_clock w) c (mw_cf w) = (Inr (Some t'), m')"
    unfolding mockHealthy_def by (blast elim: mockCreate_accepts)
  with 8 show ?case by (auto simp: mockCF_def onCF_def)
next
  case 9
  then show ?case
    by (auto simp: mockCF_def onCF_def mockUpdate_def mockHealthy_def noInjectedErrors_def Let_def
        split: option.splits)
next
  case 7
  then show ?case
    by (auto simp: mockCF_def onCF_def mockCert_def mockHealthy_def noInjectedErrors_def Let_def split: option.splits)
qed

section \<open>The API server as a store of the object\<close>

lemma keyOf_kept [simp]:
  "keyOf (t\<lparr>dt_Status := x\<rparr>) = keyOf t" "keyOf (t\<lparr>dt_Spec := y\<rparr>) = keyOf t"
  "keyOf (t\<lparr>dt_Meta := (dt_Meta t)\<lparr>om_Finalizers := fs\<rparr>\<rparr>) = keyOf t" "keyOf (putCondition R now ct st re msg t) = keyOf t"
  by (simp_all add: keyOf_def putCondition_def)

text \<open>The object of one key. An update of the resource that keeps spec and status, and an update of
  its status alone, are accepted and stored as sent; an object that is being deleted disappears with
  its last finalizer.\<close>

locale object_store =
  fixes K :: "'w K8sClient"
    and stored :: "'w \<Rightarrow> DistributionTenant option"
    and ns n :: string
  assumes get_object:
      "k_Get K ns n w = (r, w') \<Longrightarrow> stored w' = stored w \<and>
         (case stored w of Some t \<Rightarrow> r = Inr t | None \<Rightarrow> \<exists>e. r = Inl e)"
    and update_object:
      "keyOf t = (ns, n) \<Longrightarrow> stored w = Some u \<Longrightarrow> dt_Spec t = dt_Spec u \<Longrightarrow> dt_Status t = dt_Status u \<Longrightarrow>
         dt_Generation t = dt_Generation u \<Longrightarrow> k_Update K t w = (ru, w') \<Longrightarrow> ru = Inr t \<and>
         (stored w' = Some t \<or> beingDeleted t \<and> om_Finalizers (dt_Meta t) = [] \<and> stored w' = None)"
    and update_status:
      "keyOf t = (ns, n) \<Longrightarrow> stored w = Some u \<Longrightarrow> sameObject u t \<Longrightarrow>
         k_StatusUpdate K t w = (rs, w') \<Longrightarrow> rs = Inr t \<and> stored w' = Some t"

text \<open>The object in hand is the stored one, but for its status.\<close>

definition fromStore :: "('w \<Rightarrow> DistributionTenant option) \<Rightarrow> 'w dtState \<Rightarrow> bool" where
  "fromStore stored s \<longleftrightarrow> (\<exists>t. stored (world s) = Some t \<and> sameObject t (obj s))"

lemma fromStore_frame:
  "fromStore stored s \<Longrightarrow> stored (world s') = stored (world s) \<Longrightarrow>
     dt_Meta (obj s') = dt_Meta (obj s) \<Longrightarrow> dt_Spec (obj s') = dt_Spec (obj s) \<Longrightarrow> fromStore stored s'"
  by (simp add: fromStore_def sameObject_def)

lemma fromStoreI: "stored (world s) = Some (obj s) \<Longrightarrow> fromStore stored s"
  by (simp add: fromStore_def sameObject_def)

interpretation mock_objects: object_store mockK8s mw_store ns n
proof (unfold_locales, goal_cases)
  case (1 w r w')
  then show ?case by (auto simp: mockK8s_def split: option.splits)
next
  case (2 t w u ru w')
  then show ?case by (auto simp: mockK8s_def mockWrite_def mockPut_def mockBump_def beingDeleted_def split: if_splits)
next
  case (3 t w u rs w')
  then show ?case by (auto simp: mockK8s_def mockWrite_def sameObject_def split: if_splits)
qed

section \<open>Both together\<close>

text \<open>An operator between the two stores, of which the one in CloudFront accepts what it is sent:
  neither client touches the other's store, and the clock touches neither.\<close>

locale operator_world =
  accepting_store "r_CFClient R" tenantAt healthy + object_store "r_Client R" stored ns n +
  apimachinery "r_Meta R"
  for R :: "'w Reconciler" and tenantAt healthy stored ns n +
  assumes aws_frame:
      "cf_GetDistributionTenant (r_CFClient R) i w = (g, w') \<Longrightarrow> stored w' = stored w"
      "cf_UpdateDistributionTenant (r_CFClient R) u w = (g, w') \<Longrightarrow> stored w' = stored w"
      "cf_DeleteDistributionTenant (r_CFClient R) i e w = (d, w') \<Longrightarrow> stored w' = stored w"
      "cf_GetDistributionInfo (r_CFClient R) dist w = (f, w') \<Longrightarrow> stored w' = stored w"
      "cf_GetManagedCertificateDetails (r_CFClient R) i w = (c, w') \<Longrightarrow> stored w' = stored w"
      "cf_CreateDistributionTenant (r_CFClient R) x w = (g, w') \<Longrightarrow> stored w' = stored w"
    and k8s_frame:
      "k_Get (r_Client R) ns n w = (r, w') \<Longrightarrow> tenantAt w' = tenantAt w \<and> healthy w' = healthy w"
      "k_Update (r_Client R) t w = (r, w') \<Longrightarrow> tenantAt w' = tenantAt w \<and> healthy w' = healthy w"
      "k_StatusUpdate (r_Client R) t w = (r, w') \<Longrightarrow> tenantAt w' = tenantAt w \<and> healthy w' = healthy w"
    and clock_frame:
      "r_Now R w = (now, w') \<Longrightarrow>
         tenantAt w' = tenantAt w \<and> healthy w' = healthy w \<and> stored w' = stored w"
begin

lemmas frames = aws_frame k8s_frame clock_frame

text \<open>The calls of a reconcile, as steps of the two stores. The answer of AWS and of the API
  server is known from the stores.\<close>

lemma wp_get_object:
  assumes "stored (world s) = Some t"
    and "\<And>s'. obj s' = obj s \<Longrightarrow> tenantAt (world s') = tenantAt (world s) \<Longrightarrow>
      healthy (world s') = healthy (world s) \<Longrightarrow> stored (world s') = Some t \<Longrightarrow>
      dnsClientCache s' = dnsClientCache s \<Longrightarrow> Q (Inr t) s'"
  shows "wp (extern (k_Get (r_Client R) ns n) (KGet ns n)) Q (s :: 'w dtState)"
  unfolding wp_extern
proof (intro allI impI, goal_cases)
  case (1 r w')
  then show ?case
    using get_object [OF 1] k8s_frame(1) [OF 1] assms(1) by (auto intro!: assms(2))
qed

lemma wp_store_status:
  assumes "keyOf (obj s) = (ns, n)" and "fromStore stored s"
    and "\<And>s'. obj s' = obj s \<Longrightarrow> tenantAt (world s') = tenantAt (world s) \<Longrightarrow>
      healthy (world s') = healthy (world s) \<Longrightarrow> stored (world s') = Some (obj s) \<Longrightarrow> wp k Q s'"
  shows "wp (persistStatus R k) Q s"
  unfolding persistStatus_def wp_bind wp_getObj wp_extern
proof (intro allI impI, goal_cases)
  case (1 r w')
  then show ?case
    using assms(2) update_status [OF assms(1) _ _ 1] k8s_frame(3) [OF 1]
    by (auto simp: wp_bind wp_modifyObj fromStore_def intro!: assms(3))
qed

lemma wp_get_tenant:
  assumes "healthy (world s)"
    and "\<And>s' r. obj s' = obj s \<Longrightarrow> tenantAt (world s') = tenantAt (world s) \<Longrightarrow>
      healthy (world s') \<Longrightarrow> stored (world s') = stored (world s) \<Longrightarrow>
      (case tenantAt (world s) i of None \<Rightarrow> \<exists>e. r = Inl e \<and> IsNotFound (Some e)
        | Some t \<Rightarrow> r = Inr (Some t)) \<Longrightarrow> dnsClientCache s' = dnsClientCache s \<Longrightarrow> Q r s'"
  shows "wp (extern (cf_GetDistributionTenant (r_CFClient R) i) (CfGet i)) Q (s :: 'w dtState)"
  unfolding wp_extern
proof (intro allI impI, goal_cases)
  case (1 r w')
  then show ?case
    using get [OF assms(1) 1] aws_frame(1) [OF 1] by (intro assms(2)) simp_all
qed

lemma wp_update_tenant:
  assumes "healthy (world s)" and "tenantAt (world s) (ui_ID u) = Some t" and "ui_IfMatch u = out_ETag t"
    and "\<And>s' t'. obj s' = obj s \<Longrightarrow> tenantAt (world s') = (tenantAt (world s))(ui_ID u \<mapsto> t') \<Longrightarrow>
      healthy (world s') \<Longrightarrow> stored (world s') = stored (world s) \<Longrightarrow> updateAccepted u t t' \<Longrightarrow>
      Q (Inr (Some t')) s'"
  shows "wp (extern (cf_UpdateDistributionTenant (r_CFClient R) u) (CfUpdate u)) Q (s :: 'w dtState)"
  unfolding wp_extern
proof (intro allI impI, goal_cases)
  case (1 r w')
  then show ?case
    using updated [OF assms(1-3) 1] aws_frame(2) [OF 1] by (auto intro!: assms(4))
qed

lemma wp_delete_tenant:
  assumes "healthy (world s)" and "tenantAt (world s) i = Some t" and "\<not> out_Enabled t"
    and "\<And>s'. obj s' = obj s \<Longrightarrow> tenantAt (world s') = (tenantAt (world s))(i := None) \<Longrightarrow>
      healthy (world s') \<Longrightarrow> stored (world s') = stored (world s) \<Longrightarrow>
      dnsClientCache s' = dnsClientCache s \<Longrightarrow> Q (Inr ()) s'"
    and "\<And>s' x. obj s' = obj s \<Longrightarrow> tenantAt (world s') = tenantAt (world s) \<Longrightarrow>
      healthy (world s') \<Longrightarrow> stored (world s') = stored (world s) \<Longrightarrow>
      IsResourceNotDisabled (Some x) \<Longrightarrow> out_Status t \<noteq> ''Deployed'' \<Longrightarrow> Q (Inl x) s'"
  shows "wp (extern (cf_DeleteDistributionTenant (r_CFClient R) i (out_ETag t))
    (CfDelete i (out_ETag t))) Q (s :: 'w dtState)"
  unfolding wp_extern
proof (intro allI impI, goal_cases)
  case (1 r w')
  then show ?case
    using delete [OF assms(1,2) refl 1] assms(3) aws_frame(3) [OF 1] by (auto intro!: assms(4,5))
qed

lemma wp_condition:
  assumes "\<And>s' now. obj s' = putCondition R now ct st re msg (obj s) \<Longrightarrow>
      tenantAt (world s') = tenantAt (world s) \<Longrightarrow> healthy (world s') = healthy (world s) \<Longrightarrow>
      stored (world s') = stored (world s) \<Longrightarrow> Q () s'"
  shows "wp (setCondition R ct st re msg) Q s"
  unfolding setCondition_def wp_bind wp_silent wp_modifyObj
proof (intro allI impI, goal_cases)
  case (1 now w')
  then show ?case using clock_frame [OF 1] by (intro assms [of _ now]) simp_all
qed

lemma wp_event:
  assumes "\<And>s'. obj s' = obj s \<Longrightarrow> world s' = world s \<Longrightarrow> Q () s'"
  shows "wp (recordEvent R ty re msg) Q s"
  unfolding recordEvent_def by (auto simp: wp_simps intro!: assms)

lemma wp_release:
  assumes "keyOf (obj s) = (ns, n)" and "stored (world s) = Some (obj s)"
    and "\<And>s' t'. tenantAt (world s') = tenantAt (world s) \<Longrightarrow>
      healthy (world s') = healthy (world s) \<Longrightarrow>
      t' = updFinalizers (\<lambda>fs. RemoveFinalizer (r_Meta R) fs FinalizerName) (obj s) \<Longrightarrow>
      stored (world s') = Some t' \<or> stored (world s') = None \<Longrightarrow> Q (Done emptyResult) s'"
  shows "wp (releaseFinalizer R) Q s"
  unfolding releaseFinalizer_def wp_bind wp_getObj wp_modifyObj wp_extern
proof (intro allI impI, goal_cases)
  case (1 r w')
  then have u: "k_Update (r_Client R) (updFinalizers (\<lambda>fs. RemoveFinalizer (r_Meta R) fs FinalizerName)
      (obj s)) (world s) = (r, w')"
    by simp
  then show ?case
    using update_object [OF _ assms(2) _ _ _ u] assms(1) k8s_frame(2) [OF u]
    by (auto simp: wp_simps intro!: assms(3))
qed

end

interpretation mock_operator: operator_world "mockReconciler policy" "\<lambda>w. m_tenants (mw_cf w)"
  "mockHealthy D" mw_store ns n
proof (rule operator_world.intro)
  show "accepting_store (r_CFClient (mockReconciler policy)) (\<lambda>w. m_tenants (mw_cf w))
      (mockHealthy D)"
    by (simp add: mockReconciler_def mock_store.accepting_store_axioms)
  show "object_store (r_Client (mockReconciler policy)) mw_store ns n"
    by (simp add: mockReconciler_def mock_objects.object_store_axioms)
  show "apimachinery (r_Meta (mockReconciler policy))" by (rule mock_meta)
  show "operator_world_axioms (mockReconciler policy) (\<lambda>w. m_tenants (mw_cf w))
      (mockHealthy D) mw_store ns n"
    by unfold_locales
      (auto simp: mockHealthy_def mockReconciler_def mockCF_def onCF_def mockK8s_def mockWrite_def
        split: prod.splits option.splits if_splits)
qed

section \<open>A deletion completes\<close>

text \<open>An object that waits for its deletion, without DNS records to remove, and what is left in the
  end: no tenant, and no object that carries the finalizer.\<close>

definition deleting :: "'w Reconciler \<Rightarrow> DistributionTenant \<Rightarrow> bool" where
  "deleting R t \<longleftrightarrow> beingDeleted t \<and> hasFinalizer R t \<and> \<not> needsCleanup R t"

definition released ::
  "'w Reconciler \<Rightarrow> ('w \<Rightarrow> string \<Rightarrow> DistributionTenantOutput option) \<Rightarrow>
   ('w \<Rightarrow> DistributionTenant option) \<Rightarrow> string \<Rightarrow> 'w \<Rightarrow> bool" where
  "released R tenantAt stored i w \<longleftrightarrow>
     (i = [] \<or> tenantAt w i = None) \<and>
     (case stored w of None \<Rightarrow> True | Some t \<Rightarrow> beingDeleted t \<and> \<not> hasFinalizer R t)"

definition disabledNow ::
  "('w \<Rightarrow> string \<Rightarrow> DistributionTenantOutput option) \<Rightarrow> ('w \<Rightarrow> DistributionTenant option) \<Rightarrow>
   DistributionTenant \<Rightarrow> 'w \<Rightarrow> bool" where
  "disabledNow tenantAt stored t w \<longleftrightarrow>
     (\<exists>t' out. stored w = Some t' \<and> sameObject t t' \<and> tenantID t' = tenantID t \<and>
        st_DNSTarget (dt_Status t') = st_DNSTarget (dt_Status t) \<and>
        tenantAt w (tenantID t) = Some out \<and> \<not> out_Enabled out)"

text \<open>What CloudFront may refuse to delete: a tenant that is enabled, or disabled and not deployed yet.\<close>

definition undeletable :: "(string \<Rightarrow> DistributionTenantOutput option) \<Rightarrow> string \<Rightarrow> bool" where
  "undeletable aws i \<longleftrightarrow>
     i \<noteq> [] \<and> (\<exists>out. aws i = Some out \<and> (out_Enabled out \<or> out_Status out \<noteq> ''Deployed''))"

lemma disabled_same:
  assumes "sameObject t t'" and "st_DNSTarget (dt_Status t') = st_DNSTarget (dt_Status t)"
  shows "deleting R t' = deleting R t" "needsCleanup R t' = needsCleanup R t" "keyOf t' = keyOf t"
  using assms by (simp_all add: deleting_def beingDeleted_def hasFinalizer_def needsCleanup_def sameObject_def keyOf_def)

lemma cleanupThen_nothing:
  "\<not> needsCleanup R (obj s) \<Longrightarrow> wp (cleanupThen R k) Q s \<longleftrightarrow> wp k Q s"
  by (auto simp: cleanupThen_def cleanupDNSRecords_def needsCleanup_def wp_simps
      split: option.splits)

context operator_world
begin

lemma release_done:
  assumes "i = [] \<or> tenantAt (world s) i = None" and "healthy (world s)" and "beingDeleted (obj s)"
    and "keyOf (obj s) = (ns, n)" and "stored (world s) = Some (obj s)"
  shows "wp (releaseFinalizer R) (\<lambda>_ s'. healthy (world s') \<and> released R tenantAt stored i (world s')) s"
proof (rule wp_release [OF assms(4,5)], goal_cases)
  case (1 s' t')
  have "beingDeleted t'" "\<not> hasFinalizer R t'"
    using 1(3) removed_finalizer assms(3) by (simp_all add: hasFinalizer_def beingDeleted_def)
  then show ?case using 1 assms by (auto simp: released_def)
qed

lemma disable_pass:
  assumes "healthy (world s)" and "tenantAt (world s) (tenantID (obj s)) = Some out"
    and "keyOf (obj s) = (ns, n)" and "stored (world s) = Some (obj s)"
  shows "wp (disableTenant R out) (\<lambda>_ s'. healthy (world s') \<and> disabledNow tenantAt stored (obj s) (world s')) s"
  unfolding disableTenant_def
proof (rule wp_then [OF wp_event [where Q = "\<lambda>_ s'. obj s' = obj s \<and> world s' = world s"]], simp,
    unfold wp_bind wp_getObj Let_def, rule wp_update_tenant [where t = out], goal_cases)
  case (4 u s1 s2 new)
  then have "tenantAt (world s2) (tenantID (obj s)) = Some new" "\<not> out_Enabled new"
    by (auto simp: disableInput_def tenantID_def updateAccepted_def)
  with 4 show ?case
    using assms(3) fromStoreI [of stored s, OF assms(4)]
    by (auto simp: wp_simps disabledNow_def sameObject_def tenantID_def putCondition_def
        intro!: wp_condition wp_store_status elim!: fromStore_frame)
qed (use assms in \<open>auto simp: disableInput_def tenantID_def\<close>)

text \<open>One reconcile of a deletion: it ends with the tenant disabled and still there, which happens only
  if the tenant was enabled or not deployed yet, or it gets to the clean-up, of which \<open>Q\<close> is the outcome.\<close>

lemma deletion_step:
  fixes s :: "'w dtState"
  defines "i \<equiv> tenantID (obj s)"
  assumes "healthy (world s)" and "hasFinalizer R (obj s)" and "keyOf (obj s) = (ns, n)"
    and "stored (world s) = Some (obj s)"
    and clean: "\<And>s' k. obj s' = obj s \<Longrightarrow> healthy (world s') \<Longrightarrow> i = [] \<or> tenantAt (world s') i = None \<Longrightarrow>
      stored (world s') = stored (world s) \<Longrightarrow> dnsClientCache s' = dnsClientCache s \<Longrightarrow>
      k = releaseFinalizer R \<or> (\<exists>ty re msg. k = do { recordEvent R ty re msg; releaseFinalizer R }) \<Longrightarrow>
      wp (cleanupThen R k) Q s'"
  shows "wp (reconcileDelete R) (\<lambda>res s'.
    (undeletable (tenantAt (world s)) i \<and> healthy (world s') \<and> disabledNow tenantAt stored (obj s) (world s'))
    \<or> Q res s') s"
proof -
  let ?Q = "\<lambda>res s'. (undeletable (tenantAt (world s)) i \<and> healthy (world s') \<and>
    disabledNow tenantAt stored (obj s) (world s')) \<or> Q res s'"
  have fin: "ContainsFinalizer (r_Meta R) (om_Finalizers (dt_Meta (obj s))) FinalizerName"
    using assms(3) by (simp add: hasFinalizer_def)
  have clean': "wp (cleanupThen R k) ?Q s'"
    if "obj s' = obj s" "healthy (world s')" "i = [] \<or> tenantAt (world s') i = None"
      "stored (world s') = stored (world s)" "dnsClientCache s' = dnsClientCache s"
      "k = releaseFinalizer R \<or> (\<exists>ty re msg. k = do { recordEvent R ty re msg; releaseFinalizer R })" for s' k
    by (rule wp_mono [OF clean [OF that]]) simp
  have event: "wp (cleanupThen R (do { recordEvent R ty re msg; releaseFinalizer R })) ?Q s'"
    if "obj s' = obj s" "healthy (world s')" "tenantAt (world s') i = None"
      "stored (world s') = stored (world s)" "dnsClientCache s' = dnsClientCache s" for s' ty re msg
    using that by (intro clean') auto
  show ?thesis
  proof (cases "i = []")
    case True
    then show ?thesis
      using clean' [of s "releaseFinalizer R"] assms(2) fin
      by (simp add: reconcileDelete_def wp_simps i_def tenantID_def)
  next
    case False
    have del: "wp (deleteTenant R out) ?Q s1"
      if "healthy (world s1)" "tenantAt (world s1) i = Some out" "\<not> out_Enabled out" "obj s1 = obj s"
        "stored (world s1) = stored (world s)" "dnsClientCache s1 = dnsClientCache s"
        "tenantAt (world s1) = tenantAt (world s)" for s1 out
      unfolding deleteTenant_def wp_bind wp_getObj Let_def that(4) tenantID_def [symmetric] i_def [symmetric]
    proof (rule wp_delete_tenant [OF that(1-3)], goal_cases)
      case (1 s2)
      then show ?case using that by (auto intro!: event)
    next
      case (2 s2 x)
      then have "?Q (Done (requeueIn requeueShort)) s2"
        using that False assms(5)
        by (auto simp: undeletable_def disabledNow_def sameObject_def i_def)
      then show ?case using 2(5) by (simp add: wp_simps)
    qed
    have start: "wp (reconcileDelete R) P s = wp (extern (cf_GetDistributionTenant (r_CFClient R) i)
        (CfGet i)) (\<lambda>r s'. wp (case r of
          Inl err \<Rightarrow>
            if IsNotFound (Some err) then cleanupThen R (do {
              recordEvent R ''Normal'' ''Deleted'' ''Distribution tenant was already deleted in AWS'';
              releaseFinalizer R })
            else if IsTerminalError (Some err) then handleAWSError R err ''get (during deletion)''
            else returns (Fail (wrapErr ''failed to get distribution tenant for deletion: '' err))
        | Inr None \<Rightarrow> returns Panic
        | Inr (Some out) \<Rightarrow> if out_Enabled out then disableTenant R out else deleteTenant R out) P s') s"
      for P
      using fin False by (simp add: reconcileDelete_def wp_bind wp_getObj tenantID_def i_def Let_def)
    show ?thesis
      unfolding start
    proof (rule wp_get_tenant [OF assms(2)], goal_cases)
      case (1 s' r)
      show ?case
      proof (cases "tenantAt (world s) i")
        case None
        then show ?thesis using 1 by (auto intro!: event)
      next
        case (Some out)
        show ?thesis
        proof (cases "out_Enabled out")
          case True
          then have "undeletable (tenantAt (world s)) i" using Some False by (simp add: undeletable_def)
          moreover have "wp (disableTenant R out) (\<lambda>_ s''. healthy (world s'') \<and>
              disabledNow tenantAt stored (obj s') (world s'')) s'"
            using 1 Some assms(4,5) by (intro disable_pass) (simp_all add: i_def)
          ultimately have "wp (disableTenant R out) ?Q s'"
            using 1(1) by (auto elim!: wp_mono)
          then show ?thesis using 1 Some True by simp
        next
          case False
          then show ?thesis using 1 Some by (auto intro!: del)
        qed
      qed
    qed
  qed
qed

lemma deletion_pass:
  assumes "healthy (world s)" and "deleting R (obj s)" and "keyOf (obj s) = (ns, n)"
    and "stored (world s) = Some (obj s)"
  shows "wp (reconcileDelete R) (\<lambda>_ s'. healthy (world s') \<and>
    (undeletable (tenantAt (world s)) (tenantID (obj s)) \<and> disabledNow tenantAt stored (obj s) (world s') \<or>
     released R tenantAt stored (tenantID (obj s)) (world s'))) s"
proof (rule wp_mono [OF deletion_step [where Q = "\<lambda>_ s'. healthy (world s') \<and>
      released R tenantAt stored (tenantID (obj s)) (world s')", OF assms(1) _ assms(3,4)]], goal_cases)
  case (2 s' k)
  have "\<not> needsCleanup R (obj s')" "beingDeleted (obj s')" using assms(2) 2(1) by (simp_all add: deleting_def)
  then show ?case
    using 2 assms(3,4) by (auto simp: cleanupThen_nothing wp_bind intro!: wp_event release_done)
qed (use assms(2) in \<open>auto simp: deleting_def\<close>)

lemma Reconcile_deletion:
  assumes "healthy w" and "stored w = Some t" and "deleting R t" and "keyOf t = (ns, n)"
  shows "wp (Reconcile R ns n) (\<lambda>_ s'. healthy (world s') \<and>
    (undeletable (tenantAt w) (tenantID t) \<and> disabledNow tenantAt stored t (world s') \<or>
     released R tenantAt stored (tenantID t) (world s'))) (start t0 w cache)"
  unfolding Reconcile_def
proof (rule wp_then [OF wp_get_object [where Q = "\<lambda>r s'. r = Inr t \<and> tenantAt (world s') = tenantAt w \<and>
      healthy (world s') \<and> stored (world s') = Some t"]], goal_cases)
  case (3 r s')
  then show ?case
    using assms(3,4) deletion_pass [of "s'\<lparr>obj := t\<rparr>"]
    by (simp add: wp_simps deleting_def beingDeleted_def)
qed (use assms in \<open>simp_all add: start_def\<close>)

text \<open>After the release nothing happens any more.\<close>

lemma Reconcile_released:
  assumes "released R tenantAt stored i w"
  shows "wp (Reconcile R ns n) (\<lambda>_ s'. released R tenantAt stored i (world s') \<and>
    healthy (world s') = healthy w) (start t0 w cache)"
  unfolding Reconcile_def wp_bind wp_extern
proof (intro allI impI, goal_cases)
  case (1 r w')
  then have w: "k_Get (r_Client R) ns n w = (r, w')" by (simp add: start_def)
  have "released R tenantAt stored i w' \<and> healthy w' = healthy w"
    using assms(1) get_object [OF w] k8s_frame(1) [OF w] by (simp add: released_def)
  then show ?case
    using get_object [OF w] assms
    by (cases "stored w")
      (auto simp: wp_simps beingDeleted_def reconcileDelete_def released_def hasFinalizer_def
        split: option.split)
qed

end

text \<open>Several reconciles of one object, each with the world and the client cache of the last.\<close>

fun passes ::
  "'w Reconciler \<Rightarrow> string \<Rightarrow> string \<Rightarrow> DistributionTenant \<Rightarrow> nat \<Rightarrow>
   'w \<times> (string \<Rightarrow> 'w DNSClient option) \<Rightarrow> 'w \<times> (string \<Rightarrow> 'w DNSClient option)" where
  "passes R ns n t0 0 x = x"
| "passes R ns n t0 (Suc k) (w, cache) =
     (let s = snd (run_state (Reconcile R ns n) (start t0 w cache)) in
      passes R ns n t0 k (world s, dnsClientCache s))"

lemma pass_wp_cache:
  assumes "wp (Reconcile R ns n) (\<lambda>_ s'. P (world s') (dnsClientCache s')) (start t0 w cache)"
    and "\<And>w' cache'. P w' cache' \<Longrightarrow> Q (fst (passes R ns n t0 k (w', cache')))"
  shows "Q (fst (passes R ns n t0 (Suc k) (w, cache)))"
  using assms(1) by (auto simp: wp_def Let_def intro!: assms(2) split: prod.splits)

lemma pass_wp:
  assumes "wp (Reconcile R ns n) (\<lambda>_ s'. P (world s')) (start t0 w cache)"
    and "\<And>w' cache'. P w' \<Longrightarrow> Q (fst (passes R ns n t0 k (w', cache')))"
  shows "Q (fst (passes R ns n t0 (Suc k) (w, cache)))"
  using assms by (rule pass_wp_cache [where P = "\<lambda>w' cache'. P w'"])

text \<open>Reconciles that are apart in time: after the \<open>k\<close>-th one, before the next is due, the world makes the
  step \<open>env k\<close>.\<close>

fun rounds ::
  "(nat \<Rightarrow> 'w \<Rightarrow> 'w) \<Rightarrow> 'w Reconciler \<Rightarrow> string \<Rightarrow> string \<Rightarrow> DistributionTenant \<Rightarrow> nat \<Rightarrow>
   'w \<times> (string \<Rightarrow> 'w DNSClient option) \<Rightarrow> 'w \<times> (string \<Rightarrow> 'w DNSClient option)" where
  "rounds env R ns n t0 0 x = x"
| "rounds env R ns n t0 (Suc k) x = (case rounds env R ns n t0 k x of (w, cache) \<Rightarrow>
     let s = snd (run_state (Reconcile R ns n) (start t0 w cache)) in
     (env k (world s), dnsClientCache s))"

lemma rounds_wp:
  assumes "P 0 w cache"
    and "\<And>k w c. P k w c \<Longrightarrow>
      wp (Reconcile R ns n) (\<lambda>_ s'. P (Suc k) (env k (world s')) (dnsClientCache s')) (start t0 w c)"
  shows "case rounds env R ns n t0 k (w, cache) of (w', c') \<Rightarrow> P k w' c'"
proof (induction k)
  case (Suc k)
  obtain w1 c1 where p: "rounds env R ns n t0 k (w, cache) = (w1, c1)" by fastforce
  then show ?case using Suc assms(2) [of k w1 c1] by (auto simp: wp_def Let_def split: prod.splits)
qed (simp add: assms(1))

text \<open>CloudFront between the reconciles: changes propagate, which shows in the status of the tenants and
  in nothing else (\<open>rest\<close>), and what was changed before is deployed after the step \<open>m\<close>.\<close>

definition statusOnly :: "DistributionTenantOutput \<Rightarrow> DistributionTenantOutput \<Rightarrow> bool" where
  "statusOnly t t' \<longleftrightarrow> t' = t\<lparr>out_Status := out_Status t'\<rparr>"

locale propagation =
  fixes tenantAt :: "'w \<Rightarrow> string \<Rightarrow> DistributionTenantOutput option"
    and healthy :: "'w \<Rightarrow> bool"
    and rest :: "'w \<Rightarrow> 'r"
    and env :: "nat \<Rightarrow> 'w \<Rightarrow> 'w"
    and m :: nat
  assumes step: "healthy w \<Longrightarrow> healthy (env k w) \<and> rest (env k w) = rest w \<and>
      rel_option statusOnly (tenantAt w i) (tenantAt (env k w) i)"
    and deployed: "healthy w \<Longrightarrow> tenantAt (env m w) i = Some t \<Longrightarrow> out_Status t = ''Deployed''"
begin

lemma coarser: "propagation tenantAt healthy (\<lambda>w. f (rest w)) env m"
  using step deployed by (auto intro!: propagation.intro)

lemma stays_gone: "healthy w \<Longrightarrow> tenantAt w i = None \<Longrightarrow> tenantAt (env k w) i = None"
  using step [of w k i] by simp

lemma stays_disabled:
  assumes "healthy w" and "tenantAt w i = Some out" and "\<not> out_Enabled out"
  obtains out' where "tenantAt (env k w) i = Some out'" "\<not> out_Enabled out'"
proof -
  obtain out' where o: "tenantAt (env k w) i = Some out'" "statusOnly out out'"
    using step [OF assms(1), of k i] assms(2) by (auto simp: option_rel_Some1)
  then have "out_Enabled out' = out_Enabled out"
    by (metis DistributionTenantOutput.ext_inject DistributionTenantOutput.surjective
        DistributionTenantOutput.update_convs(6) statusOnly_def)
  then show thesis using that o(1) assms(3) by simp
qed

text \<open>Retrying a deletion: \<open>D\<close> is the state in which the tenant is disabled, \<open>G\<close> the one in which
  everything is gone. Once what disabled the tenant has propagated, the next reconcile is the last one.\<close>

lemma deletion_rounds:
  assumes start: "healthy w" "cacheOK cache"
    and first: "wp (Reconcile R ns n) (\<lambda>_ s'. cacheOK (dnsClientCache s') \<and> healthy (world s') \<and>
      (D (world s') \<or> G (world s'))) (start t0 w cache)"
    and again: "\<And>w c. cacheOK c \<Longrightarrow> healthy w \<Longrightarrow> D w \<Longrightarrow>
      wp (Reconcile R ns n) (\<lambda>_ s'. cacheOK (dnsClientCache s') \<and> healthy (world s') \<and>
        (undeletable (tenantAt w) i \<and> D (world s') \<or> G (world s'))) (start t0 w c)"
    and over: "\<And>w c. cacheOK c \<Longrightarrow> healthy w \<Longrightarrow> G w \<Longrightarrow>
      wp (Reconcile R ns n) (\<lambda>_ s'. cacheOK (dnsClientCache s') \<and> healthy (world s') \<and> G (world s')) (start t0 w c)"
    and keeps: "\<And>w k. healthy w \<Longrightarrow> D w \<Longrightarrow> D (env k w)" "\<And>w k. healthy w \<Longrightarrow> G w \<Longrightarrow> G (env k w)"
    and disabled: "\<And>w. D w \<Longrightarrow> \<exists>out. tenantAt w i = Some out \<and> \<not> out_Enabled out"
  shows "G (fst (rounds env R ns n t0 (m + 2 + j) (w, cache)))"
proof -
  let ?P = "\<lambda>k v c. cacheOK c \<and> healthy v \<and> (G v \<or> k = 0 \<and> v = w \<and> c = cache \<or>
    0 < k \<and> k \<le> Suc m \<and> D v \<and> (k = Suc m \<longrightarrow> \<not> undeletable (tenantAt v) i))"
  have ready: "\<not> undeletable (tenantAt (env m v)) i" if v: "healthy v" "D v" for v
  proof -
    obtain out where "tenantAt v i = Some out" "\<not> out_Enabled out" using disabled [OF v(2)] by blast
    from stays_disabled [OF v(1) this] deployed [OF v(1)] show ?thesis
      by (metis undeletable_def option.inject)
  qed
  have go: "wp (Reconcile R ns n) (\<lambda>_ s'. ?P (Suc k) (env k (world s')) (dnsClientCache s')) (start t0 v c)"
    if p: "?P k v c" for k v c
  proof -
    consider "G v" | "k = 0" "v = w" "c = cache" "\<not> G v"
      | "D v" "k \<le> m" "\<not> G v" | "D v" "k = Suc m" "\<not> undeletable (tenantAt v) i"
      using p by fastforce
    then show ?thesis
    proof cases
      case 1
      then show ?thesis using p by (intro wp_mono [OF over]) (auto simp: step keeps)
    next
      case 2
      have "wp (Reconcile R ns n) (\<lambda>_ s'. ?P (Suc 0) (env 0 (world s')) (dnsClientCache s')) (start t0 w cache)"
      proof (rule wp_mono [OF first], goal_cases)
        case (1 res s')
        then show ?case using ready [of "world s'"] by (cases "m = 0") (auto simp: step keeps)
      qed
      with 2 show ?thesis by simp
    next
      case 3
      have "wp (Reconcile R ns n) (\<lambda>_ s'. cacheOK (dnsClientCache s') \<and> healthy (world s') \<and>
          (undeletable (tenantAt v) i \<and> D (world s') \<or> G (world s'))) (start t0 v c)"
        using p 3(1) by (intro again) auto
      then show ?thesis
      proof (rule wp_mono, goal_cases)
        case (1 res s')
        then show ?case using ready [of "world s'"] 3(2) by (cases "k = m") (auto simp: step keeps)
      qed
    next
      case 4
      then show ?thesis using p by (intro wp_mono [OF again]) (auto simp: step keeps)
    qed
  qed
  have "case rounds env R ns n t0 (m + 2 + j) (w, cache) of (w', c') \<Rightarrow> ?P (m + 2 + j) w' c'"
    by (rule rounds_wp) (use start go in auto)
  then show ?thesis by (auto split: prod.splits)
qed

end

lemma disabled_env:
  assumes "propagation tenantAt healthy stored env m" and "healthy w" and "disabledNow tenantAt stored t w"
  shows "disabledNow tenantAt stored t (env k w)"
proof -
  obtain t' out where o: "stored w = Some t'" "sameObject t t'" "tenantID t' = tenantID t"
    "st_DNSTarget (dt_Status t') = st_DNSTarget (dt_Status t)"
    "tenantAt w (tenantID t) = Some out" "\<not> out_Enabled out"
    using assms(3) by (auto simp: disabledNow_def)
  obtain out' where "tenantAt (env k w) (tenantID t) = Some out'" "\<not> out_Enabled out'"
    using propagation.stays_disabled [OF assms(1,2) o(5,6)] .
  then show ?thesis
    using o propagation.step [OF assms(1,2)] by (auto simp: disabledNow_def)
qed

lemma released_env:
  assumes "propagation tenantAt healthy stored env m" and "healthy w" and "released R tenantAt stored i w"
  shows "released R tenantAt stored i (env k w)"
  using assms(3) propagation.step [OF assms(1,2)] propagation.stays_gone [OF assms(1,2)]
  by (auto simp: released_def)

lemma deletion_is_finished:
  assumes world: "operator_world R tenantAt healthy stored ns n"
    and env: "propagation tenantAt healthy stored env m"
    and t: "healthy w" "stored w = Some t" "beingDeleted t" "hasFinalizer R t" "\<not> needsCleanup R t"
      "keyOf t = (ns, n)"
    and w': "w' = fst (rounds env R ns n t0 (m + 2 + j) (w, cache))"
  shows "(if tenantID t = [] then True else tenantAt w' (tenantID t) = None) \<and>
    (case stored w' of None \<Rightarrow> True | Some t' \<Rightarrow> \<not> hasFinalizer R t')"
proof -
  note pass = operator_world.Reconcile_deletion [OF world]
  have del: "deleting R t" using t by (simp add: deleting_def)
  have "released R tenantAt stored (tenantID t) w'"
    unfolding w'
  proof (rule propagation.deletion_rounds [OF env, where cacheOK = "\<lambda>_. True" and i = "tenantID t"
        and D = "disabledNow tenantAt stored t"], goal_cases)
    case 3
    show ?case by (rule wp_mono [OF pass [OF t(1,2) del t(6)]]) auto
  next
    case (4 w1 c1)
    then obtain t1 where t1: "stored w1 = Some t1" "sameObject t t1" "tenantID t1 = tenantID t"
      "st_DNSTarget (dt_Status t1) = st_DNSTarget (dt_Status t)"
      by (auto simp: disabledNow_def)
    note same = disabled_same [OF t1(2,4)]
    have "disabledNow tenantAt stored t v" if "disabledNow tenantAt stored t1 v" for v
      using that t1(2-4) by (auto simp: disabledNow_def sameObject_def)
    then show ?case
      by (intro wp_mono [OF pass [OF 4(2) t1(1)]]) (use t1 same del t(6) in auto)
  next
    case (5 w1 c1)
    then show ?case by (intro wp_mono [OF operator_world.Reconcile_released [OF world]]) auto
  qed (use t disabled_env [OF env] released_env [OF env] in \<open>auto simp: disabledNow_def\<close>)
  then show ?thesis by (auto simp: released_def split: option.splits)
qed

text \<open>C7: A deletion completes, as long as it takes CloudFront: an object that is being deleted and
  has no DNS records to remove is reconciled again and again, and between the reconciles CloudFront
  propagates what was changed. CloudFront may refuse to delete the disabled tenant as long as it is not
  deployed. When the changes made until the reconcile \<open>m\<close> (counted from 0, so at the latest in
  the back-off after it) are deployed, the reconcile after it is the last that is needed: from then
  on there is no tenant and no finalizer of the operator, whatever AWS held before, when CloudFront
  accepts the update that disables the tenant and keeps, like the API server, to its contract.\<close>

theorem deletion_completes:
  assumes "operator_world R tenantAt healthy stored ns n" and "propagation tenantAt healthy stored env m"
    and "healthy w" and "stored w = Some t"
    and "beingDeleted t" and "hasFinalizer R t" and "\<not> needsCleanup R t" and "keyOf t = (ns, n)"
    and "w' = fst (rounds env R ns n t0 (m + 2 + j) (w, cache))"
  shows "(if tenantID t = [] then True else tenantAt w' (tenantID t) = None) \<and>
    (case stored w' of None \<Rightarrow> True | Some t' \<Rightarrow> \<not> hasFinalizer R t')"
  by (rule deletion_is_finished [OF assms])

text \<open>A world of the in-memory clients in which changes propagate in the step \<open>m\<close>.\<close>

definition mockSettles :: "nat \<Rightarrow> nat \<Rightarrow> mockWorld \<Rightarrow> mockWorld" where
  "mockSettles m k w = (if k = m then w\<lparr>mw_cf := (mw_cf w)\<lparr>m_tenants :=
     map_option (\<lambda>t. t\<lparr>out_Status := ''Deployed''\<rparr>) \<circ> m_tenants (mw_cf w)\<rparr>\<rparr> else w)"

interpretation mock_propagation: propagation "\<lambda>w. m_tenants (mw_cf w)" "mockHealthy D" mw_store "mockSettles m" m
  by unfold_locales (auto simp: mockSettles_def mockHealthy_def noInjectedErrors_def statusOnly_def
      option.rel_map option.rel_refl intro!: option.rel_refl)

theorem deletion_completes_witness:
  "let w' = fst (rounds (mockSettles 1) (mockReconciler []) ''ns'' ''abc'' dying 3 (demoWorld dying awsOn, Map.empty)) in
    m_tenants (mw_cf w') ''T1'' = None"
proof -
  have h: "mockHealthy [''E1'' \<mapsto> demoInfo] (demoWorld dying awsOn)" "mw_store (demoWorld dying awsOn) = Some dying"
    by (simp_all add: demoWorld_def mockHealthy_def noInjectedErrors_def NewMockCloudFrontClient_def)
  have d: "beingDeleted dying" "hasFinalizer (mockReconciler []) dying" "\<not> needsCleanup (mockReconciler []) dying"
    "keyOf dying = (''ns'', ''abc'')" "tenantID dying = ''T1''"
    by (simp_all add: beingDeleted_def hasFinalizer_def needsCleanup_def tenantID_def mockReconciler_def
        keyOf_def metaRef_def demoTenant_def demoMeta_def demoStatus_def demoSpec_def)
  let ?w' = "fst (rounds (mockSettles 1) (mockReconciler []) ''ns'' ''abc'' dying 3 (demoWorld dying awsOn, Map.empty))"
  have w': "?w' = fst (rounds (mockSettles 1) (mockReconciler []) ''ns'' ''abc'' dying (1 + 2 + 0)
      (demoWorld dying awsOn, Map.empty))"
    by (simp only: add_0_right one_plus_numeral semiring_norm)
  have "if tenantID dying = [] then True else m_tenants (mw_cf ?w') (tenantID dying) = None"
    by (rule conjunct1 [OF deletion_completes [OF mock_operator.operator_world_axioms
        mock_propagation.propagation_axioms h d(1-4) w']])
  then show ?thesis by (simp only: d(5) Let_def) simp
qed

section \<open>The spec reaches AWS\<close>

text \<open>AWS holds the spec of \<open>t\<close>, and the stored object says so.\<close>

definition settledWith ::
  "('w \<Rightarrow> string \<Rightarrow> DistributionTenantOutput option) \<Rightarrow> ('w \<Rightarrow> DistributionTenant option) \<Rightarrow>
   DistributionTenant \<Rightarrow> 'w \<Rightarrow> bool" where
  "settledWith tenantAt stored t w \<longleftrightarrow>
     (\<exists>new t'. tenantAt w (tenantID t) = Some new \<and> specMatchesAWS (dt_Spec t) new \<and>
        stored w = Some t' \<and> sameObject t t' \<and> tenantID t' = tenantID t \<and>
        st_ETag (dt_Status t') = out_ETag new \<and>
        st_ObservedGeneration (dt_Status t') = dt_Generation t)"

definition pushable :: "DistributionTenantSpec \<Rightarrow> bool" where
  "pushable s \<longleftrightarrow> distinct (map param_Name (spec_Parameters s)) \<and> spec_Enabled s \<noteq> None"

text \<open>What the phases before the update leave as it is.\<close>

definition watched ::
  "('w \<Rightarrow> string \<Rightarrow> DistributionTenantOutput option) \<Rightarrow> ('w \<Rightarrow> bool) \<Rightarrow> ('w \<Rightarrow> DistributionTenant option) \<Rightarrow>
   DistributionTenant \<Rightarrow> DistributionTenantOutput \<Rightarrow> 'w dtState \<Rightarrow> bool" where
  "watched tenantAt healthy stored t out s \<longleftrightarrow>
     healthy (world s) \<and> fromStore stored s \<and> tenantAt (world s) (tenantID t) = Some out \<and>
     sameObject t (obj s) \<and> tenantID (obj s) = tenantID t \<and>
     st_ObservedGeneration (dt_Status (obj s)) = st_ObservedGeneration (dt_Status t)"

context operator_world
begin

lemma reconcileUpdate_settles:
  assumes "healthy (world s)" and "tenantAt (world s) (tenantID (obj s)) = Some out"
    and "pushable (dt_Spec (obj s))" and "sameObject t (obj s)" and "tenantID t = tenantID (obj s)"
    and "keyOf t = (ns, n)" and "fromStore stored s"
  shows "wp (reconcileUpdate R out) (\<lambda>_ s'. healthy (world s') \<and> settledWith tenantAt stored t (world s')) s"
  unfolding reconcileUpdate_def wp_bind wp_getObj Let_def
proof (rule wp_update_tenant [where t = out], goal_cases)
  case (4 s1 new)
  have "holdsPushed (dt_Spec (obj s)) new"
    using 4(5) assms(3) by (auto simp: updateAccepted_def holdsPushed_def pushable_def)
  then have m: "specMatchesAWS (dt_Spec t) new"
    using holdsPushed_matches assms(3,4) by (auto simp: pushable_def sameObject_def)
  show ?case
    using 4 m assms(4-7)
    by (auto simp: keyOf_def wp_bind wp_modifyObj wp_return settledWith_def sameObject_def tenantID_def
        putCondition_def recordUpdated_def intro!: wp_condition wp_store_status wp_event
        elim!: fromStore_frame)
qed (use assms in \<open>simp_all add: tenantID_def\<close>)

lemma fetchCertDetails_watched:
  assumes "watched tenantAt healthy stored t out s"
  shows "wp (fetchCertDetails R) (\<lambda>_ s'. watched tenantAt healthy stored t out s') s"
  using assms cert aws_frame(5)
  by (auto simp: fetchCertDetails_def wp_simps Let_def watched_def sameObject_def tenantID_def fromStore_def
      split: sum.split option.split)

lemma validateSpec_watched:
  assumes "watched tenantAt healthy stored t out s"
    and "\<And>w. healthy w \<Longrightarrow> validationErrors t (fst (cf_GetDistributionInfo (r_CFClient R)
      (spec_DistributionId (dt_Spec t)) w)) \<in> {None, Some []}"
  shows "wp (validateSpec R) (\<lambda>v s'. v = Proceed \<and> watched tenantAt healthy stored t out s') s"
  unfolding validateSpec_def wp_bind wp_getObj Let_def wp_extern
proof (intro allI impI, goal_cases)
  case (1 r w')
  have same: "validationErrors (obj s) r = validationErrors t r"
    and id: "spec_DistributionId (dt_Spec (obj s)) = spec_DistributionId (dt_Spec t)"
    using assms(1) by (auto simp: watched_def sameObject_def validationErrors_def Let_def
        split: sum.split option.split)
  have h: "healthy (world s)" using assms(1) by (simp add: watched_def)
  have "validationErrors t r \<in> {None, Some []}"
    using assms(2) [OF h] 1 id by simp
  then show ?case
    using assms(1) info [OF h 1] aws_frame(4) [OF 1] by (auto simp: wp_simps same watched_def fromStore_def)
qed

lemma upsertDNS_none:
  "spec_DNS (dt_Spec (obj s)) = None \<Longrightarrow> wp (upsertDNSForUpdate R) Q s = Q (Done ()) s"
  by (simp add: upsertDNSForUpdate_def wp_simps)

lemma watched_settles:
  assumes "watched tenantAt healthy stored t out s" and "pushable (dt_Spec t)" and "keyOf t = (ns, n)"
  shows "wp (reconcileUpdate R out)
    (\<lambda>_ s'. healthy (world s') \<and> settledWith tenantAt stored t (world s')) s"
  using assms by (intro reconcileUpdate_settles) (auto simp: watched_def sameObject_def)

lemma watched_frame:
  "watched tenantAt healthy stored t out s \<Longrightarrow>
     tenantAt (world s') = tenantAt (world s) \<Longrightarrow> healthy (world s') = healthy (world s) \<Longrightarrow>
     stored (world s') = stored (world s) \<Longrightarrow> dt_Meta (obj s') = dt_Meta (obj s) \<Longrightarrow> dt_Spec (obj s') = dt_Spec (obj s) \<Longrightarrow>
     st_ID (dt_Status (obj s')) = st_ID (dt_Status (obj s)) \<Longrightarrow>
     st_ObservedGeneration (dt_Status (obj s')) = st_ObservedGeneration (dt_Status (obj s)) \<Longrightarrow>
     watched tenantAt healthy stored t out s'"
  using fromStore_frame [of stored s s'] by (simp add: watched_def sameObject_def tenantID_def)

lemma drift_settles:
  assumes "watched tenantAt healthy stored t out s" and "pushable (dt_Spec t)"
    and "r_DriftPolicy R = DriftPolicyEnforce" and "keyOf t = (ns, n)"
  shows "wp (handleDrift R out)
    (\<lambda>_ s'. healthy (world s') \<and> settledWith tenantAt stored t (world s')) s"
  using clock_frame
  by (auto simp: handleDrift_def wp_simps assms(3)
      intro!: wp_event watched_settles assms(2,4) watched_frame [OF assms(1)])

lemma specChange_settles:
  assumes "watched tenantAt healthy stored t out s" and "pushable (dt_Spec t)" and "spec_DNS (dt_Spec t) = None"
    and "\<And>w. healthy w \<Longrightarrow> validationErrors t (fst (cf_GetDistributionInfo (r_CFClient R)
      (spec_DistributionId (dt_Spec t)) w)) \<in> {None, Some []}"
    and "keyOf t = (ns, n)"
  shows "wp (applySpecChange R out)
    (\<lambda>_ s'. healthy (world s') \<and> settledWith tenantAt stored t (world s')) s"
  unfolding applySpecChange_def
proof (rule wp_then [OF validateSpec_watched [OF assms(1,4)]], assumption, goal_cases)
  case (1 v s')
  then have "wp (reconcileUpdate R out)
      (\<lambda>_ s'. healthy (world s') \<and> settledWith tenantAt stored t (world s')) s'"
    by (intro watched_settles assms(2,5)) simp
  moreover have "spec_DNS (dt_Spec (obj s')) = None"
    using 1 assms(3) by (auto simp: watched_def sameObject_def)
  ultimately show ?case using 1 by (simp add: wp_bind upsertDNS_none)
qed

lemma Reconcile_settles:
  assumes "healthy w" and "stored w = Some t" and "\<not> beingDeleted t" and "hasFinalizer R t"
    and "tenantID t \<noteq> []" and "tenantAt w (tenantID t) = Some out"
    and "\<not> specMatchesAWS (dt_Spec t) out" and "pushable (dt_Spec t)" and "spec_DNS (dt_Spec t) = None"
    and "dt_Generation t = st_ObservedGeneration (dt_Status t) \<Longrightarrow> r_DriftPolicy R = DriftPolicyEnforce"
    and "\<And>w. healthy w \<Longrightarrow> validationErrors t (fst (cf_GetDistributionInfo (r_CFClient R)
      (spec_DistributionId (dt_Spec t)) w)) \<in> {None, Some []}"
    and "keyOf t = (ns, n)"
  shows "wp (Reconcile R ns n)
    (\<lambda>_ s'. healthy (world s') \<and> settledWith tenantAt stored t (world s')) (start t0 w cache)"
  unfolding Reconcile_def
proof (rule wp_then [OF wp_get_object [where Q = "\<lambda>r s'. r = Inr t \<and> tenantAt (world s') = tenantAt w \<and>
      healthy (world s') \<and> stored (world s') = Some t"]], goal_cases)
  case (3 r s')
  let ?s = "s'\<lparr>obj := t\<rparr>"
  have "wp (reconcileExisting R)
      (\<lambda>_ s'. healthy (world s') \<and> settledWith tenantAt stored t (world s')) ?s"
    unfolding reconcileExisting_def wp_bind wp_getObj Let_def
  proof (rule wp_get_tenant, goal_cases)
    case (2 s1 r1)
    then have "r1 = Inr (Some out)" "watched tenantAt healthy stored t out (s1\<lparr>obj := recordObserved out (obj s1)\<rparr>)"
      using 3 assms(6) by (auto simp: tenantID_def watched_def sameObject_def recordObserved_def fromStore_def)
    then show ?case
    proof (simp add: wp_bind wp_modifyObj wp_getObj, intro wp_mono [OF fetchCertDetails_watched [of t out]], goal_cases)
      case (2 d s2)
      then have "detectChanges (obj s2) out = (if dt_Generation t = st_ObservedGeneration (dt_Status t)
          then changeDrift else changeSpec)"
        using assms(7) by (auto simp: watched_def sameObject_def detectChanges_def Let_def)
      then show ?case
        using 2 assms(8-12)
        by (auto intro: drift_settles specChange_settles)
    qed
  qed (use 3 in simp)
  then show ?case
    using 3 assms(3-5) by (simp add: wp_simps beingDeleted_def hasFinalizer_def tenantID_def)
qed (use assms in \<open>simp_all add: start_def\<close>)

text \<open>One pass of the work queue over such an object.\<close>

lemma pass_settles:
  assumes "healthy w" and "stored w = Some t" and "\<not> beingDeleted t" and "hasFinalizer R t"
    and "tenantID t \<noteq> []" and "tenantAt w (tenantID t) = Some out"
    and "\<not> specMatchesAWS (dt_Spec t) out" and "pushable (dt_Spec t)" and "spec_DNS (dt_Spec t) = None"
    and "dt_Generation t = st_ObservedGeneration (dt_Status t) \<Longrightarrow> r_DriftPolicy R = DriftPolicyEnforce"
    and "\<And>w. healthy w \<Longrightarrow> validationErrors t (fst (cf_GetDistributionInfo (r_CFClient R)
      (spec_DistributionId (dt_Spec t)) w)) \<in> {None, Some []}"
    and "keyOf t = (ns, n)"
  shows "settledWith tenantAt stored t (fst (passes R ns n t0 (Suc 0) (w, cache)))"
proof (rule pass_wp [where P = "\<lambda>w. healthy w \<and> settledWith tenantAt stored t w"])
  show "wp (Reconcile R ns n) (\<lambda>_ s'. healthy (world s') \<and> settledWith tenantAt stored t (world s'))
      (start t0 w cache)"
    by (rule Reconcile_settles [OF assms])
qed simp

end

text \<open>The spec reaches AWS: for a live object with a tenant in AWS that differs from its spec
  (the spec was changed and passes validation, or AWS drifted and the policy enforces), without
  managed DNS records, one reconcile makes AWS hold the spec, so that the comparison of the next
  one finds no difference, and records the generation and the new ETag in the stored object.\<close>

theorem spec_reaches_aws:
  assumes "operator_world R tenantAt healthy stored ns n" and "healthy w" and "stored w = Some t"
    and "keyOf t = (ns, n)" and "\<not> beingDeleted t" and "hasFinalizer R t" and "tenantID t \<noteq> []"
    and "tenantAt w (tenantID t) = Some out" and "\<not> specMatchesAWS (dt_Spec t) out"
    and "distinct (map param_Name (spec_Parameters (dt_Spec t)))" and "spec_Enabled (dt_Spec t) \<noteq> None"
    and "spec_DNS (dt_Spec t) = None"
    and "dt_Generation t = st_ObservedGeneration (dt_Status t) \<Longrightarrow> r_DriftPolicy R = DriftPolicyEnforce"
    and "\<And>w. healthy w \<Longrightarrow> validationErrors t (fst (cf_GetDistributionInfo (r_CFClient R)
      (spec_DistributionId (dt_Spec t)) w)) \<in> {None, Some []}"
    and "w' = fst (passes R ns n t0 1 (w, cache))"
  shows "\<exists>new t'. tenantAt w' (tenantID t) = Some new \<and> specMatchesAWS (dt_Spec t) new \<and>
    stored w' = Some t' \<and> sameObject t t' \<and> tenantID t' = tenantID t \<and>
    st_ETag (dt_Status t') = out_ETag new \<and> st_ObservedGeneration (dt_Status t') = dt_Generation t"
proof -
  have "settledWith tenantAt stored t (fst (passes R ns n t0 (Suc 0) (w, cache)))"
    by (rule operator_world.pass_settles [OF assms(1-3,5-9)])
      (use assms(4,10-14) in \<open>auto simp: pushable_def\<close>)
  then show ?thesis using assms(15) by (simp add: settledWith_def)
qed

theorem spec_reaches_aws_witness:
  "\<exists>new. m_tenants (mw_cf (fst (passes (mockReconciler ''enforce'') ''ns'' ''abc'' settled 1
      (demoWorld settled awsDrifted, Map.empty)))) ''T1'' = Some new \<and> out_DistributionId new = ''E1''"
proof -
  let ?w = "demoWorld settled awsDrifted"
  have h: "mockHealthy [''E1'' \<mapsto> demoInfo] ?w" "mw_store ?w = Some settled"
    "m_tenants (mw_cf ?w) (tenantID settled) = Some (demoOut True ''E2'')"
    by (simp_all add: demoWorld_def mockHealthy_def noInjectedErrors_def NewMockCloudFrontClient_def
        tenantID_def demoTenant_def demoStatus_def)
  have t: "\<not> beingDeleted settled" "hasFinalizer (mockReconciler ''enforce'') settled" "tenantID settled \<noteq> []"
    "distinct (map param_Name (spec_Parameters (dt_Spec settled)))" "spec_Enabled (dt_Spec settled) \<noteq> None"
    "spec_DNS (dt_Spec settled) = None" "tenantID settled = ''T1''" "spec_DistributionId (dt_Spec settled) = ''E1''"
    "r_DriftPolicy (mockReconciler ''enforce'') = DriftPolicyEnforce" "dt_Name settled = ''abc''"
    "keyOf settled = (''ns'', ''abc'')"
    by (simp_all add: beingDeleted_def hasFinalizer_def tenantID_def mockReconciler_def
        keyOf_def metaRef_def demoTenant_def demoMeta_def demoStatus_def demoSpec_def)
  have d: "\<not> specMatchesAWS (dt_Spec settled) (demoOut True ''E2'')"
    by (simp add: demoTenant_def demoSpec_def demoOut_def specMatchesAWS_def)
  have "distInfoErrors (dt_Spec settled) demoInfo = []" by code_simp
  then have v: "validationErrors settled (fst (cf_GetDistributionInfo (r_CFClient (mockReconciler ''enforce''))
      (spec_DistributionId (dt_Spec settled)) w)) \<in> {None, Some []}"
    if "mockHealthy [''E1'' \<mapsto> demoInfo] w" for w
    using that demo_name t(8,10)
    by (simp add: mockReconciler_def mockCF_def mockInfo_def mockHealthy_def noInjectedErrors_def
        validationErrors_def Let_def)
  obtain new where n: "m_tenants (mw_cf (fst (passes (mockReconciler ''enforce'') ''ns'' ''abc'' settled 1
      (?w, Map.empty)))) (tenantID settled) = Some new" "specMatchesAWS (dt_Spec settled) new"
    using spec_reaches_aws [OF mock_operator.operator_world_axioms h(1,2) t(11) t(1-3) h(3) d t(4-6) t(9) v refl]
    by blast
  then show ?thesis using t(7,8) by (auto simp: specMatchesAWS_conj)
qed

end
