(* ===== verification/TenantConvergence.thy ===== *)
theory TenantConvergence
  imports TenantContracts
begin

text \<open>
  Convergence of the DistributionTenant reconciler: from every state of a live object (without or
  with finalizer, without or with a tenant id, the tenant in AWS there, different or gone) a
  bounded number of reconciles makes AWS hold the spec, and every later one leaves AWS as it is.
  The proof is a ranking argument: \<open>remaining\<close> bounds the passes that are left, each pass
  lowers it, and at zero a pass changes nothing in AWS.

  The objects considered have no managed DNS records and no managed certificate (which change the
  spec by themselves), and CloudFront and the API server keep to their contracts.
\<close>

section \<open>The distance to convergence\<close>

text \<open>The number of passes left for an object, given what AWS holds: 3 to add the finalizer, 2 to
  forget a tenant that was deleted externally, 1 to create or update it.\<close>

definition remaining ::
  "'w Reconciler \<Rightarrow> (string \<Rightarrow> DistributionTenantOutput option) \<Rightarrow> DistributionTenant \<Rightarrow> nat" where
  "remaining R aws t =
     (if \<not> hasFinalizer R t then 3
      else if tenantID t = [] then 1
      else case aws (tenantID t) of
        None \<Rightarrow> 2
      | Some out \<Rightarrow> if specMatchesAWS (dt_Spec t) out then 0 else 1)"

text \<open>A live object whose spec can be pushed as it is.\<close>

definition plainSpec :: "DistributionTenantSpec \<Rightarrow> bool" where
  "plainSpec s \<longleftrightarrow> pushable s \<and> spec_DNS s = None \<and> spec_ManagedCertificateRequest s = None"

definition liveObject :: "string \<times> string \<Rightarrow> DistributionTenantSpec \<Rightarrow> DistributionTenant \<Rightarrow> bool" where
  "liveObject key spec t \<longleftrightarrow> keyOf t = key \<and> \<not> beingDeleted t \<and> dt_Spec t = spec"

lemma liveObject_kept [simp]:
  "liveObject key spec (t\<lparr>dt_Status := x\<rparr>) = liveObject key spec t"
  "liveObject key spec (t\<lparr>dt_Meta := (dt_Meta t)\<lparr>om_Finalizers := fs\<rparr>\<rparr>) = liveObject key spec t"
  "liveObject key spec (putCondition R now ct st re msg t) = liveObject key spec t"
  by (simp_all add: liveObject_def beingDeleted_def putCondition_def)

lemma finalizer_kept [simp]:
  "hasFinalizer R (t\<lparr>dt_Status := x\<rparr>) = hasFinalizer R t"
  "hasFinalizer R (putCondition R' now ct st re msg t) = hasFinalizer R t"
  by (simp_all add: hasFinalizer_def putCondition_def)

lemma fromAWS_kept [simp]:
  "liveObject key spec (updateStatusFromAWS out t) = liveObject key spec t"
  "hasFinalizer R (updateStatusFromAWS out t) = hasFinalizer R t"
  by (simp_all add: updateStatusFromAWS_def)

lemma id_of_condition [simp]: "tenantID (putCondition R now ct st re msg t) = tenantID t"
  by (simp add: tenantID_def putCondition_def)

text \<open>The object in hand is the live one, under the id \<open>i\<close>, and AWS is as it was.\<close>

definition inHand ::
  "'w Reconciler \<Rightarrow> ('w \<Rightarrow> string \<Rightarrow> DistributionTenantOutput option) \<Rightarrow> ('w \<Rightarrow> bool) \<Rightarrow>
   ('w \<Rightarrow> DistributionTenant option) \<Rightarrow>
   (string \<Rightarrow> DistributionTenantOutput option) \<Rightarrow> string \<times> string \<Rightarrow> DistributionTenantSpec \<Rightarrow> string \<Rightarrow>
   'w dtState \<Rightarrow> bool" where
  "inHand R tenantAt healthy stored aws key spec i s \<longleftrightarrow>
     healthy (world s) \<and> fromStore stored s \<and> tenantAt (world s) = aws \<and> liveObject key spec (obj s) \<and>
     hasFinalizer R (obj s) \<and> tenantID (obj s) = i"

text \<open>The stored object after a pass.\<close>

definition storedAs ::
  "'w Reconciler \<Rightarrow> ('w \<Rightarrow> bool) \<Rightarrow> ('w \<Rightarrow> DistributionTenant option) \<Rightarrow> string \<times> string \<Rightarrow>
   DistributionTenantSpec \<Rightarrow> string \<Rightarrow> 'w \<Rightarrow> bool" where
  "storedAs R healthy stored key spec i w \<longleftrightarrow> healthy w \<and>
     (\<exists>t. stored w = Some t \<and> liveObject key spec t \<and> hasFinalizer R t \<and> tenantID t = i)"

definition converged ::
  "'w Reconciler \<Rightarrow> ('w \<Rightarrow> string \<Rightarrow> DistributionTenantOutput option) \<Rightarrow> ('w \<Rightarrow> bool) \<Rightarrow>
   ('w \<Rightarrow> DistributionTenant option) \<Rightarrow> string \<times> string \<Rightarrow> DistributionTenantSpec \<Rightarrow> 'w \<Rightarrow> bool" where
  "converged R tenantAt healthy stored key spec w \<longleftrightarrow> healthy w \<and>
     (\<exists>t. stored w = Some t \<and> liveObject key spec t \<and> remaining R (tenantAt w) t = 0)"

text \<open>A pass has brought the object closer; without distance left it has kept AWS.\<close>

definition closer ::
  "'w Reconciler \<Rightarrow> ('w \<Rightarrow> string \<Rightarrow> DistributionTenantOutput option) \<Rightarrow> ('w \<Rightarrow> bool) \<Rightarrow>
   ('w \<Rightarrow> DistributionTenant option) \<Rightarrow> string \<times> string \<Rightarrow> (string \<Rightarrow> DistributionTenantOutput option) \<Rightarrow>
   DistributionTenant \<Rightarrow> 'w \<Rightarrow> bool" where
  "closer R tenantAt healthy stored key aws t w \<longleftrightarrow> healthy w \<and>
     (\<exists>t'. stored w = Some t' \<and> liveObject key (dt_Spec t) t' \<and>
        remaining R (tenantAt w) t' \<le> remaining R aws t - 1 \<and>
        (remaining R aws t = 0 \<longrightarrow> tenantAt w = aws \<and> tenantID t' = tenantID t))"

lemma closerE:
  assumes "closer R tenantAt healthy stored key aws t w"
  obtains t' where "healthy w" "stored w = Some t'" "liveObject key (dt_Spec t) t'"
    "remaining R (tenantAt w) t' \<le> remaining R aws t - 1" "remaining R aws t = 0 \<Longrightarrow> tenantAt w = aws"
  using assms unfolding closer_def by (elim conjE exE) (rule that, simp_all)

lemma storedAs_closer:
  assumes "storedAs R healthy stored key (dt_Spec t) i w"
    and "\<And>t'. hasFinalizer R t' \<Longrightarrow> tenantID t' = i \<Longrightarrow> dt_Spec t' = dt_Spec t \<Longrightarrow>
      remaining R (tenantAt w) t' \<le> remaining R aws t - 1"
    and "remaining R aws t = 0 \<Longrightarrow> tenantAt w = aws \<and> i = tenantID t"
  shows "closer R tenantAt healthy stored key aws t w"
proof -
  obtain t' where t': "stored w = Some t'" "liveObject key (dt_Spec t) t'" "hasFinalizer R t'" "tenantID t' = i"
    and h: "healthy w"
    using assms(1) unfolding storedAs_def by blast
  have "dt_Spec t' = dt_Spec t" using t'(2) by (simp add: liveObject_def)
  note near = assms(2) [OF t'(3,4) this]
  show ?thesis
    unfolding closer_def
    using near assms(3) t'(1,2,4) h by (intro conjI exI [of _ t']) simp_all
qed

lemma settled_closer:
  assumes "settledWith tenantAt stored t w" and "healthy w" and "liveObject key (dt_Spec t) t"
    and "hasFinalizer R t" and "tenantID t \<noteq> []" and "remaining R aws t = 1"
  shows "closer R tenantAt healthy stored key aws t w"
proof -
  obtain new t' where t': "tenantAt w (tenantID t) = Some new" "specMatchesAWS (dt_Spec t) new"
      "stored w = Some t'" "sameObject t t'" "tenantID t' = tenantID t"
    using assms(1) unfolding settledWith_def by blast
  have live: "liveObject key (dt_Spec t) t'" "hasFinalizer R t'" "dt_Spec t' = dt_Spec t"
    using assms(3,4) t'(4)
    by (simp_all add: sameObject_def liveObject_def hasFinalizer_def beingDeleted_def keyOf_def)
  then have "remaining R (tenantAt w) t' = 0" using t' assms(5) by (simp add: remaining_def)
  then show ?thesis
    unfolding closer_def
    using assms(2,6) t'(3) live(1) by (intro conjI exI [of _ t']) simp_all
qed

lemma passes_add:
  "passes R ns n t0 (j + k) x = passes R ns n t0 k (passes R ns n t0 j x)"
proof (induction j arbitrary: x)
  case (Suc j)
  then show ?case by (cases x) (simp add: Let_def)
qed simp

lemma remaining_bound: "remaining R aws t \<le> 3"
  by (simp add: remaining_def split: option.split)

context operator_world
begin

abbreviation held :: "(string \<Rightarrow> DistributionTenantOutput option) \<Rightarrow> DistributionTenantSpec \<Rightarrow> string \<Rightarrow>
    'w dtState \<Rightarrow> bool" where
  "held aws spec i \<equiv> inHand R tenantAt healthy stored aws (ns, n) spec i"

lemma held_condition: "keeps_inv (held aws spec i) (setCondition R ct st re msg)"
  unfolding keeps_inv_def by (auto simp: inHand_def putCondition_def tenantID_def intro!: wp_condition elim!: fromStore_frame)

lemma held_status:
  assumes "\<And>t. tenantID (t\<lparr>dt_Status := f t\<rparr>) = tenantID t"
  shows "keeps_inv (held aws spec i) (modifyObj (\<lambda>t. t\<lparr>dt_Status := f t\<rparr>))"
  using assms by (auto simp: keeps_inv_def inHand_def wp_simps elim!: fromStore_frame)

lemma held_persist_then:
  assumes "held aws spec i s"
    and "\<And>s'. storedAs R healthy stored (ns, n) spec i (world s') \<Longrightarrow> tenantAt (world s') = aws \<Longrightarrow> wp k Q s'"
  shows "wp (persistStatus R k) Q s"
  using assms(1)
  by (intro wp_store_status assms(2)) (auto simp: inHand_def storedAs_def liveObject_def)

lemma held_persist:
  assumes "held aws spec i s"
  shows "wp (persistStatus R (returns r)) (\<lambda>_ s'. storedAs R healthy stored (ns, n) spec i (world s') \<and>
    tenantAt (world s') = aws) s"
  by (rule held_persist_then [OF assms]) (simp add: wp_return)

lemma held_event: "keeps_inv (held aws spec i) (recordEvent R ty re msg)"
  by (auto simp: keeps_inv_def inHand_def intro!: wp_event elim!: fromStore_frame)

text \<open>Steady state and deployment in progress: the object is written, AWS is not.\<close>

lemma keeps_then:
  assumes "keeps_inv I m" and "I s" and "\<And>a s'. I s' \<Longrightarrow> wp (f a) Q s'"
  shows "wp (State_Monad.bind m f) Q s"
  unfolding wp_bind using assms by (auto simp: keeps_inv_def intro: wp_mono)

lemma held_now: "keeps_inv (held aws spec i) (silent (r_Now R))"
  using clock_frame by (auto simp: keeps_inv_def wp_silent inHand_def elim!: fromStore_frame)

lemma held_certificate: "keeps_inv (held aws spec i) (updateCertificateCondition R d)"
  unfolding updateCertificateCondition_def
  by (intro inv_intros held_condition)

lemma held_dns:
  assumes "spec_DNS spec = None"
  shows "keeps_inv (held aws spec i) (updateDNSCondition R)"
  using held_condition assms
  by (auto simp: updateDNSCondition_def keeps_inv_def wp_bind wp_getObj inHand_def liveObject_def)

lemma steady_holds:
  assumes "held aws spec i s" and "spec_DNS spec = None"
  shows "wp (steadyState R d) (\<lambda>_ s'. storedAs R healthy stored (ns, n) spec i (world s') \<and>
    tenantAt (world s') = aws) s"
  unfolding steadyState_def
proof (rule keeps_then [OF held_now assms(1)], erule keeps_then [OF held_status, rotated],
    (erule keeps_then [OF held_condition])+, erule keeps_then [OF held_dns [OF assms(2)]],
    erule keeps_then [OF held_certificate], goal_cases)
  case (1 now s0 u1 s1 u2 s2 u3 s3 u4 s4 u5 s5)
  then show ?case
    using assms(2) held_persist [OF 1]
    by (simp add: cleanupOrphanedDNSRecords_def wp_bind wp_getObj wp_return inHand_def liveObject_def)
qed (simp add: tenantID_def)

lemma deploying_holds:
  assumes "held aws spec i s"
  shows "wp (stillDeploying R d) (\<lambda>_ s'. storedAs R healthy stored (ns, n) spec i (world s') \<and>
    tenantAt (world s') = aws) s"
  unfolding stillDeploying_def
proof (rule keeps_then [OF held_condition assms], erule keeps_then [OF held_condition],
    erule keeps_then [OF held_certificate], erule keeps_then [OF held_status, rotated], goal_cases)
  case (1 u1 s1 u2 s2 u3 s3 u4 s4)
  then show ?case by (intro held_persist)
qed (simp add: tenantID_def)

lemma recreate_forgets:
  assumes "held aws spec i s"
  shows "wp (recreateAfterExternalDeletion R) (\<lambda>_ s'. storedAs R healthy stored (ns, n) spec [] (world s') \<and>
    tenantAt (world s') = aws) s"
  unfolding recreateAfterExternalDeletion_def
proof (rule keeps_then [OF held_event assms], unfold wp_bind wp_modifyObj, goal_cases)
  case (1 u1 s1)
  then have "held aws spec [] (s1\<lparr>obj := clearAWSIdentity (obj s1)\<rparr>)"
    by (simp add: inHand_def clearAWSIdentity_def tenantID_def fromStore_def sameObject_def)
  then show ?case
    by (intro keeps_then [OF held_condition, unfolded wp_bind] held_persist)
qed

text \<open>A pass over an object with an id: AWS matches, or has lost the tenant.\<close>

lemma existing_pass:
  assumes "held aws spec i s" and "plainSpec spec" and "i \<noteq> []"
    and "case aws i of None \<Rightarrow> j = [] | Some out \<Rightarrow> j = i \<and> specMatchesAWS spec out"
  shows "wp (reconcileExisting R) (\<lambda>_ s'. storedAs R healthy stored (ns, n) spec j (world s') \<and>
    tenantAt (world s') = aws) s"
  unfolding reconcileExisting_def wp_bind wp_getObj Let_def
proof (rule wp_get_tenant, goal_cases)
  case 1
  then show ?case using assms(1) by (simp add: inHand_def)
next
  case (2 s1 r)
  have h: "held aws spec i s1" and i: "st_ID (dt_Status (obj s)) = i" "tenantAt (world s) = aws"
    using 2 assms(1) by (simp_all add: inHand_def tenantID_def fromStore_def)
  show ?case
  proof (cases "aws i")
    case None
    then obtain e where "r = Inl e" "IsNotFound (Some e)" using 2(5) i by auto
    then show ?thesis using recreate_forgets [OF h] assms(4) None by simp
  next
    case (Some out)
    let ?s = "s1\<lparr>obj := recordObserved out (obj s1)\<rparr>"
    have r: "r = Inr (Some out)" "j = i" "specMatchesAWS spec out" using 2(5) i assms(4) Some by simp_all
    have h': "held aws spec i ?s"
      using h by (simp add: inHand_def recordObserved_def tenantID_def fromStore_def sameObject_def)
    then have o: "dt_Spec (obj ?s) = spec" by (simp add: inHand_def liveObject_def)
    have m: "spec_ManagedCertificateRequest spec = None" "spec_DNS spec = None"
      using assms(2) by (simp_all add: plainSpec_def)
    have "detectChanges (obj ?s) out = changeNone"
      using r(3) by (simp only: detectChanges_None o)
    then show ?thesis
      using o m r steady_holds [OF h' m(2), of None] deploying_holds [OF h', of None]
      by (simp add: wp_bind wp_modifyObj wp_getObj wp_return fetchCertDetails_def certToAttach_def)
  qed
qed

text \<open>The finalizer is added.\<close>

lemma finalizer_pass:
  assumes "liveObject (ns, n) spec t" and "tenantID t = i" and "\<not> hasFinalizer R t" and "obj s = t"
    and "healthy (world s)" and "stored (world s) = Some t"
  shows "wp (do {
       modifyObj (updFinalizers (\<lambda>fs. AddFinalizer (r_Meta R) fs FinalizerName));
       t \<leftarrow> getObj;
       u \<leftarrow> extern (k_Update (r_Client R) t) (KUpdate t);
       case u of
         Inl err \<Rightarrow> returns (Fail err)
       | Inr t' \<Rightarrow> do { modifyObj (\<lambda>_. t'); returns (Done (requeueIn second)) }
     }) (\<lambda>_ s'. storedAs R healthy stored (ns, n) spec i (world s') \<and>
    tenantAt (world s') = tenantAt (world s)) s"
  unfolding wp_bind wp_modifyObj wp_getObj wp_extern
proof (intro allI impI, goal_cases)
  case (1 r w')
  let ?t = "updFinalizers (\<lambda>fs. AddFinalizer (r_Meta R) fs FinalizerName) t"
  have u: "k_Update (r_Client R) ?t (world s) = (r, w')" using 1 assms(4) by simp
  have live: "liveObject (ns, n) spec ?t" "tenantID ?t = i" "hasFinalizer R ?t"
    using assms(1,2) added_finalizer by (simp_all add: tenantID_def hasFinalizer_def)
  then have "keyOf ?t = (ns, n)" "\<not> beingDeleted ?t" by (simp_all add: liveObject_def)
  then have "r = Inr ?t" "stored w' = Some ?t" using update_object [OF _ assms(6) _ _ _ u] by auto
  then show ?case
    using live k8s_frame(2) [OF u] assms(5) by (simp add: wp_simps storedAs_def)
qed

text \<open>A pass that creates the tenant, and one that updates it.\<close>

lemma created_matches:
  assumes "createAccepted (buildCreateInput t) new" and "pushable (dt_Spec t)"
  shows "specMatchesAWS (dt_Spec t) new"
proof -
  have "holdsPushed (dt_Spec t) new"
    using assms by (auto simp: createAccepted_def holdsPushed_def buildCreateInput_def Let_def pushable_def
        specToAWSParameters_def split: if_splits)
  then show ?thesis using holdsPushed_matches assms(2) by (simp add: pushable_def)
qed

lemma wp_create_tenant:
  assumes "healthy (world s)"
    and "\<And>s' t'. obj s' = obj s \<Longrightarrow> tenantAt (world s') = (tenantAt (world s))(out_ID t' \<mapsto> t') \<Longrightarrow>
      healthy (world s') \<Longrightarrow> stored (world s') = stored (world s) \<Longrightarrow> createAccepted c t' \<Longrightarrow> Q (Inr (Some t')) s'"
  shows "wp (extern (cf_CreateDistributionTenant (r_CFClient R) c) (CfCreate c)) Q (s :: 'w dtState)"
  unfolding wp_extern
proof (intro allI impI, goal_cases)
  case (1 r w')
  then show ?case using created [OF assms(1) 1] aws_frame(6) [OF 1] by (auto intro!: assms(2))
qed

lemma create_holds:
  assumes "held aws spec [] s" and "plainSpec spec"
  shows "wp (createTenant R) (\<lambda>_ s'. \<exists>i out. i \<noteq> [] \<and> tenantAt (world s') i = Some out \<and>
    specMatchesAWS spec out \<and> storedAs R healthy stored (ns, n) spec i (world s')) s"
  unfolding createTenant_def wp_bind wp_getObj Let_def
proof (rule wp_create_tenant, goal_cases)
  case 1
  then show ?case using assms(1) by (simp add: inHand_def)
next
  case (2 s1 out)
  have o: "dt_Spec (obj s) = spec" using assms(1) by (simp add: inHand_def liveObject_def)
  have "specMatchesAWS spec out" "out_ID out \<noteq> []"
    using created_matches 2(5) assms(2) o by (auto simp: plainSpec_def createAccepted_def)
  moreover have "held ((tenantAt (world s))(out_ID out \<mapsto> out)) spec (out_ID out)
      (s1\<lparr>obj := recordCreated out (obj s1)\<rparr>)"
    using assms(1) 2(1-4) by (simp add: inHand_def recordCreated_def tenantID_def updateStatusFromAWS_def fromStore_def sameObject_def)
  ultimately show ?case
    unfolding sum.case option.case wp_bind wp_modifyObj
    by (intro keeps_then [OF held_condition, unfolded wp_bind] keeps_then [OF held_certificate, unfolded wp_bind]
        held_persist_then wp_event)
      (auto simp: wp_return wp_bind intro!: wp_event)
qed

lemma create_pass:
  assumes "held aws spec [] s" and "plainSpec spec"
    and "\<And>w t. healthy w \<Longrightarrow> liveObject (ns, n) spec t \<Longrightarrow>
      validationErrors t (fst (cf_GetDistributionInfo (r_CFClient R) (spec_DistributionId spec) w)) \<in> {None, Some []}"
  shows "wp (reconcileCreate R) (\<lambda>_ s'. \<exists>i out. i \<noteq> [] \<and> tenantAt (world s') i = Some out \<and>
    specMatchesAWS spec out \<and> storedAs R healthy stored (ns, n) spec i (world s')) s"
  unfolding reconcileCreate_def
proof (rule wp_then [where P = "\<lambda>v s1. v = Proceed \<and> held aws spec [] s1"], goal_cases)
  case 1
  have live: "liveObject (ns, n) spec (obj s)" "healthy (world s)" "dt_Spec (obj s) = spec"
    using assms(1) by (simp_all add: inHand_def liveObject_def)
  show ?case
    unfolding validateSpec_def wp_bind wp_getObj Let_def wp_extern live(3)
  proof (intro allI impI, goal_cases)
    case (1 r w')
    have "validationErrors (obj s) r \<in> {None, Some []}" using assms(3) [OF live(2,1)] 1 by simp
    then show ?case using assms(1) info [OF live(2) 1] aws_frame(4) [OF 1] by (auto simp: wp_simps inHand_def fromStore_def)
  qed
next
  case (2 v s1)
  then have "dt_Spec (obj s1) = spec" by (simp add: inHand_def liveObject_def)
  then have o: "spec_DNS (dt_Spec (obj s1)) = None"
    using assms(2) by (simp add: inHand_def liveObject_def plainSpec_def)
  have "wp (setCondition R ConditionTypeDNSReady ConditionTrue ReasonDNSNotConfigured msgDNSNotConfigured)
      (\<lambda>_ s'. held aws spec [] s') s1"
    using 2 held_condition by (auto simp: keeps_inv_def)
  from wp_mono [OF this create_holds [OF _ assms(2)]] show ?case
    using 2 by (simp add: o wp_bind wp_getObj wp_return)
qed

text \<open>One pass, whatever the object needs.\<close>

lemma convergence_pass:
  assumes "healthy w" and "stored w = Some t" and "liveObject (ns, n) (dt_Spec t) t"
    and "plainSpec (dt_Spec t)" and "r_DriftPolicy R = DriftPolicyEnforce"
    and "\<And>w u. healthy w \<Longrightarrow> liveObject (ns, n) (dt_Spec t) u \<Longrightarrow> validationErrors u
      (fst (cf_GetDistributionInfo (r_CFClient R) (spec_DistributionId (dt_Spec t)) w)) \<in> {None, Some []}"
  shows "wp (Reconcile R ns n)
    (\<lambda>_ s'. closer R tenantAt healthy stored (ns, n) (tenantAt w) t (world s')) (start t0 w cache)"
proof (cases "hasFinalizer R t \<and> tenantID t \<noteq> [] \<and>
    (\<exists>out. tenantAt w (tenantID t) = Some out \<and> \<not> specMatchesAWS (dt_Spec t) out)")
  case True
  then obtain out where t: "hasFinalizer R t" "tenantID t \<noteq> []" "tenantAt w (tenantID t) = Some out"
    "\<not> specMatchesAWS (dt_Spec t) out" by blast
  then have d: "remaining R (tenantAt w) t = 1" by (simp add: remaining_def)
  have l: "\<not> beingDeleted t" "keyOf t = (ns, n)" using assms(3) by (simp_all add: liveObject_def)
  have p: "pushable (dt_Spec t)" "spec_DNS (dt_Spec t) = None" using assms(4) by (simp_all add: plainSpec_def)
  show ?thesis
    by (rule wp_mono [OF Reconcile_settles [OF assms(1,2) l(1) t p assms(5) assms(6) l(2)]])
      (use assms(3) t(1,2) d in \<open>blast intro: settled_closer\<close>)+
next
  case False
  show ?thesis
    unfolding Reconcile_def
  proof (rule wp_then [OF wp_get_object [where Q = "\<lambda>r s'. r = Inr t \<and> tenantAt (world s') = tenantAt w \<and>
        healthy (world s') \<and> stored (world s') = Some t"]], goal_cases)
    case (3 r s')
    let ?s = "s'\<lparr>obj := t\<rparr>" and ?Q = "\<lambda>_ s'. closer R tenantAt healthy stored (ns, n) (tenantAt w) t (world s')"
    have live: "om_DeletionTimestamp (dt_Meta t) = None"
      using assms(3) by (simp add: liveObject_def beingDeleted_def)
    have add: "wp (do {
        modifyObj (updFinalizers (\<lambda>fs. AddFinalizer (r_Meta R) fs FinalizerName));
        t \<leftarrow> getObj;
        u \<leftarrow> extern (k_Update (r_Client R) t) (KUpdate t);
        case u of
          Inl err \<Rightarrow> returns (Fail err)
        | Inr t' \<Rightarrow> do { modifyObj (\<lambda>_. t'); returns (Done (requeueIn second)) } }) ?Q ?s"
      if "\<not> hasFinalizer R t"
      by (rule wp_mono [OF finalizer_pass [OF assms(3) refl that]])
        (use 3 that in \<open>auto intro!: storedAs_closer simp: remaining_def split: option.split\<close>)
    have h: "held (tenantAt w) (dt_Spec t) (tenantID t) ?s" if "hasFinalizer R t"
      using 3 that assms(3) by (simp add: inHand_def fromStore_def sameObject_def)
    have create: "wp (reconcileCreate R) ?Q ?s" if "hasFinalizer R t" "tenantID t = []"
      by (rule wp_mono [OF create_pass [OF h [unfolded that(2)] assms(4,6)]])
        (use that in \<open>auto intro!: storedAs_closer simp: remaining_def\<close>)
    have existing: "wp (reconcileExisting R) ?Q ?s" if "hasFinalizer R t" "tenantID t \<noteq> []"
    proof (rule wp_mono [OF existing_pass [OF h [OF that(1)] assms(4) that(2),
          where j = "if tenantAt w (tenantID t) = None then [] else tenantID t"]])
      show "case tenantAt w (tenantID t) of
          None \<Rightarrow> (if tenantAt w (tenantID t) = None then [] else tenantID t) = []
        | Some out \<Rightarrow> (if tenantAt w (tenantID t) = None then [] else tenantID t) = tenantID t \<and>
            specMatchesAWS (dt_Spec t) out"
        using False that by (auto split: option.split)
    qed (use that False in \<open>auto intro!: storedAs_closer simp: remaining_def split: if_splits option.splits\<close>)
    show ?case
      using 3 add create existing live
      by (simp add: wp_bind wp_modifyObj hasFinalizer_def tenantID_def)
  qed (use assms(2) in \<open>simp_all add: start_def assms(1)\<close>)
qed

text \<open>Several passes: the distance runs out, and AWS stays as it is from then on.\<close>

lemma passes_near:
  assumes "healthy w" and "stored w = Some t" and "liveObject (ns, n) spec t"
    and "remaining R (tenantAt w) t \<le> k"
    and "plainSpec spec" and "r_DriftPolicy R = DriftPolicyEnforce"
    and "\<And>w u. healthy w \<Longrightarrow> liveObject (ns, n) spec u \<Longrightarrow> validationErrors u
      (fst (cf_GetDistributionInfo (r_CFClient R) (spec_DistributionId spec) w)) \<in> {None, Some []}"
  shows "converged R tenantAt healthy stored (ns, n) spec (fst (passes R ns n t0 k (w, cache))) \<and>
    (remaining R (tenantAt w) t = 0 \<longrightarrow> tenantAt (fst (passes R ns n t0 k (w, cache))) = tenantAt w)"
  using assms(1-4)
proof (induction k arbitrary: w t cache)
  case 0
  then show ?case by (auto simp: converged_def)
next
  case (Suc k)
  have s: "dt_Spec t = spec" using Suc.prems(3) by (simp add: liveObject_def)
  show ?case
  proof (rule pass_wp [where P = "closer R tenantAt healthy stored (ns, n) (tenantAt w) t" and
        Q = "\<lambda>x. converged R tenantAt healthy stored (ns, n) spec x \<and>
          (remaining R (tenantAt w) t = 0 \<longrightarrow> tenantAt x = tenantAt w)"], goal_cases)
    case 1
    show ?case by (rule convergence_pass [OF Suc.prems(1,2) _ _ assms(6), unfolded s]) (fact Suc.prems(3) assms(5,7))+
  next
    case (2 w1 cache1)
    show ?case
    proof (rule closerE [OF 2])
      fix t1
      assume t1: "healthy w1" "stored w1 = Some t1" "liveObject (ns, n) (dt_Spec t) t1"
        "remaining R (tenantAt w1) t1 \<le> remaining R (tenantAt w) t - 1"
        "remaining R (tenantAt w) t = 0 \<Longrightarrow> tenantAt w1 = tenantAt w"
      have "remaining R (tenantAt w1) t1 \<le> k" using t1(4) Suc.prems(4) by simp
      note ih = Suc.IH [OF t1(1,2) t1(3) [unfolded s] this, of cache1]
      have "remaining R (tenantAt w1) t1 = 0" if "remaining R (tenantAt w) t = 0" using t1(4) that by simp
      then show ?thesis using ih t1(5) by simp
    qed
  qed
qed

text \<open>Three passes are enough, from any state, and later ones change nothing in AWS.\<close>

lemma converges_and_stays:
  assumes "healthy w" and "stored w = Some t" and "liveObject (ns, n) (dt_Spec t) t"
    and "plainSpec (dt_Spec t)" and "r_DriftPolicy R = DriftPolicyEnforce"
    and "\<And>w. healthy w \<Longrightarrow> validationErrors t (fst (cf_GetDistributionInfo (r_CFClient R)
      (spec_DistributionId (dt_Spec t)) w)) \<in> {None, Some []}"
  shows "converged R tenantAt healthy stored (ns, n) (dt_Spec t) (fst (passes R ns n t0 (3 + k) (w, cache))) \<and>
    tenantAt (fst (passes R ns n t0 (3 + k) (w, cache))) = tenantAt (fst (passes R ns n t0 3 (w, cache)))"
proof -
  have valid: "validationErrors u (fst (cf_GetDistributionInfo (r_CFClient R) (spec_DistributionId (dt_Spec t)) w))
      \<in> {None, Some []}" if "healthy w" "liveObject (ns, n) (dt_Spec t) u" for w u
  proof -
    have "dt_Name u = dt_Name t" "dt_Spec u = dt_Spec t"
      using that(2) assms(3) by (simp_all add: liveObject_def keyOf_def)
    then have "validationErrors u r = validationErrors t r" for r
      by (simp only: validationErrors_def)
    then show ?thesis using assms(6) [OF that(1)] by simp
  qed
  note near = passes_near [OF _ _ _ _ assms(4,5) valid]
  obtain w3 c3 where w3: "passes R ns n t0 3 (w, cache) = (w3, c3)" by fastforce
  from near [OF assms(1-3) remaining_bound, of t0 cache] w3
  obtain t3 where t3: "healthy w3" "stored w3 = Some t3" "liveObject (ns, n) (dt_Spec t) t3"
      "remaining R (tenantAt w3) t3 = 0"
    by (auto simp: converged_def)
  from near [OF t3(1-3), of k t0 c3] t3(4) show ?thesis by (simp add: passes_add w3)
qed

end

lemma convergedE:
  assumes "converged R tenantAt healthy stored key spec w"
  obtains t out where "stored w = Some t" "keyOf t = key" "dt_Spec t = spec" "hasFinalizer R t"
    "tenantID t \<noteq> []" "tenantAt w (tenantID t) = Some out" "specMatchesAWS spec out"
  using assms by (auto simp: converged_def remaining_def liveObject_def split: if_splits option.splits)

text \<open>C2: Convergence: from whatever state of a live object (with or without its finalizer, with or
  without a recorded tenant id, the tenant in AWS matching, different or deleted externally), three
  reconciles make AWS hold a tenant that the comparison accepts for the spec, under the id recorded
  in the stored object, and no later reconcile changes anything in AWS again. The object has no
  managed DNS records and no managed certificate and passes validation, drift is enforced, and
  CloudFront and the API server keep to their contracts.\<close>

theorem operator_converges:
  assumes "operator_world R tenantAt healthy stored ns n" and "healthy w" and "stored w = Some t"
    and "keyOf t = (ns, n)" and "\<not> beingDeleted t"
    and "distinct (map param_Name (spec_Parameters (dt_Spec t)))" and "spec_Enabled (dt_Spec t) \<noteq> None"
    and "spec_DNS (dt_Spec t) = None" and "spec_ManagedCertificateRequest (dt_Spec t) = None"
    and "r_DriftPolicy R = DriftPolicyEnforce"
    and "\<And>w. healthy w \<Longrightarrow> validationErrors t (fst (cf_GetDistributionInfo (r_CFClient R)
      (spec_DistributionId (dt_Spec t)) w)) \<in> {None, Some []}"
    and "w' = fst (passes R ns n t0 (3 + k) (w, cache))"
  shows "\<exists>t' out. stored w' = Some t' \<and> keyOf t' = (ns, n) \<and> dt_Spec t' = dt_Spec t \<and>
    hasFinalizer R t' \<and> tenantID t' \<noteq> [] \<and>
    tenantAt w' (tenantID t') = Some out \<and> specMatchesAWS (dt_Spec t) out \<and>
    tenantAt w' = tenantAt (fst (passes R ns n t0 3 (w, cache)))"
proof -
  have "liveObject (ns, n) (dt_Spec t) t" "plainSpec (dt_Spec t)"
    using assms(4-9) by (simp_all add: liveObject_def plainSpec_def pushable_def)
  then have stays: "converged R tenantAt healthy stored (ns, n) (dt_Spec t) w' \<and>
      tenantAt w' = tenantAt (fst (passes R ns n t0 3 (w, cache)))"
    unfolding assms(12)
    by (rule operator_world.converges_and_stays [OF assms(1-3) _ _ assms(10)]) (rule assms(11))
  show ?thesis by (rule convergedE [OF conjunct1 [OF stays]]) (use stays in blast)
qed

text \<open>A tenant that was deleted externally is recreated.\<close>

theorem operator_converges_witness:
  "\<exists>t out. mw_store (fst (passes (mockReconciler ''enforce'') ''ns'' ''abc'' settled (3 + 2)
      (demoWorld settled None, Map.empty))) = Some t \<and> tenantID t \<noteq> [] \<and>
    m_tenants (mw_cf (fst (passes (mockReconciler ''enforce'') ''ns'' ''abc'' settled (3 + 2)
      (demoWorld settled None, Map.empty)))) (tenantID t) = Some out \<and> out_DistributionId out = ''E1''"
proof -
  let ?R = "mockReconciler ''enforce''" and ?w = "demoWorld settled None"
  have h: "mockHealthy [''E1'' \<mapsto> demoInfo] ?w" "mw_store ?w = Some settled"
    by (simp_all add: demoWorld_def mockHealthy_def noInjectedErrors_def NewMockCloudFrontClient_def)
  have t: "keyOf settled = (''ns'', ''abc'')" "\<not> beingDeleted settled"
    "distinct (map param_Name (spec_Parameters (dt_Spec settled)))" "spec_Enabled (dt_Spec settled) \<noteq> None"
    "spec_DNS (dt_Spec settled) = None" "spec_ManagedCertificateRequest (dt_Spec settled) = None"
    "r_DriftPolicy ?R = DriftPolicyEnforce"
    "spec_DistributionId (dt_Spec settled) = ''E1''" "dt_Name settled = ''abc''"
    by (simp_all add: beingDeleted_def mockReconciler_def keyOf_def demoTenant_def demoMeta_def demoSpec_def)
  have "distInfoErrors (dt_Spec settled) demoInfo = []" by code_simp
  then have v: "validationErrors settled (fst (cf_GetDistributionInfo (r_CFClient ?R)
      (spec_DistributionId (dt_Spec settled)) w)) \<in> {None, Some []}"
    if "mockHealthy [''E1'' \<mapsto> demoInfo] w" for w
    using that demo_name t(8,9)
    by (simp add: mockReconciler_def mockCF_def mockInfo_def mockHealthy_def noInjectedErrors_def
        validationErrors_def Let_def)
  obtain u out where "mw_store (fst (passes ?R ''ns'' ''abc'' settled (3 + 2) (?w, Map.empty))) = Some u"
      "tenantID u \<noteq> []" "m_tenants (mw_cf (fst (passes ?R ''ns'' ''abc'' settled (3 + 2) (?w, Map.empty))))
        (tenantID u) = Some out" "specMatchesAWS (dt_Spec settled) out"
    using operator_converges [OF mock_operator.operator_world_axioms h t(1-7) v refl, of settled 2 Map.empty]
    by blast
  note found = this
  have "out_DistributionId out = ''E1''" using found(4) t(8) by (simp add: specMatchesAWS_conj)
  with found(1-3) show ?thesis by blast
qed

end
