(* ===== verification/AwsContracts.thy ===== *)
theory AwsContracts
  imports AwsClients TenantContracts
begin

text \<open>
  The production clients keep the contracts of the reconciler: over a CloudFront service that
  behaves as AWS documents it, \<open>RealCloudFrontClient\<close> is a store of tenants, so that what is
  proved for sequences of reconciles holds for it; and not-found answers are never misread.
\<close>

section \<open>What is sent comes back\<close>

lemma record_etas [simp]:
  "\<lparr>pin_Name = pin_Name p, pin_Value = pin_Value p\<rparr> = p"
  "\<lparr>waci_Action = waci_Action w, waci_Arn = waci_Arn w\<rparr> = w"
  "\<lparr>certi_Arn = certi_Arn c\<rparr> = c"
  "\<lparr>geoi_RestrictionType = geoi_RestrictionType g, geoi_Locations = geoi_Locations g\<rparr> = g"
  "\<lparr>cusi_WebAcl = cusi_WebAcl x, cusi_Certificate = cusi_Certificate x,
    cusi_GeoRestrictions = cusi_GeoRestrictions x\<rparr> = x"
  by simp_all

lemma customizations_roundtrip [simp]: "fromAWSCustomizations (toAWSCustomizations c) = c"
  by (cases c) (simp_all add: fromAWSCustomizations_def toAWSCustomizations_def option.map_comp
      comp_def option.map_ident)

lemma parameters_roundtrip [simp]:
  "map (\<lambda>p. \<lparr>pin_Name = toString (spa_Name p), pin_Value = toString (spa_Value p)\<rparr>) (sdkParameters ps) = ps"
  by (simp add: sdkParameters_def comp_def)

text \<open>The SDK tenant carries the fields of a request.\<close>

definition sdkHolds ::
  "string option \<Rightarrow> cfDomainItem list \<Rightarrow> string option \<Rightarrow> cfParameter list \<Rightarrow> cfCustomizations option \<Rightarrow>
   cfDistributionTenant \<Rightarrow> bool" where
  "sdkHolds dist domains cg params cus dt \<longleftrightarrow>
     sdt_DistributionId dt = dist \<and>
     map sdr_Domain (sdt_Domains dt) = map sdi_Domain domains \<and>
     (case cg of None \<Rightarrow> True | Some c \<Rightarrow> sdt_ConnectionGroupId dt = Some c) \<and>
     sdt_Parameters dt = params \<and> sdt_Customizations dt = cus"

definition heldAs :: "cfDistributionTenant \<Rightarrow> string \<Rightarrow> DistributionTenantOutput" where
  "heldAs dt etag = the (toDistributionTenantOutput (Some dt) etag)"

lemma heldAs_Some [simp]: "toDistributionTenantOutput (Some dt) etag = Some (heldAs dt etag)"
  by (simp add: heldAs_def toDistributionTenantOutput_def)

lemma heldAs_simps [simp]:
  "out_ID (heldAs dt etag) = toString (sdt_Id dt)" "out_ETag (heldAs dt etag) = etag"
  "out_Enabled (heldAs dt etag) = toBool (sdt_Enabled dt)"
  "out_Name (heldAs dt etag) = toString (sdt_Name dt)"
  "out_Status (heldAs dt etag) = toString (sdt_Status dt)"
  by (simp_all add: heldAs_def toDistributionTenantOutput_def)

lemma toString_Deployed: "toString x = ''Deployed'' \<longleftrightarrow> x = Some ''Deployed''"
  by (cases x) simp_all

lemma heldAs_holds:
  assumes "sdkHolds (Some dist) (sdkDomains ds) cg (sdkParameters ps) (toAWSCustomizations cus) dt"
  shows "out_DistributionId (heldAs dt etag) = dist"
    "map dro_Domain (out_Domains (heldAs dt etag)) = map din_Domain ds"
    "case cg of None \<Rightarrow> True | Some c \<Rightarrow> out_ConnectionGroupId (heldAs dt etag) = c"
    "out_Parameters (heldAs dt etag) = ps" "out_Customizations (heldAs dt etag) = cus"
proof -
  have "map (toString \<circ> sdr_Domain) (sdt_Domains dt) = map toString (map sdi_Domain (sdkDomains ds))"
    using assms by (metis sdkHolds_def map_map)
  then show "map dro_Domain (out_Domains (heldAs dt etag)) = map din_Domain ds"
    by (simp add: heldAs_def toDistributionTenantOutput_def sdkDomains_def comp_def)
qed (use assms in \<open>auto simp: sdkHolds_def heldAs_def toDistributionTenantOutput_def split: option.split\<close>)

section \<open>A CloudFront service\<close>

text \<open>The documented behaviour of the service, on the SDK's level: tenants with their ETags,
  optimistic locking, errors by code. A request may be refused for good, for instance when a domain
  is in use elsewhere. Only disabled tenants are deleted, and one that is not deployed yet may be
  refused like an enabled one.\<close>

definition refusalCodes :: "string list" where
  "refusalCodes = [''CNAMEAlreadyExists'', ''InvalidArgument'', ''AccessDenied'']"

locale cloudfront_service =
  fixes api :: "'w cloudFrontAPI"
    and sdkAt :: "'w \<Rightarrow> string \<Rightarrow> (cfDistributionTenant \<times> string) option"
    and healthy :: "'w \<Rightarrow> bool"
  assumes sdk_get:
      "healthy w \<Longrightarrow> api_GetDistributionTenant api (Some i) w = (r, w') \<Longrightarrow>
         healthy w' \<and> sdkAt w' = sdkAt w \<and>
         (case sdkAt w i of
            None \<Rightarrow> \<exists>e msg. r = Inl e \<and> asAPIError e = Some (''EntityNotFound'', msg)
          | Some (dt, etag) \<Rightarrow> r = Inr \<lparr>sto_DistributionTenant = Some dt, sto_ETag = Some etag\<rparr>)"
    and sdk_create:
      "healthy w \<Longrightarrow> api_CreateDistributionTenant api c w = (r, w') \<Longrightarrow>
         healthy w' \<and> ((\<exists>dt etag i. i \<noteq> [] \<and> sdt_Id dt = Some i \<and> sdt_Name dt = sci_Name c \<and>
           r = Inr \<lparr>sto_DistributionTenant = Some dt, sto_ETag = Some etag\<rparr> \<and>
           sdkHolds (sci_DistributionId c) (sci_Domains c) (sci_ConnectionGroupId c)
             (sci_Parameters c) (sci_Customizations c) dt \<and>
           sdt_Enabled dt = Some (case sci_Enabled c of None \<Rightarrow> True | Some b \<Rightarrow> b) \<and>
           sdkAt w' = (sdkAt w)(i \<mapsto> (dt, etag))) \<or>
           (\<exists>e code msg. r = Inl e \<and> asAPIError e = Some (code, msg) \<and> code \<in> set refusalCodes) \<and>
             sdkAt w' = sdkAt w)"
    and sdk_update:
      "healthy w \<Longrightarrow> sui_Id u = Some i \<Longrightarrow> sdkAt w i = Some (dt, etag) \<Longrightarrow> sui_IfMatch u = Some etag \<Longrightarrow>
         api_UpdateDistributionTenant api u w = (r, w') \<Longrightarrow>
         healthy w' \<and> ((\<exists>dt' etag'. sdt_Id dt' = sdt_Id dt \<and>
           r = Inr \<lparr>sto_DistributionTenant = Some dt', sto_ETag = Some etag'\<rparr> \<and>
           sdkHolds (sui_DistributionId u) (sui_Domains u) (sui_ConnectionGroupId u)
             (sui_Parameters u) (sui_Customizations u) dt' \<and>
           sdt_Enabled dt' = (case sui_Enabled u of None \<Rightarrow> sdt_Enabled dt | Some b \<Rightarrow> Some b) \<and>
           sdkAt w' = (sdkAt w)(i \<mapsto> (dt', etag'))) \<or>
           (\<exists>e code msg. r = Inl e \<and> asAPIError e = Some (code, msg) \<and> code \<in> set refusalCodes) \<and>
             sdkAt w' = sdkAt w)"
    and sdk_update_stale:
      "healthy w \<Longrightarrow> sui_Id u = Some i \<Longrightarrow> sdkAt w i = Some (dt, etag) \<Longrightarrow> sui_IfMatch u \<noteq> Some etag \<Longrightarrow>
         api_UpdateDistributionTenant api u w = (r, w') \<Longrightarrow>
         healthy w' \<and> sdkAt w' = sdkAt w \<and>
         (\<exists>e msg. r = Inl e \<and> asAPIError e = Some (''PreconditionFailed'', msg))"
    and sdk_delete:
      "healthy w \<Longrightarrow> sdkAt w i = Some (dt, etag) \<Longrightarrow>
         api_DeleteDistributionTenant api (Some i) (Some etag) w = (rd, w') \<Longrightarrow>
         healthy w' \<and>
         (sdkAt w' = sdkAt w \<and> (\<exists>e msg. rd = Inl e \<and> asAPIError e = Some (''ResourceNotDisabled'', msg)) \<and>
            (toBool (sdt_Enabled dt) \<or> sdt_Status dt \<noteq> Some ''Deployed'') \<or>
          sdkAt w' = (sdkAt w)(i := None) \<and> rd = Inr () \<and> \<not> toBool (sdt_Enabled dt))"
    and sdk_info:
      "healthy w \<Longrightarrow> api_GetDistribution api d w = (ri, w') \<Longrightarrow> healthy w' \<and> sdkAt w' = sdkAt w"
    and sdk_cert:
      "healthy w \<Longrightarrow> api_GetManagedCertificateDetails api d w = (rc, w') \<Longrightarrow>
         healthy w' \<and> sdkAt w' = sdkAt w"

definition realAt ::
  "('w \<Rightarrow> string \<Rightarrow> (cfDistributionTenant \<times> string) option) \<Rightarrow>
   'w \<Rightarrow> string \<Rightarrow> DistributionTenantOutput option" where
  "realAt sdkAt w i = map_option (\<lambda>(dt, etag). heldAs dt etag) (sdkAt w i)"

lemma andThen_eq: "andThen f onErr onOK w = (r, w') \<longleftrightarrow>
  (\<exists>a. f w = (a, w') \<and> r = (case a of Inl e \<Rightarrow> onErr e | Inr x \<Rightarrow> onOK x))"
  by (auto simp: andThen_def split: prod.split)

lemma classifiedBy_code:
  assumes "asAPIError e = Some (code, msg)" and "awsCodeClass code = Some s"
  shows "errorsIs (Some (classifiedBy classifyAWSError e)) s' \<longleftrightarrow> s' = s"
  using assms by (auto simp: classifiedBy_def classifyAWSError_api wrapSentinel_def)

lemma awsCodes [simp]:
  "awsCodeClass ''EntityNotFound'' = Some ErrNotFound"
  "awsCodeClass ''PreconditionFailed'' = Some ErrPreconditionFailed"
  "awsCodeClass ''ResourceNotDisabled'' = Some ErrResourceNotDisabled"
  "awsCodeClass ''CNAMEAlreadyExists'' = Some ErrDomainConflict"
  "awsCodeClass ''InvalidArgument'' = Some ErrInvalidArgument"
  "awsCodeClass ''AccessDenied'' = Some ErrAccessDenied"
  by code_simp+

text \<open>A refusal is one of the terminal errors of the reconciler.\<close>

lemma refusal_terminal:
  assumes "asAPIError e = Some (code, msg)" and "code \<in> set refusalCodes"
  shows "IsTerminalError (Some (classifiedBy classifyAWSError e))"
proof -
  have "\<exists>s. awsCodeClass code = Some s \<and> s \<in> {ErrDomainConflict, ErrInvalidArgument, ErrAccessDenied}"
    using assms(2) by (auto simp: refusalCodes_def)
  then show ?thesis
    using classifiedBy_code [OF assms(1)] by (auto simp: IsTerminalError_def)
qed

text \<open>Over such a service the client is a store of tenants.\<close>

sublocale cloudfront_service \<subseteq> real_store: cloudfront_store "RealCloudFrontClient api" "realAt sdkAt" healthy
proof (unfold_locales, goal_cases)
  case (1 w i r w')
  then show ?case
    using sdk_get [OF 1(1)]
    by (fastforce simp: RealCloudFrontClient_def realGet_def andThen_eq tenantAnswer_def realAt_def
        IsNotFound_def classifiedBy_code fun_eq_iff split: option.splits)
next
  case (2 w c r w')
  obtain a where a: "api_CreateDistributionTenant api (createInput c) w = (a, w')"
      "r = (case a of Inl e \<Rightarrow> awsFailed e | Inr x \<Rightarrow> tenantAnswer x)"
    using 2(2) by (auto simp: RealCloudFrontClient_def realCreate_def andThen_eq)
  consider (refused) e code msg where "a = Inl e" "asAPIError e = Some (code, msg)" "code \<in> set refusalCodes"
      "sdkAt w' = sdkAt w" "healthy w'"
    | (accepted) dt etag i where "i \<noteq> []" "sdt_Id dt = Some i" "sdt_Name dt = Some (ci_Name c)"
      "a = Inr \<lparr>sto_DistributionTenant = Some dt, sto_ETag = Some etag\<rparr>"
      "sdkHolds (Some (ci_DistributionId c)) (sdkDomains (ci_Domains c)) (ci_ConnectionGroupId c)
        (sdkParameters (ci_Parameters c)) (toAWSCustomizations (ci_Customizations c)) dt"
      "sdt_Enabled dt = Some (case ci_Enabled c of None \<Rightarrow> True | Some b \<Rightarrow> b)"
      "sdkAt w' = (sdkAt w)(i \<mapsto> (dt, etag))" "healthy w'"
    using sdk_create [OF 2(1) a(1)] by (auto simp: createInput_def)
  then show ?case
  proof cases
    case refused
    then show ?thesis
      using a(2) refusal_terminal [OF refused(2,3)] by (simp add: realAt_def fun_eq_iff)
  next
    case (accepted dt etag i)
    have "createAccepted c (heldAs dt etag)"
      using heldAs_holds [OF accepted(5)] accepted(1-3,6) by (simp add: createAccepted_def)
    then show ?thesis
      using a(2) accepted by (auto simp: tenantAnswer_def realAt_def fun_eq_iff)
  qed
next
  case (3 w u t r w')
  then obtain dt etag where t: "sdkAt w (ui_ID u) = Some (dt, etag)" "t = heldAs dt etag"
    by (auto simp: realAt_def)
  obtain a where a: "api_UpdateDistributionTenant api (updateInput u) w = (a, w')"
      "r = (case a of Inl e \<Rightarrow> awsFailed e | Inr x \<Rightarrow> tenantAnswer x)"
    using 3(4) by (auto simp: RealCloudFrontClient_def realUpdate_def andThen_eq)
  have i: "sui_Id (updateInput u) = Some (ui_ID u)" "sui_IfMatch (updateInput u) = Some etag"
    using 3(3) t by (simp_all add: updateInput_def)
  consider (refused) e code msg where "a = Inl e" "asAPIError e = Some (code, msg)" "code \<in> set refusalCodes"
      "sdkAt w' = sdkAt w" "healthy w'"
    | (accepted) dt' etag' where "sdt_Id dt' = sdt_Id dt"
      "a = Inr \<lparr>sto_DistributionTenant = Some dt', sto_ETag = Some etag'\<rparr>"
      "sdkHolds (Some (ui_DistributionId u)) (sdkDomains (ui_Domains u)) (ui_ConnectionGroupId u)
        (sdkParameters (ui_Parameters u)) (toAWSCustomizations (ui_Customizations u)) dt'"
      "sdt_Enabled dt' = (case ui_Enabled u of None \<Rightarrow> sdt_Enabled dt | Some b \<Rightarrow> Some b)"
      "sdkAt w' = (sdkAt w)(ui_ID u \<mapsto> (dt', etag'))" "healthy w'"
    using sdk_update [OF 3(1) i(1) t(1) i(2) a(1)] by (auto simp: updateInput_def)
  then show ?case
  proof cases
    case refused
    then show ?thesis
      using a(2) refusal_terminal [OF refused(2,3)] by (simp add: realAt_def fun_eq_iff)
  next
    case (accepted dt' etag')
    have "updateAccepted u t (heldAs dt' etag')"
      using heldAs_holds [OF accepted(3)] accepted(1,4) t(2) by (simp add: updateAccepted_def split: option.split)
    then show ?thesis
      using a(2) accepted by (auto simp: tenantAnswer_def realAt_def fun_eq_iff)
  qed
next
  case (4 w u t r w')
  then obtain dt etag where t: "sdkAt w (ui_ID u) = Some (dt, etag)" "t = heldAs dt etag"
    by (auto simp: realAt_def)
  have i: "sui_Id (updateInput u) = Some (ui_ID u)" "sui_IfMatch (updateInput u) \<noteq> Some etag"
    using 4(3) t by (simp_all add: updateInput_def)
  show ?case
    using 4(4) sdk_update_stale [OF 4(1) i(1) t(1) i(2)]
    by (fastforce simp: RealCloudFrontClient_def realUpdate_def andThen_eq realAt_def
        IsPreconditionFailed_def classifiedBy_code fun_eq_iff)
next
  case (5 w i t e rd w')
  then obtain dt etag where t: "sdkAt w i = Some (dt, etag)" "t = heldAs dt etag"
    by (auto simp: realAt_def)
  obtain a where a: "api_DeleteDistributionTenant api (Some i) (Some etag) w = (a, w')"
      "rd = (case a of Inl e \<Rightarrow> awsFailed e | Inr x \<Rightarrow> Inr x)"
    using 5(3,4) t(2) by (auto simp: RealCloudFrontClient_def realDelete_def andThen_eq)
  consider (refused) e msg where "a = Inl e" "asAPIError e = Some (''ResourceNotDisabled'', msg)"
      "sdkAt w' = sdkAt w" "toBool (sdt_Enabled dt) \<or> sdt_Status dt \<noteq> Some ''Deployed''"
    | (deleted) "a = Inr ()" "sdkAt w' = (sdkAt w)(i := None)" "\<not> toBool (sdt_Enabled dt)"
    using sdk_delete [OF 5(1) t(1) a(1)] by auto
  then show ?case
  proof cases
    case refused
    have "out_Status t \<noteq> ''Deployed''" if "sdt_Status dt \<noteq> Some ''Deployed''"
      using that t(2) by (simp add: toString_Deployed)
    then show ?thesis
      using a(2) refused t(2) sdk_delete [OF 5(1) t(1) a(1)]
      by (auto simp: realAt_def IsResourceNotDisabled_def classifiedBy_code fun_eq_iff)
  next
    case deleted
    then show ?thesis
      using a(2) t(2) sdk_delete [OF 5(1) t(1) a(1)] by (simp add: realAt_def fun_eq_iff)
  qed
next
  case (6 w d ri w')
  then show ?case
    using sdk_info [OF 6(1)]
    by (auto simp: RealCloudFrontClient_def realInfo_def andThen_eq realAt_def fun_eq_iff)
next
  case (7 w i rc w')
  then show ?case
    using sdk_cert [OF 7(1)]
    by (auto simp: RealCloudFrontClient_def realCert_def andThen_eq realAt_def fun_eq_iff)
qed

context cloudfront_service
begin

lemma client_is_store: "cloudfront_store (RealCloudFrontClient api) (realAt sdkAt) healthy"
  by (rule real_store.cloudfront_store_axioms)

end

text \<open>A service that accepts the requests it is sent, and its client.\<close>

locale accepting_service = cloudfront_service api sdkAt healthy
  for api :: "'w cloudFrontAPI" and sdkAt healthy +
  assumes sdk_accepts_create:
      "healthy w \<Longrightarrow> api_CreateDistributionTenant api c w = (Inl e, w') \<Longrightarrow> False"
    and sdk_accepts_update:
      "healthy w \<Longrightarrow> sui_Id u = Some i \<Longrightarrow> sdkAt w i = Some (dt, etag) \<Longrightarrow> sui_IfMatch u = Some etag \<Longrightarrow>
         api_UpdateDistributionTenant api u w = (Inl e, w') \<Longrightarrow> False"

sublocale accepting_service \<subseteq> real_accepts: accepting_store "RealCloudFrontClient api" "realAt sdkAt" healthy
proof (unfold_locales, goal_cases)
  case (1 w c e w')
  then obtain a where a: "api_CreateDistributionTenant api (createInput c) w = (a, w')"
      "Inl e = (case a of Inl e \<Rightarrow> awsFailed e | Inr x \<Rightarrow> tenantAnswer x)"
    by (auto simp: RealCloudFrontClient_def realCreate_def andThen_eq)
  then show ?case
    using sdk_create [OF 1(1) a(1)] sdk_accepts_create [OF 1(1)] by (cases a) (auto simp: tenantAnswer_def)
next
  case (2 w u t e w')
  then obtain dt etag where t: "sdkAt w (ui_ID u) = Some (dt, etag)" "t = heldAs dt etag"
    by (auto simp: realAt_def)
  obtain a where a: "api_UpdateDistributionTenant api (updateInput u) w = (a, w')"
      "Inl e = (case a of Inl e \<Rightarrow> awsFailed e | Inr x \<Rightarrow> tenantAnswer x)"
    using 2(4) by (auto simp: RealCloudFrontClient_def realUpdate_def andThen_eq)
  have i: "sui_Id (updateInput u) = Some (ui_ID u)" "sui_IfMatch (updateInput u) = Some etag"
    using 2(3) t by (simp_all add: updateInput_def)
  then show ?case
    using a sdk_update [OF 2(1) i(1) t(1) i(2) a(1)] sdk_accepts_update [OF 2(1) i(1) t(1) i(2)]
    by (cases a) (auto simp: tenantAnswer_def)
qed

context accepting_service
begin

lemma client_accepts: "accepting_store (RealCloudFrontClient api) (realAt sdkAt) healthy"
  by (rule real_accepts.accepting_store_axioms)

end

text \<open>Propagation (see \<open>propagation\<close>) as the SDK shows it.\<close>

definition sdkStatusOnly :: "cfDistributionTenant \<times> string \<Rightarrow> cfDistributionTenant \<times> string \<Rightarrow> bool" where
  "sdkStatusOnly x y \<longleftrightarrow> snd y = snd x \<and> (\<exists>s. fst y = (fst x)\<lparr>sdt_Status := s\<rparr>)"

lemma sdkStatusOnly_simps [simp]:
  "sdkStatusOnly x x" "sdkStatusOnly (dt, etag) (dt\<lparr>sdt_Status := s\<rparr>, etag)"
proof -
  have "fst x = (fst x)\<lparr>sdt_Status := sdt_Status (fst x)\<rparr>" by simp
  then show "sdkStatusOnly x x" unfolding sdkStatusOnly_def by blast
qed (auto simp: sdkStatusOnly_def)

locale sdk_propagation =
  fixes sdkAt :: "'w \<Rightarrow> string \<Rightarrow> (cfDistributionTenant \<times> string) option"
    and healthy :: "'w \<Rightarrow> bool"
    and rest :: "'w \<Rightarrow> 'r"
    and env :: "nat \<Rightarrow> 'w \<Rightarrow> 'w"
    and m :: nat
  assumes sdk_step: "healthy w \<Longrightarrow> healthy (env k w) \<and> rest (env k w) = rest w \<and>
      rel_option sdkStatusOnly (sdkAt w i) (sdkAt (env k w) i)"
    and sdk_deployed: "healthy w \<Longrightarrow> sdkAt (env m w) i = Some (dt, etag) \<Longrightarrow> sdt_Status dt = Some ''Deployed''"

lemma held_status_only:
  "sdkStatusOnly x y \<Longrightarrow> statusOnly (case x of (dt, etag) \<Rightarrow> heldAs dt etag) (case y of (dt, etag) \<Rightarrow> heldAs dt etag)"
  by (cases x, cases y) (auto simp: sdkStatusOnly_def statusOnly_def heldAs_def toDistributionTenantOutput_def)

sublocale sdk_propagation \<subseteq> held: propagation "realAt sdkAt" healthy rest env m
proof (unfold_locales, goal_cases)
  case (1 w k i)
  have "rel_option statusOnly (realAt sdkAt w i) (realAt sdkAt (env k w) i)"
    unfolding realAt_def option.rel_map
    by (rule option.rel_mono_strong [OF conjunct2 [OF conjunct2 [OF sdk_step [OF 1]]]]) (rule held_status_only)
  then show ?case using sdk_step [OF 1] by blast
next
  case (2 w i t)
  then show ?case using sdk_deployed by (auto simp: realAt_def)
qed

context sdk_propagation
begin

lemma held_propagation: "propagation (realAt sdkAt) healthy rest env m"
  by (rule held.propagation_axioms)

end

text \<open>A service that answers without an error answers with a tenant.\<close>

locale answering_service =
  fixes api :: "'w cloudFrontAPI"
  assumes tenant_given:
      "fst (api_CreateDistributionTenant api c w) = Inr out \<Longrightarrow> sto_DistributionTenant out \<noteq> None"
      "fst (api_GetDistributionTenant api i w) = Inr out \<Longrightarrow> sto_DistributionTenant out \<noteq> None"
      "fst (api_UpdateDistributionTenant api u w) = Inr out \<Longrightarrow> sto_DistributionTenant out \<noteq> None"

lemma tenantAnswer_some:
  "sto_DistributionTenant out \<noteq> None \<Longrightarrow> tenantAnswer out \<noteq> Inr None"
  by (auto simp: tenantAnswer_def)

lemma andThen_answer:
  assumes "\<And>a. fst (f w) = Inr a \<Longrightarrow> onOK a \<noteq> Inr None" and "\<And>e. onErr e \<noteq> Inr None"
  shows "fst (andThen f onErr onOK w) \<noteq> Inr None"
  using assms by (auto simp: andThen_def split: prod.split sum.split)

sublocale answering_service \<subseteq> real_answers: answering_cloudfront "RealCloudFrontClient api"
proof (unfold_locales, goal_cases)
  case (1 inp w)
  have "fst (realCreate api inp w) \<noteq> Inr None"
    unfolding realCreate_def by (rule andThen_answer, rule tenantAnswer_some, erule tenant_given) simp
  then show ?case by (simp add: RealCloudFrontClient_def)
next
  case (2 i w)
  have "fst (realGet api i w) \<noteq> Inr None"
    unfolding realGet_def by (rule andThen_answer, rule tenantAnswer_some, erule tenant_given) simp
  then show ?case by (simp add: RealCloudFrontClient_def)
next
  case (3 u w)
  have "fst (realUpdate api u w) \<noteq> Inr None"
    unfolding realUpdate_def by (rule andThen_answer, rule tenantAnswer_some, erule tenant_given) simp
  then show ?case by (simp add: RealCloudFrontClient_def)
next
  case (4 d w)
  have "fst (realInfo api d w) \<noteq> Inr None"
    unfolding realInfo_def
    by (rule andThen_answer) (auto simp: realDistributionInfo_def split: option.splits)
  then show ?case by (simp add: RealCloudFrontClient_def)
qed

section \<open>An executable service\<close>

text \<open>A service that keeps tenants in a map and echoes requests, with version numbers as ETags. An
  update is in progress until it has propagated (\<open>echoDeployed\<close>), and until then the tenant cannot be
  deleted.\<close>

record sdkWorld =
  sd_tenants :: "string \<rightharpoonup> cfDistributionTenant \<times> string"
  sd_version :: nat

definition sdkError :: "string \<Rightarrow> go_error" where
  "sdkError code = ApiError code ''refused'' (code @ '': refused'')"

definition echoDomains :: "cfDomainItem list \<Rightarrow> cfDomainResult list" where
  "echoDomains = map (\<lambda>d. \<lparr>sdr_Domain = sdi_Domain d, sdr_Status = ''active''\<rparr>)"

definition echoAnswer ::
  "string \<Rightarrow> cfDistributionTenant \<Rightarrow> sdkWorld \<Rightarrow> (go_error + cfTenantOutput) \<times> sdkWorld" where
  "echoAnswer i dt w =
     (let etag = showNat (sd_version w) in
      (Inr \<lparr>sto_DistributionTenant = Some dt, sto_ETag = Some etag\<rparr>,
       \<lparr>sd_tenants = (sd_tenants w)(i \<mapsto> (dt, etag)), sd_version = Suc (sd_version w)\<rparr>))"

definition echoCreated :: "cfCreateInput \<Rightarrow> string \<Rightarrow> cfDistributionTenant" where
  "echoCreated c i =
     \<lparr>sdt_Id = Some i, sdt_Arn = None, sdt_DistributionId = sci_DistributionId c,
      sdt_Name = sci_Name c, sdt_Status = Some ''InProgress'',
      sdt_Enabled = Some (case sci_Enabled c of None \<Rightarrow> True | Some b \<Rightarrow> b),
      sdt_ConnectionGroupId = sci_ConnectionGroupId c, sdt_CreatedTime = None,
      sdt_LastModifiedTime = None, sdt_Domains = echoDomains (sci_Domains c),
      sdt_Parameters = sci_Parameters c, sdt_Customizations = sci_Customizations c\<rparr>"

definition echoCreate :: "cfCreateInput \<Rightarrow> (sdkWorld, cfTenantOutput) call" where
  "echoCreate c w =
     (let i = ''dt_'' @ showNat (sd_version w) in echoAnswer i (echoCreated c i) w)"

definition echoUpdated :: "cfUpdateInput \<Rightarrow> cfDistributionTenant \<Rightarrow> cfDistributionTenant" where
  "echoUpdated u dt =
     dt\<lparr>sdt_DistributionId := sui_DistributionId u, sdt_Status := Some ''InProgress'',
       sdt_Enabled := (case sui_Enabled u of None \<Rightarrow> sdt_Enabled dt | Some b \<Rightarrow> Some b),
       sdt_ConnectionGroupId := sui_ConnectionGroupId u,
       sdt_Domains := echoDomains (sui_Domains u), sdt_Parameters := sui_Parameters u,
       sdt_Customizations := sui_Customizations u\<rparr>"

definition echoGet :: "string option \<Rightarrow> (sdkWorld, cfTenantOutput) call" where
  "echoGet i w = (case sd_tenants w (toString i) of
     None \<Rightarrow> (Inl (sdkError ''EntityNotFound''), w)
   | Some (dt, etag) \<Rightarrow> (Inr \<lparr>sto_DistributionTenant = Some dt, sto_ETag = Some etag\<rparr>, w))"

definition echoUpdate :: "cfUpdateInput \<Rightarrow> (sdkWorld, cfTenantOutput) call" where
  "echoUpdate u w = (case sd_tenants w (toString (sui_Id u)) of
     None \<Rightarrow> (Inl (sdkError ''EntityNotFound''), w)
   | Some (dt, etag) \<Rightarrow>
       if sui_IfMatch u \<noteq> Some etag then (Inl (sdkError ''PreconditionFailed''), w)
       else echoAnswer (toString (sui_Id u)) (echoUpdated u dt) w)"

definition echoDelete :: "string option \<Rightarrow> string option \<Rightarrow> (sdkWorld, unit) call" where
  "echoDelete i ifMatch w = (case sd_tenants w (toString i) of
     None \<Rightarrow> (Inl (sdkError ''EntityNotFound''), w)
   | Some (dt, etag) \<Rightarrow>
       if ifMatch \<noteq> Some etag then (Inl (sdkError ''PreconditionFailed''), w)
       else if toBool (sdt_Enabled dt) \<or> sdt_Status dt \<noteq> Some ''Deployed'' then (Inl (sdkError ''ResourceNotDisabled''), w)
       else (Inr (), w\<lparr>sd_tenants := (sd_tenants w)(toString i := None)\<rparr>))"

definition echoDeployed :: "sdkWorld \<Rightarrow> sdkWorld" where
  "echoDeployed w = w\<lparr>sd_tenants := map_option (map_prod (\<lambda>dt. dt\<lparr>sdt_Status := Some ''Deployed''\<rparr>) id) \<circ>
     sd_tenants w\<rparr>"

definition echoAPI :: "sdkWorld cloudFrontAPI" where
  "echoAPI =
     \<lparr>api_CreateDistributionTenant = echoCreate, api_GetDistributionTenant = echoGet,
      api_UpdateDistributionTenant = echoUpdate, api_DeleteDistributionTenant = echoDelete,
      api_GetDistribution = (\<lambda>d w. (Inl (sdkError ''NoSuchDistribution''), w)),
      api_GetManagedCertificateDetails = (\<lambda>i w. (Inr None, w)),
      api_GetConnectionGroup = (\<lambda>i w. (Inl (sdkError ''EntityNotFound''), w)),
      api_ListConnectionGroups = (\<lambda>w. (Inr (Some []), w))\<rparr>"

lemma echoDomains_names: "map sdr_Domain (echoDomains ds) = map sdi_Domain ds"
  by (simp add: echoDomains_def comp_def)

lemma echoCreated_holds:
  "sdkHolds (sci_DistributionId c) (sci_Domains c) (sci_ConnectionGroupId c) (sci_Parameters c)
     (sci_Customizations c) (echoCreated c i)"
  "sdt_Enabled (echoCreated c i) = Some (case sci_Enabled c of None \<Rightarrow> True | Some b \<Rightarrow> b)"
  "sdt_Id (echoCreated c i) = Some i" "sdt_Name (echoCreated c i) = sci_Name c"
  by (simp_all add: echoCreated_def sdkHolds_def echoDomains_names split: option.split)

lemma echoUpdated_holds:
  "sdkHolds (sui_DistributionId u) (sui_Domains u) (sui_ConnectionGroupId u) (sui_Parameters u)
     (sui_Customizations u) (echoUpdated u dt)"
  "sdt_Enabled (echoUpdated u dt) = (case sui_Enabled u of None \<Rightarrow> sdt_Enabled dt | Some b \<Rightarrow> Some b)"
  "sdt_Id (echoUpdated u dt) = sdt_Id dt"
  by (simp_all add: echoUpdated_def sdkHolds_def echoDomains_names split: option.split)

lemmas echo_defs = echoAPI_def echoCreate_def echoGet_def echoUpdate_def echoDelete_def
  echoAnswer_def sdkError_def Let_def

interpretation echo: accepting_service echoAPI sd_tenants "\<lambda>_. True"
proof (unfold_locales, goal_cases)
  case (2 w c r w')
  let ?i = "''dt_'' @ showNat (sd_version w)"
  have "r = Inr \<lparr>sto_DistributionTenant = Some (echoCreated c ?i), sto_ETag = Some (showNat (sd_version w))\<rparr>"
    "sd_tenants w' = (sd_tenants w)(?i \<mapsto> (echoCreated c ?i, showNat (sd_version w)))"
    using 2(2) by (auto simp: echo_defs)
  then show ?case
    using echoCreated_holds by (intro conjI TrueI exI [of _ "echoCreated c ?i"]
        exI [of _ "showNat (sd_version w)"] exI [of _ ?i]) simp_all
next
  case (3 w u i dt etag r w')
  have "r = Inr \<lparr>sto_DistributionTenant = Some (echoUpdated u dt), sto_ETag = Some (showNat (sd_version w))\<rparr>"
    "sd_tenants w' = (sd_tenants w)(i \<mapsto> (echoUpdated u dt, showNat (sd_version w)))"
    using 3 by (auto simp: echo_defs)
  then show ?case
    using echoUpdated_holds by (intro conjI TrueI exI [of _ "echoUpdated u dt"]
        exI [of _ "showNat (sd_version w)"]) simp_all
qed (auto simp: echo_defs split: option.splits if_splits)

interpretation echo_answers: answering_service echoAPI
  by unfold_locales (auto simp: echo_defs split: option.splits prod.splits if_splits)

section \<open>Properties of the production clients\<close>

text \<open>C9: The production CloudFront client refines the store the reconciler is proved against: over
  a service that keeps tenants under optimistic locking, may refuse a creation or an update for good
  (a domain in use, an invalid argument, missing permissions), and deletes disabled tenants, possibly
  only once they are deployed, the calls of the client are the operations of \<open>cloudfront_store\<close>, with the
  SDK's errors turned into the sentinels the reconciler branches on: a refusal is terminal, a stale
  ETag a failed precondition, a deletion that comes too early a tenant that is not disabled.\<close>

theorem real_client_is_store:
  assumes "cloudfront_service api sdkAt healthy"
  shows "cloudfront_store (RealCloudFrontClient api) (realAt sdkAt) healthy"
  by (rule cloudfront_service.client_is_store [OF assms])

theorem real_client_is_store_witness:
  "cloudfront_store (RealCloudFrontClient echoAPI) (realAt sd_tenants) (\<lambda>_. True)"
  by (rule real_client_is_store [OF echo.cloudfront_service_axioms])

text \<open>C10: Round trip from spec to comparison: a tenant that CloudFront reports with the fields of the
  creation request that was sent for an object is recognised as in sync with the object's spec
  (the request's conversions and the response's conversions are inverse to each other as far as
  the comparison sees).\<close>

theorem created_tenant_is_in_sync:
  assumes "sdkHolds (sci_DistributionId req) (sci_Domains req) (sci_ConnectionGroupId req)
      (sci_Parameters req) (sci_Customizations req) dt"
    and "sdt_Enabled dt = Some (case sci_Enabled req of None \<Rightarrow> True | Some b \<Rightarrow> b)"
    and "req = createInput (buildCreateInput t)"
    and "distinct (map param_Name (spec_Parameters (dt_Spec t)))"
  shows "toDistributionTenantOutput (Some dt) etag = Some (heldAs dt etag) \<and>
    specMatchesAWS (dt_Spec t) (heldAs dt etag)"
proof -
  have h: "sdkHolds (Some (spec_DistributionId (dt_Spec t)))
      (sdkDomains (specToAWSDomains (spec_Domains (dt_Spec t)))) (spec_ConnectionGroupId (dt_Spec t))
      (sdkParameters (specToAWSParameters (spec_Parameters (dt_Spec t))))
      (toAWSCustomizations (map_option specToAWSCustomizations (spec_Customizations (dt_Spec t)))) dt"
    using assms(1,3) by (simp add: createInput_def)
  have "holdsPushed (dt_Spec t) (heldAs dt etag)"
    using heldAs_holds [OF h] assms(2,3) by (simp add: holdsPushed_def createInput_def)
  then show ?thesis using holdsPushed_matches assms(4) by simp
qed

theorem created_tenant_is_in_sync_witness:
  "specMatchesAWS (dt_Spec fresh) (heldAs (fst (the (sd_tenants (snd (echoCreate
     (createInput (buildCreateInput fresh)) \<lparr>sd_tenants = Map.empty, sd_version = 0\<rparr>)) ''dt_0''))) ''v'')"
proof -
  let ?req = "createInput (buildCreateInput fresh)"
  let ?dt = "fst (the (sd_tenants (snd (echoCreate ?req \<lparr>sd_tenants = Map.empty, sd_version = 0\<rparr>)) ''dt_0''))"
  have z: "showNat 0 = ''0''" by code_simp
  have "sdkHolds (sci_DistributionId ?req) (sci_Domains ?req) (sci_ConnectionGroupId ?req)
      (sci_Parameters ?req) (sci_Customizations ?req) ?dt"
    "sdt_Enabled ?dt = Some (case sci_Enabled ?req of None \<Rightarrow> True | Some b \<Rightarrow> b)"
    using echoCreated_holds by (simp_all add: echo_defs z)
  from created_tenant_is_in_sync [OF this refl] show ?thesis
    by (simp add: demoTenant_def demoSpec_def)
qed

text \<open>Not-found answers of auxiliary resources are never mistaken for a tenant that is gone: the
  certificate details, the connection groups and the DNS deletion never answer an error the
  reconciler reads as NotFound. A missing certificate is no certificate, a missing connection
  group is terminal, a missing DNS record counts as deleted.\<close>

theorem not_found_is_never_misread:
  "(case fst (realCert api i w) of Inl e \<Rightarrow> \<not> IsNotFound (Some e) | Inr _ \<Rightarrow> True) \<and>
   (case fst (realEndpoint api cg w) of Inl e \<Rightarrow> \<not> IsNotFound (Some e) | Inr _ \<Rightarrow> True) \<and>
   (case fst (DeleteCNAMERecords r53 input w) of Inl e \<Rightarrow> \<not> IsNotFound (Some e) | Inr _ \<Rightarrow> True) \<and>
   IsTerminalError (Some (noEndpoint msg))"
proof -
  have c: "IsNotFound (Some (classifiedBy classifyAWSError e)) = IsNotFound (classifyAWSError (Some e))"
    "IsNotFound (Some (classifiedBy classifyRoute53Error e)) = IsNotFound (classifyRoute53Error (Some e))"
    for e
    by (auto simp: classifiedBy_def split: option.split)
  have n: "\<not> IsNotFound (Some (noEndpoint m))" "IsTerminalError (Some (noEndpoint m))" for m
    by (simp_all add: noEndpoint_def IsNotFound_def IsTerminalError_def)
  show ?thesis
    by (simp add: realCert_def realEndpoint_def DeleteCNAMERecords_def andThen_def c n
        split: prod.split sum.split option.split)
qed

text \<open>The default connection group is the first one that is marked as the default: its routing
  endpoint is the answer, and every failure to find one is the terminal
  \<open>ErrConnectionGroupNotFound\<close>.\<close>

theorem default_endpoint_is_first_default:
  "defaultEndpoint cgs =
    (case dropWhile (\<lambda>cg. scg_IsDefault cg \<noteq> Some True) cgs of
       cg # _ \<Rightarrow> (case scg_RoutingEndpoint cg of
           Some ep \<Rightarrow> Inr ep
         | None \<Rightarrow> Inl (noEndpoint ''default connection group has no routing endpoint''))
     | [] \<Rightarrow> Inl (noEndpoint ''no default connection group found in account'')) \<and>
   (case defaultEndpoint cgs of Inl e \<Rightarrow> errorsIs (Some e) ErrConnectionGroupNotFound | Inr _ \<Rightarrow> True)"
  by (induction cgs) (auto simp: noEndpoint_def split: option.split)

end
