(* ===== verification/Collector.thy ===== *)
theory Collector
  imports Runtime SourceTypes
begin

text \<open>
  The Prometheus collector of \<open>internal/metrics/tenant_collector.go\<close>: at every scrape it lists
  the DistributionTenants from the cache and emits one gauge per namespace and readiness, the
  number of the tenants counted under it. The theorem at the end says what the gauges are.

  The counters are \<open>float64\<close> in the code, which is exact up to \<open>2 ^ 53\<close>; here they are natural
  numbers. The registration of the metrics is Prometheus' own.
\<close>

section \<open>Collect\<close>

record 'w TenantCollector =
  tc_Meta :: Apimachinery
  tc_List :: "('w, DistributionTenant list) call"

text \<open>A constant metric, with the values of its two labels.\<close>

record gauge =
  g_namespace :: string
  g_status :: string
  g_value :: nat

definition readinessOf :: "Apimachinery \<Rightarrow> DistributionTenant \<Rightarrow> string" where
  "readinessOf M t =
     (case FindStatusCondition M (st_Conditions (dt_Status t)) ConditionTypeReady of
        None \<Rightarrow> ''NotReady''
      | Some cond \<Rightarrow> if cond_Status cond = ConditionTrue then ''Ready'' else ''NotReady'')"

definition nsStatus :: "Apimachinery \<Rightarrow> DistributionTenant \<Rightarrow> string \<times> string" where
  "nsStatus M t = (om_Namespace (dt_Meta t), readinessOf M t)"

text \<open>\<open>counts[k]++\<close>: a missing key counts from zero.\<close>

definition incr :: "'k \<Rightarrow> ('k \<times> nat) list \<Rightarrow> ('k \<times> nat) list" where
  "incr k counts = AList.update k (case map_of counts k of None \<Rightarrow> 1 | Some n \<Rightarrow> Suc n) counts"

definition countTenants :: "Apimachinery \<Rightarrow> DistributionTenant list \<Rightarrow> ((string \<times> string) \<times> nat) list" where
  "countTenants M ts = fold (\<lambda>t. incr (nsStatus M t)) ts []"

definition Collect ::
  "'w TenantCollector \<Rightarrow> (((string \<times> string) \<times> nat) list \<Rightarrow> ((string \<times> string) \<times> nat) list) \<Rightarrow>
   'w \<Rightarrow> gauge list \<times> 'w" where
  "Collect c rng w = (case tc_List c w of
     (Inl e, w') \<Rightarrow> ([], w')
   | (Inr tenants, w') \<Rightarrow>
       (map (\<lambda>((ns, status), v). \<lparr>g_namespace = ns, g_status = status, g_value = v\<rparr>)
          (rng (countTenants (tc_Meta c) tenants)), w'))"

section \<open>Counting\<close>

lemma incr_counts:
  "map_of (fold incr ks m) k =
     (case (map_of m k, count_list ks k) of
        (None, 0) \<Rightarrow> None | (None, n) \<Rightarrow> Some n | (Some v, n) \<Rightarrow> Some (v + n))"
proof (induction ks arbitrary: m)
  case Nil
  then show ?case by (simp split: option.split)
next
  case (Cons a ks)
  then show ?case by (simp add: incr_def update_conv' split: option.split nat.split)
qed

lemma incr_distinct: "distinct (map fst m) \<Longrightarrow> distinct (map fst (fold incr ks m))"
  by (induction ks arbitrary: m) (simp_all add: incr_def distinct_update)

lemma countTenants_fold: "countTenants M ts = fold incr (map (nsStatus M) ts) []"
  by (simp add: countTenants_def fold_map comp_def)

lemma countTenants_distinct: "distinct (map fst (countTenants M ts))"
  by (simp add: countTenants_fold incr_distinct)

lemma countTenants_mem:
  "(k, v) \<in> set (countTenants M ts) \<longleftrightarrow> v = count_list (map (nsStatus M) ts) k \<and> 0 < v"
proof -
  have "(k, v) \<in> set (countTenants M ts) \<longleftrightarrow> map_of (countTenants M ts) k = Some v"
    by (simp only: map_of_eq_Some_iff [OF countTenants_distinct])
  then show ?thesis by (auto simp: countTenants_fold incr_counts split: nat.splits)
qed

lemma distinct_of_map: "distinct (map f xs) \<Longrightarrow> distinct xs"
  by (simp only: distinct_map)

lemma countTenants_sum: "sum_list (map snd (countTenants M ts)) = length ts"
proof -
  let ?m = "countTenants M ts" and ?ks = "map (nsStatus M) ts"
  have "distinct ?m" using countTenants_distinct by (rule distinct_of_map)
  then have "sum_list (map snd ?m) = (\<Sum>x \<in> set ?m. snd x)" by (rule sum_list_distinct_conv_sum_set)
  also have "\<dots> = (\<Sum>k \<in> fst ` set ?m. count_list ?ks k)"
    using countTenants_distinct [of M ts]
    by (subst sum.reindex) (auto simp: distinct_map countTenants_mem intro!: sum.cong)
  also have "\<dots> = length ?ks"
  proof (rule sum_count_set)
    show "set ?ks \<subseteq> fst ` set ?m"
    proof
      fix k
      assume "k \<in> set ?ks"
      then have "0 < count_list ?ks k" by (metis count_list_0_iff gr0I)
      then have "(k, count_list ?ks k) \<in> set ?m" by (simp only: countTenants_mem simp_thms)
      then show "k \<in> fst ` set ?m" by (rule image_eqI [rotated]) simp
    qed
  qed simp
  finally show ?thesis by simp
qed

text \<open>What a gauge of a scrape says, whatever the order of the range.\<close>

definition isReady :: "Apimachinery \<Rightarrow> DistributionTenant \<Rightarrow> bool" where
  "isReady M t \<longleftrightarrow> map_option cond_Status
     (FindStatusCondition M (st_Conditions (dt_Status t)) ''Ready'') = Some ConditionTrue"

definition gaugeOf :: "(string \<times> string) \<times> nat \<Rightarrow> gauge" where
  "gaugeOf = (\<lambda>((ns, status), v). \<lparr>g_namespace = ns, g_status = status, g_value = v\<rparr>)"

lemma nsStatus_iff:
  "nsStatus M t = (ns, st) \<longleftrightarrow>
     om_Namespace (dt_Meta t) = ns \<and> st \<in> {''Ready'', ''NotReady''} \<and> (isReady M t \<longleftrightarrow> st = ''Ready'')"
  by (auto simp: nsStatus_def readinessOf_def isReady_def split: option.split)

lemma count_key: "count_list (map f ts) k = length (filter (\<lambda>t. f t = k) ts)"
  by (induction ts) auto

lemma gauge_mem:
  assumes "map_range rng"
  shows "\<lparr>g_namespace = ns, g_status = st, g_value = v\<rparr> \<in> gaugeOf ` set (rng (countTenants M ts)) \<longleftrightarrow>
    0 < v \<and> st \<in> {''Ready'', ''NotReady''} \<and>
    v = length (filter (\<lambda>t. om_Namespace (dt_Meta t) = ns \<and> (isReady M t \<longleftrightarrow> st = ''Ready'')) ts)"
proof -
  have "\<lparr>g_namespace = ns, g_status = st, g_value = v\<rparr> \<in> gaugeOf ` set (rng (countTenants M ts)) \<longleftrightarrow>
      ((ns, st), v) \<in> set (rng (countTenants M ts))"
    by (force simp: gaugeOf_def image_iff)
  also have "\<dots> \<longleftrightarrow> 0 < v \<and> v = length (filter (\<lambda>t. nsStatus M t = (ns, st)) ts)"
    unfolding map_range.set_range [OF assms] countTenants_mem count_key by blast
  finally show ?thesis
    by (cases "st \<in> {''Ready'', ''NotReady''}") (simp_all add: nsStatus_iff, linarith)
qed

text \<open>C38: The gauges of a scrape partition the tenants: no label pair is emitted twice (which the
  registry would refuse), each gauge is the positive number of tenants in its namespace that are
  ready or not ready, every tenant is counted under exactly one of them so that they add up to the
  number of tenants, whatever the order in which the map is ranged over; and a listing that fails
  emits nothing rather than zeros.\<close>

theorem gauges_partition_tenants:
  assumes "map_range rng" and "Collect c rng w = (gs, w')"
  shows "case tc_List c w of
      (Inl e, _) \<Rightarrow> gs = []
    | (Inr ts, _) \<Rightarrow>
        distinct (map (\<lambda>g. (g_namespace g, g_status g)) gs) \<and>
        (\<forall>ns st v. \<lparr>g_namespace = ns, g_status = st, g_value = v\<rparr> \<in> set gs \<longleftrightarrow>
           0 < v \<and> st \<in> {''Ready'', ''NotReady''} \<and>
           v = length (filter (\<lambda>t. om_Namespace (dt_Meta t) = ns \<and>
             ((map_option cond_Status (FindStatusCondition (tc_Meta c) (st_Conditions (dt_Status t))
               ''Ready'') = Some ConditionTrue) \<longleftrightarrow> st = ''Ready'')) ts)) \<and>
        sum_list (map g_value gs) = length ts"
proof (cases "tc_List c w")
  case (Pair r w1)
  show ?thesis
  proof (cases r)
    case (Inl e)
    then show ?thesis using assms(2) Pair by (simp add: Collect_def)
  next
    case (Inr ts)
    let ?m = "rng (countTenants (tc_Meta c) ts)"
    have gs: "gs = map gaugeOf ?m" using assms(2) Pair Inr by (simp add: Collect_def gaugeOf_def)
    have labels: "map (\<lambda>g. (g_namespace g, g_status g)) gs = map fst ?m"
      and vals: "map g_value gs = map snd ?m"
      unfolding gs by (auto simp: gaugeOf_def case_prod_beta)
    have "distinct (map fst ?m)"
      by (rule map_range.distinct_range [OF assms(1) countTenants_distinct])
    moreover have "sum_list (map snd ?m) = length ts"
      using map_range.visits_all [OF assms(1), of "countTenants (tc_Meta c) ts"]
        countTenants_sum [of "tc_Meta c" ts]
      by (metis mset_map sum_mset_sum_list)
    ultimately show ?thesis
      using gauge_mem [OF assms(1), of _ _ _ "tc_Meta c" ts]
      unfolding Pair Inr prod.case sum.case labels vals unfolding gs set_map isReady_def by blast
  qed
qed

definition listingCollector :: "DistributionTenant list TenantCollector" where
  "listingCollector = \<lparr>tc_Meta = metaRef (\<lambda>_. None), tc_List = (\<lambda>w. (Inr w, w))\<rparr>"

definition plainTenant :: DistributionTenant where
  "plainTenant =
     \<lparr>dt_Meta = \<lparr>om_Name = ''t'', om_Namespace = ''ns'', om_UID = ''u'', om_Generation = 1,
        om_DeletionTimestamp = None, om_Finalizers = [], om_Labels = [], om_OwnerReferences = []\<rparr>,
      dt_Spec = \<lparr>spec_DistributionId = ''E1'', spec_Domains = [], spec_Enabled = None,
        spec_ConnectionGroupId = None, spec_Parameters = [], spec_Customizations = None,
        spec_ManagedCertificateRequest = None, spec_Tags = [], spec_DNS = None\<rparr>,
      dt_Status = \<lparr>st_ObservedGeneration = 0, st_ID = [], st_Arn = [], st_ETag = [],
        st_DistributionTenantStatus = [], st_CreatedTime = None, st_LastModifiedTime = None,
        st_DomainResults = [], st_CertificateArn = [], st_ManagedCertificateStatus = [],
        st_LastDriftCheckTime = None, st_DriftDetected = False, st_DNSChangeId = [],
        st_DNSTarget = [], st_Conditions = []\<rparr>\<rparr>"

text \<open>Without tenants there is no gauge, and the gauges add up to one for one tenant.\<close>

theorem gauges_partition_tenants_witness:
  "sum_list (map g_value (fst (Collect listingCollector rev [plainTenant]))) = 1 \<and>
   fst (Collect listingCollector rev []) = []"
proof -
  have r: "(fst (Collect listingCollector rev w), snd (Collect listingCollector rev w)) =
      Collect listingCollector rev w" for w
    by simp
  note gauges = gauges_partition_tenants [OF reverse_order.map_range_axioms r [symmetric]]
  show ?thesis
    using gauges [of "[plainTenant]"] gauges [of "[]"]
    by (simp add: listingCollector_def Collect_def countTenants_def)
qed

end
