(* ===== verification/Operator.thy ===== *)
theory Operator
  imports SourceSync DynamoOutcomes TenantConvergence AwsContracts Collector
begin

text \<open>
  The operator as \<open>cmd/main.go\<close> puts it together: the production clients are built over the SDK,
  and the two reconcilers and the collector are wired to them and to the manager's client. What the SDK and the manager provide is the record \<open>services\<close>; the locale
  \<open>operator_platform\<close> says what is assumed of it, and the operator so wired meets the
  hypotheses under which the reconcilers are proved.

  The flags, the manager and the order of the calls that start the operator are in \<open>Startup\<close>.
\<close>

section \<open>Wiring\<close>

record 'w services =
  sv_CloudFront :: "'w cloudFrontAPI"
  sv_ACM :: "'w acmAPI"
  sv_Route53 :: "string option \<Rightarrow> 'w route53API"
  sv_DynamoDB :: "string option \<Rightarrow> 'w dynamoDBAPI"
  sv_Apim :: Apimachinery
  sv_TenantClient :: "'w K8sClient"
  sv_SourceClient :: "'w SourceClient"
  sv_ListAll :: "('w, DistributionTenant list) call"
  sv_SetOwnerReference :: "TenantSource \<Rightarrow> DistributionTenant \<Rightarrow> go_error + DistributionTenant"
  sv_Now :: "'w \<Rightarrow> gotime \<times> 'w"
  sv_Order :: RangeOrder

text \<open>The credentials of the role are assumed through STS when there is one.\<close>

definition NewRealRoute53Client ::
  "(string option \<Rightarrow> 'w route53API) \<Rightarrow> string \<Rightarrow> go_error + 'w DNSClient" where
  "NewRealRoute53Client api assumeRoleArn =
     Inr (RealRoute53Client (if assumeRoleArn \<noteq> [] then api (Some assumeRoleArn) else api None))"

record 'w operator =
  op_Tenants :: "'w Reconciler"
  op_Sources :: "'w TenantSourceReconciler"
  op_Collector :: "'w TenantCollector"

definition tenantReconciler :: "'w services \<Rightarrow> string \<Rightarrow> 'w Reconciler" where
  "tenantReconciler P driftPolicy =
     \<lparr>r_Meta = sv_Apim P, r_Client = sv_TenantClient P,
      r_CFClient = RealCloudFrontClient (sv_CloudFront P),
      r_ACMClient = Some (RealACMClient (sv_ACM P)),
      r_NewDNSClient = Some (\<lambda>role w. (NewRealRoute53Client (sv_Route53 P) role, w)),
      r_HasRecorder = True, r_DriftPolicy = driftPolicy, r_Now = sv_Now P\<rparr>"

definition tenantSourceReconciler :: "'w services \<Rightarrow> 'w TenantSourceReconciler" where
  "tenantSourceReconciler P =
     \<lparr>ts_Apim = sv_Apim P, ts_Client = sv_SourceClient P,
      ts_SetOwnerReference = sv_SetOwnerReference P, ts_HasRecorder = True,
      ts_Backends = [(''dynamodb'', dynamoBackendFor (sv_DynamoDB P))], ts_Now = sv_Now P,
      ts_Order = sv_Order P\<rparr>"

definition wiredOperator :: "string \<Rightarrow> 'w services \<Rightarrow> 'w operator" where
  "wiredOperator driftPolicy P =
     \<lparr>op_Tenants = tenantReconciler P driftPolicy, op_Sources = tenantSourceReconciler P,
      op_Collector = \<lparr>tc_Meta = sv_Apim P, tc_List = sv_ListAll P\<rparr>\<rparr>"

text \<open>The operator that \<open>main\<close> arrives at; \<open>Inl\<close> is the exit for a bad \<open>--drift-policy\<close>.\<close>

definition mainOperator :: "string \<Rightarrow> 'w services \<Rightarrow> go_error + 'w operator" where
  "mainOperator driftPolicy P = (case ValidateDriftPolicy driftPolicy of
     Some err \<Rightarrow> Inl err
   | None \<Rightarrow> Inr (wiredOperator driftPolicy P))"

lemma mainOperator_Inr:
  assumes "mainOperator policy P = Inr op"
  shows "op_Tenants op = tenantReconciler P policy" "op_Sources op = tenantSourceReconciler P"
    "policy \<in> {DriftPolicyEnforce, DriftPolicyReport, DriftPolicySuspend}"
  using assms by (auto simp: mainOperator_def wiredOperator_def ValidateDriftPolicy_def split: if_splits)

section \<open>What the platform is assumed to do\<close>

text \<open>CloudFront with its documented behaviour, accepting what it is sent, an API server that
  stores the object, the helpers of apimachinery, and neither of them touching the other's state.\<close>

locale operator_platform =
  accepting_service "sv_CloudFront P" sdkAt healthy + object_store "sv_TenantClient P" stored ns n +
  apimachinery "sv_Apim P"
  for P :: "'w services" and sdkAt healthy stored ns n +
  assumes sdk_frame:
      "api_GetDistributionTenant (sv_CloudFront P) i w = (g, w') \<Longrightarrow> stored w' = stored w"
      "api_UpdateDistributionTenant (sv_CloudFront P) u w = (g, w') \<Longrightarrow> stored w' = stored w"
      "api_DeleteDistributionTenant (sv_CloudFront P) i e w = (d, w') \<Longrightarrow> stored w' = stored w"
      "api_GetDistribution (sv_CloudFront P) i w = (f, w') \<Longrightarrow> stored w' = stored w"
      "api_GetManagedCertificateDetails (sv_CloudFront P) i w = (c, w') \<Longrightarrow> stored w' = stored w"
      "api_CreateDistributionTenant (sv_CloudFront P) x w = (g, w') \<Longrightarrow> stored w' = stored w"
    and server_frame:
      "k_Get (sv_TenantClient P) ns n w = (r, w') \<Longrightarrow> sdkAt w' = sdkAt w \<and> healthy w' = healthy w"
      "k_Update (sv_TenantClient P) t w = (r, w') \<Longrightarrow> sdkAt w' = sdkAt w \<and> healthy w' = healthy w"
      "k_StatusUpdate (sv_TenantClient P) t w = (r, w') \<Longrightarrow> sdkAt w' = sdkAt w \<and> healthy w' = healthy w"
    and now_frame:
      "sv_Now P w = (now, w') \<Longrightarrow>
         sdkAt w' = sdkAt w \<and> healthy w' = healthy w \<and> stored w' = stored w"

text \<open>The reconciler that main wires is an operator between the two stores.\<close>

sublocale operator_platform \<subseteq> wired: operator_world "tenantReconciler P policy" "realAt sdkAt" healthy stored ns n
proof (rule operator_world.intro)
  show "accepting_store (r_CFClient (tenantReconciler P policy)) (realAt sdkAt) healthy"
    by (simp add: tenantReconciler_def client_accepts)
  show "object_store (r_Client (tenantReconciler P policy)) stored ns n"
    by (simp add: tenantReconciler_def object_store_axioms)
  show "apimachinery (r_Meta (tenantReconciler P policy))"
    by (simp add: tenantReconciler_def apimachinery_axioms)
  show "operator_world_axioms (tenantReconciler P policy) (realAt sdkAt) healthy stored ns n"
  proof (unfold_locales, goal_cases)
    case (1 i w g w') then show ?case
      using sdk_frame(1) by (auto simp: tenantReconciler_def RealCloudFrontClient_def realGet_def andThen_eq)
  next
    case (2 u w g w') then show ?case
      using sdk_frame(2) by (auto simp: tenantReconciler_def RealCloudFrontClient_def realUpdate_def andThen_eq)
  next
    case (3 i e w d w') then show ?case
      using sdk_frame(3) by (auto simp: tenantReconciler_def RealCloudFrontClient_def realDelete_def andThen_eq)
  next
    case (4 dist w f w') then show ?case
      using sdk_frame(4) by (auto simp: tenantReconciler_def RealCloudFrontClient_def realInfo_def andThen_eq)
  next
    case (6 x w g w') then show ?case
      using sdk_frame(6) by (auto simp: tenantReconciler_def RealCloudFrontClient_def realCreate_def andThen_eq)
  next
    case (5 i w c w') then show ?case
      using sdk_frame(5) by (auto simp: tenantReconciler_def RealCloudFrontClient_def realCert_def andThen_eq)
  qed (use server_frame now_frame in \<open>auto simp: tenantReconciler_def realAt_def fun_eq_iff\<close>)
qed

context operator_platform
begin

lemma platform_world: "operator_world (tenantReconciler P policy) (realAt sdkAt) healthy stored ns n"
  by (rule wired.operator_world_axioms)

end

lemma heldAs_etag: "out_ETag (heldAs dt etag) = etag"
  by (simp add: heldAs_def toDistributionTenantOutput_def)

text \<open>The DNS clients of the wired factory answer an upsert with a change.\<close>

lemma wired_factory: "dns_factory (tenantReconciler P policy) answersChange"
  by unfold_locales
    (auto simp: tenantReconciler_def NewRealRoute53Client_def RealRoute53Client_def answersChange_def
      UpsertCNAMERecords_def andThen_def case_prod_unfold split: sum.splits)

section \<open>The source side\<close>

text \<open>The region the client of a source is made for; without one it is the SDK's default.\<close>

definition clientRegion :: "DynamoDBSourceConfig \<Rightarrow> string option" where
  "clientRegion cfg = (if dd_Region cfg \<in> {None, Some []} then None else dd_Region cfg)"

text \<open>The same for the TenantSource reconciler: an API server that keeps the tenants, and DynamoDB,
  the clock and the writes of the source not touching them.\<close>

locale source_platform =
  tenant_store "sv_SourceClient P" tenants valid + owner_references "sv_SetOwnerReference P"
  for P :: "'w services" and tenants valid +
  assumes any_order: "goRange (sv_Order P)"
    and scan_frame: "api_Scan (sv_DynamoDB P region) i w = (p, w') \<Longrightarrow> tenants w' = tenants w"
    and source_frame:
      "sk_Get (sv_SourceClient P) ns n w = (g, w') \<Longrightarrow> tenants w' = tenants w"
      "sk_StatusUpdate (sv_SourceClient P) x w = (g, w') \<Longrightarrow> tenants w' = tenants w"
    and clock_keeps: "sv_Now P w = (now, w') \<Longrightarrow> tenants w' = tenants w"
begin

lemma pages_keep:
  assumes "servesPages (sv_DynamoDB P region) table lastKey pages res w w'"
  shows "tenants w' = tenants w"
  using assms by (induction rule: servesPages.induct) (auto dest: scan_frame)

text \<open>The query of the wired backend, for a table that serves its pages.\<close>

lemma backend_items:
  assumes "tss_DynamoDB (ts_Spec source) = Some cfg"
    and "servesPages (sv_DynamoDB P (clientRegion cfg))
      (dd_TableName cfg) None pages None w w'"
  shows "QueryTenants (dynamoBackendFor (sv_DynamoDB P)) source w =
    (Inr (concat (map (mapItems (buildScanInput cfg)) pages)), w')"
proof -
  let ?region = "clientRegion cfg"
  have "sti_TableName (buildScanInput cfg) = dd_TableName cfg" by (simp add: buildScanInput_def Let_def)
  then have "ScanTenants (RealDynamoDBClient (sv_DynamoDB P ?region)) (buildScanInput cfg) w =
      Some (Inr (concat (map (mapItems (buildScanInput cfg)) pages)), w')"
    using scan_pages [of "sv_DynamoDB P ?region" "buildScanInput cfg" pages None w w'] assms(2)
    by (simp add: scanResult_def)
  then show ?thesis
    by (auto simp: clientRegion_def dynamoBackendFor_def dynamoQueryTenants_def NewBackend_def assms(1) Let_def
        split: option.splits if_splits)
qed

text \<open>After the sync, the tenants are as it left them.\<close>

lemma finish_keeps:
  "tenants (world s) = T \<Longrightarrow> wp (do {
     updateSyncStatus (tenantSourceReconciler P) items sr dry;
     ts_persistStatus (tenantSourceReconciler P) Fail (finishPoll (tenantSourceReconciler P) items sr)
   }) (\<lambda>_ s'. tenants (world s') = T) s"
  by (auto simp: updateSyncStatus_def ts_setCondition_def ts_persistStatus_def finishPoll_def ts_recordEvent_def
      wp_simps Let_def tenantSourceReconciler_def split: sum.split
      dest!: clock_keeps source_frame(2))

end

text \<open>A reconcile of a live source with the wired reconciler: every tenant of its namespace is
  synced to the items of the table.\<close>

context source_platform
begin

lemma poll_syncs:
  assumes "tss_DynamoDB (ts_Spec source) = Some cfg" and "tss_DryRun (ts_Spec source) \<noteq> Some True"
    and "targetNamespace source = ts_Namespace source"
    and "servesPages (sv_DynamoDB P (clientRegion cfg))
      (dd_TableName cfg) None pages None (world s) w2"
  shows "wp (pollFrom (tenantSourceReconciler P) (dynamoBackendFor (sv_DynamoDB P)) source)
    (\<lambda>_ s'. \<forall>name. syncedTo valid (sv_Order P) source
       (desiredMap (concat (map (mapItems (buildScanInput cfg)) pages)) name)
       (tenants (world s) (ts_Namespace source, name)) (tenants (world s') (ts_Namespace source, name))) s"
proof -
  let ?items = "concat (map (mapItems (buildScanInput cfg)) pages)" and ?R = "tenantSourceReconciler P"
  have parts: "ts_Client ?R = sv_SourceClient P" "ts_SetOwnerReference ?R = sv_SetOwnerReference P"
    "ts_Order ?R = sv_Order P" by (simp_all add: tenantSourceReconciler_def)
  have kept: "tenants w2 = tenants (world s)" by (rule pages_keep [OF assms(4)])
  have dry: "(tss_DryRun (ts_Spec source) = Some True) = False" using assms(2) by simp
  show ?thesis
    unfolding pollFrom_def wp_bind wp_extern backend_items [OF assms(1,4)] listOwnedTenants_def parts Let_def
      assms(3) dry
  proof (simp add: wp_bind wp_extern del: split_paired_All, intro allI impI, goal_cases)
    case (1 l w3)
    obtain ts where ts: "l = Inr ts" "tenants w3 = tenants w2" "isListing (tenants w3) source (ts_Namespace source) ts"
      using list_tenants [OF 1] unfolding isListing_def labelled_def by auto
    note sync = wp_syncTenants [where R = ?R, unfolded parts, OF refl owner_references_axioms any_order refl]
    show ?case
      unfolding ts(1) sum.case wp_bind
    proof (rule wp_mono [OF sync], goal_cases)
      case 1
      then show ?case using ts(3) by simp
    next
      case (2 sr s1)
      from 2 have "\<forall>name. syncedTo valid (sv_Order P) source (desiredMap ?items name)
          (tenants (world s) (ts_Namespace source, name)) (tenants (world s1) (ts_Namespace source, name))"
        unfolding syncDone_def Let_def using ts(2) kept by simp
      then have "wp (do {
          updateSyncStatus ?R ?items sr False;
          ts_persistStatus ?R Fail (finishPoll ?R ?items sr)
        }) (\<lambda>_ s'. \<forall>name. syncedTo valid (sv_Order P) source (desiredMap ?items name)
          (tenants (world s) (ts_Namespace source, name)) (tenants (world s') (ts_Namespace source, name))) s1"
        by (intro wp_mono [OF finish_keeps [OF refl]]) simp
      then show ?case unfolding wp_bind by simp
    qed
  qed
qed

lemma reconcile_syncs:
  assumes "sk_Get (sv_SourceClient P) sns sn (world s) = (Inr source, w1)"
    and "om_DeletionTimestamp (ts_Meta source) = None" and "apimachinery (sv_Apim P)"
    and "TenantSourceFinalizerName \<in> set (om_Finalizers (ts_Meta source))"
    and "tss_Provider (ts_Spec source) = ''dynamodb''"
    and "tss_DynamoDB (ts_Spec source) = Some cfg" and "tss_DryRun (ts_Spec source) \<noteq> Some True"
    and "targetNamespace source = ts_Namespace source"
    and "servesPages (sv_DynamoDB P (clientRegion cfg))
      (dd_TableName cfg) None pages None w1 w2"
  shows "wp (ts_Reconcile (tenantSourceReconciler P) sns sn)
    (\<lambda>_ s'. \<forall>name. syncedTo valid (sv_Order P) source
       (desiredMap (concat (map (mapItems (buildScanInput cfg)) pages)) name)
       (tenants (world s) (ts_Namespace source, name)) (tenants (world s') (ts_Namespace source, name))) s"
proof -
  let ?s = "s\<lparr>world := w1, trace := trace s @ [SrcGet sns sn (Inr source)], obj := source\<rparr>"
  have "ContainsFinalizer (sv_Apim P) (om_Finalizers (ts_Meta source)) TenantSourceFinalizerName"
    using assms(3,4) by (simp add: apimachinery.contains_iff)
  moreover have "tenants w1 = tenants (world s)" by (rule source_frame(1) [OF assms(1)])
  moreover note poll_syncs [OF assms(6-8), where s = ?s, simplified, OF assms(9)]
  ultimately show ?thesis
    using assms(1,2,5)
    by (simp add: ts_Reconcile_def wp_simps poll_def resolveBackend_def tenantSourceReconciler_def Let_def)
qed

end

end
