(* ===== verification/DnsDeletion.thy ===== *)
theory DnsDeletion
  imports AwsContracts
begin

text \<open>
  The deletion of a tenant with managed DNS records: over a DNS service that keeps records, the
  reconciles delete the tenant as soon as CloudFront lets them, then its records and the finalizer.
  And what the clean-up does when one of the records is missing already.
\<close>

section \<open>A DNS service that keeps records\<close>

text \<open>The records that the operator manages for an object, and the hosted zone they are in.\<close>

definition managedZone :: "DistributionTenant \<Rightarrow> string" where
  "managedZone t = toString (Option.bind (spec_DNS (dt_Spec t)) dns_HostedZoneId)"

definition managedRecords :: "DistributionTenant \<Rightarrow> DNSRecord list" where
  "managedRecords t = (case spec_DNS (dt_Spec t) of None \<Rightarrow> []
     | Some dns \<Rightarrow> cnameRecords (domainsToStrings (spec_Domains (dt_Spec t)))
         (st_DNSTarget (dt_Status t)) (dnsTTL dns))"

text \<open>A healthy service makes clients, and deletes records that are there, without touching anything
  else (\<open>rest\<close>).\<close>

locale dns_service = dns_factory R working
  for R :: "'w Reconciler" and working +
  fixes healthy :: "'w \<Rightarrow> bool"
    and records :: "'w \<Rightarrow> string \<Rightarrow> DNSRecord set"
    and rest :: "'w \<Rightarrow> 'r"
  assumes new_answers: "r_NewDNSClient R = Some new \<Longrightarrow> healthy w \<Longrightarrow> new role w = (c, w') \<Longrightarrow>
      (\<exists>dns. c = Inr dns) \<and> healthy w' \<and> rest w' = rest w \<and> records w' = records w"
    and delete_records: "working dns \<Longrightarrow> healthy w \<Longrightarrow> set (del_Records i) \<subseteq> records w (del_HostedZoneId i) \<Longrightarrow>
      dnsc_DeleteCNAMERecords dns i w = (d, w') \<Longrightarrow>
      d = Inr () \<and> healthy w' \<and> rest w' = rest w \<and>
      records w' (del_HostedZoneId i) \<subseteq> records w (del_HostedZoneId i) - set (del_Records i)"

context dns_service
begin

lemma getDNSClient_works:
  assumes "r_NewDNSClient R \<noteq> None" and "healthy (world s)" and "workingCache working (dnsClientCache s)"
  shows "wp (getDNSClient R) (\<lambda>c s'. (\<exists>dns. c = Done dns \<and> working dns) \<and> obj s' = obj s \<and>
    healthy (world s') \<and> rest (world s') = rest (world s) \<and> records (world s') = records (world s)) s"
proof -
  obtain new where new: "r_NewDNSClient R = Some new" using assms(1) by blast
  show ?thesis
    using assms(2,3) new_works [OF new] new_answers [OF new assms(2)]
    by (fastforce simp: getDNSClient_def wp_simps Let_def new workingCache_def split: option.split)
qed

lemma cleanup_removes:
  assumes "needsCleanup R (obj s)" and "healthy (world s)" and "workingCache working (dnsClientCache s)"
    and "set (managedRecords (obj s)) \<subseteq> records (world s) (managedZone (obj s))"
  shows "wp (cleanupDNSRecords R) (\<lambda>c s'. c = Done () \<and> obj s' = obj s \<and> healthy (world s') \<and>
    rest (world s') = rest (world s) \<and>
    set (managedRecords (obj s)) \<inter> records (world s') (managedZone (obj s)) = {}) s"
proof -
  obtain dns zone where dns: "spec_DNS (dt_Spec (obj s)) = Some dns" "dns_HostedZoneId dns = Some zone"
    "st_DNSTarget (dt_Status (obj s)) \<noteq> []" "r_NewDNSClient R \<noteq> None"
    using assms(1) by (auto simp: needsCleanup_def split: option.splits)
  let ?input = "\<lparr>del_HostedZoneId = zone, del_Records = managedRecords (obj s)\<rparr>"
  have zone: "managedZone (obj s) = zone" by (simp add: managedZone_def dns)
  have recs: "managedRecords (obj s) = cnameRecords (domainsToStrings (spec_Domains (dt_Spec (obj s))))
      (st_DNSTarget (dt_Status (obj s))) (dnsTTL dns)"
    by (simp add: managedRecords_def dns)
  have "wp (cleanupDNSRecords R) Q s = wp (getDNSClient R) (\<lambda>c s'. wp (case c of
      Fail err \<Rightarrow> returns (Fail err)
    | Panic \<Rightarrow> returns Panic
    | Done client \<Rightarrow> do {
        r \<leftarrow> extern (dnsc_DeleteCNAMERecords client ?input) (DnsDelete ?input);
        case r of
          Inl err \<Rightarrow> returns (Fail err)
        | Inr _ \<Rightarrow> do {
            recordEvent R ''Normal'' ''DNSCleaned'' (''DNS CNAME records deleted for '' @
              showNat (length (managedRecords (obj s))) @ '' domain(s)'');
            returns (Done ())
          }
      }) Q s') s" for Q
    by (simp only: cleanupDNSRecords_def wp_bind wp_getObj dns option.case if_False Let_def recs)
  note step = this
  show ?thesis
    unfolding step
  proof (rule wp_mono [OF getDNSClient_works [OF dns(4) assms(2,3)]], elim conjE exE, goal_cases)
    case (1 c s1 client)
    show ?case
      unfolding \<open>c = Done client\<close> outcome.case wp_bind wp_extern
    proof (intro allI impI, goal_cases)
      case (1 r w')
      have "r = Inr () \<and> healthy w' \<and> rest w' = rest (world s1) \<and>
          records w' zone \<subseteq> records (world s1) zone - set (managedRecords (obj s))"
        using delete_records [OF \<open>working client\<close> \<open>healthy (world s1)\<close> _ 1] assms(4) zone
          \<open>records (world s1) = records (world s)\<close> by simp
      then show ?case
        using \<open>obj s1 = obj s\<close> \<open>rest (world s1) = rest (world s)\<close>
        by (auto simp: wp_simps recordEvent_def zone)
    qed
  qed
qed

end

section \<open>The deletion\<close>

locale operator_dns =
  dns_service R working healthy records "\<lambda>w. (tenantAt w, stored w)"
  for R :: "'w Reconciler" and healthy records
    and tenantAt :: "'w \<Rightarrow> string \<Rightarrow> DistributionTenantOutput option"
    and stored :: "'w \<Rightarrow> DistributionTenant option" and working +
  fixes ns n :: string
  assumes world: "operator_world R tenantAt (\<lambda>w. healthy w \<and> records w = here) stored ns n"

text \<open>What is left in the end: no tenant, no record of it, and no object with the finalizer.\<close>

definition fullyGone ::
  "'w Reconciler \<Rightarrow> ('w \<Rightarrow> string \<Rightarrow> DistributionTenantOutput option) \<Rightarrow>
   ('w \<Rightarrow> DistributionTenant option) \<Rightarrow> ('w \<Rightarrow> string \<Rightarrow> DNSRecord set) \<Rightarrow>
   DistributionTenant \<Rightarrow> 'w \<Rightarrow> bool" where
  "fullyGone R tenantAt stored records t w \<longleftrightarrow> released R tenantAt stored (tenantID t) w \<and>
     set (managedRecords t) \<inter> records w (managedZone t) = {}"

lemma managed_same:
  assumes "sameObject t t'" and "st_DNSTarget (dt_Status t') = st_DNSTarget (dt_Status t)"
  shows "managedRecords t' = managedRecords t" "managedZone t' = managedZone t"
  using assms by (simp_all add: managedRecords_def managedZone_def sameObject_def split: option.split)

context operator_dns
begin

lemma cleanup_release:
  assumes "needsCleanup R (obj s)" and "healthy (world s)" and "workingCache working (dnsClientCache s)"
    and "set (managedRecords (obj s)) \<subseteq> records (world s) (managedZone (obj s))"
    and "beingDeleted (obj s)" and "keyOf (obj s) = (ns, n)" and "stored (world s) = Some (obj s)"
    and "tenantID (obj s) = [] \<or> tenantAt (world s) (tenantID (obj s)) = None"
    and k: "k = releaseFinalizer R \<or> (\<exists>ty re msg. k = do { recordEvent R ty re msg; releaseFinalizer R })"
  shows "wp (cleanupThen R k) (\<lambda>_ s'. healthy (world s') \<and>
    fullyGone R tenantAt stored records (obj s) (world s')) s"
  unfolding cleanupThen_def wp_bind
proof (rule wp_mono [OF cleanup_removes [OF assms(1-4)]], elim conjE, goal_cases)
  case (1 c s1)
  let ?Q = "\<lambda>_ s'. healthy (world s') \<and> fullyGone R tenantAt stored records (obj s) (world s')"
  have release: "wp (releaseFinalizer R) ?Q s2" if s2: "obj s2 = obj s1" "world s2 = world s1" for s2
  proof (rule wp_mono [OF operator_world.release_done [OF world [where here = "records (world s1)"], of "tenantID (obj s)" s2]],
      goal_cases)
    case (6 res s3)
    then show ?case using 1 by (simp add: fullyGone_def)
  qed (use 1 s2 assms(5-8) in simp_all)
  show ?case
    using k release unfolding 1(1)
    by (auto simp: wp_bind intro!: operator_world.wp_event [OF world])
qed

lemma dns_deletion_pass:
  assumes "healthy w" and "stored w = Some t" and "keyOf t = (ns, n)" and "beingDeleted t"
    and "hasFinalizer R t" and "needsCleanup R t" and "workingCache working cache"
    and "set (managedRecords t) \<subseteq> records w (managedZone t)"
  shows "wp (Reconcile R ns n) (\<lambda>_ s'. healthy (world s') \<and>
    (undeletable (tenantAt w) (tenantID t) \<and> records (world s') = records w \<and>
       disabledNow tenantAt stored t (world s') \<or>
     fullyGone R tenantAt stored records t (world s'))) (start t0 w cache)"
  unfolding Reconcile_def
proof (rule wp_then [OF operator_world.wp_get_object [OF world [where here = "records w"],
      where Q = "\<lambda>r s'. r = Inr t \<and> tenantAt (world s') = tenantAt w \<and> healthy (world s') \<and>
        records (world s') = records w \<and> stored (world s') = Some t \<and> dnsClientCache s' = cache"]], goal_cases)
  case (3 r s')
  let ?s = "s'\<lparr>obj := t\<rparr>"
  have "wp (reconcileDelete R) (\<lambda>res s''.
      (undeletable (tenantAt (world ?s)) (tenantID (obj ?s)) \<and> (healthy (world s'') \<and> records (world s'') = records w) \<and>
        disabledNow tenantAt stored (obj ?s) (world s'')) \<or>
      healthy (world s'') \<and> fullyGone R tenantAt stored records t (world s'')) ?s"
  proof (rule operator_world.deletion_step [OF world [where here = "records w"]], goal_cases)
    case (5 s1 k)
    then show ?case using cleanup_release [of s1 k] assms(3,4,6-8) 3 by simp
  qed (use 3 assms(3,5) in simp_all)
  then have "wp (reconcileDelete R) (\<lambda>_ s'. healthy (world s') \<and>
    (undeletable (tenantAt w) (tenantID t) \<and> records (world s') = records w \<and>
       disabledNow tenantAt stored t (world s') \<or>
     fullyGone R tenantAt stored records t (world s'))) ?s"
    by (rule wp_mono) (use 3 in auto)
  then show ?case
    using 3 assms(4) by (simp add: wp_simps beingDeleted_def)
qed (use assms in \<open>simp_all add: start_def\<close>)

lemma cleaned_stays:
  assumes "healthy w" and "fullyGone R tenantAt stored records t w"
  shows "wp (Reconcile R ns n) (\<lambda>_ s'. healthy (world s') \<and> fullyGone R tenantAt stored records t (world s'))
    (start t0 w cache)"
  by (rule wp_mono [OF operator_world.Reconcile_released [OF world [where here = "records w"],
        of "tenantID t" w t0 cache]]) (use assms in \<open>auto simp: fullyGone_def\<close>)

lemma cache_stays:
  "workingCache working c \<Longrightarrow>
     wp (Reconcile R ns n) (\<lambda>_ s'. workingCache working (dnsClientCache s')) (start t0 v c)"
  using cached.reconcile_holds [of ns n] by (simp add: keeps_inv_def start_def)

lemma retries_clean:
  assumes "healthy w" and "stored w = Some t" and "keyOf t = (ns, n)" and "beingDeleted t"
    and "hasFinalizer R t" and "needsCleanup R t" and "workingCache working cache"
    and "set (managedRecords t) \<subseteq> records w (managedZone t)"
    and env: "propagation tenantAt healthy (\<lambda>w. (stored w, records w)) env m"
  shows "fullyGone R tenantAt stored records t (fst (rounds env R ns n t0 (m + 2 + j) (w, cache)))"
proof -
  let ?D = "\<lambda>w1. records w1 = records w \<and> disabledNow tenantAt stored t w1"
  have env': "propagation tenantAt healthy stored env m"
    using propagation.coarser [OF env, of fst] by simp
  show ?thesis
  proof (rule propagation.deletion_rounds [OF env, where cacheOK = "workingCache working" and i = "tenantID t"
        and D = ?D], goal_cases)
    case 3
    show ?case
      by (rule wp_mono [OF wp_conj [OF cache_stays [OF assms(7)] dns_deletion_pass [OF assms(1-8)]]]) auto
  next
    case (4 w1 c1)
    then obtain t1 where t1: "stored w1 = Some t1" "sameObject t t1" "tenantID t1 = tenantID t"
      "st_DNSTarget (dt_Status t1) = st_DNSTarget (dt_Status t)" "records w1 = records w"
      by (auto simp: disabledNow_def)
    note same = disabled_same(2) [of t t1 R, OF t1(2,4)] managed_same [OF t1(2,4)]
    have "beingDeleted t1" "hasFinalizer R t1" "keyOf t1 = (ns, n)"
      using assms(3-5) t1(2) by (simp_all add: beingDeleted_def hasFinalizer_def sameObject_def keyOf_def)
    note t1' = this
    have "disabledNow tenantAt stored t v" if "disabledNow tenantAt stored t1 v" for v
      using that t1(2-4) by (auto simp: disabledNow_def sameObject_def)
    moreover have "fullyGone R tenantAt stored records t v" if "fullyGone R tenantAt stored records t1 v" for v
      using that t1(3) same by (simp add: fullyGone_def)
    ultimately show ?case
      by (intro wp_mono [OF wp_conj [OF cache_stays [OF 4(1)] dns_deletion_pass [OF 4(2) t1(1) t1'(3,1,2)]]])
        (use assms(6,8) 4(1) t1 same in auto)
  next
    case (5 w1 c1)
    then show ?case
      by (intro wp_mono [OF wp_conj [OF cache_stays [OF 5(1)] cleaned_stays [OF 5(2,3)]]]) auto
  next
    case (6 w1 k)
    then show ?case using disabled_env [OF env'] propagation.step [OF env] by auto
  next
    case (7 w1 k)
    then show ?case using released_env [OF env'] propagation.step [OF env] by (auto simp: fullyGone_def)
  qed (use assms in \<open>auto simp: disabledNow_def\<close>)
qed

end

section \<open>Route53\<close>

text \<open>A record set as Route53 identifies it, and the record sets of the records of the operator.\<close>

type_synonym rrset = "string option \<times> string \<times> int64 option \<times> string option list"

definition rrsetOf :: "r53Change \<Rightarrow> rrset" where
  "rrsetOf c = (r5_Name c, r5_Type c, r5_TTL c, r5_Values c)"

definition recordsIn :: "(string \<Rightarrow> rrset set) \<Rightarrow> string \<Rightarrow> DNSRecord set" where
  "recordsIn zones z = {r. rrsetOf (cnameChange ChangeActionDelete r) \<in> zones z}"

lemma rrset_cname [simp]: "rrsetOf (cnameChange a r) = (Some (rec_Name r), ''CNAME'', Some (rec_TTL r), [Some (rec_Target r)])"
  by (simp add: rrsetOf_def cnameChange_def)

lemma recordsIn_subset:
  "set rs \<subseteq> recordsIn zones z \<longleftrightarrow> rrsetOf ` set (map (cnameChange ChangeActionDelete) rs) \<subseteq> zones z"
  by (auto simp: recordsIn_def image_subset_iff)

lemma recordsIn_minus:
  "recordsIn (zones(z := zones z - rrsetOf ` set (map (cnameChange ChangeActionDelete) rs))) z =
     recordsIn zones z - set rs"
  by (auto simp: recordsIn_def image_iff) (metis DNSRecord.surjective old.unit.exhaust)

text \<open>The documented behaviour: a batch is applied as a whole or not at all; a deletion of a record set
  that is not there is an \<open>InvalidChangeBatch\<close> that says so.\<close>

locale route53_zones =
  fixes api :: "'w route53API"
    and healthy :: "'w \<Rightarrow> bool"
    and zoneAt :: "'w \<Rightarrow> string \<Rightarrow> rrset set"
    and rest :: "'w \<Rightarrow> 'r"
  assumes delete_batch: "healthy w \<Longrightarrow> r5c_HostedZoneId i = Some z \<Longrightarrow>
      (\<forall>c \<in> set (r5c_Changes i). r5_Action c = ChangeActionDelete) \<Longrightarrow>
      api_ChangeResourceRecordSets api i w = (r, w') \<Longrightarrow> healthy w' \<and> rest w' = rest w \<and>
      (if rrsetOf ` set (r5c_Changes i) \<subseteq> zoneAt w z
       then (\<exists>out. r = Inr out) \<and> zoneAt w' = (zoneAt w)(z := zoneAt w z - rrsetOf ` set (r5c_Changes i))
       else zoneAt w' = zoneAt w \<and> (\<exists>e msg. r = Inl e \<and> asAPIError e = Some (''InvalidChangeBatch'', msg) \<and>
         Contains (ToLower msg) ''not found''))"
begin

lemma records_deleted:
  assumes "healthy w" and "DeleteCNAMERecords api i w = (d, w')"
  shows "d = Inr () \<and> healthy w' \<and> rest w' = rest w \<and>
    (if set (del_Records i) \<subseteq> recordsIn (zoneAt w) (del_HostedZoneId i)
     then recordsIn (zoneAt w') (del_HostedZoneId i) = recordsIn (zoneAt w) (del_HostedZoneId i) - set (del_Records i)
     else zoneAt w' = zoneAt w)"
proof -
  let ?input = "\<lparr>r5c_HostedZoneId = Some (del_HostedZoneId i),
    r5c_Changes = map (cnameChange ChangeActionDelete) (del_Records i),
    r5c_Comment = Some ''Cleanup by cloudfront-tenant-operator''\<rparr>"
  obtain r where r: "api_ChangeResourceRecordSets api ?input w = (r, w')"
      "d = (case r of Inl e \<Rightarrow> if IsNotFound (classifyRoute53Error (Some e)) then Inr () else route53Failed e
        | Inr _ \<Rightarrow> Inr ())"
    using assms(2) unfolding DeleteCNAMERecords_def andThen_eq by blast
  have del: "\<forall>c \<in> set (r5c_Changes ?input). r5_Action c = ChangeActionDelete" by (simp add: cnameChange_def)
  note batch = delete_batch [OF assms(1) _ del r(1), of "del_HostedZoneId i"]
  show ?thesis
  proof (cases "set (del_Records i) \<subseteq> recordsIn (zoneAt w) (del_HostedZoneId i)")
    case True
    then show ?thesis
      using batch r(2) recordsIn_minus [of "zoneAt w" "del_HostedZoneId i" "del_Records i"]
      by (auto simp: recordsIn_subset)
  next
    case False
    then obtain e msg where e: "r = Inl e" "asAPIError e = Some (''InvalidChangeBatch'', msg)"
        "Contains (ToLower msg) ''not found''" "zoneAt w' = zoneAt w" "healthy w'" "rest w' = rest w"
      using batch by (auto simp: recordsIn_subset)
    then have "IsNotFound (classifyRoute53Error (Some e))"
      by (simp add: classifyRoute53Error_def IsNotFound_def wrapSentinel_def errorsIs_def)
    then show ?thesis using False e r(2) by simp
  qed
qed

end

text \<open>Executable zones.\<close>

type_synonym zones = "string \<Rightarrow> rrset set"

definition changeZones :: "r53ChangeInput \<Rightarrow> (zones, r53ChangeInfo option) call" where
  "changeZones i zones =
     (let z = toString (r5c_HostedZoneId i);
          gone = rrsetOf ` set (filter (\<lambda>c. r5_Action c = ChangeActionDelete) (r5c_Changes i));
          put = rrsetOf ` set (filter (\<lambda>c. r5_Action c = ChangeActionUpsert) (r5c_Changes i)) in
      if gone \<subseteq> zones z
      then (Inr (Some \<lparr>r5i_Id = Some ''C1'', r5i_Status = ''PENDING''\<rparr>),
            zones(z := {x \<in> zones z - gone. \<forall>y \<in> put. fst x \<noteq> fst y} \<union> put))
      else (Inl (ApiError ''InvalidChangeBatch'' ''but it was not found'' ''refused''), zones))"

definition zonesAPI :: "zones route53API" where
  "zonesAPI = \<lparr>api_ChangeResourceRecordSets = changeZones,
     api_GetChange = (\<lambda>x zones. (Inr (Some \<lparr>r5i_Id = x, r5i_Status = ''INSYNC''\<rparr>), zones))\<rparr>"

lemma not_found_message: "Contains (ToLower ''but it was not found'') ''not found''"
  by code_simp

lemma deletions_only:
  assumes "\<forall>c \<in> set cs. r5_Action c = ChangeActionDelete"
  shows "filter (\<lambda>c. r5_Action c = ChangeActionDelete) cs = cs" "filter (\<lambda>c. r5_Action c = ChangeActionUpsert) cs = []"
  using assms by (auto intro: filter_True filter_False)

interpretation exec_zones: route53_zones zonesAPI "\<lambda>_. True" "\<lambda>zones. zones" "\<lambda>_. ()"
proof (unfold_locales, goal_cases)
  case (1 w i z r w')
  then show ?case
    using not_found_message by (auto simp: zonesAPI_def changeZones_def Let_def deletions_only split: if_splits)
qed

text \<open>The clean-up is not complete when one record is missing: the batch is refused as a whole, the
  refusal counts as deleted, and every other record of the tenant stays in the zone.\<close>

lemma missing_record_leaves_all:
  assumes "route53_zones api healthy zoneAt rest" and "healthy w"
    and "\<not> set (del_Records i) \<subseteq> recordsIn (zoneAt w) (del_HostedZoneId i)"
    and "DeleteCNAMERecords api i w = (d, w')"
  shows "d = Inr () \<and> zoneAt w' = zoneAt w"
  using route53_zones.records_deleted [OF assms(1,2,4)] assms(3) by simp

end
