(* ===== verification/EndToEnd.thy ===== *)
theory EndToEnd
  imports Operator DnsDeletion
begin

text \<open>
  The whole operator at work: the reconcilers that main wires, over one concrete platform with an
  API server, a CloudFront service and a DynamoDB table, and the properties that follow from the
  composition of the components: a spec reaches CloudFront and stays there, and a row of the table
  becomes a tenant in CloudFront.
\<close>

section \<open>A platform\<close>

text \<open>The API server of \<open>SourceWorld\<close> and the CloudFront service of \<open>AwsContracts\<close>, with lookups
  of distributions throttled (which skips the checks against the distribution), the hosted zones of
  \<open>DnsDeletion\<close>, and a DynamoDB table that answers every scan with one page.\<close>

record cloudWorld =
  cl_sdk :: sdkWorld
  cl_api :: sourceWorld
  cl_zones :: zones

abbreviation cloudTenants :: "cloudWorld \<Rightarrow> DistributionTenant list" where
  "cloudTenants w \<equiv> sw_tenants (cl_api w)"

abbreviation cloudStore :: "cloudWorld \<Rightarrow> string \<times> string \<Rightarrow> DistributionTenant option" where
  "cloudStore w \<equiv> lookupT (cloudTenants w)"

abbreviation cloudAt :: "cloudWorld \<Rightarrow> string \<Rightarrow> (cfDistributionTenant \<times> string) option" where
  "cloudAt w \<equiv> sd_tenants (cl_sdk w)"

definition onSdk :: "(sdkWorld, 'a) call \<Rightarrow> (cloudWorld, 'a) call" where
  "onSdk f w = (case f (cl_sdk w) of (r, s) \<Rightarrow> (r, w\<lparr>cl_sdk := s\<rparr>))"

definition onApi :: "(sourceWorld, 'a) call \<Rightarrow> (cloudWorld, 'a) call" where
  "onApi f w = (case f (cl_api w) of (r, s) \<Rightarrow> (r, w\<lparr>cl_api := s\<rparr>))"

definition onZones :: "(zones, 'a) call \<Rightarrow> (cloudWorld, 'a) call" where
  "onZones f w = (case f (cl_zones w) of (r, s) \<Rightarrow> (r, w\<lparr>cl_zones := s\<rparr>))"

definition cloudAPI :: "cloudWorld cloudFrontAPI" where
  "cloudAPI =
     \<lparr>api_CreateDistributionTenant = (\<lambda>c. onSdk (echoCreate c)),
      api_GetDistributionTenant = (\<lambda>i. onSdk (echoGet i)),
      api_UpdateDistributionTenant = (\<lambda>u. onSdk (echoUpdate u)),
      api_DeleteDistributionTenant = (\<lambda>i e. onSdk (echoDelete i e)),
      api_GetDistribution = (\<lambda>d w. (Inl (sdkError ''Throttling''), w)),
      api_GetManagedCertificateDetails = (\<lambda>i w. (Inr None, w)),
      api_GetConnectionGroup = (\<lambda>i w. (Inl (sdkError ''EntityNotFound''), w)),
      api_ListConnectionGroups = (\<lambda>w. (Inr (Some []), w))\<rparr>"

definition putTenant :: "DistributionTenant \<Rightarrow> DistributionTenant list \<Rightarrow> DistributionTenant list" where
  "putTenant t ts = t # removeT (keyOf t) ts"

text \<open>Writes as the API server makes them (see \<open>mockK8s\<close>): based on the stored generation, an update
  leaves the stored status alone, an update of the status leaves everything else alone, an object
  marked for deletion goes with its last finalizer.\<close>

definition cloudWrite ::
  "DistributionTenant \<Rightarrow> (DistributionTenant \<Rightarrow> DistributionTenant option) \<Rightarrow>
   (DistributionTenant \<Rightarrow> DistributionTenant) \<Rightarrow> (sourceWorld, DistributionTenant) call" where
  "cloudWrite t put f w = (case lookupT (sw_tenants w) (keyOf t) of
       None \<Rightarrow> (Inl (OtherError ''not found''), w)
     | Some u \<Rightarrow>
         if dt_Generation t \<noteq> dt_Generation u then (Inl (OtherError ''conflict''), w)
         else (Inr (f u), w\<lparr>sw_tenants := (case put (f u) of
             None \<Rightarrow> removeT (keyOf t) (sw_tenants w)
           | Some t' \<Rightarrow> putTenant t' (sw_tenants w))\<rparr>))"

definition cloudK8s :: "cloudWorld K8sClient" where
  "cloudK8s =
     \<lparr>k_Get = (\<lambda>ns n. onApi (apiGetTenant ns n)),
      k_Update = (\<lambda>t. onApi (cloudWrite t mockPut (\<lambda>u. mockBump (dt_Spec u) (t\<lparr>dt_Status := dt_Status u\<rparr>)))),
      k_StatusUpdate = (\<lambda>t. onApi (cloudWrite t Some (\<lambda>u. u\<lparr>dt_Status := dt_Status t\<rparr>)))\<rparr>"

definition cloudSource :: "cloudWorld SourceClient" where
  "cloudSource =
     \<lparr>sk_Get = (\<lambda>ns n. onApi (sk_Get apiServer ns n)), sk_Update = (\<lambda>s. onApi (sk_Update apiServer s)),
      sk_StatusUpdate = (\<lambda>s. onApi (sk_StatusUpdate apiServer s)),
      sk_GetTenant = (\<lambda>ns n. onApi (sk_GetTenant apiServer ns n)),
      sk_ListTenants = (\<lambda>ns k v. onApi (sk_ListTenants apiServer ns k v)),
      sk_CreateTenant = (\<lambda>t. onApi (sk_CreateTenant apiServer t)),
      sk_UpdateTenant = (\<lambda>t. onApi (sk_UpdateTenant apiServer t)),
      sk_DeleteTenant = (\<lambda>t. onApi (sk_DeleteTenant apiServer t))\<rparr>"

definition rowTable :: "dynamoItem list \<Rightarrow> cloudWorld dynamoDBAPI" where
  "rowTable rows = \<lparr>api_Scan = (\<lambda>i w.
     (Inr \<lparr>sout_Items = rows, sout_LastEvaluatedKey = None\<rparr>, w))\<rparr>"

definition cloudServices :: "dynamoItem list \<Rightarrow> cloudWorld services" where
  "cloudServices rows =
     \<lparr>sv_CloudFront = cloudAPI, sv_ACM = \<lparr>api_DescribeCertificate = (\<lambda>_ w. (Inr None, w))\<rparr>,
      sv_Route53 = (\<lambda>_. \<lparr>api_ChangeResourceRecordSets = (\<lambda>i. onZones (changeZones i)),
        api_GetChange = (\<lambda>x. onZones (api_GetChange zonesAPI x))\<rparr>),
      sv_DynamoDB = (\<lambda>_. rowTable rows), sv_Apim = metaRef (\<lambda>_. None), sv_TenantClient = cloudK8s,
      sv_SourceClient = cloudSource,
      sv_ListAll = (\<lambda>w. (Inr (viewT (cloudTenants w)), w)),
      sv_SetOwnerReference = refSetOwner, sv_Now = (\<lambda>w. (sw_clock (cl_api w), w)), sv_Order = asStored\<rparr>"

lemma onSdk_eq: "onSdk f w = (r, w') \<longleftrightarrow> (\<exists>s. f (cl_sdk w) = (r, s) \<and> w' = w\<lparr>cl_sdk := s\<rparr>)"
  by (auto simp: onSdk_def split: prod.split)

lemma onApi_eq: "onApi f w = (r, w') \<longleftrightarrow> (\<exists>s. f (cl_api w) = (r, s) \<and> w' = w\<lparr>cl_api := s\<rparr>)"
  by (auto simp: onApi_def split: prod.split)

lemma onZones_eq: "onZones f w = (r, w') \<longleftrightarrow> (\<exists>s. f (cl_zones w) = (r, s) \<and> w' = w\<lparr>cl_zones := s\<rparr>)"
  by (auto simp: onZones_def split: prod.split)

text \<open>CloudFront and the API server leave the zones alone.\<close>

lemma cloud_service: "accepting_service cloudAPI cloudAt (\<lambda>w. Z (cl_zones w))"
proof (unfold_locales, goal_cases)
  case (1 w i r w')
  obtain s where "echoGet (Some i) (cl_sdk w) = (r, s)" "cl_sdk w' = s" "cl_zones w' = cl_zones w"
    using 1 by (auto simp: cloudAPI_def onSdk_eq)
  then show ?case using 1(1) echo.sdk_get [of _ "cl_sdk w"] by (simp add: echoAPI_def)
next
  case (2 w c r w')
  obtain s where "echoCreate c (cl_sdk w) = (r, s)" "cl_sdk w' = s" "cl_zones w' = cl_zones w"
    using 2 by (auto simp: cloudAPI_def onSdk_eq)
  then show ?case using 2(1) echo.sdk_create [of _ "cl_sdk w"] by (simp add: echoAPI_def)
next
  case (3 w u i dt etag r w')
  obtain s where "echoUpdate u (cl_sdk w) = (r, s)" "cl_sdk w' = s" "cl_zones w' = cl_zones w"
    using 3 by (auto simp: cloudAPI_def onSdk_eq)
  then show ?case using 3(1) echo.sdk_update [OF TrueI 3(2,3,4), of r s] by (simp add: echoAPI_def)
next
  case (4 w u i dt etag r w')
  obtain s where "echoUpdate u (cl_sdk w) = (r, s)" "cl_sdk w' = s" "cl_zones w' = cl_zones w"
    using 4 by (auto simp: cloudAPI_def onSdk_eq)
  then show ?case using 4(1) echo.sdk_update_stale [OF TrueI 4(2,3,4), of r s] by (simp add: echoAPI_def)
next
  case (5 w i dt etag rd w')
  obtain s where "echoDelete (Some i) (Some etag) (cl_sdk w) = (rd, s)" "cl_sdk w' = s" "cl_zones w' = cl_zones w"
    using 5 by (auto simp: cloudAPI_def onSdk_eq)
  then show ?case using 5(1) echo.sdk_delete [OF TrueI 5(2), of rd s] by (simp add: echoAPI_def)
next
  case (8 w c e w')
  then obtain s where "echoCreate c (cl_sdk w) = (Inl e, s)" by (auto simp: cloudAPI_def onSdk_eq)
  then show ?case using echo.sdk_accepts_create by (simp add: echoAPI_def)
next
  case (9 w u i dt etag e w')
  then obtain s where "echoUpdate u (cl_sdk w) = (Inl e, s)" by (auto simp: cloudAPI_def onSdk_eq)
  then show ?case using 9(3) echo.sdk_accepts_update [OF TrueI 9(2) _ 9(4)] by (simp add: echoAPI_def)
qed (auto simp: cloudAPI_def)

lemma put_at:
  "keyOf t = k \<Longrightarrow> lookupT (putTenant t ts) = (lookupT ts)(k \<mapsto> t)"
  by (auto simp: putTenant_def lookupT_remove fun_eq_iff)

lemma cloudWrite_written:
  assumes "lookupT (sw_tenants w) (keyOf t) = Some u" and "dt_Generation t = dt_Generation u"
    and "cloudWrite t put f w = (r, w')" and "\<And>x. put (f u) = Some x \<Longrightarrow> keyOf x = keyOf t"
  shows "r = Inr (f u) \<and> lookupT (sw_tenants w') = (lookupT (sw_tenants w))(keyOf t := put (f u))"
  using assms by (cases "put (f u)") (auto simp: cloudWrite_def put_at lookupT_remove)

lemma cloudWrite_failed:
  assumes "cloudWrite t put f w = (Inl e, w')"
  shows "w' = w"
  using assms by (auto simp: cloudWrite_def split: option.splits if_splits)

lemma cloudWrite_inr:
  assumes "cloudWrite t put f w = (Inr t', w')"
  obtains u where "lookupT (sw_tenants w) (keyOf t) = Some u" "dt_Generation t = dt_Generation u" "t' = f u"
  using assms by (auto simp: cloudWrite_def split: option.splits if_splits)

lemma bump_keeps [simp]: "keyOf (mockBump old t) = keyOf t" "dt_Status (mockBump old t) = dt_Status t"
  "om_Finalizers (dt_Meta (mockBump old t)) = om_Finalizers (dt_Meta t)"
  by (simp_all add: mockBump_def keyOf_def)

lemma mockPut_Some: "mockPut t = Some u \<Longrightarrow> u = t"
  by (simp add: mockPut_def split: if_splits)

lemma keyOf_status [simp]: "keyOf (t\<lparr>dt_Status := x\<rparr>) = keyOf t"
  by (simp add: keyOf_def)

lemma cloud_objects: "object_store cloudK8s (\<lambda>w. cloudStore w (ns, n)) ns n"
proof (unfold_locales, goal_cases)
  case (1 w r w')
  then show ?case by (auto simp: cloudK8s_def onApi_eq apiGetTenant_def split: option.splits)
next
  case (2 t w u ru w')
  have t: "mockBump (dt_Spec u) (t\<lparr>dt_Status := dt_Status u\<rparr>) = t" using 2(3,4) by (simp add: mockBump_def)
  obtain s where s: "cloudWrite t mockPut (\<lambda>u. mockBump (dt_Spec u) (t\<lparr>dt_Status := dt_Status u\<rparr>)) (cl_api w) = (ru, s)"
      "cl_api w' = s"
    using 2(6) by (auto simp: cloudK8s_def onApi_eq)
  have "ru = Inr t" "cloudStore w' = (cloudStore w)(keyOf t := mockPut t)"
    using cloudWrite_written [OF _ 2(5) s(1)] 2(1,2) s(2) t by (auto dest: mockPut_Some)
  then show ?case using 2(1) by (simp add: mockPut_def)
next
  case (3 t w u rs w')
  have t: "u\<lparr>dt_Status := dt_Status t\<rparr> = t" using 3(3) by (simp add: sameObject_def)
  have g: "dt_Generation t = dt_Generation u" using 3(3) by (simp add: sameObject_def)
  obtain s where s: "cloudWrite t Some (\<lambda>u. u\<lparr>dt_Status := dt_Status t\<rparr>) (cl_api w) = (rs, s)" "cl_api w' = s"
    using 3(4) by (auto simp: cloudK8s_def onApi_eq)
  show ?case
    using cloudWrite_written [OF _ g s(1)] 3(1,2) s(2) t by auto
qed

lemma cloud_tenants: "tenant_store cloudSource cloudStore (\<lambda>_. True)"
proof (unfold_locales, goal_cases)
  case (1 w key t)
  then show ?case by (rule api_tenants.keyed)
next
  case (2 ns n w r w')
  then show ?case using api_tenants.get_tenant by (fastforce simp: cloudSource_def onApi_eq)
next
  case (3 ns k v w l w')
  obtain s where "sk_ListTenants apiServer ns k v (cl_api w) = (l, s)" "cl_api w' = s"
    using 3 by (auto simp: cloudSource_def onApi_eq)
  then show ?case using api_tenants.list_tenants by blast
next
  case (4 t w r w')
  obtain s where "sk_CreateTenant apiServer t (cl_api w) = (r, s)" "cl_api w' = s"
    using 4 by (auto simp: cloudSource_def onApi_eq)
  then show ?case using api_tenants.create_tenant by blast
next
  case (5 w t r w')
  obtain s where "sk_UpdateTenant apiServer t (cl_api w) = (r, s)" "cl_api w' = s"
    using 5 by (auto simp: cloudSource_def onApi_eq)
  then show ?case using api_tenants.update_tenant [OF 5(1)] by blast
next
  case (6 w t d w')
  obtain s where "sk_DeleteTenant apiServer t (cl_api w) = (d, s)" "cl_api w' = s"
    using 6 by (auto simp: cloudSource_def onApi_eq)
  then show ?case using api_tenants.delete_tenant [OF 6(1)] by blast
qed

lemma cloud_platform:
  "operator_platform (cloudServices rows) cloudAt (\<lambda>w. Z (cl_zones w)) (\<lambda>w. cloudStore w (ns, n)) ns n"
proof (rule operator_platform.intro)
  show "accepting_service (sv_CloudFront (cloudServices rows)) cloudAt (\<lambda>w. Z (cl_zones w))"
    by (simp add: cloudServices_def cloud_service)
  show "object_store (sv_TenantClient (cloudServices rows)) (\<lambda>w. cloudStore w (ns, n)) ns n"
    by (simp add: cloudServices_def cloud_objects)
  show "apimachinery (sv_Apim (cloudServices rows))"
    by (simp add: cloudServices_def ref.apimachinery_axioms)
  show "operator_platform_axioms (cloudServices rows) cloudAt (\<lambda>w. Z (cl_zones w)) (\<lambda>w. cloudStore w (ns, n)) ns n"
    by unfold_locales (auto simp: cloudServices_def cloudK8s_def cloudAPI_def onSdk_eq onApi_eq)
qed

interpretation cloud: operator_platform "cloudServices rows" cloudAt "\<lambda>_. True"
  "\<lambda>w. cloudStore w (ns, n)" ns n
  by (rule cloud_platform)

text \<open>What was changed in CloudFront is deployed after the step \<open>m\<close>.\<close>

definition cloudSettles :: "nat \<Rightarrow> nat \<Rightarrow> cloudWorld \<Rightarrow> cloudWorld" where
  "cloudSettles m k w = (if k = m then w\<lparr>cl_sdk := echoDeployed (cl_sdk w)\<rparr> else w)"

lemma cloud_propagates:
  "sdk_propagation cloudAt (\<lambda>_. True) (\<lambda>w. f (cl_api w) (cl_zones w)) (cloudSettles m) m"
  by unfold_locales
    (auto simp: cloudSettles_def echoDeployed_def option.rel_map intro!: option.rel_refl)

interpretation cloud_propagation: sdk_propagation cloudAt "\<lambda>_. True" "\<lambda>w. (cl_api w, cl_zones w)" "cloudSettles m" m
  by (rule cloud_propagates)

interpretation cloud_source: source_platform "cloudServices rows" cloudStore "\<lambda>_. True"
proof (rule source_platform.intro)
  show "tenant_store (sv_SourceClient (cloudServices rows)) cloudStore (\<lambda>_. True)"
    by (simp add: cloudServices_def cloud_tenants)
  show "owner_references (sv_SetOwnerReference (cloudServices rows))"
    by (simp add: cloudServices_def ref_owner.owner_references_axioms)
  show "source_platform_axioms (cloudServices rows) cloudStore"
    by unfold_locales (auto simp: cloudServices_def rowTable_def cloudSource_def onApi_eq apiServer_def
      apiGetSource_def apiPutSource_def goRange_instances split: option.splits)
qed

section \<open>The deployed operator\<close>

text \<open>End to end: the operator that main starts (with one of the three drift policies, else it
  exits) makes CloudFront hold the spec of an object that differs from what CloudFront returns for
  it, in one reconcile: through the wiring, the production client, its conversions and the SDK, the
  tenant stored by the service converts back to one that the comparison accepts, under the ETag and
  the generation recorded in the stored object.\<close>

theorem deployed_operator_reaches_aws:
  assumes "mainOperator policy P = Inr op" and "operator_platform P sdkAt healthy stored ns n"
    and "healthy w" and "stored w = Some t" and "keyOf t = (ns, n)" and "\<not> beingDeleted t"
    and "FinalizerName \<in> set (om_Finalizers (dt_Meta t))" and "tenantID t \<noteq> []"
    and "sdkAt w (tenantID t) = Some (dt, etag)" and "\<not> specMatchesAWS (dt_Spec t) (heldAs dt etag)"
    and "distinct (map param_Name (spec_Parameters (dt_Spec t)))" and "spec_Enabled (dt_Spec t) \<noteq> None"
    and "spec_DNS (dt_Spec t) = None"
    and "dt_Generation t = st_ObservedGeneration (dt_Status t) \<Longrightarrow> policy = DriftPolicyEnforce"
    and "\<And>w. healthy w \<Longrightarrow> validationErrors t
      (fst (realInfo (sv_CloudFront P) (spec_DistributionId (dt_Spec t)) w)) \<in> {None, Some []}"
    and "w' = fst (passes (op_Tenants op) ns n t0 1 (w, cache))"
  shows "policy \<in> {DriftPolicyEnforce, DriftPolicyReport, DriftPolicySuspend} \<and>
    (\<exists>dt' etag' t'. sdkAt w' (tenantID t) = Some (dt', etag') \<and>
      specMatchesAWS (dt_Spec t) (heldAs dt' etag') \<and>
      stored w' = Some t' \<and> sameObject t t' \<and> tenantID t' = tenantID t \<and>
      st_ETag (dt_Status t') = etag' \<and> st_ObservedGeneration (dt_Status t') = dt_Generation t)"
proof
  note op = mainOperator_Inr [OF assms(1)]
  show "policy \<in> {DriftPolicyEnforce, DriftPolicyReport, DriftPolicySuspend}" by (rule op(3))
  let ?R = "tenantReconciler P policy"
  have "hasFinalizer ?R t"
    using assms(7) operator_platform.axioms(3) [OF assms(2)]
    by (simp add: hasFinalizer_def tenantReconciler_def apimachinery.contains_iff)
  moreover have "realAt sdkAt w (tenantID t) = Some (heldAs dt etag)" using assms(9) by (simp add: realAt_def)
  moreover have "r_DriftPolicy ?R = policy" "cf_GetDistributionInfo (r_CFClient ?R) = realInfo (sv_CloudFront P)"
    by (simp_all add: tenantReconciler_def RealCloudFrontClient_def)
  ultimately have "settledWith (realAt sdkAt) stored t (fst (passes ?R ns n t0 (Suc 0) (w, cache)))"
    using assms(3-6,8,10-15)
    by (intro operator_world.pass_settles [OF operator_platform.platform_world [OF assms(2)]])
      (simp_all add: pushable_def)
  then show "\<exists>dt' etag' t'. sdkAt w' (tenantID t) = Some (dt', etag') \<and>
      specMatchesAWS (dt_Spec t) (heldAs dt' etag') \<and>
      stored w' = Some t' \<and> sameObject t t' \<and> tenantID t' = tenantID t \<and>
      st_ETag (dt_Status t') = etag' \<and> st_ObservedGeneration (dt_Status t') = dt_Generation t"
    using assms(16) op(1)
    by (auto simp: settledWith_def realAt_def heldAs_etag)
qed

text \<open>A tenant that AWS holds for another distribution.\<close>

definition misplacedTenant :: cfDistributionTenant where
  "misplacedTenant =
     \<lparr>sdt_Id = Some ''T1'', sdt_Arn = None, sdt_DistributionId = Some ''E2'', sdt_Name = Some ''abc'',
      sdt_Status = Some ''Deployed'', sdt_Enabled = Some True, sdt_ConnectionGroupId = None,
      sdt_CreatedTime = None, sdt_LastModifiedTime = None,
      sdt_Domains = [\<lparr>sdr_Domain = Some ''a.b'', sdr_Status = ''active''\<rparr>], sdt_Parameters = [],
      sdt_Customizations = None\<rparr>"

definition cloudStart :: cloudWorld where
  "cloudStart = \<lparr>cl_sdk = \<lparr>sd_tenants = [''T1'' \<mapsto> (misplacedTenant, ''v1'')], sd_version = 2\<rparr>,
     cl_api = plainWorld None [] [settled], cl_zones = (\<lambda>_. {})\<rparr>"

abbreviation cloudOperator :: "dynamoItem list \<Rightarrow> cloudWorld operator" where
  "cloudOperator rows \<equiv> wiredOperator ''enforce'' (cloudServices rows)"

lemma cloud_accepts:
  assumes "tenantNameRegex (dt_Name t)"
  shows "validationErrors t (fst (realInfo (sv_CloudFront (cloudServices rows)) d w)) \<in> {None, Some []}"
proof -
  have "awsCodeClass ''Throttling'' = Some ErrThrottling" by code_simp
  with assms show ?thesis
    by (simp add: cloudServices_def cloudAPI_def realInfo_def andThen_def validationErrors_def sdkError_def
        classifiedBy_def classifyAWSError_api wrapSentinel_def errorsIs_def)
qed

lemma cloud_main: "mainOperator ''enforce'' (cloudServices rows) = Inr (cloudOperator rows)"
  by (simp add: mainOperator_def ValidateDriftPolicy_def)

theorem deployed_operator_reaches_aws_witness:
  "\<exists>dt etag. cloudAt (fst (passes (op_Tenants (cloudOperator [])) ''ns'' ''abc'' settled 1
      (cloudStart, Map.empty))) ''T1'' = Some (dt, etag) \<and> out_DistributionId (heldAs dt etag) = ''E1''"
proof -
  have t: "\<not> beingDeleted settled" "FinalizerName \<in> set (om_Finalizers (dt_Meta settled))"
    "tenantID settled = ''T1''" "distinct (map param_Name (spec_Parameters (dt_Spec settled)))"
    "spec_Enabled (dt_Spec settled) \<noteq> None" "spec_DNS (dt_Spec settled) = None"
    "spec_DistributionId (dt_Spec settled) = ''E1''" "dt_Name settled = ''abc''"
    "keyOf settled = (''ns'', ''abc'')"
    by (simp_all add: beingDeleted_def tenantID_def keyOf_def demoTenant_def demoMeta_def demoStatus_def demoSpec_def)
  have w: "cloudStore cloudStart (''ns'', ''abc'') = Some settled"
    "cloudAt cloudStart (tenantID settled) = Some (misplacedTenant, ''v1'')"
    unfolding t(3) using t(9) by (simp_all add: cloudStart_def plainWorld_def)
  have d: "\<not> specMatchesAWS (dt_Spec settled) (heldAs misplacedTenant ''v1'')"
    by (simp add: specMatchesAWS_conj t(7) heldAs_def toDistributionTenantOutput_def misplacedTenant_def)
  have v: "validationErrors settled
      (fst (realInfo (sv_CloudFront (cloudServices [])) (spec_DistributionId (dt_Spec settled)) w)) \<in> {None, Some []}" for w
    using demo_name t(8) by (intro cloud_accepts) simp
  obtain dt etag where n: "cloudAt (fst (passes (op_Tenants (cloudOperator [])) ''ns'' ''abc''
      settled 1 (cloudStart, Map.empty))) (tenantID settled) = Some (dt, etag)"
      "specMatchesAWS (dt_Spec settled) (heldAs dt etag)"
    using deployed_operator_reaches_aws [OF cloud_main cloud.operator_platform_axioms TrueI w(1) t(9) t(1,2) _ w(2) d t(4-6)
        _ v refl, of settled Map.empty] t(3)
    by auto
  then show ?thesis unfolding t(3) using t(7) by (auto simp: specMatchesAWS_conj)
qed

section \<open>From a row to CloudFront\<close>

lemma defaults_match: "specMatchesAWS (crdDefaults spec) out = specMatchesAWS spec out"
  by (simp add: specMatchesAWS_conj crdDefaults_def split: option.split)

text \<open>A name without an object, or with an object of the source whose spec differs from that of the row.\<close>

definition newOrChanged ::
  "TenantSource \<Rightarrow> DistributionTenantSpec \<Rightarrow> DistributionTenant option \<Rightarrow> bool" where
  "newOrChanged source spec before = (case before of None \<Rightarrow> True
     | Some t \<Rightarrow> isOwnedBySource t source \<and> labelled source t \<and> \<not> beingDeleted t \<and>
         \<not> tenantSpecEqual (dt_Spec t) spec)"

lemma written_by_sync:
  assumes "syncedTo valid ro source (Some item) before after" and "spec = buildTenantSpec ro source item"
    and "valid spec" and "spec_ManagedCertificateRequest spec = None" and "newOrChanged source spec before"
  shows "\<exists>t. after = Some t \<and> dt_Spec t = crdDefaults spec \<and> \<not> beingDeleted t"
proof -
  have applied: "applyManagedFields dst spec = spec" for dst
    using assms(4) by (simp add: applyManagedFields_def)
  have "acceptable valid source spec before"
    using assms(3,5) by (auto simp: acceptable_def newOrChanged_def applied split: option.splits)
  then have "reached source spec before after" using assms(1,2) by (simp add: syncedTo_def)
  then show ?thesis
    using assms(5) by (auto simp: reached_def newOrChanged_def applied split: option.splits)
qed

lemma defaults_plain:
  assumes "spec_DNS spec = None" and "spec_ManagedCertificateRequest spec = None"
    and "distinct (map param_Name (spec_Parameters spec))"
  shows "plainSpec (crdDefaults spec)"
  using assms by (auto simp: plainSpec_def pushable_def crdDefaults_def split: option.split)

text \<open>One reconcile of the source writes the object.\<close>

lemma poll_writes_object:
  assumes platforms: "source_platform P tenants valid" "apimachinery (sv_Apim P)"
    and source: "sk_Get (sv_SourceClient P) sns sn (world s) = (Inr source, w1)"
      "om_DeletionTimestamp (ts_Meta source) = None"
      "TenantSourceFinalizerName \<in> set (om_Finalizers (ts_Meta source))"
      "tss_Provider (ts_Spec source) = ''dynamodb''" "tss_DynamoDB (ts_Spec source) = Some cfg"
      "tss_DryRun (ts_Spec source) \<noteq> Some True"
      "ts_Namespace source = ns" "targetNamespace source = ns"
    and pages: "servesPages (sv_DynamoDB P (clientRegion cfg)) (dd_TableName cfg) None pages None w1 w2"
    and row: "desiredMap (concat (map (mapItems (buildScanInput cfg)) pages)) name = Some item"
    and spec: "spec = buildTenantSpec (sv_Order P) source item" "valid spec"
      "spec_ManagedCertificateRequest spec = None" "newOrChanged source spec (tenants (world s) (ns, name))"
    and run: "run_state (ts_Reconcile (tenantSourceReconciler P) sns sn) s = (res, s')"
  obtains t where "tenants (world s') (ns, name) = Some t" "keyOf t = (ns, name)" "\<not> beingDeleted t"
    "dt_Spec t = crdDefaults spec"
proof -
  have "syncedTo valid (sv_Order P) source (Some item) (tenants (world s) (ns, name))
      (tenants (world s') (ns, name))"
    using wpD [OF source_platform.reconcile_syncs [OF platforms(1) source(1,2) platforms(2) source(3-6) _ pages]
        run] row source(7,8)
    by metis
  from written_by_sync [OF this spec] obtain t where t: "tenants (world s') (ns, name) = Some t"
      "dt_Spec t = crdDefaults spec" "\<not> beingDeleted t"
    by blast
  then show ?thesis
    using that tenant_store.keyed [OF source_platform.axioms(1) [OF platforms(1)] t(1)] by blast
qed

text \<open>C3: A row becomes a tenant: after one reconcile of the source by the operator that main starts,
  over a table that serves its pages, and three reconciles of the object of a name that the source
  lists, new or with an object whose spec differs from that of the row, CloudFront holds a tenant that matches the spec built from
  the row (and the template of the source), under the id recorded in the object, and no later
  reconcile of the object changes what CloudFront holds. (The spec is one without managed DNS and
  managed certificate that the API server and the validation accept.)\<close>

theorem row_reaches_cloudfront:
  assumes main: "mainOperator DriftPolicyEnforce P = Inr op"
    and platforms: "source_platform P tenants valid"
      "operator_platform P sdkAt healthy (\<lambda>w. tenants w (ns, name)) ns name"
    and source: "sk_Get (sv_SourceClient P) sns sn (world s) = (Inr source, w1)"
      "om_DeletionTimestamp (ts_Meta source) = None"
      "TenantSourceFinalizerName \<in> set (om_Finalizers (ts_Meta source))"
      "tss_Provider (ts_Spec source) = ''dynamodb''" "tss_DynamoDB (ts_Spec source) = Some cfg"
      "tss_DryRun (ts_Spec source) \<noteq> Some True"
      "ts_Namespace source = ns" "targetNamespace source = ns"
    and pages: "servesPages (sv_DynamoDB P (clientRegion cfg)) (dd_TableName cfg) None pages None w1 w2"
    and row: "desiredMap (concat (map (mapItems (buildScanInput cfg)) pages)) name = Some item"
      "newOrChanged source spec (tenants (world s) (ns, name))"
    and spec: "spec = buildTenantSpec (sv_Order P) source item" "valid spec" "spec_DNS spec = None"
      "spec_ManagedCertificateRequest spec = None" "distinct (map param_Name (spec_Parameters spec))"
    and run: "run_state (ts_Reconcile (op_Sources op) sns sn) s = (res, s')"
    and live: "healthy (world s')"
    and accepted: "\<And>w t. healthy w \<Longrightarrow> dt_Name t = name \<Longrightarrow> dt_Spec t = crdDefaults spec \<Longrightarrow>
      validationErrors t (fst (realInfo (sv_CloudFront P) (spec_DistributionId spec) w)) \<in> {None, Some []}"
    and later: "w' = fst (passes (op_Tenants op) ns name t0 (3 + k) (world s', cache))"
  shows "\<exists>t dt etag. tenants w' (ns, name) = Some t \<and> dt_Spec t = crdDefaults spec \<and>
    sdkAt w' (tenantID t) = Some (dt, etag) \<and> specMatchesAWS spec (heldAs dt etag) \<and>
    realAt sdkAt w' = realAt sdkAt (fst (passes (op_Tenants op) ns name t0 3 (world s', cache)))"
proof -
  let ?R = "tenantReconciler P DriftPolicyEnforce"
  note op = mainOperator_Inr [OF main]
  note world = operator_platform.platform_world [OF platforms(2), of DriftPolicyEnforce]
  obtain t where t: "tenants (world s') (ns, name) = Some t" "dt_Spec t = crdDefaults spec" "\<not> beingDeleted t"
    and key: "keyOf t = (ns, name)"
    using poll_writes_object [OF platforms(1) operator_platform.axioms(3) [OF platforms(2)] source pages row(1)
        spec(1,2,4) row(2) run [unfolded op(2)]]
    by metis
  have parts: "r_DriftPolicy ?R = DriftPolicyEnforce" "cf_GetDistributionInfo (r_CFClient ?R) = realInfo (sv_CloudFront P)"
    "spec_DistributionId (crdDefaults spec) = spec_DistributionId spec"
    by (simp_all add: tenantReconciler_def RealCloudFrontClient_def crdDefaults_def)
  have stays: "converged ?R (realAt sdkAt) healthy (\<lambda>w. tenants w (ns, name)) (ns, name) (dt_Spec t) w' \<and>
      realAt sdkAt w' = realAt sdkAt (fst (passes ?R ns name t0 3 (world s', cache)))"
    unfolding later op(1)
  proof (rule operator_world.converges_and_stays [OF world live t(1) _ _ parts(1)], goal_cases)
    case 1
    show ?case using key t(3) by (simp add: liveObject_def)
  next
    case 2
    show ?case unfolding t(2) by (rule defaults_plain [OF spec(3-5)])
  next
    case (3 w)
    have "dt_Name t = name" using key by (simp add: keyOf_def)
    from accepted [OF 3 this t(2)] show ?case by (simp only: t(2) parts)
  qed
  show ?thesis
  proof (rule convergedE [OF conjunct1 [OF stays]])
    fix t' out
    assume a: "tenants w' (ns, name) = Some t'" "dt_Spec t' = dt_Spec t"
      "realAt sdkAt w' (tenantID t') = Some out" "specMatchesAWS (dt_Spec t) out"
    obtain dt etag where "sdkAt w' (tenantID t') = Some (dt, etag)" "out = heldAs dt etag"
      using a(3) by (auto simp: realAt_def)
    then show ?thesis
      using a(1,2,4) conjunct2 [OF stays] unfolding t(2) defaults_match op(1) by blast
  qed
qed

text \<open>A table with one row, and the API server and CloudFront before the first poll.\<close>

definition oneRow :: dynamoItem where
  "oneRow = [(''name'', MemberS ''abc''), (''domains'', MemberS ''a.example'')]"

definition cloudEmpty :: cloudWorld where
  "cloudEmpty = \<lparr>cl_sdk = \<lparr>sd_tenants = Map.empty, sd_version = 1\<rparr>,
     cl_api = (plainWorld None [] [])\<lparr>sw_source := Some dynamoSource\<rparr>, cl_zones = (\<lambda>_. {})\<rparr>"

definition polledWorld :: cloudWorld where
  "polledWorld = world (snd (run_state (ts_Reconcile (op_Sources (cloudOperator [oneRow])) ''ns'' ''src'')
     \<lparr>obj = dynamoSource, world = cloudEmpty, trace = []\<rparr>))"

lemma oneRow_item: "mapItems (buildScanInput (the (tss_DynamoDB (ts_Spec dynamoSource)))) [oneRow] =
    [plainItem ''abc'' ''a.example'']"
  by code_simp

lemma oneRow_spec:
  "spec_DNS (buildTenantSpec asStored dynamoSource (plainItem ''abc'' ''a.example'')) = None"
  "spec_ManagedCertificateRequest (buildTenantSpec asStored dynamoSource (plainItem ''abc'' ''a.example'')) = None"
  "spec_Parameters (buildTenantSpec asStored dynamoSource (plainItem ''abc'' ''a.example'')) = []"
  "spec_DistributionId (buildTenantSpec asStored dynamoSource (plainItem ''abc'' ''a.example'')) = ''E1''"
  by code_simp+

theorem row_reaches_cloudfront_witness:
  "\<exists>t dt etag. cloudStore (fst (passes (op_Tenants (cloudOperator [oneRow])) ''ns'' ''abc'' settled 5
      (polledWorld, Map.empty))) (''ns'', ''abc'') = Some t \<and>
    cloudAt (fst (passes (op_Tenants (cloudOperator [oneRow])) ''ns'' ''abc'' settled 5
      (polledWorld, Map.empty))) (tenantID t) = Some (dt, etag) \<and>
    out_DistributionId (heldAs dt etag) = ''E1''"
proof -
  let ?op = "cloudOperator [oneRow]" and ?P = "cloudServices [oneRow]"
  let ?cfg = "the (tss_DynamoDB (ts_Spec dynamoSource))" and ?item = "plainItem ''abc'' ''a.example''"
  let ?spec = "buildTenantSpec (sv_Order ?P) dynamoSource ?item"
  let ?s = "\<lparr>obj = dynamoSource, world = cloudEmpty, trace = []\<rparr>"
  have main: "mainOperator DriftPolicyEnforce ?P = Inr ?op" by (simp add: cloud_main)
  have source: "sk_Get (sv_SourceClient ?P) ''ns'' ''src'' (world ?s) = (Inr dynamoSource, cloudEmpty)"
    "tss_DynamoDB (ts_Spec dynamoSource) = Some ?cfg" "tss_DryRun (ts_Spec dynamoSource) \<noteq> Some True"
    "om_DeletionTimestamp (ts_Meta dynamoSource) = None" "tss_Provider (ts_Spec dynamoSource) = ''dynamodb''"
    "TenantSourceFinalizerName \<in> set (om_Finalizers (ts_Meta dynamoSource))"
    "ts_Namespace dynamoSource = ''ns''" "targetNamespace dynamoSource = ''ns''"
    by (simp_all add: cloudServices_def cloudSource_def onApi_def apiServer_def apiGetSource_def cloudEmpty_def
        plainWorld_def dynamoSource_def plainSource_def targetNamespace_def)
  have pages: "servesPages (sv_DynamoDB ?P (clientRegion ?cfg)) (dd_TableName ?cfg) None [[oneRow]] None
      cloudEmpty cloudEmpty"
    by (rule last_page) (simp add: cloudServices_def rowTable_def)
  have row: "desiredMap (concat (map (mapItems (buildScanInput ?cfg)) [[oneRow]])) ''abc'' = Some ?item"
    "newOrChanged dynamoSource ?spec (cloudStore (world ?s) (''ns'', ''abc''))"
    by (simp_all add: newOrChanged_def oneRow_item desiredMap_def plainItem_def mapByKey_def cloudEmpty_def plainWorld_def)
  have order: "sv_Order ?P = asStored" by (simp add: cloudServices_def)
  have run: "run_state (ts_Reconcile (op_Sources ?op) ''ns'' ''src'') ?s =
      (fst (run_state (ts_Reconcile (op_Sources ?op) ''ns'' ''src'') ?s),
       snd (run_state (ts_Reconcile (op_Sources ?op) ''ns'' ''src'') ?s))" by simp
  have "validationErrors t (fst (realInfo (sv_CloudFront ?P) (spec_DistributionId ?spec) w)) \<in> {None, Some []}"
    if "dt_Name t = ''abc''" for t w
    using that demo_name by (intro cloud_accepts) simp
  note accepted = this
  obtain t dt etag where "cloudStore (fst (passes (op_Tenants ?op) ''ns'' ''abc'' settled (3 + 2)
      (world (snd (run_state (ts_Reconcile (op_Sources ?op) ''ns'' ''src'') ?s)), Map.empty))) (''ns'', ''abc'') = Some t"
    "cloudAt (fst (passes (op_Tenants ?op) ''ns'' ''abc'' settled (3 + 2)
      (world (snd (run_state (ts_Reconcile (op_Sources ?op) ''ns'' ''src'') ?s)), Map.empty))) (tenantID t) = Some (dt, etag)"
    "specMatchesAWS ?spec (heldAs dt etag)"
    using row_reaches_cloudfront [OF main cloud_source.source_platform_axioms cloud.operator_platform_axioms
        source(1,4,6,5,2,3,7,8) pages row refl TrueI _ _ _ run TrueI accepted refl, of settled 2 Map.empty]
    unfolding order oneRow_spec by auto
  then show ?thesis
    using oneRow_spec(4) unfolding order by (auto simp: polledWorld_def specMatchesAWS_conj)
qed

end
