(* ===== verification/Startup.thy ===== *)
theory Startup
  imports EndToEnd
begin

text \<open>
  The start of the operator: \<open>main\<close> of \<open>cmd/main.go\<close> with its flags, the options of the two
  servers and of the manager that follow from them, the registration of the two controllers
  (\<open>SetupWithManager\<close>), and the order of the calls that may fail. What the manager, the
  kubeconfig and the SDK configuration answer is a parameter: a function from calls to answers.
  \<open>main\<close> is shown to run a plan: a list of calls, in order, up to the first that fails.
\<close>

section \<open>Flags and options\<close>

record mainFlags =
  fl_metricsAddr :: string
  fl_awsRegion :: string
  fl_driftPolicy :: string
  fl_maxConcurrentReconciles :: int
  fl_probeAddr :: string
  fl_enableLeaderElection :: bool
  fl_secureMetrics :: bool
  fl_webhookCertPath :: string
  fl_webhookCertName :: string
  fl_webhookCertKey :: string
  fl_metricsCertPath :: string
  fl_metricsCertName :: string
  fl_metricsCertKey :: string
  fl_enableHTTP2 :: bool

definition defaultFlags :: mainFlags where
  "defaultFlags =
     \<lparr>fl_metricsAddr = ''0'', fl_awsRegion = [], fl_driftPolicy = ''enforce'',
      fl_maxConcurrentReconciles = 1, fl_probeAddr = '':8081'', fl_enableLeaderElection = False,
      fl_secureMetrics = True, fl_webhookCertPath = [], fl_webhookCertName = ''tls.crt'',
      fl_webhookCertKey = ''tls.key'', fl_metricsCertPath = [], fl_metricsCertName = ''tls.crt'',
      fl_metricsCertKey = ''tls.key'', fl_enableHTTP2 = False\<rparr>"

record tlsConfig =
  tls_NextProtos :: "string list"

type_synonym tlsOption = "tlsConfig \<Rightarrow> tlsConfig"

definition disableHTTP2 :: tlsOption where
  "disableHTTP2 c = c\<lparr>tls_NextProtos := [''http/1.1'']\<rparr>"

definition tlsOptions :: "mainFlags \<Rightarrow> tlsOption list" where
  "tlsOptions fl = (let tlsOpts = [] in
     if \<not> fl_enableHTTP2 fl then tlsOpts @ [disableHTTP2] else tlsOpts)"

record certFiles =
  cert_Dir :: string
  cert_Name :: string
  cert_Key :: string

record webhookOptions =
  wh_TLSOpts :: "tlsOption list"
  wh_Cert :: "certFiles option"

definition webhookServerOptions :: "mainFlags \<Rightarrow> webhookOptions" where
  "webhookServerOptions fl =
     (let opts = \<lparr>wh_TLSOpts = tlsOptions fl, wh_Cert = None\<rparr> in
      if 0 < length (fl_webhookCertPath fl)
      then opts\<lparr>wh_Cert := Some \<lparr>cert_Dir = fl_webhookCertPath fl,
        cert_Name = fl_webhookCertName fl, cert_Key = fl_webhookCertKey fl\<rparr>\<rparr>
      else opts)"

text \<open>The filter that authenticates and authorises the requests for the metrics.\<close>

datatype metricsFilter = WithAuthenticationAndAuthorization

record metricsOptions =
  ms_BindAddress :: string
  ms_SecureServing :: bool
  ms_TLSOpts :: "tlsOption list"
  ms_FilterProvider :: "metricsFilter option"
  ms_Cert :: "certFiles option"

definition metricsServerOptions :: "mainFlags \<Rightarrow> metricsOptions" where
  "metricsServerOptions fl =
     (let opts = \<lparr>ms_BindAddress = fl_metricsAddr fl, ms_SecureServing = fl_secureMetrics fl,
            ms_TLSOpts = tlsOptions fl, ms_FilterProvider = None, ms_Cert = None\<rparr>;
          opts = (if fl_secureMetrics fl
            then opts\<lparr>ms_FilterProvider := Some WithAuthenticationAndAuthorization\<rparr> else opts) in
      if 0 < length (fl_metricsCertPath fl)
      then opts\<lparr>ms_Cert := Some \<lparr>cert_Dir = fl_metricsCertPath fl,
        cert_Name = fl_metricsCertName fl, cert_Key = fl_metricsCertKey fl\<rparr>\<rparr>
      else opts)"

record managerOptions =
  mo_Metrics :: metricsOptions
  mo_WebhookServer :: webhookOptions
  mo_HealthProbeBindAddress :: string
  mo_LeaderElection :: bool
  mo_LeaderElectionID :: string

definition managerOptionsFor :: "mainFlags \<Rightarrow> managerOptions" where
  "managerOptionsFor fl =
     \<lparr>mo_Metrics = metricsServerOptions fl, mo_WebhookServer = webhookServerOptions fl,
      mo_HealthProbeBindAddress = fl_probeAddr fl, mo_LeaderElection = fl_enableLeaderElection fl,
      mo_LeaderElectionID = ''dd008127.cloudfront-tenant-operator.io''\<rparr>"

definition configRegion :: "mainFlags \<Rightarrow> string option" where
  "configRegion fl = (if fl_awsRegion fl \<noteq> [] then Some (fl_awsRegion fl) else None)"

section \<open>The controllers\<close>

datatype watchPredicate = GenerationChangedPredicate

record controllerSpec =
  ct_Name :: string
  ct_For :: string
  ct_ForPredicates :: "watchPredicate list"
  ct_Owns :: "string list"
  ct_MaxConcurrentReconciles :: "int option"

definition dt_SetupWithManager :: "int \<Rightarrow> controllerSpec" where
  "dt_SetupWithManager maxConcurrent =
     (let b = \<lparr>ct_Name = ''distributiontenant'', ct_For = ''DistributionTenant'',
            ct_ForPredicates = [GenerationChangedPredicate], ct_Owns = [],
            ct_MaxConcurrentReconciles = None\<rparr> in
      if maxConcurrent > 0 then b\<lparr>ct_MaxConcurrentReconciles := Some maxConcurrent\<rparr> else b)"

definition ts_SetupWithManager :: controllerSpec where
  "ts_SetupWithManager =
     \<lparr>ct_Name = ''tenantsource'', ct_For = ''TenantSource'',
      ct_ForPredicates = [GenerationChangedPredicate], ct_Owns = [''DistributionTenant''],
      ct_MaxConcurrentReconciles = None\<rparr>"

section \<open>main\<close>

datatype setupCall =
    GetConfig
  | NewManager managerOptions
  | LoadDefaultConfig "string option"
  | RegisterCollector
  | CompleteController controllerSpec
  | AddHealthzCheck string
  | AddReadyzCheck string
  | StartManager

datatype setupEvent = Attempted setupCall "go_error + unit"

datatype mainExit = ExitOne string go_error | Crashed go_error | Stopped

type_synonym 'w setupPlatform = "setupCall \<Rightarrow> ('w, unit) call"
type_synonym ('w, 'a) mainAct = "(('w operator option, 'w, setupEvent) rstate, 'a) state"

text \<open>\<open>if err := ...; err != nil { setupLog.Error(err, msg); os.Exit(1) }\<close>, or the panic of a
  \<open>Must\<close> function.\<close>

definition orExit ::
  "'w setupPlatform \<Rightarrow> setupCall \<Rightarrow> (go_error \<Rightarrow> mainExit) \<Rightarrow> ('w, mainExit) mainAct \<Rightarrow>
   ('w, mainExit) mainAct" where
  "orExit E c exit k = do {
     r \<leftarrow> extern (E c) (Attempted c);
     case r of
       Inl err \<Rightarrow> returns (exit err)
     | Inr _ \<Rightarrow> k
   }"

definition main ::
  "'w setupPlatform \<Rightarrow> (string option \<Rightarrow> 'w services) \<Rightarrow> mainFlags \<Rightarrow> ('w, mainExit) mainAct" where
  "main E services fl =
     (case ValidateDriftPolicy (fl_driftPolicy fl) of
        Some err \<Rightarrow> returns (ExitOne ''invalid --drift-policy flag'' err)
      | None \<Rightarrow>
          orExit E GetConfig (ExitOne ''unable to get kubeconfig'')
          (orExit E (NewManager (managerOptionsFor fl)) (ExitOne ''unable to start manager'')
          (orExit E (LoadDefaultConfig (configRegion fl)) (ExitOne ''unable to load AWS SDK config'')
          (let P = services (configRegion fl) in
           orExit E RegisterCollector Crashed
          (orExit E (CompleteController (dt_SetupWithManager (fl_maxConcurrentReconciles fl)))
             (ExitOne ''unable to create controller'')
          (orExit E (CompleteController ts_SetupWithManager) (ExitOne ''unable to create controller'')
          (do {
             modifyObj (\<lambda>_. Some (wiredOperator (fl_driftPolicy fl) P));
             orExit E (AddHealthzCheck ''healthz'') (ExitOne ''unable to set up health check'')
            (orExit E (AddReadyzCheck ''readyz'') (ExitOne ''unable to set up ready check'')
            (orExit E StartManager (ExitOne ''problem running manager'')
               (returns Stopped)))
           })))))))"

section \<open>The plan\<close>

text \<open>What main means to do: a list of calls, each with the way main ends when it fails.\<close>

definition setupPlan :: "mainFlags \<Rightarrow> (setupCall \<times> (go_error \<Rightarrow> mainExit)) list" where
  "setupPlan fl =
     [(GetConfig, ExitOne ''unable to get kubeconfig''),
      (NewManager (managerOptionsFor fl), ExitOne ''unable to start manager''),
      (LoadDefaultConfig (configRegion fl), ExitOne ''unable to load AWS SDK config''),
      (RegisterCollector, Crashed),
      (CompleteController (dt_SetupWithManager (fl_maxConcurrentReconciles fl)),
        ExitOne ''unable to create controller''),
      (CompleteController ts_SetupWithManager, ExitOne ''unable to create controller''),
      (AddHealthzCheck ''healthz'', ExitOne ''unable to set up health check''),
      (AddReadyzCheck ''readyz'', ExitOne ''unable to set up ready check''),
      (StartManager, ExitOne ''problem running manager'')]"

fun runPlan ::
  "'w setupPlatform \<Rightarrow> (setupCall \<times> (go_error \<Rightarrow> mainExit)) list \<Rightarrow> 'w \<Rightarrow>
   setupEvent list \<times> mainExit \<times> 'w" where
  "runPlan E [] w = ([], Stopped, w)"
| "runPlan E ((c, exit) # plan) w =
     (case E c w of
        (Inl err, w') \<Rightarrow> ([Attempted c (Inl err)], exit err, w')
      | (Inr u, w') \<Rightarrow>
          (case runPlan E plan w' of (es, x, w'') \<Rightarrow> (Attempted c (Inr u) # es, x, w'')))"

definition follows ::
  "'w setupPlatform \<Rightarrow> ('w, mainExit) mainAct \<Rightarrow> (setupCall \<times> (go_error \<Rightarrow> mainExit)) list \<Rightarrow> bool" where
  "follows E m plan \<longleftrightarrow> (\<forall>s. case runPlan E plan (world s) of (es, x, w') \<Rightarrow>
     wp m (\<lambda>exit s'. exit = x \<and> world s' = w' \<and> trace s' = trace s @ es) s)"

named_theorems follows_intros \<open>actions that follow a plan\<close>

lemma follows_stop [follows_intros]: "follows E (returns Stopped) []"
  by (simp add: follows_def wp_simps)

lemma follows_step [follows_intros]:
  assumes "follows E k plan"
  shows "follows E (orExit E c exit k) ((c, exit) # plan)"
  unfolding follows_def
proof (rule allI)
  fix s :: "('a operator option, 'a, setupEvent) rstate"
  obtain r w' where r: "E c (world s) = (r, w')" by fastforce
  obtain es x w'' where p: "runPlan E plan w' = (es, x, w'')" using prod_cases3 by blast
  let ?s = "s\<lparr>world := w', trace := trace s @ [Attempted c r]\<rparr>"
  have "wp k (\<lambda>exit s'. exit = x \<and> world s' = w'' \<and> trace s' = trace s @ Attempted c r # es) ?s"
    using assms [unfolded follows_def, rule_format, of ?s] by (simp add: p)
  then show "case runPlan E ((c, exit) # plan) (world s) of (es, x, w') \<Rightarrow>
      wp (orExit E c exit k) (\<lambda>exit s'. exit = x \<and> world s' = w' \<and> trace s' = trace s @ es) s"
    by (cases r) (simp_all add: orExit_def wp_simps r p)
qed

lemma follows_modify [follows_intros]:
  assumes "follows E k plan"
  shows "follows E (do { modifyObj f; k }) plan"
  unfolding follows_def
proof (rule allI)
  fix s :: "('a operator option, 'a, setupEvent) rstate"
  show "case runPlan E plan (world s) of (es, x, w') \<Rightarrow>
      wp (do { modifyObj f; k }) (\<lambda>exit s'. exit = x \<and> world s' = w' \<and> trace s' = trace s @ es) s"
    using assms [unfolded follows_def, rule_format, of "s\<lparr>obj := f (obj s)\<rparr>"]
    by (simp add: wp_simps split: prod.splits)
qed

lemma main_follows:
  assumes "ValidateDriftPolicy (fl_driftPolicy fl) = None"
  shows "follows E (main E services fl) (setupPlan fl)"
  unfolding main_def assms option.case setupPlan_def Let_def by (rule follows_intros)+

text \<open>How far it gets.\<close>

definition attempted :: "setupEvent \<Rightarrow> setupCall" where
  "attempted e = (case e of Attempted c r \<Rightarrow> c)"

lemma runPlan_order:
  assumes "runPlan E plan w = (es, x, w')" and "\<forall>(c, f) \<in> set plan. \<forall>e. f e \<noteq> Stopped"
  shows "map attempted es = take (length es) (map fst plan) \<and>
    (x = Stopped \<longleftrightarrow> length es = length plan \<and> (\<forall>c err. Attempted c (Inl err) \<notin> set es))"
  using assms
proof (induction E plan w arbitrary: es rule: runPlan.induct)
  case (1 E w)
  then show ?case by auto
next
  case (2 E c f plan w)
  obtain r v where r: "E c w = (r, v)" by fastforce
  show ?case
  proof (cases r)
    case (Inl err)
    then show ?thesis using 2 r by (auto simp: attempted_def)
  next
    case (Inr u)
    then obtain es' where "runPlan E plan v = (es', x, w')" "es = Attempted c (Inr u) # es'"
      using 2(2) r by (auto split: prod.splits)
    then show ?thesis using 2(1) [OF r [unfolded Inr, symmetric] refl] 2(3) by (auto simp: attempted_def)
  qed
qed

definition mainStart :: "'w \<Rightarrow> ('w operator option, 'w, setupEvent) rstate" where
  "mainStart w = \<lparr>obj = None, world = w, trace = []\<rparr>"

lemma starts_wired:
  "wp (main E services fl) (\<lambda>_ s'. (\<exists>r. Attempted StartManager r \<in> set (trace s')) \<longrightarrow>
     obj s' = Some (wiredOperator (fl_driftPolicy fl) (services (configRegion fl)))) (mainStart w)"
  unfolding main_def orExit_def Let_def mainStart_def
  by (simp add: wp_simps split: option.split sum.split)

text \<open>C34: The start of the operator: with an invalid drift policy nothing is called; otherwise main
  makes the calls of its plan in order, up to the first that fails, which decides how it ends; the
  manager is started last, only when every other call succeeded, and then the operator it runs is
  the one wired for the policy and the region of the flags.\<close>

theorem main_follows_plan:
  assumes "run_state (main E services fl) (mainStart w) = (exit, s')"
  shows "if fl_driftPolicy fl \<notin> {DriftPolicyEnforce, DriftPolicyReport, DriftPolicySuspend}
    then trace s' = [] \<and> world s' = w \<and> (\<exists>err. exit = ExitOne ''invalid --drift-policy flag'' err)
    else runPlan E (setupPlan fl) w = (trace s', exit, world s') \<and>
      map attempted (trace s') = take (length (trace s')) (map fst (setupPlan fl)) \<and>
      (exit = Stopped \<longleftrightarrow> length (trace s') = length (setupPlan fl) \<and>
        (\<forall>c err. Attempted c (Inl err) \<notin> set (trace s'))) \<and>
      (StartManager \<in> attempted ` set (trace s') \<longrightarrow> (\<exists>op. obj s' = Some op \<and>
        mainOperator (fl_driftPolicy fl) (services (configRegion fl)) = Inr op))"
proof (cases "ValidateDriftPolicy (fl_driftPolicy fl)")
  case (Some err)
  then show ?thesis
    using assms by (auto simp: main_def mainStart_def run_simps ValidateDriftPolicy_def split: if_splits)
next
  case None
  obtain es x v where p: "runPlan E (setupPlan fl) w = (es, x, v)" using prod_cases3 by blast
  with main_follows [OF None, of E services] have "exit = x \<and> world s' = v \<and> trace s' = es"
    using wpD [OF _ assms] by (fastforce simp: follows_def mainStart_def dest: spec [of _ "mainStart w"])
  moreover have "\<forall>(c, f) \<in> set (setupPlan fl). \<forall>e. f e \<noteq> Stopped" by (auto simp: setupPlan_def)
  note runPlan_order [OF p this]
  moreover have "StartManager \<in> attempted ` set (trace s') \<longrightarrow>
      obj s' = Some (wiredOperator (fl_driftPolicy fl) (services (configRegion fl)))"
    using wpD [OF starts_wired assms] by (auto simp: attempted_def split: setupEvent.splits)
  ultimately show ?thesis
    using p None by (auto simp: mainOperator_def ValidateDriftPolicy_def split: if_splits)
qed

theorem main_follows_plan_witness:
  "\<exists>s'. run_state (main (\<lambda>c w. (Inr (), w)) (\<lambda>_. cloudServices []) defaultFlags) (mainStart cloudStart) =
      (Stopped, s') \<and> obj s' = Some (cloudOperator [])"
proof -
  let ?E = "\<lambda>c w. (Inr (), w) :: (go_error + unit) \<times> cloudWorld"
  obtain exit s' where run: "run_state (main ?E (\<lambda>_. cloudServices []) defaultFlags) (mainStart cloudStart) = (exit, s')"
    by fastforce
  have policy: "fl_driftPolicy defaultFlags \<in> {DriftPolicyEnforce, DriftPolicyReport, DriftPolicySuspend}"
    "fl_driftPolicy defaultFlags = ''enforce''"
    by (simp_all add: defaultFlags_def)
  note m = main_follows_plan [OF run, unfolded policy(2), simplified]
  then have exit: "exit = Stopped" "length (trace s') = length (setupPlan defaultFlags)"
    "map attempted (trace s') = map fst (setupPlan defaultFlags)"
    by (auto simp: setupPlan_def)
  have "StartManager \<in> set (map attempted (trace s'))" unfolding exit(3) by (simp add: setupPlan_def)
  then have "StartManager \<in> attempted ` set (trace s')" by simp
  with m have "obj s' = Some (cloudOperator [])" by (auto simp: cloud_main)
  with run exit(1) show ?thesis by simp
qed

text \<open>Both servers speak HTTP/1.1 only, unless HTTP/2 is asked for, and the metrics are served to
  authorised clients only, over TLS, unless that is switched off.\<close>

lemma servers_protected:
  "foldl (\<lambda>c f. f c) cfg (ms_TLSOpts (mo_Metrics (managerOptionsFor fl))) =
     (if fl_enableHTTP2 fl then cfg else cfg\<lparr>tls_NextProtos := [''http/1.1'']\<rparr>)"
  "wh_TLSOpts (mo_WebhookServer (managerOptionsFor fl)) = ms_TLSOpts (mo_Metrics (managerOptionsFor fl))"
  "ms_FilterProvider (mo_Metrics (managerOptionsFor fl)) \<noteq> None \<longleftrightarrow> ms_SecureServing (mo_Metrics (managerOptionsFor fl))"
  by (simp_all add: managerOptionsFor_def metricsServerOptions_def webhookServerOptions_def tlsOptions_def
      disableHTTP2_def Let_def)

end
