(* ===== verification/TenantLedger.thy ===== *)
theory TenantLedger
  imports TenantConvergence
begin

text \<open>
  The system around the DistributionTenant controller as a transition system: reconciles of any
  object, users that create, edit and delete objects, restarts of the operator, and hands that
  change or remove tenants in CloudFront, in any order, with any call failing. The invariant: a
  tenant the operator created is recorded in an object that carries the finalizer, so it will be
  deleted with that object, unless the status write after the creation failed.

  A ledger is kept of what the calls of a reconcile did to both sides. The first part shows that
  the stores agree with the ledger, the second that a lawful trace (\<open>TenantProtocol\<close>) balances
  it, the third puts the reachable states together.
\<close>

section \<open>The ledger\<close>

type_synonym objects = "string \<times> string \<Rightarrow> DistributionTenant option"

record ledger =
  lg_ids :: "string set"
  lg_objs :: objects

definition surviving :: "DistributionTenant \<Rightarrow> DistributionTenant option" where
  "surviving t = (if beingDeleted t \<and> om_Finalizers (dt_Meta t) = [] then None else Some t)"

text \<open>What a call with its answer does to the two sides.\<close>

fun book :: "ledger \<Rightarrow> effect \<Rightarrow> ledger" where
  "book b (CfCreate inp (Inr (Some out))) = b\<lparr>lg_ids := insert (out_ID out) (lg_ids b)\<rparr>"
| "book b (CfDelete i e (Inr u)) = b\<lparr>lg_ids := lg_ids b - {i}\<rparr>"
| "book b (KUpdate t (Inr t')) = b\<lparr>lg_objs := (lg_objs b)(keyOf t := surviving t')\<rparr>"
| "book b (KStatusUpdate t (Inr t')) = b\<lparr>lg_objs := (lg_objs b)(keyOf t := Some t')\<rparr>"
| "book b e = b"

text \<open>Which answers are possible: an object is read as it is stored; a tenant is reported as not
  found only when there is none; an update of an object keeps its stored status, an update of the
  status keeps its stored finalizers. Every call may fail.\<close>

fun plausible :: "ledger \<Rightarrow> effect \<Rightarrow> bool" where
  "plausible b (KGet ns n (Inr t)) = (lg_objs b (ns, n) = Some t \<and> keyOf t = (ns, n))"
| "plausible b (KUpdate t (Inr t')) = (\<exists>u. lg_objs b (keyOf t) = Some u \<and>
     dt_Status t' = dt_Status u \<and> om_Finalizers (dt_Meta t') = om_Finalizers (dt_Meta t))"
| "plausible b (KStatusUpdate t (Inr t')) = (\<exists>u. lg_objs b (keyOf t) = Some u \<and>
     dt_Status t' = dt_Status t \<and> om_Finalizers (dt_Meta t') = om_Finalizers (dt_Meta u))"
| "plausible b (CfGet i (Inl err)) = (IsNotFound (Some err) \<longrightarrow> i \<notin> lg_ids b)"
| "plausible b (CfCreate inp (Inr (Some out))) = (out_ID out \<noteq> [])"
| "plausible b e = True"

fun plausibleFrom :: "ledger \<Rightarrow> effect list \<Rightarrow> bool" where
  "plausibleFrom b [] = True"
| "plausibleFrom b (e # es) = (plausible b e \<and> plausibleFrom (book b e) es)"

lemma plausibleFrom_snoc:
  "plausibleFrom b (tr @ [e]) \<longleftrightarrow> plausibleFrom b tr \<and> plausible (foldl book b tr) e"
  by (induction tr arbitrary: b) auto

section \<open>Stores that may fail\<close>

text \<open>The contracts of the two sides, without any promise of success.\<close>

locale honest_aws =
  fixes C :: "'w CloudFrontClient"
    and ids :: "'w \<Rightarrow> string set"
  assumes honest_get: "cf_GetDistributionTenant C i w = (g, w') \<Longrightarrow> ids w' = ids w \<and>
      (\<forall>e. g = Inl e \<longrightarrow> IsNotFound (Some e) \<longrightarrow> i \<notin> ids w)"
    and honest_create: "cf_CreateDistributionTenant C c w = (g, w') \<Longrightarrow>
      (case g of Inr (Some out) \<Rightarrow> out_ID out \<noteq> [] \<and> ids w' = insert (out_ID out) (ids w) | _ \<Rightarrow> ids w' = ids w)"
    and honest_update: "cf_UpdateDistributionTenant C u w = (g, w') \<Longrightarrow> ids w' = ids w"
    and honest_delete: "cf_DeleteDistributionTenant C i e w = (d, w') \<Longrightarrow>
      (case d of Inr _ \<Rightarrow> ids w' = ids w - {i} | Inl _ \<Rightarrow> ids w' = ids w)"
    and honest_info: "cf_GetDistributionInfo C dist w = (f, w') \<Longrightarrow> ids w' = ids w"
    and honest_cert: "cf_GetManagedCertificateDetails C i w = (c', w') \<Longrightarrow> ids w' = ids w"
    and honest_endpoint: "cf_GetConnectionGroupRoutingEndpoint C cg w = (x, w') \<Longrightarrow> ids w' = ids w"
    and honest_default: "cf_GetDefaultConnectionGroupEndpoint C w = (x, w') \<Longrightarrow> ids w' = ids w"

locale honest_api =
  fixes K :: "'w K8sClient"
    and objs :: "'w \<Rightarrow> objects"
  assumes honest_read: "k_Get K ns n w = (r, w') \<Longrightarrow> objs w' = objs w \<and>
      (\<forall>t. r = Inr t \<longrightarrow> objs w (ns, n) = Some t \<and> keyOf t = (ns, n))"
    and honest_write: "k_Update K t w = (r, w') \<Longrightarrow>
      (case r of Inl _ \<Rightarrow> objs w' = objs w
       | Inr t' \<Rightarrow> objs w' = (objs w)(keyOf t := surviving t') \<and>
           (\<exists>u. objs w (keyOf t) = Some u \<and> dt_Status t' = dt_Status u \<and>
              om_Finalizers (dt_Meta t') = om_Finalizers (dt_Meta t)))"
    and honest_status: "k_StatusUpdate K t w = (r, w') \<Longrightarrow>
      (case r of Inl _ \<Rightarrow> objs w' = objs w
       | Inr t' \<Rightarrow> objs w' = (objs w)(keyOf t \<mapsto> t') \<and>
           (\<exists>u. objs w (keyOf t) = Some u \<and> dt_Status t' = dt_Status t \<and>
              om_Finalizers (dt_Meta t') = om_Finalizers (dt_Meta u)))"

text \<open>A DNS client touches neither side.\<close>

definition quietDNS :: "('w \<Rightarrow> string set) \<Rightarrow> ('w \<Rightarrow> objects) \<Rightarrow> 'w DNSClient \<Rightarrow> bool" where
  "quietDNS ids objs c \<longleftrightarrow> (\<forall>w.
     (\<forall>i. ids (snd (dnsc_UpsertCNAMERecords c i w)) = ids w \<and> objs (snd (dnsc_UpsertCNAMERecords c i w)) = objs w) \<and>
     (\<forall>x. ids (snd (dnsc_GetChangeStatus c x w)) = ids w \<and> objs (snd (dnsc_GetChangeStatus c x w)) = objs w) \<and>
     (\<forall>d. ids (snd (dnsc_DeleteCNAMERecords c d w)) = ids w \<and> objs (snd (dnsc_DeleteCNAMERecords c d w)) = objs w))"

locale ledger_world =
  honest_aws "r_CFClient R" ids + honest_api "r_Client R" objs + apimachinery "r_Meta R"
  for R :: "'w Reconciler" and ids objs +
  assumes aws_keeps_objs:
      "cf_GetDistributionTenant (r_CFClient R) i w = (g, w') \<Longrightarrow> objs w' = objs w"
      "cf_CreateDistributionTenant (r_CFClient R) c w = (g, w') \<Longrightarrow> objs w' = objs w"
      "cf_UpdateDistributionTenant (r_CFClient R) u w = (g, w') \<Longrightarrow> objs w' = objs w"
      "cf_DeleteDistributionTenant (r_CFClient R) i e w = (d, w') \<Longrightarrow> objs w' = objs w"
      "cf_GetDistributionInfo (r_CFClient R) dist w = (f, w') \<Longrightarrow> objs w' = objs w"
      "cf_GetManagedCertificateDetails (r_CFClient R) i w = (c', w') \<Longrightarrow> objs w' = objs w"
      "cf_GetConnectionGroupRoutingEndpoint (r_CFClient R) cg w = (x, w') \<Longrightarrow> objs w' = objs w"
      "cf_GetDefaultConnectionGroupEndpoint (r_CFClient R) w = (x, w') \<Longrightarrow> objs w' = objs w"
    and api_keeps_ids:
      "k_Get (r_Client R) ns n w = (r, w') \<Longrightarrow> ids w' = ids w"
      "k_Update (r_Client R) t w = (r, w') \<Longrightarrow> ids w' = ids w"
      "k_StatusUpdate (r_Client R) t w = (r, w') \<Longrightarrow> ids w' = ids w"
    and others_keep:
      "r_Now R w = (now, w') \<Longrightarrow> ids w' = ids w \<and> objs w' = objs w"
      "r_ACMClient R = Some acm \<Longrightarrow> acm_GetCertificateSANs acm arn w = (sans, w') \<Longrightarrow>
         ids w' = ids w \<and> objs w' = objs w"
      "r_NewDNSClient R = Some new \<Longrightarrow> new role w = (rc, w') \<Longrightarrow> ids w' = ids w \<and> objs w' = objs w \<and>
         (\<forall>dns. rc = Inr dns \<longrightarrow> quietDNS ids objs dns)"

section \<open>The stores agree with the ledger\<close>

definition booked ::
  "('w \<Rightarrow> string set) \<Rightarrow> ('w \<Rightarrow> objects) \<Rightarrow> ledger \<Rightarrow> 'w dtState \<Rightarrow> bool" where
  "booked ids objs b s \<longleftrightarrow>
     foldl book b (trace s) = \<lparr>lg_ids = ids (world s), lg_objs = objs (world s)\<rparr> \<and>
     plausibleFrom b (trace s) \<and>
     (\<forall>role dns. dnsClientCache s role = Some dns \<longrightarrow> quietDNS ids objs dns)"

named_theorems booked_intros \<open>actions that keep the stores and the ledger in agreement\<close>

context ledger_world
begin

abbreviation agrees :: "ledger \<Rightarrow> ('w, 'a) act \<Rightarrow> bool" where
  "agrees b m \<equiv> keeps_inv (booked ids objs b) m"

lemma booked_call:
  assumes "\<And>s r w'. booked ids objs b s \<Longrightarrow> f (world s) = (r, w') \<Longrightarrow>
      book \<lparr>lg_ids = ids (world s), lg_objs = objs (world s)\<rparr> (ev r) = \<lparr>lg_ids = ids w', lg_objs = objs w'\<rparr> \<and>
      plausible \<lparr>lg_ids = ids (world s), lg_objs = objs (world s)\<rparr> (ev r)"
  shows "agrees b (extern f ev)"
  unfolding keeps_inv_def wp_extern
  using assms by (auto simp: booked_def plausibleFrom_snoc)

lemma booked_calls [booked_intros]:
  "agrees b (extern (cf_GetDistributionTenant (r_CFClient R) i) (CfGet i))"
  "agrees b (extern (cf_CreateDistributionTenant (r_CFClient R) c) (CfCreate c))"
  "agrees b (extern (cf_UpdateDistributionTenant (r_CFClient R) u) (CfUpdate u))"
  "agrees b (extern (cf_DeleteDistributionTenant (r_CFClient R) i e) (CfDelete i e))"
  "agrees b (extern (cf_GetDistributionInfo (r_CFClient R) d) (CfInfo d))"
  "agrees b (extern (cf_GetManagedCertificateDetails (r_CFClient R) i) (CfCert i))"
  "agrees b (extern (cf_GetConnectionGroupRoutingEndpoint (r_CFClient R) cg) (CfEndpoint cg))"
  "agrees b (extern (cf_GetDefaultConnectionGroupEndpoint (r_CFClient R)) CfDefaultEndpoint)"
  "agrees b (extern (k_Get (r_Client R) ns n) (KGet ns n))"
  "agrees b (extern (k_Update (r_Client R) t) (KUpdate t))"
  "agrees b (extern (k_StatusUpdate (r_Client R) t) (KStatusUpdate t))"
proof -
  show "agrees b (extern (cf_GetDistributionTenant (r_CFClient R) i) (CfGet i))"
  proof (rule booked_call, goal_cases)
    case (1 s r w')
    show ?case using honest_get [OF 1(2)] aws_keeps_objs(1) [OF 1(2)] by (cases r) auto
  qed
  show "agrees b (extern (cf_CreateDistributionTenant (r_CFClient R) c) (CfCreate c))"
  proof (rule booked_call, goal_cases)
    case (1 s r w')
    show ?case
      using honest_create [OF 1(2)] aws_keeps_objs(2) [OF 1(2)] by (auto split: sum.splits option.splits)
  qed
  show "agrees b (extern (cf_DeleteDistributionTenant (r_CFClient R) i e) (CfDelete i e))"
  proof (rule booked_call, goal_cases)
    case (1 s r w')
    show ?case using honest_delete [OF 1(2)] aws_keeps_objs(4) [OF 1(2)] by (auto split: sum.splits)
  qed
  show "agrees b (extern (k_Get (r_Client R) ns n) (KGet ns n))"
  proof (rule booked_call, goal_cases)
    case (1 s r w')
    show ?case using honest_read [OF 1(2)] api_keeps_ids(1) [OF 1(2)] by (cases r) auto
  qed
  show "agrees b (extern (k_Update (r_Client R) t) (KUpdate t))"
  proof (rule booked_call, goal_cases)
    case (1 s r w')
    show ?case using honest_write [OF 1(2)] api_keeps_ids(2) [OF 1(2)] by (auto split: sum.splits)
  qed
  show "agrees b (extern (k_StatusUpdate (r_Client R) t) (KStatusUpdate t))"
  proof (rule booked_call, goal_cases)
    case (1 s r w')
    show ?case using honest_status [OF 1(2)] api_keeps_ids(3) [OF 1(2)] by (auto split: sum.splits)
  qed
qed (rule booked_call, use honest_update honest_info honest_cert honest_endpoint honest_default
    aws_keeps_objs in simp)+

lemma booked_basic [booked_intros]:
  "agrees b (returns a)" "agrees b getObj" "agrees b (modifyObj h)" "agrees b (silent (r_Now R))"
  "agrees b (emit (Event ty re msg))" "agrees b (emit (MetricError er))" "agrees b (emit MetricDrift)"
  using others_keep(1) by (auto simp: keeps_inv_def wp_simps booked_def plausibleFrom_snoc)

lemma booked_sans [booked_intros]:
  "r_ACMClient R = Some acm \<Longrightarrow> agrees b (extern (acm_GetCertificateSANs acm arn) (AcmSANs arn))"
  by (rule booked_call) (use others_keep(2) in simp)

lemma booked_dns_calls [booked_intros]:
  assumes "quietDNS ids objs c"
  shows "agrees b (extern (dnsc_UpsertCNAMERecords c i) (DnsUpsert i))"
    "agrees b (extern (dnsc_GetChangeStatus c x) (DnsStatus x))"
    "agrees b (extern (dnsc_DeleteCNAMERecords c d) (DnsDelete d))"
  using assms unfolding quietDNS_def by (auto intro!: booked_call; metis snd_conv)+

lemma getDNSClient_answers:
  assumes "booked ids objs b s"
  shows "wp (getDNSClient R) (\<lambda>r s'. booked ids objs b s' \<and> (\<forall>c. r = Done c \<longrightarrow> quietDNS ids objs c)) s"
  using assms others_keep(3)
  by (auto simp: getDNSClient_def wp_simps Let_def booked_def plausibleFrom_snoc
      split: option.split sum.split)

lemma booked_with_client [booked_intros]:
  assumes "\<And>c. quietDNS ids objs c \<Longrightarrow> agrees b (f (Done c))"
    and "\<And>e. agrees b (f (Fail e))" and "agrees b (f Panic)"
  shows "agrees b (State_Monad.bind (getDNSClient R) f)"
  unfolding keeps_inv_def wp_bind
proof (intro allI impI, rule wp_mono [OF getDNSClient_answers], assumption, goal_cases)
  case (1 s a s')
  then show ?case using assms by (cases a) (auto simp: keeps_inv_def)
qed

lemmas booked_control [booked_intros] = keeps_inv_bind keeps_inv_cases change_inv step_inv

text \<open>Every handler, hence a whole reconcile, keeps the agreement.\<close>

lemma booked_small [booked_intros]:
  "agrees b (recordEvent R ty re msg)"
  "agrees b (setCondition R ct st re' msg')"
  "agrees b k \<Longrightarrow> agrees b (persistStatus R k)"
  "agrees b (releaseFinalizer R)"
  "agrees b (updateCertificateCondition R cert)"
  "agrees b (updateDNSCondition R)"
  by (simp_all only: recordEvent_def setCondition_def persistStatus_def releaseFinalizer_def
      updateCertificateCondition_def updateDNSCondition_def Let_def) (rule booked_intros | assumption | simp)+

lemma booked_errors [booked_intros]:
  "agrees b (handleAWSError R err op)"
  "agrees b (handleDNSError R err op)"
  "agrees b (handleDomainValidationPending R err)"
  by (simp_all only: handleAWSError_def handleTerminalError_def handleDNSError_def
      handleDomainValidationPending_def Let_def) (rule booked_intros | simp)+

lemma booked_steps [booked_intros]:
  "agrees b (validateSpec R)"
  "agrees b (resolveCNAMETarget R)"
  "r_ACMClient R = Some acm \<Longrightarrow> agrees b (checkSANs R acm arn)"
  "agrees b m \<Longrightarrow> agrees b (asStep m)"
  "agrees b (fetchCertDetails R)"
  by (simp_all only: validateSpec_def resolveCNAMETarget_def checkSANs_def asStep_def fetchCertDetails_def Let_def)
    (rule booked_intros | assumption | simp)+

lemma booked_sans_step [booked_intros]: "agrees b (validateCertificateSANs R)"
  unfolding validateCertificateSANs_def Let_def by (rule booked_intros | simp)+

lemma booked_dns [booked_intros]:
  "agrees b (cleanupDNSRecords R)"
  "agrees b (upsertDNSForUpdate R)"
  "agrees b (cleanupOrphanedDNSRecords R)"
  "agrees b (pollDNSChange R)"
  "agrees b (submitDNSRecords R dns)"
  by (simp_all only: cleanupDNSRecords_def upsertDNSForUpdate_def cleanupOrphanedDNSRecords_def
      pollDNSChange_def submitDNSRecords_def Let_def)
    (rule booked_with_client | rule booked_intros | simp)+

lemma booked_flows [booked_intros]:
  "agrees b (reconcileDNSBeforeCreate R dns)"
  "agrees b (createTenant R)"
  "agrees b (reconcileUpdate R out)"
  "agrees b (disableTenant R out)"
  "agrees b (persistCertificate R arn)"
  "agrees b (stillDeploying R cert)"
  "agrees b (steadyState R cert)"
  "agrees b (recreateAfterExternalDeletion R)"
  "agrees b k \<Longrightarrow> agrees b (cleanupThen R k)"
  by (simp_all only: reconcileDNSBeforeCreate_def createTenant_def reconcileUpdate_def disableTenant_def
      persistCertificate_def stillDeploying_def steadyState_def recreateAfterExternalDeletion_def
      cleanupThen_def Let_def)
    (rule booked_intros | assumption | simp)+

lemma booked_phases [booked_intros]:
  "agrees b (handleDrift R out)"
  "agrees b (applySpecChange R out)"
  "agrees b (deleteTenant R out)"
  by (simp_all only: handleDrift_def applySpecChange_def deleteTenant_def Let_def)
    (rule booked_intros | simp)+

lemma booked_Reconcile: "agrees b (Reconcile R ns n)"
  unfolding Reconcile_def reconcileDelete_def reconcileCreate_def reconcileExisting_def Let_def
  by (rule booked_intros | simp)+

end

section \<open>A lawful trace balances the ledger\<close>

text \<open>The tenants of a trace whose creation was answered but whose status write failed.\<close>

definition unrecorded :: "effect list \<Rightarrow> string set" where
  "unrecorded tr = {out_ID out | inp out. CfCreate inp (Inr (Some out)) \<in> set tr \<and>
     (\<exists>u e. KStatusUpdate u (Inl e) \<in> set tr)}"

definition ownedBy :: "'w Reconciler \<Rightarrow> objects \<Rightarrow> string \<Rightarrow> bool" where
  "ownedBy R objs i \<longleftrightarrow> (\<exists>key t. objs key = Some t \<and> tenantID t = i \<and> hasFinalizer R t)"

definition recorded :: "'w Reconciler \<Rightarrow> string set \<Rightarrow> ledger \<Rightarrow> bool" where
  "recorded R lost b \<longleftrightarrow> [] \<notin> lg_ids b \<and> (\<forall>i \<in> lg_ids b. i \<in> lost \<or> ownedBy R (lg_objs b) i)"

text \<open>In the middle of a reconcile a created tenant may still wait for its status write.\<close>

definition pendingCreation :: "knowledge \<Rightarrow> effect list \<Rightarrow> string \<Rightarrow> bool" where
  "pendingCreation k tr i \<longleftrightarrow>
     (\<exists>out. kn_created k = Some out \<and> i = out_ID out \<and> (\<not> kn_over k \<or> i \<in> unrecorded tr))"

definition balanced :: "'w Reconciler \<Rightarrow> string set \<Rightarrow> knowledge \<Rightarrow> ledger \<Rightarrow> effect list \<Rightarrow> bool" where
  "balanced R lost k b tr \<longleftrightarrow> [] \<notin> lg_ids b \<and>
     (kn_created k \<noteq> None \<longrightarrow> kn_mutated k \<and> \<not> kn_deleted k) \<and> (kn_deleted k \<longrightarrow> kn_mutated k) \<and>
     (\<forall>t. kn_obj k = Some t \<longrightarrow>
        (kn_created k \<noteq> None \<longrightarrow> tenantID t = []) \<and>
        (kn_gone k \<or> kn_deleted k \<longrightarrow> tenantID t \<notin> lg_ids b) \<and>
        (\<not> kn_over k \<longrightarrow> lg_objs b (keyOf t) = Some t)) \<and>
     (\<forall>i \<in> lg_ids b. i \<in> lost \<or> ownedBy R (lg_objs b) i \<or> pendingCreation k tr i)"

lemma unrecorded_mono: "unrecorded tr \<subseteq> unrecorded (tr @ [e])"
  by (auto simp: unrecorded_def)

lemma pendingCreation_mono: "pendingCreation k tr i \<Longrightarrow> pendingCreation k (tr @ [e]) i"
  using unrecorded_mono by (auto simp: pendingCreation_def)

lemma ownedBy_put:
  assumes "ownedBy R objs i" and "objs key = Some t" and "i = tenantID t \<Longrightarrow> ownedBy R (objs(key := x)) i"
  shows "ownedBy R (objs(key := x)) i"
proof -
  obtain k u where u: "objs k = Some u" "tenantID u = i" "hasFinalizer R u"
    using assms(1) by (auto simp: ownedBy_def)
  show ?thesis
  proof (cases "k = key")
    case True
    then show ?thesis using assms(2,3) u by simp
  next
    case False
    then have "(objs(key := x)) k = Some u" using u(1) by simp
    then show ?thesis using u(2,3) unfolding ownedBy_def by blast
  qed
qed

lemma ownedBy_new: "tenantID t = i \<Longrightarrow> hasFinalizer R t \<Longrightarrow> ownedBy R (objs(key := Some t)) i"
  unfolding ownedBy_def by (rule exI [of _ key]) simp

text \<open>The writes to the API server.\<close>

lemma balanced_status:
  assumes "balanced R lost k b tr" and "kn_obj k = Some t" and "\<not> kn_over k"
    and "permits' R k t (KStatusUpdate u r)" and "plausible b (KStatusUpdate u r)"
    and "\<And>out. kn_created k = Some out \<Longrightarrow> \<exists>inp. CfCreate inp (Inr (Some out)) \<in> set tr"
  shows "balanced R lost (learn k (KStatusUpdate u r)) (book b (KStatusUpdate u r)) (tr @ [KStatusUpdate u r])"
proof (cases r)
  case (Inl e)
  have "out_ID out \<in> unrecorded (tr @ [KStatusUpdate u (Inl e)])" if "kn_created k = Some out" for out
    using assms(6) [OF that] by (auto simp: unrecorded_def)
  then show ?thesis
    using assms(1-3) Inl by (auto simp: balanced_def pendingCreation_def)
next
  case (Inr u')
  have u: "hasFinalizer R t" "keyOf u = keyOf t" "tenantID u = expectedID k t"
    using assms(4) by (auto simp: sameObject_def keyOf_def)
  have stored: "lg_objs b (keyOf t) = Some t" using assms(1-3) by (simp add: balanced_def)
  then have u': "tenantID u' = expectedID k t" "hasFinalizer R u'"
    using assms(5) u Inr by (auto simp: tenantID_def hasFinalizer_def)
  let ?objs = "(lg_objs b)(keyOf t := Some u')"
  have "i \<in> lost \<or> ownedBy R ?objs i" if i: "i \<in> lg_ids b" for i
  proof -
    have *: "ownedBy R ?objs i" if "i = expectedID k t" using ownedBy_new [of u' i R] u' that by simp
    have "i = tenantID t \<Longrightarrow> expectedID k t = i"
      using i assms(1,2) by (auto simp: balanced_def expectedID_def split: option.split)
    moreover have "pendingCreation k tr i \<Longrightarrow> expectedID k t = i"
      by (auto simp: pendingCreation_def expectedID_def)
    ultimately show ?thesis
      using assms(1) i * ownedBy_put [of R "lg_objs b" i "keyOf t" t "Some u'", OF _ stored] unfolding balanced_def by blast
  qed
  then show ?thesis
    using assms(1,2) Inr u(2) by (auto simp: balanced_def)
qed

lemma balanced_update:
  assumes "apimachinery (r_Meta R)" and "balanced R lost k b tr" and "kn_obj k = Some t" and "\<not> kn_over k"
    and "permits' R k t (KUpdate u r)" and "plausible b (KUpdate u r)"
  shows "balanced R lost (learn k (KUpdate u r)) (book b (KUpdate u r)) (tr @ [KUpdate u r])"
proof -
  have none: "kn_created k = None" using assms(2,5) by (auto simp: balanced_def)
  have stored: "lg_objs b (keyOf t) = Some t" using assms(2-4) by (simp add: balanced_def)
  show ?thesis
  proof (cases r)
    case (Inl e)
    then show ?thesis using assms(2-4) none by (auto simp: balanced_def pendingCreation_def)
  next
    case (Inr u')
    have w: "objectWriteAllowed R k t u" using assms(5) by simp
    then have key: "keyOf u = keyOf t"
      by (auto simp: objectWriteAllowed_def keyOf_def split: if_splits option.splits)
    have u': "tenantID u' = tenantID t" "hasFinalizer R u' = hasFinalizer R u"
      using assms(6) stored key Inr by (auto simp: tenantID_def hasFinalizer_def)
    have "i = tenantID t \<Longrightarrow> i \<in> lg_ids b \<Longrightarrow> ownedBy R ((lg_objs b)(keyOf t := surviving u')) i" for i
    proof -
      assume i: "i = tenantID t" "i \<in> lg_ids b"
      have "\<not> beingDeleted t"
        using w i assms(2,3) by (auto simp: objectWriteAllowed_def awsReleased_def balanced_def split: if_splits)
      then have "hasFinalizer R u"
        using w apimachinery.added_finalizer [OF assms(1)]
        by (auto simp: objectWriteAllowed_def hasFinalizer_def split: if_splits option.splits)
      moreover from this have "surviving u' = Some u'"
        using u'(2) apimachinery.contains_iff [OF assms(1)] by (auto simp: surviving_def hasFinalizer_def)
      ultimately show ?thesis using ownedBy_new [of u' i R] u' i(1) by simp
    qed
    note mine = this
    have "i \<in> lost \<or> ownedBy R ((lg_objs b)(keyOf t := surviving u')) i" if "i \<in> lg_ids b" for i
    proof -
      have "i \<in> lost \<or> ownedBy R (lg_objs b) i"
        using assms(2) none that by (auto simp: balanced_def pendingCreation_def)
      then show ?thesis using ownedBy_put [of R "lg_objs b" i "keyOf t" t "surviving u'", OF _ stored] mine that by blast
    qed
    then show ?thesis using assms(2,3) Inr key by (auto simp: balanced_def)
  qed
qed

text \<open>The other calls.\<close>

lemma balanced_same:
  assumes "balanced R lost k b tr" and "kn_obj k' = kn_obj k" and "kn_created k' = kn_created k"
    and "kn_over k' = kn_over k" and "kn_deleted k' = kn_deleted k" and "kn_mutated k \<longrightarrow> kn_mutated k'"
    and "kn_gone k' \<longrightarrow> kn_gone k \<or> (\<forall>t. kn_obj k = Some t \<longrightarrow> tenantID t \<notin> lg_ids b)"
  shows "balanced R lost k' b (tr @ [e])"
proof -
  have p: "pendingCreation k tr i \<Longrightarrow> pendingCreation k' (tr @ [e]) i" for i
    using pendingCreation_mono [of k tr i e] assms(3,4) by (auto simp: pendingCreation_def)
  show ?thesis
    using assms(1) p unfolding balanced_def assms(2-5)
    by (intro conjI) (use assms(6,7) in \<open>auto simp: assms(2)\<close>)
qed

lemma balanced_mutation:
  assumes "balanced R lost k b tr" and "kn_obj k = Some t" and "\<not> kn_over k"
    and "permits' R k t e" and "plausible b e" and "e = CfCreate c rc \<or> e = CfDelete i et rd"
  shows "balanced R lost (learn k e) (book b e) (tr @ [e])"
proof -
  have new: "\<not> kn_mutated k" using assms(4,6) by auto
  then have old: "kn_created k = None" "\<not> kn_deleted k" using assms(1) by (auto simp: balanced_def)
  have i: "j \<in> lg_ids b \<Longrightarrow> j \<in> lost \<or> ownedBy R (lg_objs b) j" for j
    using assms(1) old by (auto simp: balanced_def pendingCreation_def)
  from assms(6) show ?thesis
  proof
    assume e: "e = CfCreate c rc"
    then have t: "tenantID t = []" using assms(4) by simp
    show ?thesis
    proof (cases "\<exists>out. rc = Inr (Some out)")
      case True
      then obtain out where out: "rc = Inr (Some out)" "out_ID out \<noteq> []" using assms(5) e by auto
      have "pendingCreation (learn k e) tr' (out_ID out)" for tr'
        using e out assms(3) by (simp add: pendingCreation_def)
      then show ?thesis using assms(1-3) e out t i old by (auto simp: balanced_def)
    next
      case False
      then have "book b e = b" "kn_created (learn k e) = None"
        using e by (cases rc; auto)+
      then show ?thesis using assms(1-3) e t i old by (auto simp: balanced_def)
    qed
  next
    assume e: "e = CfDelete i et rd"
    then have "i = tenantID t" using assms(4) by simp
    then show ?thesis
      using assms(1-3) e i old by (cases rd) (auto simp: balanced_def)
  qed
qed

lemma balanced_trace:
  assumes "apimachinery (r_Meta R)" and "recorded R lost b0"
  shows "lawful R tr \<Longrightarrow> plausibleFrom b0 tr \<Longrightarrow> balanced R lost (knows tr) (foldl book b0 tr) tr"
proof (induction tr rule: rev_induct)
  case Nil
  then show ?case using assms(2) by (auto simp: balanced_def recorded_def)
next
  case (snoc e tr)
  let ?k = "knows tr" and ?b = "foldl book b0 tr"
  have IH: "balanced R lost ?k ?b tr" and p: "permits R ?k e" "plausible ?b e"
    using snoc by (simp_all add: lawful_snoc plausibleFrom_snoc)
  have "balanced R lost (learn ?k e) (book ?b e) (tr @ [e])"
  proof (cases "kn_obj ?k")
    case None
    then obtain ns n r where e: "e = KGet ns n r" and k: "?k = ignorant"
      using p(1) by (cases e) (auto simp: permits_def isKGet_def)
    then show ?thesis
      using IH p(2) by (cases r) (auto simp: balanced_def pendingCreation_def)
  next
    case (Some t)
    show ?thesis
    proof (cases "kn_over ?k")
      case True
      then obtain ty re msg where "e = Event ty re msg"
        using p(1) Some by (cases e) (auto simp: permits_def isEvent_def)
      then show ?thesis using balanced_same [OF IH] by simp
    next
      case False
      have e: "permits' R ?k t e" using p(1) Some by (simp add: permits_def)
      have made: "kn_created ?k = Some out \<Longrightarrow> \<exists>inp. CfCreate inp (Inr (Some out)) \<in> set tr" for out
        by (rule knows_created)
      show ?thesis
      proof (cases e)
        case (KGet ns n r)
        then show ?thesis using e by simp
      next
        case (KUpdate u r)
        then show ?thesis using balanced_update [OF assms(1) IH Some False] e p(2) by simp
      next
        case (KStatusUpdate u r)
        then show ?thesis using balanced_status [OF IH Some False] e p(2) made by simp
      next
        case (CfCreate c r)
        then show ?thesis using balanced_mutation [OF IH Some False e p(2)] by blast
      next
        case (CfDelete i et r)
        then show ?thesis using balanced_mutation [OF IH Some False e p(2)] by blast
      next
        case (CfGet i r)
        then show ?thesis
          using e p(2) Some by (cases r) (auto intro!: balanced_same [OF IH])
      qed (auto intro!: balanced_same [OF IH] split: sum.split)
    qed
  qed
  then show ?case by simp
qed

lemma written_is_over: "KStatusUpdate u r \<in> set tr \<Longrightarrow> kn_over (knows tr)"
proof (induction tr rule: rev_induct)
  case (snoc e tr)
  then show ?case by (cases e) (auto split: sum.split)
qed simp

section \<open>The reachable states\<close>

definition quietCache ::
  "('w \<Rightarrow> string set) \<Rightarrow> ('w \<Rightarrow> objects) \<Rightarrow> (string \<Rightarrow> 'w DNSClient option) \<Rightarrow> bool" where
  "quietCache ids objs cache \<longleftrightarrow> (\<forall>role dns. cache role = Some dns \<longrightarrow> quietDNS ids objs dns)"

abbreviation ledgerOf :: "('w \<Rightarrow> string set) \<Rightarrow> ('w \<Rightarrow> objects) \<Rightarrow> 'w \<Rightarrow> ledger" where
  "ledgerOf ids objs w \<equiv> \<lparr>lg_ids = ids w, lg_objs = objs w\<rparr>"

context ledger_world
begin

lemma reconcile_keeps_record:
  assumes "recorded R lost (ledgerOf ids objs w)" and "quietCache ids objs cache"
    and "run_state (Reconcile R ns n) (start t0 w cache) = (res, s')"
  shows "recorded R (lost \<union> unrecorded (trace s')) (ledgerOf ids objs (world s')) \<and>
    quietCache ids objs (dnsClientCache s')"
proof -
  let ?b = "ledgerOf ids objs w"
  have tr: "trace s' = reconcileTrace R ns n t0 w cache" using assms(3) by (simp add: reconcileTrace_def)
  have "booked ids objs ?b (start t0 w cache)" using assms(2) by (simp add: booked_def quietCache_def)
  then have "wp (Reconcile R ns n) (\<lambda>_ s'. booked ids objs ?b s') (start t0 w cache)"
    using booked_Reconcile unfolding keeps_inv_def by blast
  then have booked: "booked ids objs ?b s'" using wpD assms(3) by fast
  then have "balanced R lost (knows (trace s')) (foldl book ?b (trace s')) (trace s')"
    using balanced_trace [OF apimachinery_axioms assms(1)] lawful_trace tr by (metis booked_def)
  moreover have "foldl book ?b (trace s') = ledgerOf ids objs (world s')" using booked by (simp add: booked_def)
  moreover have "j \<in> unrecorded (trace s')" if pending: "pendingCreation (knows (trace s')) (trace s') j" for j
  proof -
    obtain out where out: "kn_created (knows (trace s')) = Some out" "j = out_ID out"
      "\<not> kn_over (knows (trace s')) \<or> j \<in> unrecorded (trace s')"
      using pending by (auto simp: pendingCreation_def)
    obtain inp where "CfCreate inp (Inr (Some out)) \<in> set (trace s')" using knows_created [OF out(1)] by blast
    then obtain u r where "KStatusUpdate u r \<in> set (trace s')"
      using wpD [OF Reconcile_recorded assms(3)] unfolding recordsCreation_def by blast
    then show ?thesis using out(3) written_is_over by blast
  qed
  ultimately have "recorded R (lost \<union> unrecorded (trace s')) (ledgerOf ids objs (world s'))"
    unfolding balanced_def recorded_def by (metis Un_iff)
  then show ?thesis using booked by (simp add: booked_def quietCache_def)
qed

end

text \<open>What happens outside: tenants are changed or removed in CloudFront; objects are created without
  a status, edited, and deleted. The API server keeps an object that has a finalizer, and nobody else
  removes the finalizer of the operator.\<close>

definition outsideObject :: "'w Reconciler \<Rightarrow> DistributionTenant option \<Rightarrow> DistributionTenant option \<Rightarrow> bool" where
  "outsideObject R x y \<longleftrightarrow>
     (case (x, y) of
        (None, None) \<Rightarrow> True
      | (None, Some u) \<Rightarrow> tenantID u = []
      | (Some t, None) \<Rightarrow> \<not> hasFinalizer R t
      | (Some t, Some u) \<Rightarrow> dt_Status u = dt_Status t \<and> (hasFinalizer R t \<longrightarrow> hasFinalizer R u))"

text \<open>The states of the system: CloudFront, the API server and the client cache of the operator,
  with the tenants whose status write failed so far.\<close>

inductive reachable ::
  "'w Reconciler \<Rightarrow> ('w \<Rightarrow> string set) \<Rightarrow> ('w \<Rightarrow> objects) \<Rightarrow>
   'w \<Rightarrow> (string \<Rightarrow> 'w DNSClient option) \<Rightarrow> string set \<Rightarrow> bool" for R ids objs where
  installed: "ids w = {} \<Longrightarrow> objs w = Map.empty \<Longrightarrow> reachable R ids objs w Map.empty {}"
| reconciled: "reachable R ids objs w cache lost \<Longrightarrow>
    run_state (Reconcile R ns n) (start t0 w cache) = (res, s') \<Longrightarrow>
    reachable R ids objs (world s') (dnsClientCache s') (lost \<union> unrecorded (trace s'))"
| restarted: "reachable R ids objs w cache lost \<Longrightarrow> reachable R ids objs w Map.empty lost"
| outside: "reachable R ids objs w cache lost \<Longrightarrow> ids w' \<subseteq> ids w \<Longrightarrow>
    (\<And>key. outsideObject R (objs w key) (objs w' key)) \<Longrightarrow> reachable R ids objs w' cache lost"

lemma outside_keeps_record:
  assumes "recorded R lost (ledgerOf ids objs w)" and "ids w' \<subseteq> ids w"
    and "\<And>key. outsideObject R (objs w key) (objs w' key)"
  shows "recorded R lost (ledgerOf ids objs w')"
proof -
  have "ownedBy R (objs w') i" if "ownedBy R (objs w) i" for i
  proof -
    obtain key t where t: "objs w key = Some t" "tenantID t = i" "hasFinalizer R t"
      using \<open>ownedBy R (objs w) i\<close> by (auto simp: ownedBy_def)
    then obtain u where "objs w' key = Some u" "dt_Status u = dt_Status t" "hasFinalizer R u"
      using assms(3) [of key] by (auto simp: outsideObject_def split: option.splits)
    then show ?thesis
      using t(2) unfolding ownedBy_def by (intro exI [of _ key] exI [of _ u]) (simp add: tenantID_def)
  qed
  then show ?thesis using assms(1,2) by (auto simp: recorded_def)
qed

lemma reachable_recorded:
  assumes "ledger_world R ids objs"
  shows "reachable R ids objs w cache lost \<Longrightarrow>
    recorded R lost (ledgerOf ids objs w) \<and> quietCache ids objs cache"
proof (induction rule: reachable.induct)
  case (reconciled w cache lost ns n t0 res s')
  then show ?case using ledger_world.reconcile_keeps_record [OF assms] by blast
next
  case (outside w cache lost w')
  show ?case
    using outside_keeps_record [OF conjunct1 [OF outside.IH] outside.hyps(2,3)] outside.IH by simp
qed (simp_all add: recorded_def quietCache_def)

lemma reachable_owner:
  assumes "ledger_world R ids objs" and "reachable R ids objs w cache lost" and "i \<in> ids w"
  shows "i \<in> lost \<or> (\<exists>key t. objs w key = Some t \<and> tenantID t = i \<and>
    FinalizerName \<in> set (om_Finalizers (dt_Meta t)))"
proof -
  have "\<And>t. hasFinalizer R t = (FinalizerName \<in> set (om_Finalizers (dt_Meta t)))"
    using apimachinery.contains_iff [OF ledger_world.axioms(3) [OF assms(1)]] by (simp add: hasFinalizer_def)
  then show ?thesis
    using reachable_recorded [OF assms(1,2)] assms(3) by (auto simp: recorded_def ownedBy_def)
qed

end
