(* ===== verification/CloudLedger.thy ===== *)
theory CloudLedger
  imports EndToEnd TenantLedger
begin

text \<open>
  The invariant of \<open>TenantLedger\<close> for the operator that main starts: a CloudFront service and an
  API server whose calls may fail at any time, but that answer honestly, give the production client
  and the reconciler wired to it the contract under which no tenant is leaked.
\<close>

section \<open>An honest service\<close>

text \<open>On the SDK's level, with no promise that a call succeeds: a tenant is reported as not found
  only when there is none; a creation that succeeds adds the tenant of its answer, one that fails
  adds none; a deletion that succeeds removes the tenant; no other call adds or removes one.\<close>

locale honest_service =
  fixes api :: "'w cloudFrontAPI"
    and ids :: "'w \<Rightarrow> string set"
  assumes service_get: "api_GetDistributionTenant api (Some i) w = (r, w') \<Longrightarrow> ids w' = ids w \<and>
      (\<forall>e. r = Inl e \<longrightarrow> IsNotFound (classifyAWSError (Some e)) \<longrightarrow> i \<notin> ids w)"
    and service_create: "api_CreateDistributionTenant api c w = (r, w') \<Longrightarrow>
      (case r of Inl _ \<Rightarrow> ids w' = ids w
       | Inr out \<Rightarrow> (case sto_DistributionTenant out of None \<Rightarrow> ids w' = ids w
           | Some dt \<Rightarrow> toString (sdt_Id dt) \<noteq> [] \<and> ids w' = insert (toString (sdt_Id dt)) (ids w)))"
    and service_update: "api_UpdateDistributionTenant api u w = (r, w') \<Longrightarrow> ids w' = ids w"
    and service_delete: "api_DeleteDistributionTenant api (Some i) e w = (rd, w') \<Longrightarrow>
      (case rd of Inr _ \<Rightarrow> ids w' = ids w - {i} | Inl _ \<Rightarrow> ids w' = ids w)"
    and service_info: "api_GetDistribution api d w = (ri, w') \<Longrightarrow> ids w' = ids w"
    and service_cert: "api_GetManagedCertificateDetails api d w = (rc, w') \<Longrightarrow> ids w' = ids w"
    and service_group: "api_GetConnectionGroup api d w = (rg, w') \<Longrightarrow> ids w' = ids w"
    and service_groups: "api_ListConnectionGroups api w = (rl, w') \<Longrightarrow> ids w' = ids w"

lemma classified_not_found:
  "IsNotFound (Some (classifiedBy classifyAWSError e)) = IsNotFound (classifyAWSError (Some e))"
  by (auto simp: classifiedBy_def IsNotFound_def split: option.split)

lemmas real_defs = RealCloudFrontClient_def realCreate_def realGet_def realUpdate_def realDelete_def
  realInfo_def realCert_def realEndpoint_def realDefaultEndpoint_def

sublocale honest_service \<subseteq> real_honest: honest_aws "RealCloudFrontClient api" ids
proof (unfold_locales, goal_cases)
  case (1 i w g w')
  then have "realGet api i w = (g, w')" by (simp add: RealCloudFrontClient_def)
  then obtain a where a: "api_GetDistributionTenant api (Some i) w = (a, w')"
      "g = (case a of Inl e \<Rightarrow> awsFailed e | Inr x \<Rightarrow> tenantAnswer x)"
    unfolding realGet_def andThen_eq by blast
  show ?case using service_get [OF a(1)] a(2) by (cases a) (auto simp: tenantAnswer_def classified_not_found)
next
  case (2 c w g w')
  then have "realCreate api c w = (g, w')" by (simp add: RealCloudFrontClient_def)
  then obtain a where a: "api_CreateDistributionTenant api (createInput c) w = (a, w')"
      "g = (case a of Inl e \<Rightarrow> awsFailed e | Inr x \<Rightarrow> tenantAnswer x)"
    unfolding realCreate_def andThen_eq by blast
  show ?case
  proof (cases a)
    case (Inr out)
    have "toDistributionTenantOutput None etag = None" for etag by (simp add: toDistributionTenantOutput_def)
    then show ?thesis
      using service_create [OF a(1)] a(2) Inr by (cases "sto_DistributionTenant out") (simp_all add: tenantAnswer_def)
  qed (use service_create [OF a(1)] a(2) in simp)
next
  case (3 u w g w')
  then have "realUpdate api u w = (g, w')" by (simp add: RealCloudFrontClient_def)
  then show ?case using service_update unfolding realUpdate_def andThen_eq by blast
next
  case (4 i e w d w')
  then have "realDelete api i e w = (d, w')" by (simp add: RealCloudFrontClient_def)
  then obtain a where a: "api_DeleteDistributionTenant api (Some i) (Some e) w = (a, w')"
      "d = (case a of Inl e \<Rightarrow> awsFailed e | Inr x \<Rightarrow> Inr x)"
    unfolding realDelete_def andThen_eq by blast
  show ?case using service_delete [OF a(1)] a(2) by (cases a) simp_all
qed (use service_info service_cert service_group service_groups in
    \<open>auto simp: RealCloudFrontClient_def realInfo_def realCert_def realEndpoint_def realDefaultEndpoint_def andThen_eq\<close>)

section \<open>The platform of the invariant\<close>

locale ledger_platform =
  honest_service "sv_CloudFront P" ids + honest_api "sv_TenantClient P" objs + apimachinery "sv_Apim P"
  for P :: "'w services" and ids objs +
  assumes service_keeps_objs:
      "api_GetDistributionTenant (sv_CloudFront P) j w = (g, w') \<Longrightarrow> objs w' = objs w"
      "api_CreateDistributionTenant (sv_CloudFront P) c w = (g, w') \<Longrightarrow> objs w' = objs w"
      "api_UpdateDistributionTenant (sv_CloudFront P) u w = (g, w') \<Longrightarrow> objs w' = objs w"
      "api_DeleteDistributionTenant (sv_CloudFront P) j e w = (d, w') \<Longrightarrow> objs w' = objs w"
      "api_GetDistribution (sv_CloudFront P) j w = (f, w') \<Longrightarrow> objs w' = objs w"
      "api_GetManagedCertificateDetails (sv_CloudFront P) j w = (mc, w') \<Longrightarrow> objs w' = objs w"
      "api_GetConnectionGroup (sv_CloudFront P) j w = (cg, w') \<Longrightarrow> objs w' = objs w"
      "api_ListConnectionGroups (sv_CloudFront P) w = (cgs, w') \<Longrightarrow> objs w' = objs w"
    and server_keeps_ids:
      "k_Get (sv_TenantClient P) ns n w = (r, w') \<Longrightarrow> ids w' = ids w"
      "k_Update (sv_TenantClient P) t w = (r, w') \<Longrightarrow> ids w' = ids w"
      "k_StatusUpdate (sv_TenantClient P) t w = (r, w') \<Longrightarrow> ids w' = ids w"
    and rest_keep:
      "sv_Now P w = (now, w') \<Longrightarrow> ids w' = ids w \<and> objs w' = objs w"
      "api_DescribeCertificate (sv_ACM P) arn w = (sans, w') \<Longrightarrow> ids w' = ids w \<and> objs w' = objs w"
      "api_ChangeResourceRecordSets (sv_Route53 P role) i w = (ci, w') \<Longrightarrow> ids w' = ids w \<and> objs w' = objs w"
      "api_GetChange (sv_Route53 P role) x w = (ci, w') \<Longrightarrow> ids w' = ids w \<and> objs w' = objs w"

lemma real_dns_quiet:
  assumes "\<And>i w ci w'. api_ChangeResourceRecordSets api i w = (ci, w') \<Longrightarrow> ids w' = ids w \<and> objs w' = objs w"
    and "\<And>x w ci w'. api_GetChange api x w = (ci, w') \<Longrightarrow> ids w' = ids w \<and> objs w' = objs w"
  shows "quietDNS ids objs (RealRoute53Client api)"
proof -
  have "f w = (a, w') \<Longrightarrow> ids w' = ids w \<and> objs w' = objs w \<Longrightarrow>
      ids (snd (andThen f onErr onOK w)) = ids w \<and> objs (snd (andThen f onErr onOK w)) = objs w"
    for f :: "('a, 'x) call" and onErr :: "go_error \<Rightarrow> go_error + 'y" and onOK w a w'
    by (simp add: andThen_def)
  note through = this
  show ?thesis
    unfolding quietDNS_def RealRoute53Client_def
      UpsertCNAMERecords_def GetChangeStatus_def DeleteCNAMERecords_def DNSClient.simps
    by (intro allI conjI) (rule through [THEN conjunct1] through [THEN conjunct2],
      rule surjective_pairing, rule assms, rule surjective_pairing)+
qed

sublocale ledger_platform \<subseteq> ledger: ledger_world "tenantReconciler P policy" ids objs
proof (rule ledger_world.intro)
  show "honest_aws (r_CFClient (tenantReconciler P policy)) ids"
    using real_honest.honest_aws_axioms by (simp add: tenantReconciler_def)
  show "honest_api (r_Client (tenantReconciler P policy)) objs"
    using honest_api_axioms by (simp add: tenantReconciler_def)
  show "apimachinery (r_Meta (tenantReconciler P policy))"
    using apimachinery_axioms by (simp add: tenantReconciler_def)
  show "ledger_world_axioms (tenantReconciler P policy) ids objs"
  proof (unfold_locales, goal_cases)
    case (14 new role w rc w')
    then have "w' = w" "rc = NewRealRoute53Client (sv_Route53 P) role" by (auto simp: tenantReconciler_def)
    moreover have "quietDNS ids objs (RealRoute53Client (sv_Route53 P a))" for a
      by (rule real_dns_quiet) (use rest_keep(3,4) in blast)+
    ultimately show ?case by (simp add: NewRealRoute53Client_def)
  qed (use service_keeps_objs server_keeps_ids rest_keep in
      \<open>auto simp: tenantReconciler_def real_defs andThen_eq RealACMClient_def GetCertificateSANs_def\<close>)
qed

context ledger_platform
begin

lemma platform_ledger: "ledger_world (tenantReconciler P policy) ids objs"
  by (rule ledger.ledger_world_axioms)

end

section \<open>The concrete platform\<close>

lemma sdk_codes [simp]:
  "IsNotFound (classifyAWSError (Some (sdkError ''Throttling''))) = False"
  "IsNotFound (classifyAWSError (Some (sdkError ''PreconditionFailed''))) = False"
  by code_simp+

interpretation cloud_honest: honest_service cloudAPI "\<lambda>w. dom (cloudAt w)"
proof (unfold_locales, goal_cases)
  case (1 i w r w')
  then obtain s where s: "echoGet (Some i) (cl_sdk w) = (r, s)" "w' = w\<lparr>cl_sdk := s\<rparr>"
    by (auto simp: cloudAPI_def onSdk_eq)
  then show ?case by (cases "cloudAt w i") (auto simp: echoGet_def)
next
  case (2 c w r w')
  then obtain s where "echoCreate c (cl_sdk w) = (r, s)" "w' = w\<lparr>cl_sdk := s\<rparr>"
    by (auto simp: cloudAPI_def onSdk_eq)
  then show ?case by (auto simp: echo_defs echoCreated_def)
next
  case (3 u w r w')
  then obtain s where "echoUpdate u (cl_sdk w) = (r, s)" "w' = w\<lparr>cl_sdk := s\<rparr>"
    by (auto simp: cloudAPI_def onSdk_eq)
  then show ?case by (auto simp: echo_defs split: option.splits if_splits)
next
  case (4 i e w rd w')
  then obtain s where "echoDelete (Some i) e (cl_sdk w) = (rd, s)" "w' = w\<lparr>cl_sdk := s\<rparr>"
    by (auto simp: cloudAPI_def onSdk_eq)
  then show ?case by (auto simp: echo_defs split: option.splits if_splits)
qed (auto simp: cloudAPI_def)

interpretation cloud_server: honest_api cloudK8s cloudStore
proof (unfold_locales, goal_cases)
  case (1 ns n w r w')
  then show ?case
    using lookupT_key by (fastforce simp: cloudK8s_def onApi_eq apiGetTenant_def split: option.splits)
next
  case (2 t w r w')
  let ?f = "\<lambda>u. mockBump (dt_Spec u) (t\<lparr>dt_Status := dt_Status u\<rparr>)"
  obtain s where s: "cloudWrite t mockPut ?f (cl_api w) = (r, s)" "cl_api w' = s"
    using 2 by (auto simp: cloudK8s_def onApi_eq)
  show ?case
  proof (cases r)
    case (Inl e)
    then show ?thesis using cloudWrite_failed [of t mockPut ?f "cl_api w" e s] s by simp
  next
    case (Inr t')
    obtain u where u: "cloudStore w (keyOf t) = Some u" "dt_Generation t = dt_Generation u" "t' = ?f u"
      using cloudWrite_inr [OF s(1) [unfolded Inr]] by blast
    have "cloudStore w' = (cloudStore w)(keyOf t := mockPut t')"
      using cloudWrite_written [OF u(1,2) s(1)] s(2) unfolding u(3) by (metis mockPut_Some bump_keeps(1) keyOf_status)
    then show ?thesis using u(1,3) Inr by (simp add: surviving_def mockPut_def)
  qed
next
  case (3 t w r w')
  let ?f = "\<lambda>u. u\<lparr>dt_Status := dt_Status t\<rparr>"
  obtain s where s: "cloudWrite t Some ?f (cl_api w) = (r, s)" "cl_api w' = s"
    using 3 by (auto simp: cloudK8s_def onApi_eq)
  show ?case
  proof (cases r)
    case (Inl e)
    then show ?thesis using cloudWrite_failed [of t Some ?f "cl_api w" e s] s by simp
  next
    case (Inr t')
    obtain u where u: "cloudStore w (keyOf t) = Some u" "dt_Generation t = dt_Generation u" "t' = ?f u"
      using cloudWrite_inr [OF s(1) [unfolded Inr]] by blast
    then have "cloudStore w' = (cloudStore w)(keyOf t \<mapsto> t')"
      using cloudWrite_written [OF u(1,2) s(1)] s(2) lookupT_key [OF u(1)] by simp
    then show ?thesis using u(1,3) Inr by simp
  qed
qed

interpretation cloud_ledger: ledger_platform "cloudServices rows" "\<lambda>w. dom (cloudAt w)" cloudStore
proof (rule ledger_platform.intro)
  show "honest_service (sv_CloudFront (cloudServices rows)) (\<lambda>w. dom (cloudAt w))"
    by (simp add: cloudServices_def cloud_honest.honest_service_axioms)
  show "honest_api (sv_TenantClient (cloudServices rows)) cloudStore"
    by (simp add: cloudServices_def cloud_server.honest_api_axioms)
  show "apimachinery (sv_Apim (cloudServices rows))"
    by (simp add: cloudServices_def ref.apimachinery_axioms)
  show "ledger_platform_axioms (cloudServices rows) (\<lambda>w. dom (cloudAt w)) cloudStore"
    by unfold_locales (auto simp: cloudServices_def cloudAPI_def cloudK8s_def onSdk_eq onApi_eq onZones_eq)
qed

section \<open>No tenant is leaked\<close>

text \<open>C4: No tenant is leaked: however reconciles of any objects by the operator that main starts,
  restarts of the operator, edits and deletions of objects and changes in CloudFront follow each
  other, and whichever calls fail, every tenant that the operator created and that still exists in
  CloudFront is recorded, by its ID, in an object that carries the finalizer of the operator, unless
  the status write right after its creation failed.\<close>

theorem no_tenant_is_leaked:
  assumes "mainOperator policy P = Inr op" and "ledger_platform P ids objs"
    and "reachable (op_Tenants op) ids objs w cache lost" and "i \<in> ids w"
  shows "i \<in> lost \<or> (\<exists>key t. objs w key = Some t \<and> tenantID t = i \<and>
    FinalizerName \<in> set (om_Finalizers (dt_Meta t)))"
proof (rule reachable_owner)
  show "ledger_world (op_Tenants op) ids objs"
    unfolding mainOperator_Inr(1) [OF assms(1)] by (rule ledger_platform.platform_ledger [OF assms(2)])
qed (fact assms(3,4))+

text \<open>An object is created on the empty platform, and the operator reconciles it.\<close>

definition orderedWorld :: cloudWorld where
  "orderedWorld = \<lparr>cl_sdk = \<lparr>sd_tenants = Map.empty, sd_version = 1\<rparr>, cl_api = plainWorld None [] [fresh],
     cl_zones = (\<lambda>_. {})\<rparr>"

definition firstReconcile :: "hres \<times> cloudWorld dtState" where
  "firstReconcile = run_state (Reconcile (op_Tenants (cloudOperator [])) ''ns'' ''abc'')
     (start settled orderedWorld Map.empty)"

definition statusWriteFailed :: "effect \<Rightarrow> bool" where
  "statusWriteFailed e = (case e of KStatusUpdate _ r \<Rightarrow> isl r | _ \<Rightarrow> False)"

lemma unrecorded_none: "\<not> list_ex statusWriteFailed tr \<Longrightarrow> unrecorded tr = {}"
  by (fastforce simp: unrecorded_def list_ex_iff statusWriteFailed_def)

text \<open>What the calls of that reconcile answer.\<close>

lemma cloud_throttled: "realInfo cloudAPI d w = (Inl (Wrapped [] (Sentinel ErrThrottling) ('': refused'')), w)"
  by (simp add: realInfo_def andThen_def cloudAPI_def sdkError_def classifiedBy_def classifyAWSError_api)
    (simp add: awsCodeClass_def wrapSentinel_def)

lemma cloud_parts:
  "r_Meta (tenantReconciler (cloudServices rows) policy) = metaRef (\<lambda>_. None)"
  "r_Client (tenantReconciler (cloudServices rows) policy) = cloudK8s"
  "r_CFClient (tenantReconciler (cloudServices rows) policy) = RealCloudFrontClient cloudAPI"
  "r_HasRecorder (tenantReconciler (cloudServices rows) policy)"
  "r_Now (tenantReconciler (cloudServices rows) policy) = (\<lambda>w. (sw_clock (cl_api w), w))"
  "r_DriftPolicy (tenantReconciler (cloudServices rows) policy) = policy"
  by (simp_all add: tenantReconciler_def cloudServices_def)

lemma cloud_calls:
  "k_Get cloudK8s ns n w = onApi (apiGetTenant ns n) w"
  "k_Update cloudK8s t w =
     onApi (cloudWrite t mockPut (\<lambda>u. mockBump (dt_Spec u) (t\<lparr>dt_Status := dt_Status u\<rparr>))) w"
  "k_StatusUpdate cloudK8s t w = onApi (cloudWrite t Some (\<lambda>u. u\<lparr>dt_Status := dt_Status t\<rparr>)) w"
  "cf_GetDistributionInfo (RealCloudFrontClient cloudAPI) d w = realInfo cloudAPI d w"
  "cf_CreateDistributionTenant (RealCloudFrontClient cloudAPI) c w =
     (case echoCreate (createInput c) (cl_sdk w) of
        (r, s) \<Rightarrow> (case r of Inl e \<Rightarrow> awsFailed e | Inr out \<Rightarrow> tenantAnswer out, w\<lparr>cl_sdk := s\<rparr>))"
  by (simp_all add: cloudK8s_def RealCloudFrontClient_def realCreate_def andThen_def cloudAPI_def onSdk_def
      split: prod.split)

lemma first_version: "showNat (Suc 0) = ''1''"
  by code_simp

lemma firstReconcile_creates:
  "cloudAt (world (snd firstReconcile)) ''dt_1'' \<noteq> None \<and>
   \<not> list_ex statusWriteFailed (trace (snd firstReconcile))"
  by (simp add: firstReconcile_def orderedWorld_def wiredOperator_def run_simps cloud_parts cloud_calls
      cloud_throttled tenantAnswer_def cloudWrite_def onApi_def echoCreate_def echoAnswer_def Let_def
      first_version apiGetTenant_def plainWorld_def putTenant_def removeT_def error_preds keyOf_def
      echoCreated_def createInput_def heldAs_def toDistributionTenantOutput_def statusWriteFailed_def
      cong: bind_weak_cong)

lemma firstReconcile_reachable:
  "reachable (op_Tenants (cloudOperator [])) (\<lambda>w. dom (cloudAt w)) cloudStore
     (world (snd firstReconcile)) (dnsClientCache (snd firstReconcile)) {}"
proof -
  let ?reachable = "reachable (op_Tenants (cloudOperator [])) (\<lambda>w. dom (cloudAt w)) cloudStore"
  let ?empty = "\<lparr>cl_sdk = \<lparr>sd_tenants = Map.empty, sd_version = 1\<rparr>, cl_api = plainWorld None [] [],
    cl_zones = (\<lambda>_. {})\<rparr>"
  have "?reachable ?empty Map.empty {}"
    by (rule reachable.installed) (simp_all add: plainWorld_def fun_eq_iff)
  then have "?reachable orderedWorld Map.empty {}"
  proof (rule reachable.outside)
    fix key
    have "tenantID fresh = []" by (simp add: tenantID_def demoTenant_def demoStatus_def)
    then show "outsideObject (op_Tenants (cloudOperator [])) (cloudStore ?empty key) (cloudStore orderedWorld key)"
      by (simp add: outsideObject_def orderedWorld_def plainWorld_def)
  qed (simp add: orderedWorld_def)
  note ordered = this
  have "run_state (Reconcile (op_Tenants (cloudOperator [])) ''ns'' ''abc'') (start settled orderedWorld Map.empty) =
      (fst firstReconcile, snd firstReconcile)"
    by (simp add: firstReconcile_def)
  from reachable.reconciled [OF ordered this] show ?thesis
    using unrecorded_none firstReconcile_creates by simp
qed

theorem no_tenant_is_leaked_witness:
  "\<exists>key t. cloudStore (world (snd firstReconcile)) key = Some t \<and> tenantID t = ''dt_1'' \<and>
    FinalizerName \<in> set (om_Finalizers (dt_Meta t))"
  using no_tenant_is_leaked [OF cloud_main cloud_ledger.ledger_platform_axioms firstReconcile_reachable,
      of "''dt_1''"] firstReconcile_creates
  by auto

end
