(* ===== verification/Teardown.thy ===== *)
theory Teardown
  imports EndToEnd
begin

text \<open>
  The way back out, through both reconcilers and the production clients: when a row disappears from
  the table, or the source itself is deleted, the tenant disappears from CloudFront.
\<close>

section \<open>Deleting a source marks its tenants\<close>

context tenant_store
begin

lemma deleteAll_marks:
  assumes "ts_Client R = K"
  shows "distinct (map keyOf ts) \<Longrightarrow> (\<And>t. t \<in> set ts \<Longrightarrow> tenants (world s) (keyOf t) = Some t) \<Longrightarrow>
    wp (ts_deleteAll R ts) (\<lambda>_ s'.
      (\<forall>t \<in> set ts. goneOrMarked t (tenants (world s') (keyOf t))) \<and>
      (\<forall>key. key \<notin> keyOf ` set ts \<longrightarrow> tenants (world s') key = tenants (world s) key)) s"
proof (induction ts arbitrary: s)
  case Nil
  then show ?case by (simp add: wp_return)
next
  case (Cons t ts)
  have rest: "wp (ts_deleteAll R ts) (\<lambda>_ s'.
      (\<forall>u \<in> set (t # ts). goneOrMarked u (tenants (world s') (keyOf u))) \<and>
      (\<forall>key. key \<notin> keyOf ` set (t # ts) \<longrightarrow> tenants (world s') key = tenants (world s) key)) s1"
    if x: "goneOrMarked t x" "tenants (world s1) = (tenants (world s))(keyOf t := x)" for x s1
  proof (rule wp_mono [OF Cons.IH], goal_cases)
    case 1
    show ?case using Cons.prems(1) by simp
  next
    case (2 u)
    have "keyOf t \<notin> keyOf ` set ts" using Cons.prems(1) by simp
    then have "keyOf u \<noteq> keyOf t" using imageI [OF 2, of keyOf] by metis
    then show ?case using Cons.prems(2) [of u] 2 x(2) by simp
  next
    case (3 a s2)
    have "keyOf t \<notin> keyOf ` set ts" using Cons.prems(1) by simp
    then have "tenants (world s2) (keyOf t) = x" using conjunct2 [OF 3] x(2) by (metis fun_upd_same)
    then show ?case using 3 x by simp
  qed
  show ?case
    unfolding ts_deleteAll.simps assms wp_bind wp_extern
  proof (intro allI impI, goal_cases)
    case (1 r w')
    obtain x where "r = Inr ()" "goneOrMarked t x" "tenants w' = (tenants (world s))(keyOf t := x)"
      using delete_tenant [OF _ 1] Cons.prems(2) [of t] by auto
    then show ?case using rest by simp
  qed
qed

end

context source_platform
begin

lemma reconcile_deletes:
  assumes "sk_Get (sv_SourceClient P) sns sn (world s) = (Inr source, w1)"
    and "om_DeletionTimestamp (ts_Meta source) \<noteq> None" and "apimachinery (sv_Apim P)"
    and "TenantSourceFinalizerName \<in> set (om_Finalizers (ts_Meta source))"
    and "tenants (world s) (targetNamespace source, name) = Some t" and "labelled source t"
  shows "wp (ts_Reconcile (tenantSourceReconciler P) sns sn)
    (\<lambda>_ s'. goneOrMarked t (tenants (world s') (targetNamespace source, name))) s"
proof -
  let ?R = "tenantSourceReconciler P"
  have parts: "ts_Client ?R = sv_SourceClient P" "ts_Apim ?R = sv_Apim P"
    by (simp_all add: tenantSourceReconciler_def)
  have fin: "ContainsFinalizer (sv_Apim P) (om_Finalizers (ts_Meta source)) TenantSourceFinalizerName"
    using assms(3,4) by (simp add: apimachinery.contains_iff)
  have ns: "(case tss_TargetNamespace (ts_Spec x) of
       Some ns \<Rightarrow> if ns \<noteq> [] then ns else ts_Namespace x | None \<Rightarrow> ts_Namespace x) = targetNamespace x" for x
    by (simp add: targetNamespace_def)
  have key: "keyOf t = (targetNamespace source, name)" using keyed [OF assms(5)] .
  have w1: "tenants w1 = tenants (world s)" by (rule source_frame(1) [OF assms(1)])
  let ?s = "s\<lparr>world := w1, trace := trace s @ [SrcGet sns sn (Inr source)], obj := source\<rparr>"
  have "wp (ts_reconcileDelete ?R)
      (\<lambda>_ s'. goneOrMarked t (tenants (world s') (targetNamespace source, name))) ?s"
    unfolding ts_reconcileDelete_def ns Let_def listOwnedTenants_def wp_bind wp_getObj
  proof (simp add: parts fin wp_bind wp_extern, intro allI impI, goal_cases)
    case (1 l w2)
    obtain ts where ts: "l = Inr ts" "distinct (map (\<lambda>t. dt_Name t) ts)" "tenants w2 = tenants w1"
      "\<And>u. u \<in> set ts \<longleftrightarrow> tenants w1 (targetNamespace source, dt_Name u) = Some u \<and>
        (TenantSourceLabelKey, ts_Name source) \<in> set (om_Labels (dt_Meta u))"
      using list_tenants [OF 1] by blast
    have keys: "keyOf u = (targetNamespace source, dt_Name u)" if "u \<in> set ts" for u
      using keyed ts(4) that by blast
    have "dt_Name t = name" using key by (simp add: keyOf_def)
    then have mem: "t \<in> set ts" using ts(4) assms(5,6) w1 by (simp add: labelled_def)
    have "map keyOf ts = map (Pair (targetNamespace source)) (map (\<lambda>t. dt_Name t) ts)"
      using keys by simp
    then have "distinct (map keyOf ts)" using ts(2) by (simp add: distinct_map inj_on_def)
    moreover have "tenants w2 (keyOf u) = Some u" if "u \<in> set ts" for u
      using keys [OF that] ts(3,4) that by simp
    ultimately have "wp (ts_deleteAll ?R ts) (\<lambda>_ s'.
        goneOrMarked t (tenants (world s') (targetNamespace source, name))) (?s\<lparr>world := w2,
          trace := trace ?s @ [TenList (targetNamespace source) TenantSourceLabelKey (ts_Name source) (Inr ts)]\<rparr>)"
      by (intro wp_mono [OF deleteAll_marks [OF parts(1)]]) (use mem key in auto)
    moreover have "ts \<noteq> []" using mem by auto
    ultimately show ?case unfolding ts(1) by simp
  qed
  then show ?thesis
    using assms(1,2) by (simp add: ts_Reconcile_def wp_simps parts)
qed

end

section \<open>A marked tenant leaves CloudFront\<close>

text \<open>The state after the deletion of a tenant: CloudFront does not hold it, and its object has no
  finalizer of the operator any more.\<close>

definition leftCloudFront ::
  "('w \<Rightarrow> string \<Rightarrow> (cfDistributionTenant \<times> string) option) \<Rightarrow>
   ('w \<Rightarrow> string \<times> string \<Rightarrow> DistributionTenant option) \<Rightarrow> string \<times> string \<Rightarrow> string \<Rightarrow> 'w \<Rightarrow> bool" where
  "leftCloudFront sdkAt tenants key i w \<longleftrightarrow> (i = [] \<or> sdkAt w i = None) \<and>
     (case tenants w key of None \<Rightarrow> True | Some t \<Rightarrow> FinalizerName \<notin> set (om_Finalizers (dt_Meta t)))"

lemma marked_leaves:
  assumes platform: "operator_platform P sdkAt healthy (\<lambda>w. tenants w (ns, name)) ns name"
    and t: "FinalizerName \<in> set (om_Finalizers (dt_Meta t))" "st_DNSTarget (dt_Status t) = []"
      "keyOf t = (ns, name)"
    and marked: "goneOrMarked t (tenants w (ns, name))" and live: "healthy w"
    and env: "sdk_propagation sdkAt healthy (\<lambda>w. tenants w (ns, name)) env m"
    and w': "w' = fst (rounds env (tenantReconciler P policy) ns name t0 (m + 2 + j) (w, cache))"
  shows "leftCloudFront sdkAt tenants (ns, name) (tenantID t) w'"
proof -
  let ?R = "tenantReconciler P policy"
  obtain tm where t': "tenants w (ns, name) =
      Some (t\<lparr>dt_Meta := (dt_Meta t)\<lparr>om_DeletionTimestamp := Some tm\<rparr>\<rparr>)" (is "_ = Some ?t")
    using marked t(1) by (auto simp: goneOrMarked_def split: option.splits)
  have fin: "hasFinalizer ?R u = (FinalizerName \<in> set (om_Finalizers (dt_Meta u)))" for u
    using operator_platform.axioms(3) [OF platform]
    by (simp add: hasFinalizer_def tenantReconciler_def apimachinery.contains_iff)
  have "(if tenantID ?t = [] then True else realAt sdkAt w' (tenantID ?t) = None) \<and>
    (case tenants w' (ns, name) of None \<Rightarrow> True | Some u \<Rightarrow> \<not> hasFinalizer ?R u)"
    by (rule deletion_is_finished [OF operator_platform.platform_world [OF platform]
        sdk_propagation.held_propagation [OF env] live t' _ _ _ _ w'])
      (use t in \<open>simp_all add: beingDeleted_def fin needsCleanup_def keyOf_def\<close>)
  then show ?thesis by (auto simp: leftCloudFront_def tenantID_def realAt_def fin split: if_splits option.splits)
qed

section \<open>On the concrete platform\<close>

text \<open>A tenant of \<open>dynamoSource\<close>, enabled in CloudFront, and a table without rows.\<close>

definition ownedTenant :: DistributionTenant where
  "ownedTenant = settled\<lparr>dt_Meta := (dt_Meta settled)\<lparr>om_Labels := [(TenantSourceLabelKey, ''src'')],
     om_OwnerReferences := [''u1'']\<rparr>\<rparr>"

definition servedWorld :: "TenantSource \<Rightarrow> cloudWorld" where
  "servedWorld source = \<lparr>cl_sdk = \<lparr>sd_tenants = [''T1'' \<mapsto> (misplacedTenant, ''v1'')], sd_version = 2\<rparr>,
     cl_api = (plainWorld None [] [ownedTenant])\<lparr>sw_source := Some source\<rparr>, cl_zones = (\<lambda>_. {})\<rparr>"

definition dyingSource :: TenantSource where
  "dyingSource = dynamoSource\<lparr>ts_Meta := (ts_Meta dynamoSource)\<lparr>om_DeletionTimestamp := Some 5\<rparr>\<rparr>"

definition sourceRun :: "TenantSource \<Rightarrow> hres \<times> cloudWorld tsState" where
  "sourceRun source = run_state (ts_Reconcile (op_Sources (cloudOperator [])) ''ns'' ''src'')
     \<lparr>obj = source, world = servedWorld source, trace = []\<rparr>"

text \<open>Changes are deployed after the second reconcile of the tenant, so its deletion takes three.\<close>

definition roundsLater :: "TenantSource \<Rightarrow> cloudWorld" where
  "roundsLater source = fst (rounds (cloudSettles 1) (op_Tenants (cloudOperator [])) ''ns'' ''abc'' settled (1 + 2 + 0)
     (world (snd (sourceRun source)), Map.empty))"

lemma key_propagates: "sdk_propagation cloudAt (\<lambda>_. True) (\<lambda>w. cloudStore w key) (cloudSettles m) m"
  by (rule cloud_propagates [where f = "\<lambda>a z. lookupT (sw_tenants a) key"])

lemma ownedTenant_parts:
  "cloudStore (servedWorld source) (''ns'', ''abc'') = Some ownedTenant"
  "FinalizerName \<in> set (om_Finalizers (dt_Meta ownedTenant))" "st_DNSTarget (dt_Status ownedTenant) = []"
  "tenantID ownedTenant = ''T1''"
  by (simp_all add: servedWorld_def plainWorld_def ownedTenant_def keyOf_def tenantID_def demoTenant_def
      demoMeta_def demoStatus_def)

lemma source_parts:
  "sk_Get (sv_SourceClient (cloudServices [])) ns n (servedWorld source) = (Inr source, servedWorld source)"
  "ts_Name dynamoSource = ''src''" "ts_UID dynamoSource = ''u1''" "ts_Name dyingSource = ''src''"
  "TenantSourceFinalizerName \<in> set (om_Finalizers (ts_Meta dynamoSource))"
  "TenantSourceFinalizerName \<in> set (om_Finalizers (ts_Meta dyingSource))"
  "targetNamespace dynamoSource = ''ns''" "targetNamespace dyingSource = ''ns''"
  by (simp_all add: cloudServices_def cloudSource_def onApi_def apiServer_def apiGetSource_def servedWorld_def
      plainWorld_def dyingSource_def dynamoSource_def plainSource_def targetNamespace_def)

section \<open>The two ways out\<close>

text \<open>C5: A row that disappears takes its tenant along: when the table of a source does not list the
  name of a tenant that the source owns, one reconcile of the source by the operator that main
  starts marks the object, and then the reconciles of the object, between which CloudFront
  propagates what was changed, remove the tenant from CloudFront (whatever CloudFront holds for it,
  enabled or not) and release the object. CloudFront may refuse to delete the tenant until it is
  deployed; the next reconcile after that is the last that is needed (with the changes deployed in the
  back-off after the reconcile \<open>m\<close>, counted from 0, \<open>m + 2\<close> of them). The source writes to its own
  namespace and is not a dry run, the object carries the finalizer and has no managed DNS records,
  and CloudFront answers and accepts the update that disables the tenant.\<close>

theorem removed_row_leaves_cloudfront:
  assumes main: "mainOperator policy P = Inr op"
    and platforms: "source_platform P tenants valid"
      "operator_platform P sdkAt healthy (\<lambda>w. tenants w (ns, name)) ns name"
    and source: "sk_Get (sv_SourceClient P) sns sn (world s) = (Inr source, w1)"
      "om_DeletionTimestamp (ts_Meta source) = None"
      "TenantSourceFinalizerName \<in> set (om_Finalizers (ts_Meta source))"
      "tss_Provider (ts_Spec source) = ''dynamodb''" "tss_DynamoDB (ts_Spec source) = Some cfg"
      "tss_DryRun (ts_Spec source) \<noteq> Some True"
      "ts_Namespace source = ns" "targetNamespace source = ns"
    and pages: "servesPages (sv_DynamoDB P (clientRegion cfg)) (dd_TableName cfg) None pages None w1 w2"
    and row: "desiredMap (concat (map (mapItems (buildScanInput cfg)) pages)) name = None"
    and t: "tenants (world s) (ns, name) = Some t" "isOwnedBySource t source" "labelled source t"
      "FinalizerName \<in> set (om_Finalizers (dt_Meta t))" "st_DNSTarget (dt_Status t) = []"
    and run: "run_state (ts_Reconcile (op_Sources op) sns sn) s = (res, s')"
    and live: "healthy (world s')"
    and env: "sdk_propagation sdkAt healthy (\<lambda>w. tenants w (ns, name)) env m"
    and later: "w' = fst (rounds env (op_Tenants op) ns name t0 (m + 2 + j) (world s', cache))"
  shows "(tenantID t = [] \<or> sdkAt w' (tenantID t) = None) \<and>
    (case tenants w' (ns, name) of None \<Rightarrow> True
     | Some t' \<Rightarrow> FinalizerName \<notin> set (om_Finalizers (dt_Meta t')))"
proof -
  note op = mainOperator_Inr [OF main]
  have "syncedTo valid (sv_Order P) source None (Some t) (tenants (world s') (ns, name))"
    using wpD [OF source_platform.reconcile_syncs [OF platforms(1) source(1,2)
        operator_platform.axioms(3) [OF platforms(2)] source(3-6) _ pages] run [unfolded op(2)]]
      row t(1) source(7,8)
    by metis
  then have "goneOrMarked t (tenants (world s') (ns, name))" using t(2,3) by (simp add: syncedTo_def)
  note marked = this
  have "keyOf t = (ns, name)"
    by (rule tenant_store.keyed [OF source_platform.axioms(1) [OF platforms(1)] t(1)])
  from marked_leaves [where tenants = tenants, OF platforms(2) t(4,5) this marked live env later [unfolded op(1)]]
  show ?thesis by (simp add: leftCloudFront_def)
qed

theorem removed_row_leaves_cloudfront_witness:
  "cloudAt (servedWorld dynamoSource) ''T1'' \<noteq> None \<and> cloudAt (roundsLater dynamoSource) ''T1'' = None"
proof
  let ?P = "cloudServices []" and ?cfg = "the (tss_DynamoDB (ts_Spec dynamoSource))"
  let ?s = "\<lparr>obj = dynamoSource, world = servedWorld dynamoSource, trace = []\<rparr>"
  show "cloudAt (servedWorld dynamoSource) ''T1'' \<noteq> None" by (simp add: servedWorld_def)
  have source: "sk_Get (sv_SourceClient ?P) ''ns'' ''src'' (world ?s) = (Inr dynamoSource, servedWorld dynamoSource)"
    by (simp add: source_parts(1))
  have spec: "tss_DynamoDB (ts_Spec dynamoSource) = Some ?cfg" "tss_DryRun (ts_Spec dynamoSource) \<noteq> Some True"
    "om_DeletionTimestamp (ts_Meta dynamoSource) = None" "tss_Provider (ts_Spec dynamoSource) = ''dynamodb''"
    "ts_Namespace dynamoSource = ''ns''"
    by (simp_all add: dynamoSource_def plainSource_def)
  have pages: "servesPages (sv_DynamoDB ?P (clientRegion ?cfg)) (dd_TableName ?cfg) None [[]] None
      (servedWorld dynamoSource) (servedWorld dynamoSource)"
    by (rule last_page) (simp add: cloudServices_def rowTable_def)
  have row: "desiredMap (concat (map (mapItems (buildScanInput ?cfg)) [[]])) ''abc'' = None"
    by (simp add: desiredMap_def mapByKey_def mapItems_def)
  have t: "cloudStore (world ?s) (''ns'', ''abc'') = Some ownedTenant" "isOwnedBySource ownedTenant dynamoSource"
    "labelled dynamoSource ownedTenant"
    using ownedTenant_parts(1) source_parts(2,3)
    by (simp_all add: isOwnedBySource_def labelled_def ownedTenant_def)
  have run: "run_state (ts_Reconcile (op_Sources (cloudOperator [])) ''ns'' ''src'') ?s =
      (fst (sourceRun dynamoSource), snd (sourceRun dynamoSource))"
    by (simp add: sourceRun_def)
  have "tenantID ownedTenant = [] \<or> cloudAt (roundsLater dynamoSource) (tenantID ownedTenant) = None"
    by (rule conjunct1 [OF removed_row_leaves_cloudfront [OF cloud_main cloud_source.source_platform_axioms
        cloud.operator_platform_axioms source spec(3) source_parts(5) spec(4,1,2,5) source_parts(7) pages row
        t ownedTenant_parts(2,3) run TrueI key_propagates roundsLater_def]])
  then show "cloudAt (roundsLater dynamoSource) ''T1'' = None" by (simp only: ownedTenant_parts(4)) simp
qed

text \<open>C6: A deleted source takes its tenants along: one reconcile of a TenantSource that is being
  deleted, by the operator that main starts, marks the objects that carry its label, and then the
  reconciles of such an object remove its tenant from CloudFront and release it, as soon as
  CloudFront has deployed what disabled the tenant. As in C5, the object carries the finalizer and
  has no managed DNS records, and CloudFront answers and accepts the update that disables the tenant.\<close>

theorem deleted_source_leaves_cloudfront:
  assumes main: "mainOperator policy P = Inr op"
    and platforms: "source_platform P tenants valid"
      "operator_platform P sdkAt healthy (\<lambda>w. tenants w (ns, name)) ns name"
    and source: "sk_Get (sv_SourceClient P) sns sn (world s) = (Inr source, w1)"
      "om_DeletionTimestamp (ts_Meta source) \<noteq> None"
      "TenantSourceFinalizerName \<in> set (om_Finalizers (ts_Meta source))" "targetNamespace source = ns"
    and t: "tenants (world s) (ns, name) = Some t" "labelled source t"
      "FinalizerName \<in> set (om_Finalizers (dt_Meta t))" "st_DNSTarget (dt_Status t) = []"
    and run: "run_state (ts_Reconcile (op_Sources op) sns sn) s = (res, s')"
    and live: "healthy (world s')"
    and env: "sdk_propagation sdkAt healthy (\<lambda>w. tenants w (ns, name)) env m"
    and later: "w' = fst (rounds env (op_Tenants op) ns name t0 (m + 2 + j) (world s', cache))"
  shows "(tenantID t = [] \<or> sdkAt w' (tenantID t) = None) \<and>
    (case tenants w' (ns, name) of None \<Rightarrow> True
     | Some t' \<Rightarrow> FinalizerName \<notin> set (om_Finalizers (dt_Meta t')))"
proof -
  note op = mainOperator_Inr [OF main]
  have "goneOrMarked t (tenants (world s') (ns, name))"
    using wpD [OF source_platform.reconcile_deletes [OF platforms(1) source(1,2)
        operator_platform.axioms(3) [OF platforms(2)] source(3)] run [unfolded op(2)]] t(1,2) source(4)
    by metis
  note marked = this
  have "keyOf t = (ns, name)"
    by (rule tenant_store.keyed [OF source_platform.axioms(1) [OF platforms(1)] t(1)])
  from marked_leaves [where tenants = tenants, OF platforms(2) t(3,4) this marked live env later [unfolded op(1)]]
  show ?thesis by (simp add: leftCloudFront_def)
qed

theorem deleted_source_leaves_cloudfront_witness:
  "cloudAt (servedWorld dyingSource) ''T1'' \<noteq> None \<and> cloudAt (roundsLater dyingSource) ''T1'' = None"
proof
  let ?P = "cloudServices []" and ?s = "\<lparr>obj = dyingSource, world = servedWorld dyingSource, trace = []\<rparr>"
  show "cloudAt (servedWorld dyingSource) ''T1'' \<noteq> None" by (simp add: servedWorld_def)
  have source: "sk_Get (sv_SourceClient ?P) ''ns'' ''src'' (world ?s) = (Inr dyingSource, servedWorld dyingSource)"
    by (simp add: source_parts(1))
  have dying: "om_DeletionTimestamp (ts_Meta dyingSource) \<noteq> None" by (simp add: dyingSource_def)
  have t: "cloudStore (world ?s) (''ns'', ''abc'') = Some ownedTenant" "labelled dyingSource ownedTenant"
    using ownedTenant_parts(1) source_parts(4) by (simp_all add: labelled_def ownedTenant_def)
  have run: "run_state (ts_Reconcile (op_Sources (cloudOperator [])) ''ns'' ''src'') ?s =
      (fst (sourceRun dyingSource), snd (sourceRun dyingSource))"
    by (simp add: sourceRun_def)
  have "tenantID ownedTenant = [] \<or> cloudAt (roundsLater dyingSource) (tenantID ownedTenant) = None"
    by (rule conjunct1 [OF deleted_source_leaves_cloudfront [OF cloud_main cloud_source.source_platform_axioms
        cloud.operator_platform_axioms source dying source_parts(6,8) t ownedTenant_parts(2,3) run TrueI
        key_propagates roundsLater_def]])
  then show "cloudAt (roundsLater dyingSource) ''T1'' = None" by (simp only: ownedTenant_parts(4)) simp
qed

end
