(* ===== verification/DnsTeardown.thy ===== *)
theory DnsTeardown
  imports EndToEnd
begin

text \<open>
  The deletion of a tenant with managed DNS records, by the operator that main starts: the contract
  of \<open>DnsDeletion\<close> holds for the clients and the reconciler it wires, over Route53 as a service
  that keeps zones.
\<close>

section \<open>The wired operator and Route53\<close>

locale dns_platform =
  fixes P :: "'w services" and sdkAt healthy stored ns n zoneAt
  assumes platform: "operator_platform P sdkAt (\<lambda>w. healthy w \<and> recordsIn (zoneAt w) = here) stored ns n"
    and route53: "route53_zones (sv_Route53 P role) healthy zoneAt (\<lambda>w. (sdkAt w, stored w))"

sublocale dns_platform \<subseteq> wired_dns: operator_dns "tenantReconciler P policy" healthy
  "\<lambda>w. recordsIn (zoneAt w)" "realAt sdkAt" stored
  "\<lambda>c. \<exists>role. c = RealRoute53Client (sv_Route53 P role)" ns n
proof (intro operator_dns.intro dns_service.intro dns_factory.intro dns_service_axioms.intro
    operator_dns_axioms.intro, goal_cases)
  case (1 new role w dns w')
  then show ?case by (auto simp: tenantReconciler_def NewRealRoute53Client_def)
next
  case (2 new w role c w')
  then show ?case by (auto simp: tenantReconciler_def NewRealRoute53Client_def)
next
  case (3 dns w i d w')
  then obtain role where "DeleteCNAMERecords (sv_Route53 P role) i w = (d, w')"
    by (auto simp: RealRoute53Client_def)
  from route53_zones.records_deleted [OF route53 3(2) this] 3(3) show ?case
    by (auto simp: realAt_def fun_eq_iff)
next
  case (4 "here")
  show ?case by (rule operator_platform.platform_world [OF platform])
qed

context dns_platform
begin

lemma rounds_clean:
  assumes "healthy w" and "stored w = Some t" and "keyOf t = (ns, n)" and "beingDeleted t"
    and "hasFinalizer (tenantReconciler P policy) t" and "needsCleanup (tenantReconciler P policy) t"
    and "\<And>role c. cache role = Some c \<Longrightarrow> \<exists>r. c = RealRoute53Client (sv_Route53 P r)"
    and "set (managedRecords t) \<subseteq> recordsIn (zoneAt w) (managedZone t)"
    and env: "sdk_propagation sdkAt healthy (\<lambda>w. (stored w, zoneAt w)) env m"
  shows "fullyGone (tenantReconciler P policy) (realAt sdkAt) stored (\<lambda>w. recordsIn (zoneAt w)) t
    (fst (rounds env (tenantReconciler P policy) ns n t0 (m + 2 + j) (w, cache)))"
proof -
  have "propagation (realAt sdkAt) healthy (\<lambda>w. (stored w, recordsIn (zoneAt w))) env m"
    using propagation.coarser [OF sdk_propagation.held_propagation [OF env], of "map_prod id recordsIn"] by simp
  then show ?thesis
    by (intro wired_dns.retries_clean [OF assms(1-6) _ assms(8)])
      (use assms(7) in \<open>simp_all add: workingCache_def\<close>)
qed

end

section \<open>On the concrete platform\<close>

lemma zones_on_cloud:
  "route53_zones (sv_Route53 (cloudServices rows) role) (\<lambda>_. True) cl_zones
     (\<lambda>w. (cloudAt w, cloudStore w (ns, n)))"
proof (unfold_locales, goal_cases)
  case (1 w i z r w')
  obtain s where s: "changeZones i (cl_zones w) = (r, s)" "w' = w\<lparr>cl_zones := s\<rparr>"
    using 1(4) by (auto simp: cloudServices_def onZones_eq)
  have "api_ChangeResourceRecordSets zonesAPI i (cl_zones w) = (r, s)" using s(1) by (simp add: zonesAPI_def)
  from exec_zones.delete_batch [OF TrueI 1(2,3) this] s(2) show ?case by (auto split: if_splits)
qed

interpretation cloud_dns: dns_platform "cloudServices rows" cloudAt "\<lambda>_. True"
  "\<lambda>w. cloudStore w (ns, n)" ns n cl_zones
proof (rule dns_platform.intro)
  show "operator_platform (cloudServices rows) cloudAt (\<lambda>w. True \<and> recordsIn (cl_zones w) = here)
      (\<lambda>w. cloudStore w (ns, n)) ns n" for "here"
    by (rule cloud_platform [where Z = "\<lambda>z. True \<and> recordsIn z = here"])
  show "route53_zones (sv_Route53 (cloudServices rows) role) (\<lambda>_. True) cl_zones
      (\<lambda>w. (cloudAt w, cloudStore w (ns, n)))" for role
    by (rule zones_on_cloud)
qed

text \<open>A tenant that is being deleted, enabled in CloudFront, with its record in its hosted zone.\<close>

definition dyingServed :: DistributionTenant where
  "dyingServed = dyingDNS\<lparr>dt_Status := (dt_Status dyingDNS)\<lparr>st_ID := ''T1''\<rparr>\<rparr>"

definition servedRecord :: rrset where
  "servedRecord = (Some ''a.b'', ''CNAME'', Some 300, [Some ''cg''])"

definition dyingWorld :: cloudWorld where
  "dyingWorld = \<lparr>cl_sdk = \<lparr>sd_tenants = [''T1'' \<mapsto> (misplacedTenant, ''v1'')], sd_version = 2\<rparr>,
     cl_api = plainWorld None [] [dyingServed], cl_zones = (\<lambda>_. {})(''Z1'' := {servedRecord})\<rparr>"

text \<open>Changes are deployed after the second reconcile, so the deletion takes three.\<close>

definition dyingLater :: cloudWorld where
  "dyingLater = fst (rounds (cloudSettles 1) (op_Tenants (cloudOperator [])) ''ns'' ''abc'' settled (1 + 2 + 0)
     (dyingWorld, Map.empty))"

section \<open>The tenant and its records are gone\<close>

text \<open>C8: A deletion cleans up DNS: the reconciles of an object that is being deleted, by the operator
  that main starts, disable and delete its tenant (as soon as CloudFront has deployed what disabled it,
  see C5), remove every DNS record that the operator manages for it from its hosted zone, and release
  the object, when the records are in the zone and the clients in the cache are the ones the factory
  of main makes.\<close>

theorem deletion_cleans_dns:
  assumes main: "mainOperator policy P = Inr op"
    and platform: "dns_platform P sdkAt healthy stored ns n zoneAt"
    and live: "healthy w" "stored w = Some t" "keyOf t = (ns, n)" "beingDeleted t"
      "FinalizerName \<in> set (om_Finalizers (dt_Meta t))"
    and dns: "spec_DNS (dt_Spec t) = Some cfg" "dns_HostedZoneId cfg = Some zone" "st_DNSTarget (dt_Status t) \<noteq> []"
    and records: "records = cnameRecords (domainsToStrings (spec_Domains (dt_Spec t)))
        (st_DNSTarget (dt_Status t)) (dnsTTL cfg)"
      "set records \<subseteq> recordsIn (zoneAt w) zone"
    and cache: "\<And>role c. cache role = Some c \<Longrightarrow> \<exists>r. c = RealRoute53Client (sv_Route53 P r)"
    and env: "sdk_propagation sdkAt healthy (\<lambda>w. (stored w, zoneAt w)) env m"
    and later: "w' = fst (rounds env (op_Tenants op) ns n t0 (m + 2 + j) (w, cache))"
  shows "(tenantID t = [] \<or> sdkAt w' (tenantID t) = None) \<and>
    set records \<inter> recordsIn (zoneAt w') zone = {} \<and>
    (case stored w' of None \<Rightarrow> True | Some t' \<Rightarrow> FinalizerName \<notin> set (om_Finalizers (dt_Meta t')))"
proof -
  let ?R = "tenantReconciler P policy"
  note op = mainOperator_Inr [OF main]
  have fin: "hasFinalizer ?R u = (FinalizerName \<in> set (om_Finalizers (dt_Meta u)))" for u
    using operator_platform.axioms(3) [OF dns_platform.platform [OF platform]]
    by (simp add: hasFinalizer_def tenantReconciler_def apimachinery.contains_iff)
  have managed: "managedRecords t = records" "managedZone t = zone" "needsCleanup ?R t"
    using dns records(1) by (simp_all add: managedRecords_def managedZone_def needsCleanup_def tenantReconciler_def)
  have "fullyGone ?R (realAt sdkAt) stored (\<lambda>w. recordsIn (zoneAt w)) t w'"
    unfolding later op(1)
    by (rule dns_platform.rounds_clean [OF platform live(1-4) _ managed(3) cache])
      (use live(5) records(2) managed fin env in simp_all)
  then show ?thesis
    by (auto simp: fullyGone_def released_def managed fin realAt_def split: option.splits)
qed

theorem deletion_cleans_dns_witness:
  "cloudAt dyingWorld ''T1'' \<noteq> None \<and> servedRecord \<in> cl_zones dyingWorld ''Z1'' \<and>
   cloudAt dyingLater ''T1'' = None \<and> servedRecord \<notin> cl_zones dyingLater ''Z1''"
proof -
  let ?t = dyingServed and ?recs = "[\<lparr>rec_Name = ''a.b'', rec_Target = ''cg'', rec_TTL = 300\<rparr>]"
  have before: "cloudAt dyingWorld ''T1'' \<noteq> None" "servedRecord \<in> cl_zones dyingWorld ''Z1''"
    "cloudStore dyingWorld (''ns'', ''abc'') = Some ?t" "keyOf ?t = (''ns'', ''abc'')" "beingDeleted ?t"
    "FinalizerName \<in> set (om_Finalizers (dt_Meta ?t))" "tenantID ?t = ''T1''"
    by (simp_all add: dyingWorld_def plainWorld_def dyingServed_def demoDNSTenant_def demoTenant_def demoMeta_def
        demoStatus_def keyOf_def beingDeleted_def tenantID_def)
  have dns: "spec_DNS (dt_Spec ?t) = Some demoDNS" "dns_HostedZoneId demoDNS = Some ''Z1''"
    "st_DNSTarget (dt_Status ?t) \<noteq> []"
    by (simp_all add: dyingServed_def demoDNSTenant_def demoDNS_def demoStatus_def)
  have recs: "?recs = cnameRecords (domainsToStrings (spec_Domains (dt_Spec ?t)))
      (st_DNSTarget (dt_Status ?t)) (dnsTTL demoDNS)"
    by code_simp
  have held: "set ?recs \<subseteq> recordsIn (cl_zones dyingWorld) ''Z1''"
    by (simp add: recordsIn_def dyingWorld_def servedRecord_def)
  have "(tenantID ?t = [] \<or> cloudAt dyingLater (tenantID ?t) = None) \<and>
    set ?recs \<inter> recordsIn (cl_zones dyingLater) ''Z1'' = {} \<and>
    (case cloudStore dyingLater (''ns'', ''abc'') of None \<Rightarrow> True
     | Some t' \<Rightarrow> FinalizerName \<notin> set (om_Finalizers (dt_Meta t')))"
    by (rule deletion_cleans_dns [OF cloud_main cloud_dns.dns_platform_axioms TrueI before(3-6) dns recs held _
        cloud_propagates [where f = "\<lambda>a z. (lookupT (sw_tenants a) (''ns'', ''abc''), z)"] dyingLater_def])
      simp
  with before show ?thesis by (simp add: recordsIn_def servedRecord_def)
qed

end
