(* ===== verification/Spec2Isabelle.thy ===== *)
theory Spec2Isabelle
  imports Startup CloudLedger Teardown DnsTeardown Conversions Validation
begin

text \<open>
  Verification of the CloudFront tenant operator, a Kubernetes operator in Go with two
  controllers. The DistributionTenant controller keeps a CloudFront distribution tenant (and its
  Route53 records and certificate) in line with a custom resource; the TenantSource controller
  polls a DynamoDB table and keeps one DistributionTenant per row. This development models both
  controllers, the clients they call AWS with, the in-memory clients of the tests, the metrics
  collector and \<open>main\<close>, and proves what makes them correct, each alone and put together.

  \<^bold>\<open>How the code is modelled.\<close> A struct is a record and an enumeration a datatype, with the
  fields and constructors of the source; a pointer or a nilable value is an option; a Go string is
  a list of 8-bit characters; \<open>int64\<close> is a 64-bit word; a Go map is a function to options, or an
  association list where it is ranged over, and then the order of the range is a parameter
  (\<open>RangeOrder\<close>) over which every result about it holds. An error is a value of \<open>go_error\<close> (sentinel,
  wrapped, API error), \<open>errors.Is\<close> and \<open>errors.As\<close> are functions on it, and a fallible function
  returns a sum. A handler is an action of the state monad of \<open>Prelude\<close>: its state is the object
  it holds by pointer, the state of the world outside the process (any type \<open>'w\<close>), and a ghost trace
  of its external calls with their answers; it ends in \<open>Done\<close>, \<open>Fail\<close> or \<open>Panic\<close> (a nil dereference).
  Every external call is a function from the world to an answer and a new world, so a property that
  quantifies over the client quantifies over all behaviours of AWS and of the API server.

  \<^bold>\<open>The theories and the code they model.\<close>
  \<^item> \<open>Prelude\<close>: strings, maps, the monad, weakest preconditions (\<open>wp\<close>) and the judgements \<open>emits\<close> (all
    calls an action may make), \<open>ends\<close> (all results it may have) and \<open>keeps_inv\<close> with the rules that read them
    off the text of an action.
  \<^item> \<open>Errors\<close> (\<open>internal/aws/errors.go\<close>, \<open>internal/tenantsource/errors.go\<close>): errors, wrapping, classification.
  \<^item> \<open>ApiTypes\<close> (\<open>api/v1alpha1/distributiontenant_types.go\<close>, \<open>internal/aws/client.go\<close>): the resource, the inputs
    and outputs of the AWS interfaces.
  \<^item> \<open>ChangeDetection\<close> (\<open>internal/controller/change_detection.go\<close>): three-way diff, drift policies.
  \<^item> \<open>Conversions\<close>, \<open>Validation\<close>, \<open>Runtime\<close>, \<open>TenantHandlers\<close>, \<open>TenantReconciler\<close>
    (\<open>internal/controller/distributiontenant_controller.go\<close>): pure helpers, spec checks, apimachinery and
    client interfaces, the shared handlers (errors, conditions, DNS, certificate), and the flows of
    \<open>Reconcile\<close> (create, existing, update, drift, steady state, delete).
  \<^item> \<open>MockClients\<close> (\<open>internal/aws/mock.go\<close>) and \<open>Scenarios\<close>: the in-memory clients and concrete runs over
    them, on which the witnesses evaluate the reconciler.
  \<^item> \<open>AwsClients\<close> (\<open>internal/aws/cloudfront.go\<close>, \<open>route53.go\<close>, \<open>acm.go\<close>): the production clients over the SDK
    interface, which is a record of calls.
  \<^item> \<open>SourceTypes\<close> (\<open>api/v1alpha1/tenantsource_types.go\<close>, \<open>internal/tenantsource/backend.go\<close>), \<open>SourceSpec\<close> and
    \<open>SourceReconciler\<close> (\<open>internal/controller/tenantsource_controller.go\<close>), \<open>SourceWorld\<close>
    (\<open>internal/tenantsource/mock.go\<close>): building and comparing specs, poll, sync, status, deletion.
  \<^item> \<open>DynamoScan\<close> (\<open>internal/aws/dynamodb.go\<close>, \<open>dynamodb_mock.go\<close>, \<open>internal/tenantsource/dynamodb/backend.go\<close>):
    attribute readers, the mapping of items, the paginating scan, the backend.
  \<^item> \<open>Collector\<close> (\<open>internal/metrics/tenant_collector.go\<close>): the gauges of a scrape.
  \<^item> \<open>Operator\<close> and \<open>Startup\<close> (\<open>cmd/main.go\<close>, \<open>SetupWithManager\<close>): wiring, flags, options, start-up order.

  \<^bold>\<open>What is proved.\<close>
  \<^item> \<open>TenantProtocol\<close> is the abstract specification of one reconcile: a monitor that reads the calls,
    remembers what their answers have shown (\<open>knowledge\<close>) and says which call may come next
    (\<open>permits\<close>). Every run of \<open>Reconcile\<close>, for every behaviour of the outside, is accepted by it. \<open>TenantSafety\<close>
    derives the safety properties from that refinement: at most one write to each system, deletion
    only of a disabled tenant under the ETag just read, creation only after DNS has propagated,
    updates only for a real difference and drift only under \<open>enforce\<close>, the finalizer released last.
  \<^item> \<open>TenantOutcomes\<close>, \<open>TenantReady\<close>, \<open>TenantErrors\<close>, \<open>TenantLiveness\<close>: what a reconcile leaves behind and answers.
    A created identity is persisted, Ready is only turned on in sync, terminal errors settle, no
    object is forgotten except in the one case that \<open>TenantLiveness\<close> ends with, and nothing panics as long
    as CloudFront and the DNS clients (\<open>dns_factory\<close>) answer without an error only what they were asked
    for, never a nil pointer.
  \<^item> \<open>TenantContracts\<close> states the interfaces as locales: a CloudFront that keeps tenants under optimistic
    locking (\<open>cloudfront_store\<close>), which may refuse a request, and refuses to delete a tenant whose
    changes are not deployed; one that refuses no other request (\<open>accepting_store\<close>); an API server that keeps
    the object (\<open>object_store\<close>), and both together (\<open>operator_world\<close>), interpreted on the in-memory
    clients. \<open>TenantConvergence\<close> proves inside them that at most three reconciles bring a live object and
    AWS together, and that later ones leave AWS alone; the measure is the number of passes that are
    left. A deletion is tried again until CloudFront has deployed what disabled the tenant: over
    reconciles with a change of the world after each (\<open>rounds\<close>), where the changes only touch the status
    of tenants and have deployed every tenant after \<open>m\<close> of them (\<open>propagation\<close>), \<open>m + 2\<close> reconciles
    complete it, and any later one leaves it complete.
  \<^item> \<open>DnsDeletion\<close>: the same for a deletion with managed DNS records, over a DNS service that keeps records
    (\<open>dns_service\<close>), which the production client is over Route53 (\<open>route53_zones\<close>, on executable zones); and
    what is left in the zone when one of the records is missing before, since a batch is refused as a whole.
  \<^item> \<open>AwsContracts\<close>: over a CloudFront service with the documented behaviour (\<open>cloudfront_service\<close>, refusals
    included; \<open>accepting_service\<close> without them) the production client is a \<open>cloudfront_store\<close> (an
    \<open>accepting_store\<close>; sublocales), a service that propagates changes does so for the client, and spec,
    request, response and comparison agree.
  \<^item> \<open>SourceSafety\<close>, \<open>SourceStore\<close>, \<open>SourceSync\<close>, \<open>SourceOutcomes\<close>: a source writes only to tenants it owns;
    over an API server that stores tenants (\<open>tenant_store\<close>) the effect of a sync on every tenant is
    computed, a dry run announces exactly the writes of the real run (for the source's own namespace:
    elsewhere it announces creations that never come), and a second sync writes nothing, whatever the
    orders of the maps. The status reports a poll as it went: Ready is true exactly when no call of
    the sync failed and no row names the tenant of another owner.
  \<^item> \<open>DynamoOutcomes\<close>: the scan returns with all pages or the error of one, its items are well-formed, its
    errors reach the schedule of the controller.
  \<^item> \<open>EndToEnd\<close>: the operator that \<open>main\<close> wires, over one platform: a row of the table becomes a tenant in
    CloudFront, through both reconcilers and the production clients. \<open>Teardown\<close>: a row that disappears, or
    a source that is deleted, takes its tenants out of CloudFront, as soon as CloudFront has deployed what
    disabled them. \<open>DnsTeardown\<close>: a deleted tenant leaves CloudFront and its records leave their zone. \<open>Startup\<close>: \<open>main\<close> follows its plan.

  \<^item> \<open>TenantLedger\<close> and \<open>CloudLedger\<close>: the operator, the API server, CloudFront and the people who change
    both as one transition system (\<open>reachable\<close>), in which every call may fail. A ledger is kept of what the
    calls of a reconcile did to both sides, the protocol of \<open>TenantProtocol\<close> balances it, and so by rule
    induction no tenant is leaked. A step is a whole reconcile, a restart of the operator or a change
    from outside, so the changes from outside fall between reconciles, not inside one.

  \<^bold>\<open>Parameters and what is assumed of them.\<close> The apimachinery helpers (finalizers, conditions,
  \<open>IgnoreNotFound\<close>), \<open>SetOwnerReference\<close>, the clients of the API server, the SDK, the manager and the clock are
  parameters. Safety is proved without assumptions on them, except that the finalizer helpers do
  what they say (\<open>apimachinery\<close>). Liveness assumes the locales named above, each interpreted on
  the model's own clients. CRD validation rules are hypotheses where the code relies on them.

  \<^bold>\<open>Loops.\<close> All loops run over finite lists and are structural recursions, except the paginating scan,
  which asks DynamoDB for the next page as long as there is one: it is a \<open>partial_function\<close> into
  options, and it is proved to return when the service serves finitely many pages.

  \<^bold>\<open>Not modelled.\<close> \<open>zz_generated.deepcopy.go\<close> (generated; copies of values), \<open>groupversion_info.go\<close> (scheme
  registration), \<open>internal/metrics/metrics.go\<close> (declarations of Prometheus metrics; the increments by the
  tenant controller are events of the trace, but what the clients count themselves is left out: the
  failed scans of \<open>scanLoop\<close> under \<open>dynamodb_scan\<close> and the latency histogram around every AWS call),
  \<open>test/utils\<close> (shell helpers), log lines, the STS credentials behind an assumed role, and contexts and their cancellation. The work
  queue, watches, caches and leader election belong to controller-runtime: a reconcile is modelled
  as the code sees it, one at a time for one object.
\<close>

end
